(* ===== verification/Poly_Prelude.thy ===== *)
theory Poly_Prelude
  imports Main "HOL-Library.Word" "HOL-Library.Monad_Syntax"
begin

text \<open>
  Shared vocabulary of the development: the machine integer types of the C
  sources, the loop combinator that stands for a C \<open>for\<close> loop with an early
  error return, and the generic facts on lists, options and words that the
  component theories rest on.

  Conventions used by every component.

  \<^item> A C function that returns \<open>0\<close> on success and \<open>-1\<close> on failure and writes
    its result through a pointer is a function into \<open>'a option\<close>: \<open>None\<close> is
    the \<open>-1\<close>. The callers of such functions discard the output object on
    failure, so its partial contents are not part of the model.
  \<^item> An enumeration whose values the code itself checks (a \<open>default:\<close> branch
    that rejects) gets one extra constructor for the values outside the
    enumeration, so that the rejecting branch is reachable in the model.
  \<^item> A fixed-size C array is a list whose length is part of the component's
    well-formedness predicate.
\<close>

unbundle bit_operations_syntax

type_synonym u8 = "8 word"
type_synonym u16 = "16 word"
type_synonym u32 = "32 word"
type_synonym u64 = "64 word"

named_theorems wf_simps \<open>well-formedness facts, as rewrite rules\<close>

subsection \<open>Loops with an early error return\<close>

text \<open>
  \<open>fold_opt f [0..<n] s\<close> is the loop
  \<open>for (i = 0; i < n; i++) if (f(i, &s) != 0) return -1;\<close>.
\<close>

primrec fold_opt :: "('a \<Rightarrow> 's \<Rightarrow> 's option) \<Rightarrow> 'a list \<Rightarrow> 's \<Rightarrow> 's option" where
  "fold_opt f [] s = Some s"
| "fold_opt f (x # xs) s = (case f x s of None \<Rightarrow> None | Some s' \<Rightarrow> fold_opt f xs s')"

lemma fold_opt_append:
  "fold_opt f (xs @ ys) s = Option.bind (fold_opt f xs s) (fold_opt f ys)"
  by (induction xs arbitrary: s) (auto split: option.splits)

lemma fold_opt_cong_list:
  "(\<And>x s. x \<in> set xs \<Longrightarrow> f x s = g x s) \<Longrightarrow> fold_opt f xs s = fold_opt g xs s"
  by (induction xs arbitrary: s) (auto split: option.splits)

lemma fold_opt_concat:
  "fold_opt (\<lambda>x. fold_opt g (h x)) xs s = fold_opt g (concat (map h xs)) s"
  by (induction xs arbitrary: s) (auto simp: fold_opt_append split: option.splits bind_splits)

lemma fold_opt_map: "fold_opt f (map h xs) s = fold_opt (\<lambda>x. f (h x)) xs s"
  by (induction xs arbitrary: s) (auto split: option.splits)

text \<open>A body that first checks a condition on the loop variable alone.\<close>

lemma fold_opt_guard:
  "(\<forall>x \<in> set xs. P x) \<Longrightarrow> fold_opt (\<lambda>x s. if P x then f x s else None) xs s = fold_opt f xs s"
  by (rule fold_opt_cong_list) simp

lemma fold_opt_guard_fail:
  "\<exists>x \<in> set xs. \<not> P x \<Longrightarrow> fold_opt (\<lambda>x s. if P x then f x s else None) xs s = None"
  by (induction xs arbitrary: s) (auto split: option.splits)

text \<open>The loop over an index that reads two arrays is a loop over the pairs.\<close>

lemma map_nth_pair:
  assumes "n \<le> length xs" and "n \<le> length ys"
  shows "map (\<lambda>i. (xs ! i, ys ! i)) [0..<n] = zip (take n xs) (take n ys)"
  using assms by (intro nth_equalityI) auto

lemma fold_opt_nth_pair:
  assumes "n \<le> length xs" and "n \<le> length ys"
  shows "fold_opt (\<lambda>i. f (xs ! i) (ys ! i)) [0..<n] s
       = fold_opt (\<lambda>(x, y). f x y) (zip (take n xs) (take n ys)) s"
  unfolding map_nth_pair[OF assms, symmetric] by (simp add: fold_opt_map)

lemma fold_opt_invariant [consumes 2]:
  assumes "fold_opt f xs s = Some s'" and "I s"
    and "\<And>x s s'. x \<in> set xs \<Longrightarrow> I s \<Longrightarrow> f x s = Some s' \<Longrightarrow> I s'"
  shows "I s'"
  using assms
proof (induction xs arbitrary: s)
  case Nil
  then show ?case by simp
next
  case (Cons x xs)
  from Cons.prems(1) obtain t where t: "f x s = Some t" "fold_opt f xs t = Some s'"
    by (auto split: option.splits)
  have "I t" using Cons.prems(2,3) t(1) by (meson list.set_intros(1))
  with Cons.IH t(2) Cons.prems(3) show ?case by (meson list.set_intros(2))
qed

text \<open>The same rule for a counting loop, where the invariant may mention the counter.\<close>

lemma fold_opt_upt_invariant [consumes 3]:
  assumes "fold_opt f [i..<n] s = Some s'" and "i \<le> n" and "I i s"
    and "\<And>k s s'. i \<le> k \<Longrightarrow> k < n \<Longrightarrow> I k s \<Longrightarrow> f k s = Some s' \<Longrightarrow> I (Suc k) s'"
  shows "I n s'"
  using assms
proof (induction "n - i" arbitrary: i s)
  case 0
  then show ?case by simp
next
  case (Suc d)
  then have lt: "i < n" by simp
  then have "[i..<n] = i # [Suc i..<n]" by (simp add: upt_conv_Cons)
  with Suc.prems(1) obtain t where t: "f i s = Some t" "fold_opt f [Suc i..<n] t = Some s'"
    by (auto split: option.splits)
  have "I (Suc i) t" using Suc.prems(3,4) t(1) lt by blast
  moreover have "d = n - Suc i" using Suc.hyps(2) by simp
  ultimately show ?case
    using Suc.hyps(1)[of "Suc i" t] t(2) lt Suc.prems(4) by (meson Suc_leD Suc_leI)
qed

text \<open>A loop whose body never fails under an invariant never fails.\<close>

lemma fold_opt_upt_total:
  assumes "i \<le> n" and "I i s"
    and "\<And>k s. i \<le> k \<Longrightarrow> k < n \<Longrightarrow> I k s \<Longrightarrow> \<exists>s'. f k s = Some s' \<and> I (Suc k) s'"
  shows "\<exists>s'. fold_opt f [i..<n] s = Some s' \<and> I n s'"
  using assms
proof (induction "n - i" arbitrary: i s)
  case 0
  then show ?case by simp
next
  case (Suc d)
  then have lt: "i < n" by simp
  then have cons: "[i..<n] = i # [Suc i..<n]" by (simp add: upt_conv_Cons)
  obtain t where t: "f i s = Some t" "I (Suc i) t"
    using Suc.prems(2,3) lt by blast
  have "d = n - Suc i" using Suc.hyps(2) by simp
  then have "\<exists>s'. fold_opt f [Suc i..<n] t = Some s' \<and> I n s'"
    using Suc.hyps(1)[of "Suc i" t] t(2) lt Suc.prems(3) by (meson Suc_leD Suc_leI)
  with cons t(1) show ?case by simp
qed

subsection \<open>Words\<close>

lemma and_not_mask_word:
  fixes x :: "'a::len word"
  shows "x AND NOT (mask k) = push_bit k (drop_bit k x)"
  by (rule bit_eqI) (auto simp: bit_simps)

lemma unat_and_not_mask:
  fixes x :: "'a::len word"
  shows "unat (x AND NOT (mask k)) = (unat x div 2 ^ k) * 2 ^ k"
proof -
  have lt: "unat x div 2 ^ k * 2 ^ k < 2 ^ LENGTH('a)"
    by (meson unsigned_less div_times_less_eq_dividend le_less_trans)
  have "unat (x AND NOT (mask k)) = take_bit LENGTH('a) (push_bit k (drop_bit k (unat x)))"
    by (simp add: and_not_mask_word unsigned_push_bit_eq unsigned_drop_bit_eq
        take_bit_nat_eq_self[OF unsigned_less])
  also have "push_bit k (drop_bit k (unat x)) = unat x div 2 ^ k * 2 ^ k"
    by (simp add: push_bit_eq_mult drop_bit_eq_div)
  finally show ?thesis using lt by (simp add: take_bit_nat_eq_self)
qed

text \<open>
  \<open>(v + a - 1) & ~(a - 1)\<close> rounds \<open>v\<close> up to a multiple of the power of two
  \<open>a\<close>, provided the sum does not wrap. The sources use this idiom at 16 and at
  64 bits.
\<close>

lemma unat_round_up_word:
  fixes v a :: "'a::len word"
  assumes "unat a = 2 ^ k" and "unat v + 2 ^ k \<le> 2 ^ LENGTH('a)"
  shows "unat ((v + a - 1) AND NOT (a - 1)) = (unat v + 2 ^ k - 1) div 2 ^ k * 2 ^ k"
proof -
  have pos: "(1::nat) \<le> 2 ^ k" by simp
  have a: "a - 1 = mask k"
  proof -
    have "a = of_nat (2 ^ k)" using assms(1) by (metis of_nat_unat ucast_id)
    then show ?thesis by (simp add: mask_eq_exp_minus_1)
  qed
  have "unat (v + (a - 1)) = unat v + (2 ^ k - 1)"
  proof -
    have "unat (a - 1) = 2 ^ k - 1"
      using assms(1) pos by (metis unat_minus_one unat_0 not_one_le_zero)
    moreover have "unat v + (2 ^ k - 1) < 2 ^ LENGTH('a)" using assms(2) pos by linarith
    ultimately show ?thesis by (simp add: unat_word_ariths)
  qed
  then show ?thesis using pos
    by (simp add: unat_and_not_mask[of "v + a - 1" k, folded a] add_diff_eq)
qed

lemma round_up_bounds:
  fixes n :: nat
  shows "n \<le> (n + 2 ^ k - 1) div 2 ^ k * 2 ^ k"
    and "(n + 2 ^ k - 1) div 2 ^ k * 2 ^ k < n + 2 ^ k"
proof -
  have eq: "(n + 2 ^ k - 1) div 2 ^ k * 2 ^ k + (n + 2 ^ k - 1) mod 2 ^ k = n + 2 ^ k - 1"
    by (rule div_mult_mod_eq)
  have lt: "(n + 2 ^ k - 1) mod 2 ^ k < 2 ^ k" by simp
  have pos: "(0::nat) < 2 ^ k" by simp
  show "n \<le> (n + 2 ^ k - 1) div 2 ^ k * 2 ^ k" using eq lt by linarith
  show "(n + 2 ^ k - 1) div 2 ^ k * 2 ^ k < n + 2 ^ k" using eq pos by linarith
qed

text \<open>The two 32-bit halves of a 64-bit word.\<close>

definition low_half :: "u64 \<Rightarrow> u32" where
  "low_half w = ucast w"

definition high_half :: "u64 \<Rightarrow> u32" where
  "high_half w = ucast (drop_bit 32 w)"

lemma halves_of_pair:
  "low_half (ucast (a :: u32) OR push_bit 32 (ucast (b :: u32))) = a"
  "high_half (ucast (a :: u32) OR push_bit 32 (ucast (b :: u32))) = b"
  unfolding low_half_def high_half_def
  by (rule bit_word_eqI; auto simp: bit_simps dest: bit_imp_le_length)+

lemma halves_eqI: "low_half v = low_half w \<Longrightarrow> high_half v = high_half w \<Longrightarrow> v = w"
proof (rule bit_word_eqI)
  fix n assume l: "low_half v = low_half w" and h: "high_half v = high_half w" and n: "n < LENGTH(64)"
  show "bit v n = bit w n"
  proof (cases "n < 32")
    case True
    have "bit (low_half v) n = bit (low_half w) n" using l by simp
    with True show ?thesis by (simp add: low_half_def bit_simps)
  next
    case False
    have "bit (high_half v) (n - 32) = bit (high_half w) (n - 32)" using h by simp
    moreover have "n - 32 < 32" using n by simp
    ultimately show ?thesis using False n by (simp add: high_half_def bit_simps)
  qed
qed

lemma high_half_zero: "drop_bit 32 v = 0 \<longleftrightarrow> high_half v = 0"
proof
  assume h: "high_half v = 0"
  show "drop_bit 32 v = 0"
  proof (rule bit_word_eqI)
    fix n assume "n < LENGTH(64)"
    have "bit (high_half v) n = False" using h by simp
    then show "bit (drop_bit 32 v) n = bit 0 n"
      by (cases "n < 32") (auto simp: high_half_def bit_simps dest: bit_imp_le_length)
  qed
qed (simp add: high_half_def)

subsection \<open>Operations in sequence\<close>

text \<open>
  A state and a list of requests, served in order. A predicate that every
  request keeps is kept by every sequence of requests.
\<close>

fun run_steps :: "('i \<Rightarrow> 's \<Rightarrow> 's) \<Rightarrow> 'i list \<Rightarrow> 's \<Rightarrow> 's" where
  "run_steps step [] s = s"
| "run_steps step (i # is) s = run_steps step is (step i s)"

locale stable_predicate =
  fixes step :: "'i \<Rightarrow> 's \<Rightarrow> 's" and P :: "'s \<Rightarrow> bool"
  assumes step_stable: "P s \<Longrightarrow> P (step i s)"
begin

lemma run_stable: "P s \<Longrightarrow> P (run_steps step is s)"
  by (induction "is" arbitrary: s) (auto intro: step_stable)

end

end
