(* ===== verification/Abi_Type.thy ===== *)
theory Abi_Type
  imports Poly_Prelude
begin

text \<open>
  The type descriptions of \<open>tools/runtime/abi/poly_abi_type.h\<close>: the kinds of
  values a cross-ISA call passes, the fields of an aggregate and the signature
  of a function. Sizes and offsets are the \<open>uint16_t\<close> of the source.
\<close>

datatype poly_abi_type_kind =
    POLY_ABI_TYPE_VOID
  | POLY_ABI_TYPE_I32
  | POLY_ABI_TYPE_I64
  | POLY_ABI_TYPE_F32
  | POLY_ABI_TYPE_F64
  | POLY_ABI_TYPE_PTR
  | POLY_ABI_TYPE_VEC128
  | POLY_ABI_TYPE_AGGREGATE
  | POLY_ABI_TYPE_HFA

definition POLY_ABI_TYPE_MAX_FIELDS :: nat where
  "POLY_ABI_TYPE_MAX_FIELDS = 4"

definition POLY_FUNCTION_SIG_MAX_ARGS :: nat where
  "POLY_FUNCTION_SIG_MAX_ARGS = 16"

definition POLY_FUNCTION_SIG_FLAG_OPAQUE_DESCRIPTOR :: u32 where
  "POLY_FUNCTION_SIG_FLAG_OPAQUE_DESCRIPTOR = 1"

definition POLY_FUNCTION_SIG_FLAG_RET_BY_SRET :: u32 where
  "POLY_FUNCTION_SIG_FLAG_RET_BY_SRET = 2"

definition POLY_FUNCTION_SIG_FLAG_NATIVE_SRET :: u32 where
  "POLY_FUNCTION_SIG_FLAG_NATIVE_SRET = 4"

lemmas abi_limits [simp] =
  POLY_ABI_TYPE_MAX_FIELDS_def POLY_FUNCTION_SIG_MAX_ARGS_def
lemmas sig_flag_defs =
  POLY_FUNCTION_SIG_FLAG_OPAQUE_DESCRIPTOR_def POLY_FUNCTION_SIG_FLAG_RET_BY_SRET_def
  POLY_FUNCTION_SIG_FLAG_NATIVE_SRET_def

record poly_abi_field =
  fld_kind :: poly_abi_type_kind
  fld_offset :: u16
  fld_size :: u16

record poly_abi_type =
  ty_kind :: poly_abi_type_kind
  ty_elem_kind :: poly_abi_type_kind
  ty_count :: u8
  ty_field_count :: u8
  ty_size :: u16
  ty_align :: u16
  ty_fields :: "poly_abi_field list"

record poly_function_sig =
  sig_args :: "poly_abi_type list"
  sig_arg_count :: nat
  sig_ret :: poly_abi_type
  sig_flags :: u32

text \<open>The all-zero objects of \<open>= { 0 }\<close> and \<open>memset\<close>: kind 0 is \<open>VOID\<close>.\<close>

definition zero_field :: poly_abi_field where
  "zero_field = \<lparr>fld_kind = POLY_ABI_TYPE_VOID, fld_offset = 0, fld_size = 0\<rparr>"

definition zero_type :: poly_abi_type where
  "zero_type =
     \<lparr>ty_kind = POLY_ABI_TYPE_VOID, ty_elem_kind = POLY_ABI_TYPE_VOID, ty_count = 0,
      ty_field_count = 0, ty_size = 0, ty_align = 0,
      ty_fields = replicate POLY_ABI_TYPE_MAX_FIELDS zero_field\<rparr>"

definition zero_sig :: poly_function_sig where
  "zero_sig =
     \<lparr>sig_args = replicate POLY_FUNCTION_SIG_MAX_ARGS zero_type, sig_arg_count = 0,
      sig_ret = zero_type, sig_flags = 0\<rparr>"

definition poly_abi_scalar_type :: "poly_abi_type_kind \<Rightarrow> poly_abi_type" where
  "poly_abi_scalar_type kind =
     (let type = zero_type\<lparr>ty_kind := kind\<rparr> in
      case kind of
        POLY_ABI_TYPE_VOID \<Rightarrow> type\<lparr>ty_size := 0, ty_align := 1\<rparr>
      | POLY_ABI_TYPE_I32 \<Rightarrow> type\<lparr>ty_size := 4, ty_align := 4\<rparr>
      | POLY_ABI_TYPE_F32 \<Rightarrow> type\<lparr>ty_size := 4, ty_align := 4\<rparr>
      | POLY_ABI_TYPE_I64 \<Rightarrow> type\<lparr>ty_size := 8, ty_align := 8\<rparr>
      | POLY_ABI_TYPE_F64 \<Rightarrow> type\<lparr>ty_size := 8, ty_align := 8\<rparr>
      | POLY_ABI_TYPE_PTR \<Rightarrow> type\<lparr>ty_size := 8, ty_align := 8\<rparr>
      | POLY_ABI_TYPE_VEC128 \<Rightarrow> type\<lparr>ty_size := 16, ty_align := 16\<rparr>
      | _ \<Rightarrow> type\<lparr>ty_size := 0, ty_align := 1\<rparr>)"

text \<open>\<open>elem.size * count\<close> is computed in \<open>int\<close> and truncated to 16 bits.\<close>

definition poly_abi_hfa_type :: "poly_abi_type_kind \<Rightarrow> u8 \<Rightarrow> poly_abi_type" where
  "poly_abi_hfa_type elem_kind count =
     (let elem = poly_abi_scalar_type elem_kind in
      zero_type\<lparr>ty_kind := POLY_ABI_TYPE_HFA, ty_elem_kind := elem_kind, ty_count := count,
        ty_size := ty_size elem * ucast count, ty_align := ty_align elem\<rparr>)"

definition poly_abi_field_equal :: "poly_abi_field \<Rightarrow> poly_abi_field \<Rightarrow> bool" where
  "poly_abi_field_equal l r \<longleftrightarrow>
     fld_kind l = fld_kind r \<and> fld_offset l = fld_offset r \<and> fld_size l = fld_size r"

definition poly_abi_type_equal :: "poly_abi_type \<Rightarrow> poly_abi_type \<Rightarrow> bool" where
  "poly_abi_type_equal left right \<longleftrightarrow>
     ty_kind left = ty_kind right \<and>
     ty_elem_kind left = ty_elem_kind right \<and>
     ty_count left = ty_count right \<and>
     ty_field_count left = ty_field_count right \<and>
     ty_size left = ty_size right \<and>
     ty_align left = ty_align right \<and>
     (\<forall>n < unat (ty_field_count left).
        poly_abi_field_equal (ty_fields left ! n) (ty_fields right ! n))"

definition poly_function_sig_equal :: "poly_function_sig \<Rightarrow> poly_function_sig \<Rightarrow> bool" where
  "poly_function_sig_equal left right \<longleftrightarrow>
     sig_arg_count left = sig_arg_count right \<and>
     sig_flags left = sig_flags right \<and>
     poly_abi_type_equal (sig_ret left) (sig_ret right) \<and>
     (\<forall>n < sig_arg_count left.
        poly_abi_type_equal (sig_args left ! n) (sig_args right ! n))"

definition is_float_kind :: "poly_abi_type_kind \<Rightarrow> bool" where
  "is_float_kind kind \<longleftrightarrow> kind = POLY_ABI_TYPE_F32 \<or> kind = POLY_ABI_TYPE_F64"

definition is_integer_kind :: "poly_abi_type_kind \<Rightarrow> bool" where
  "is_integer_kind kind \<longleftrightarrow>
     kind = POLY_ABI_TYPE_I32 \<or> kind = POLY_ABI_TYPE_I64 \<or> kind = POLY_ABI_TYPE_PTR"

subsection \<open>Well-formedness\<close>

text \<open>
  The arrays have their declared lengths, an aggregate names at most the four
  fields its array holds, and an HFA is one to four floating-point elements.
\<close>

definition wf_type :: "poly_abi_type \<Rightarrow> bool" where
  "wf_type t \<longleftrightarrow>
     length (ty_fields t) = POLY_ABI_TYPE_MAX_FIELDS \<and>
     unat (ty_field_count t) \<le> POLY_ABI_TYPE_MAX_FIELDS \<and>
     (ty_kind t = POLY_ABI_TYPE_HFA \<longrightarrow>
        is_float_kind (ty_elem_kind t) \<and> 1 \<le> unat (ty_count t) \<and> unat (ty_count t) \<le> 4)"

definition wf_sig :: "poly_function_sig \<Rightarrow> bool" where
  "wf_sig s \<longleftrightarrow>
     length (sig_args s) = POLY_FUNCTION_SIG_MAX_ARGS \<and>
     sig_arg_count s \<le> POLY_FUNCTION_SIG_MAX_ARGS \<and>
     wf_type (sig_ret s) \<and>
     (\<forall>n < sig_arg_count s. wf_type (sig_args s ! n))"

lemma length_zero_type [simp]: "length (ty_fields zero_type) = 4"
  by (simp add: zero_type_def)

lemma length_zero_sig [simp]: "length (sig_args zero_sig) = 16"
  by (simp add: zero_sig_def)

lemma scalar_type_fields [simp]:
  "ty_fields (poly_abi_scalar_type k) = ty_fields zero_type"
  "ty_kind (poly_abi_scalar_type k) = k"
  "ty_field_count (poly_abi_scalar_type k) = 0"
  by (cases k; simp add: poly_abi_scalar_type_def zero_type_def)+

lemma scalar_type_align:
  "unat (ty_align (poly_abi_scalar_type k)) \<in> {1, 4, 8, 16}"
  by (cases k) (simp_all add: poly_abi_scalar_type_def)

lemma scalar_size_le: "unat (ty_size (poly_abi_scalar_type k)) \<le> 16"
  by (cases k) (simp_all add: poly_abi_scalar_type_def)

lemma wf_scalar_type [wf_simps]:
  "k \<noteq> POLY_ABI_TYPE_HFA \<Longrightarrow> wf_type (poly_abi_scalar_type k)"
  by (simp add: wf_type_def)

lemma wf_hfa_type [wf_simps]:
  "is_float_kind k \<Longrightarrow> 1 \<le> unat n \<Longrightarrow> unat n \<le> 4 \<Longrightarrow> wf_type (poly_abi_hfa_type k n)"
  by (simp add: wf_type_def poly_abi_hfa_type_def Let_def zero_type_def)

lemma type_equal_refl [simp]: "poly_abi_type_equal t t"
  by (simp add: poly_abi_type_equal_def poly_abi_field_equal_def)

lemma type_equal_sym: "poly_abi_type_equal s t \<Longrightarrow> poly_abi_type_equal t s"
  by (simp add: poly_abi_type_equal_def poly_abi_field_equal_def)

lemma type_equal_trans:
  "poly_abi_type_equal r s \<Longrightarrow> poly_abi_type_equal s t \<Longrightarrow> poly_abi_type_equal r t"
  by (simp add: poly_abi_type_equal_def poly_abi_field_equal_def)

end
