(* ===== verification/Abi_Layout.thy ===== *)
theory Abi_Layout
  imports Abi_Type
begin

text \<open>
  The layout object of \<open>tools/runtime/abi/poly_abi_layout.h\<close> and the cursor
  that the three classifiers share (each of \<open>poly_abi_x86_sysv.c\<close>,
  \<open>poly_abi_aarch64.c\<close> and \<open>poly_abi_riscv.c\<close> declares the same cursor struct,
  \<open>align_to\<close> and stack allocator under its own prefix), with the view of a layout
  as the list of its argument locations in order.
\<close>

datatype poly_abi_arch =
    POLY_ABI_ARCH_X86
  | POLY_ABI_ARCH_AARCH64
  | POLY_ABI_ARCH_RISCV
  | POLY_ABI_ARCH_other int

datatype poly_abi_loc_kind =
    POLY_ABI_LOC_NONE
  | POLY_ABI_LOC_GPR
  | POLY_ABI_LOC_FPR
  | POLY_ABI_LOC_VEC
  | POLY_ABI_LOC_STACK
  | POLY_ABI_LOC_SRET_PTR
  | POLY_ABI_LOC_other int

definition POLY_ABI_LOC_MAX_PARTS :: nat where
  "POLY_ABI_LOC_MAX_PARTS = 4"

definition POLY_ABI_LAYOUT_MAX_ARGS :: nat where
  "POLY_ABI_LAYOUT_MAX_ARGS = POLY_FUNCTION_SIG_MAX_ARGS"

definition POLY_ABI_LAYOUT_MAX_RET :: nat where
  "POLY_ABI_LAYOUT_MAX_RET = 4"

lemmas layout_limits [simp] =
  POLY_ABI_LOC_MAX_PARTS_def POLY_ABI_LAYOUT_MAX_ARGS_def POLY_ABI_LAYOUT_MAX_RET_def

record poly_abi_loc =
  loc_kind :: poly_abi_loc_kind
  loc_reg :: u8
  loc_stack_offset :: u16
  loc_size :: u16

record poly_abi_layout_arg =
  arg_locs :: "poly_abi_loc list"
  arg_loc_count :: nat

record poly_abi_layout =
  lay_arch :: poly_abi_arch
  lay_args :: "poly_abi_layout_arg list"
  lay_arg_count :: nat
  lay_ret :: "poly_abi_loc list"
  lay_ret_count :: nat
  lay_uses_sret :: bool
  lay_stack_arg_size :: u16
  lay_stack_align :: u16

definition poly_abi_loc_none :: poly_abi_loc where
  "poly_abi_loc_none =
     \<lparr>loc_kind = POLY_ABI_LOC_NONE, loc_reg = 0, loc_stack_offset = 0, loc_size = 0\<rparr>"

definition zero_layout_arg :: poly_abi_layout_arg where
  "zero_layout_arg =
     \<lparr>arg_locs = replicate POLY_ABI_LOC_MAX_PARTS poly_abi_loc_none, arg_loc_count = 0\<rparr>"

definition poly_abi_layout_init :: "poly_abi_arch \<Rightarrow> poly_abi_layout" where
  "poly_abi_layout_init arch =
     \<lparr>lay_arch = arch,
      lay_args = replicate POLY_ABI_LAYOUT_MAX_ARGS zero_layout_arg, lay_arg_count = 0,
      lay_ret = replicate POLY_ABI_LAYOUT_MAX_RET poly_abi_loc_none, lay_ret_count = 0,
      lay_uses_sret = False, lay_stack_arg_size = 0, lay_stack_align = 16\<rparr>"

definition poly_abi_loc_reg :: "poly_abi_loc_kind \<Rightarrow> u8 \<Rightarrow> u16 \<Rightarrow> poly_abi_loc" where
  "poly_abi_loc_reg kind reg sz =
     \<lparr>loc_kind = kind, loc_reg = reg, loc_stack_offset = 0, loc_size = sz\<rparr>"

definition poly_abi_loc_stack :: "u16 \<Rightarrow> u16 \<Rightarrow> poly_abi_loc" where
  "poly_abi_loc_stack offset sz =
     \<lparr>loc_kind = POLY_ABI_LOC_STACK, loc_reg = 0, loc_stack_offset = offset, loc_size = sz\<rparr>"

definition poly_abi_loc_sret_ptr :: "u8 \<Rightarrow> u16 \<Rightarrow> poly_abi_loc" where
  "poly_abi_loc_sret_ptr reg sz =
     \<lparr>loc_kind = POLY_ABI_LOC_SRET_PTR, loc_reg = reg, loc_stack_offset = 0, loc_size = sz\<rparr>"

lemmas loc_defs =
  poly_abi_loc_none_def poly_abi_loc_reg_def poly_abi_loc_stack_def poly_abi_loc_sret_ptr_def

definition poly_abi_layout_add_arg_loc ::
    "poly_abi_layout \<Rightarrow> nat \<Rightarrow> poly_abi_loc \<Rightarrow> poly_abi_layout option" where
  "poly_abi_layout_add_arg_loc layout arg_index loc =
     (if arg_index \<ge> POLY_ABI_LAYOUT_MAX_ARGS then None
      else let arg = lay_args layout ! arg_index in
        if arg_loc_count arg \<ge> POLY_ABI_LOC_MAX_PARTS then None
        else Some (layout\<lparr>
          lay_args := (lay_args layout)[arg_index :=
            arg\<lparr>arg_locs := (arg_locs arg)[arg_loc_count arg := loc],
                arg_loc_count := arg_loc_count arg + 1\<rparr>],
          lay_arg_count :=
            (if lay_arg_count layout \<le> arg_index then arg_index + 1
             else lay_arg_count layout)\<rparr>))"

definition poly_abi_layout_add_ret_loc ::
    "poly_abi_layout \<Rightarrow> poly_abi_loc \<Rightarrow> poly_abi_layout option" where
  "poly_abi_layout_add_ret_loc layout loc =
     (if lay_ret_count layout \<ge> POLY_ABI_LAYOUT_MAX_RET then None
      else Some (layout\<lparr>lay_ret := (lay_ret layout)[lay_ret_count layout := loc],
                        lay_ret_count := lay_ret_count layout + 1\<rparr>))"

definition poly_abi_loc_equal :: "poly_abi_loc \<Rightarrow> poly_abi_loc \<Rightarrow> bool" where
  "poly_abi_loc_equal left right \<longleftrightarrow>
     loc_kind left = loc_kind right \<and>
     loc_reg left = loc_reg right \<and>
     loc_stack_offset left = loc_stack_offset right \<and>
     loc_size left = loc_size right"

subsection \<open>The cursor\<close>

record abi_cursor =
  cur_gpr :: u8
  cur_fpr :: u8
  cur_stack :: u16

definition zero_cursor :: abi_cursor where
  "zero_cursor = \<lparr>cur_gpr = 0, cur_fpr = 0, cur_stack = 0\<rparr>"

text \<open>
  \<open>(uint16_t) ((value + align - 1u) & ~(uint16_t) (align - 1u))\<close>: the sum is
  computed in 32 bits and the result truncated, which agrees with 16-bit
  wrap-around arithmetic because \<open>&\<close> acts on each bit alone.
\<close>

definition align_to :: "u16 \<Rightarrow> u16 \<Rightarrow> u16" where
  "align_to value align = (value + align - 1) AND NOT (align - 1)"

definition stack_loc :: "abi_cursor \<Rightarrow> u16 \<Rightarrow> u16 \<Rightarrow> poly_abi_loc \<times> abi_cursor" where
  "stack_loc cursor sz align =
     (let offset = align_to (cur_stack cursor) (if align > 8 then align else 8)
      in (poly_abi_loc_stack offset sz,
          cursor\<lparr>cur_stack := offset + align_to sz 8\<rparr>))"

text \<open>
  \<open>poly_abi_layout_add_arg_loc(out, arg_index, *_stack_loc(cursor, size, align))\<close>:
  the fallback of every argument classifier.
\<close>

type_synonym alloc_state = "poly_abi_layout \<times> abi_cursor"

definition add_stack_loc :: "nat \<Rightarrow> u16 \<Rightarrow> u16 \<Rightarrow> alloc_state \<Rightarrow> alloc_state option" where
  "add_stack_loc arg_index sz align s = (case s of (out, cursor) \<Rightarrow>
     let (loc, cursor') = stack_loc cursor sz align in
     map_option (\<lambda>out'. (out', cursor')) (poly_abi_layout_add_arg_loc out arg_index loc))"

text \<open>
  \<open>parts = (uint8_t) ((type->size + 7u) / 8u)\<close> eight-byte pieces, the last one
  holding the remainder.
\<close>

definition part_count :: "u16 \<Rightarrow> nat" where
  "part_count sz = ((unat sz + 7) div 8) mod 256"

definition part_size :: "u16 \<Rightarrow> nat \<Rightarrow> u16" where
  "part_size sz n = (if n + 1 = part_count sz then sz - of_nat n * 8 else 8)"

lemma unat_align_to:
  assumes "unat a = 2 ^ k" and "unat v + 2 ^ k \<le> 65536"
  shows "unat (align_to v a) = (unat v + 2 ^ k - 1) div 2 ^ k * 2 ^ k"
  unfolding align_to_def by (rule unat_round_up_word) (use assms in simp_all)

subsection \<open>The layout as a list of locations\<close>

definition arg_list :: "poly_abi_layout_arg \<Rightarrow> poly_abi_loc list" where
  "arg_list a = take (arg_loc_count a) (arg_locs a)"

definition layout_locs :: "poly_abi_layout \<Rightarrow> poly_abi_loc list" where
  "layout_locs l = concat (map arg_list (lay_args l))"

definition ret_list :: "poly_abi_layout \<Rightarrow> poly_abi_loc list" where
  "ret_list l = take (lay_ret_count l) (lay_ret l)"

text \<open>No argument from index \<open>n\<close> on has a location yet.\<close>

definition free_from :: "poly_abi_layout \<Rightarrow> nat \<Rightarrow> bool" where
  "free_from l n \<longleftrightarrow> (\<forall>m. n \<le> m \<longrightarrow> m < length (lay_args l) \<longrightarrow> arg_loc_count (lay_args l ! m) = 0)"

lemma free_from_frame [simp]:
  "free_from (l\<lparr>lay_ret := r\<rparr>) n = free_from l n"
  "free_from (l\<lparr>lay_ret_count := k\<rparr>) n = free_from l n"
  "free_from (l\<lparr>lay_uses_sret := b\<rparr>) n = free_from l n"
  "free_from (l\<lparr>lay_stack_arg_size := v\<rparr>) n = free_from l n"
  by (simp_all add: free_from_def)

definition wf_layout :: "poly_abi_layout \<Rightarrow> bool" where
  "wf_layout l \<longleftrightarrow>
     length (lay_args l) = POLY_ABI_LAYOUT_MAX_ARGS \<and>
     (\<forall>a \<in> set (lay_args l). length (arg_locs a) = POLY_ABI_LOC_MAX_PARTS \<and>
        arg_loc_count a \<le> POLY_ABI_LOC_MAX_PARTS) \<and>
     lay_arg_count l \<le> POLY_ABI_LAYOUT_MAX_ARGS \<and>
     length (lay_ret l) = POLY_ABI_LAYOUT_MAX_RET \<and>
     lay_ret_count l \<le> POLY_ABI_LAYOUT_MAX_RET \<and>
     free_from l (lay_arg_count l)"

lemma wf_layout_init [wf_simps]: "wf_layout (poly_abi_layout_init a)"
  by (simp add: wf_layout_def poly_abi_layout_init_def zero_layout_arg_def free_from_def)

lemma free_from_init [wf_simps]: "free_from (poly_abi_layout_init a) n"
  by (simp add: free_from_def poly_abi_layout_init_def zero_layout_arg_def)

lemma layout_locs_init [simp]: "layout_locs (poly_abi_layout_init a) = []"
  by (simp add: layout_locs_def poly_abi_layout_init_def zero_layout_arg_def arg_list_def)

lemma take_Suc_update: "n < length xs \<Longrightarrow> take (Suc n) (xs[n := x]) = take n xs @ [x]"
  by (simp add: take_Suc_conv_app_nth)

lemma concat_free_tail:
  assumes "free_from l n"
  shows "concat (map arg_list (drop n (lay_args l))) = []"
proof -
  have "\<forall>a \<in> set (drop n (lay_args l)). arg_list a = []"
  proof
    fix a assume "a \<in> set (drop n (lay_args l))"
    then obtain i where "i < length (lay_args l) - n" "a = lay_args l ! (n + i)"
      by (auto simp: in_set_conv_nth)
    with assms show "arg_list a = []" by (auto simp: free_from_def arg_list_def)
  qed
  then show ?thesis by simp
qed

lemma add_arg_loc_wf:
  assumes "poly_abi_layout_add_arg_loc l n loc = Some l'" and "wf_layout l"
  shows "wf_layout l'"
proof -
  from assms have "n < 16" "arg_loc_count (lay_args l ! n) < 4" "length (arg_locs (lay_args l ! n)) = 4"
    by (auto simp: poly_abi_layout_add_arg_loc_def wf_layout_def Let_def split: if_splits)
  with assms show ?thesis
    by (auto simp: poly_abi_layout_add_arg_loc_def wf_layout_def Let_def free_from_def nth_list_update
        split: if_splits dest!: set_update_subset_insert[THEN subsetD])
qed

lemma add_arg_locD:
  assumes add: "poly_abi_layout_add_arg_loc l n loc = Some l'"
    and wf: "wf_layout l" and free: "free_from l (Suc n)"
  shows "n < 16" and "wf_layout l'" and "free_from l' (Suc n)"
    and "layout_locs l' = layout_locs l @ [loc]"
    and "lay_arch l' = lay_arch l" and "ret_list l' = ret_list l"
    and "lay_uses_sret l' = lay_uses_sret l" and "lay_stack_align l' = lay_stack_align l"
proof -
  let ?a = "lay_args l ! n"
  let ?a' = "?a\<lparr>arg_locs := (arg_locs ?a)[arg_loc_count ?a := loc],
                arg_loc_count := arg_loc_count ?a + 1\<rparr>"
  from add have n: "n < 16" and cnt: "arg_loc_count ?a < 4"
    and l': "l' = l\<lparr>lay_args := (lay_args l)[n := ?a'],
               lay_arg_count := (if lay_arg_count l \<le> n then n + 1 else lay_arg_count l)\<rparr>"
    by (auto simp: poly_abi_layout_add_arg_loc_def Let_def split: if_splits)
  from wf n have len: "n < length (lay_args l)" and a4: "length (arg_locs ?a) = 4"
    by (auto simp: wf_layout_def)
  show "n < 16" by (fact n)
  show "wf_layout l'" by (rule add_arg_loc_wf[OF add wf])
  show free': "free_from l' (Suc n)" using free by (simp add: free_from_def l')
  have a': "arg_list ?a' = arg_list ?a @ [loc]"
    using cnt a4 by (simp add: arg_list_def take_Suc_update)
  have "layout_locs l' = concat (map arg_list (take n (lay_args l))) @ arg_list ?a'"
    using concat_free_tail[OF free] len by (simp add: layout_locs_def l' upd_conv_take_nth_drop)
  moreover have "layout_locs l = concat (map arg_list (take n (lay_args l))) @ arg_list ?a"
    using concat_free_tail[OF free] len unfolding layout_locs_def
    by (subst id_take_nth_drop[OF len]) simp
  ultimately show "layout_locs l' = layout_locs l @ [loc]" using a' by simp
  show "lay_arch l' = lay_arch l" and "ret_list l' = ret_list l"
    and "lay_uses_sret l' = lay_uses_sret l" and "lay_stack_align l' = lay_stack_align l"
    by (simp_all add: l' ret_list_def)
qed

lemma add_ret_locD:
  assumes "poly_abi_layout_add_ret_loc l loc = Some l'" and "wf_layout l"
  shows "wf_layout l'" and "ret_list l' = ret_list l @ [loc]"
    and "lay_args l' = lay_args l" and "lay_arg_count l' = lay_arg_count l"
    and "lay_arch l' = lay_arch l" and "lay_uses_sret l' = lay_uses_sret l"
    and "lay_stack_align l' = lay_stack_align l"
  using assms
  by (auto simp: poly_abi_layout_add_ret_loc_def wf_layout_def ret_list_def take_Suc_update
      split: if_splits)

end
