(* ===== verification/Abi_Alloc.thy ===== *)
theory Abi_Alloc
  imports Abi_Layout
begin

text \<open>
  The allocation relation behind the three argument classifiers: one elementary
  step takes the next free register of a class or the next stack slot, and
  every classifier is a sequence of such steps. The register and stack
  invariants are proved once, for the steps, and the locale
  \<open>arg_classifier\<close> lifts them to the loop over a whole signature.
\<close>

subsection \<open>Allocation steps\<close>

text \<open>
  One allocation step for argument \<open>n\<close>: take the next general register, the
  next floating-point register or the next stack slot. With \<open>small\<close> set, the
  stack requests are at most 1000 bytes and aligned to a power of two up to 16.
\<close>

definition small_req :: "u16 \<Rightarrow> u16 \<Rightarrow> bool" where
  "small_req sz al \<longleftrightarrow> unat sz \<le> 1000 \<and> unat al \<in> {1, 2, 4, 8, 16}"

inductive alloc1 :: "nat \<Rightarrow> bool \<Rightarrow> nat \<Rightarrow> alloc_state \<Rightarrow> alloc_state \<Rightarrow> bool"
  for gmax :: nat and small :: bool and n :: nat where
  gpr: "unat (cur_gpr c) < gmax \<Longrightarrow>
     poly_abi_layout_add_arg_loc l n (poly_abi_loc_reg POLY_ABI_LOC_GPR (cur_gpr c) sz) = Some l' \<Longrightarrow>
     alloc1 gmax small n (l, c) (l', c\<lparr>cur_gpr := cur_gpr c + 1\<rparr>)"
| fpr: "unat (cur_fpr c) < 8 \<Longrightarrow> k = POLY_ABI_LOC_FPR \<or> k = POLY_ABI_LOC_VEC \<Longrightarrow>
     poly_abi_layout_add_arg_loc l n (poly_abi_loc_reg k (cur_fpr c) sz) = Some l' \<Longrightarrow>
     alloc1 gmax small n (l, c) (l', c\<lparr>cur_fpr := cur_fpr c + 1\<rparr>)"
| stack: "stack_loc c sz al = (loc, c') \<Longrightarrow> (small \<Longrightarrow> small_req sz al) \<Longrightarrow>
     poly_abi_layout_add_arg_loc l n loc = Some l' \<Longrightarrow>
     alloc1 gmax small n (l, c) (l', c')"

abbreviation alloc :: "nat \<Rightarrow> bool \<Rightarrow> nat \<Rightarrow> alloc_state \<Rightarrow> alloc_state \<Rightarrow> bool" where
  "alloc gmax small n \<equiv> (alloc1 gmax small n)\<^sup>*\<^sup>*"

definition is_gpr_loc :: "poly_abi_loc \<Rightarrow> bool" where
  "is_gpr_loc loc \<longleftrightarrow> loc_kind loc = POLY_ABI_LOC_GPR"

definition is_fpr_loc :: "poly_abi_loc \<Rightarrow> bool" where
  "is_fpr_loc loc \<longleftrightarrow> loc_kind loc = POLY_ABI_LOC_FPR \<or> loc_kind loc = POLY_ABI_LOC_VEC"

definition is_stack_loc :: "poly_abi_loc \<Rightarrow> bool" where
  "is_stack_loc loc \<longleftrightarrow> loc_kind loc = POLY_ABI_LOC_STACK"

lemmas loc_class_defs = is_gpr_loc_def is_fpr_loc_def is_stack_loc_def

text \<open>
  The register invariant: the general registers of the layout, in argument
  order, are exactly the consecutive registers from \<open>g0\<close> up to the cursor, and
  likewise for the floating-point registers from 0.
\<close>

definition reg_nums :: "(poly_abi_loc \<Rightarrow> bool) \<Rightarrow> poly_abi_layout \<Rightarrow> nat list" where
  "reg_nums P l = map (\<lambda>loc. unat (loc_reg loc)) (filter P (layout_locs l))"

definition reg_inv :: "nat \<Rightarrow> nat \<Rightarrow> nat \<Rightarrow> alloc_state \<Rightarrow> bool" where
  "reg_inv gmax g0 n s \<longleftrightarrow> (case s of (l, c) \<Rightarrow>
     wf_layout l \<and> free_from l n \<and>
     g0 \<le> unat (cur_gpr c) \<and> unat (cur_gpr c) \<le> gmax \<and> unat (cur_fpr c) \<le> 8 \<and>
     reg_nums is_gpr_loc l = [g0..<unat (cur_gpr c)] \<and>
     reg_nums is_fpr_loc l = [0..<unat (cur_fpr c)] \<and>
     (\<forall>loc \<in> set (layout_locs l). is_gpr_loc loc \<or> is_fpr_loc loc \<or> is_stack_loc loc))"

lemma unat_u8_succ: "unat (w :: u8) < 8 \<Longrightarrow> unat (w + 1) = Suc (unat w)"
  by (simp add: unat_word_ariths)

lemma alloc1_reg_inv:
  assumes "alloc1 gmax small n s s'" and "reg_inv gmax g0 (Suc n) s" and "gmax \<le> 8"
  shows "reg_inv gmax g0 (Suc n) s'"
  using assms
proof (induction rule: alloc1.induct)
  case (gpr c l sz l')
  then show ?case
    by (auto simp: reg_inv_def reg_nums_def loc_class_defs poly_abi_loc_reg_def unat_u8_succ
        add_arg_locD dest: add_arg_locD)
next
  case (fpr c k l sz l')
  then show ?case
    by (auto simp: reg_inv_def reg_nums_def loc_class_defs poly_abi_loc_reg_def unat_u8_succ
        add_arg_locD dest: add_arg_locD)
next
  case (stack c sz al loc c' l l')
  then show ?case
    by (auto simp: reg_inv_def reg_nums_def loc_class_defs stack_loc_def Let_def
        poly_abi_loc_stack_def add_arg_locD dest: add_arg_locD)
qed

lemma alloc_reg_inv:
  "alloc gmax small n s s' \<Longrightarrow> reg_inv gmax g0 (Suc n) s \<Longrightarrow> gmax \<le> 8 \<Longrightarrow>
     reg_inv gmax g0 (Suc n) s'"
  by (induction rule: rtranclp_induct) (auto intro: alloc1_reg_inv)

text \<open>Placing arguments does not touch the return locations.\<close>

lemma alloc_ret:
  assumes "alloc gmax small n (l, c) (l', c')"
  shows "lay_ret l' = lay_ret l" and "lay_ret_count l' = lay_ret_count l"
    and "lay_uses_sret l' = lay_uses_sret l"
proof -
  have "lay_ret (fst s') = lay_ret (fst s) \<and> lay_ret_count (fst s') = lay_ret_count (fst s) \<and>
      lay_uses_sret (fst s') = lay_uses_sret (fst s)" if "alloc gmax small n s s'" for s s'
    using that
    by induction (auto elim!: alloc1.cases simp: poly_abi_layout_add_arg_loc_def Let_def split: if_splits)
  from this[OF assms] show "lay_ret l' = lay_ret l" and "lay_ret_count l' = lay_ret_count l"
    and "lay_uses_sret l' = lay_uses_sret l" by simp_all
qed

lemma reg_inv_next: "reg_inv gmax g0 n s \<Longrightarrow> reg_inv gmax g0 (Suc n) s"
  by (auto simp: reg_inv_def free_from_def)

subsection \<open>Stack slots\<close>

text \<open>
  The stack invariant: the slots are 8-byte aligned, pairwise disjoint in
  increasing order and all below the cursor. A layout holds at most 64
  locations and a small request moves the cursor by at most 1008 bytes, so the
  16-bit cursor never wraps.
\<close>

definition slot_end :: "poly_abi_loc \<Rightarrow> nat" where
  "slot_end loc = unat (loc_stack_offset loc) + unat (loc_size loc)"

definition stack_slots :: "poly_abi_layout \<Rightarrow> poly_abi_loc list" where
  "stack_slots l = filter is_stack_loc (layout_locs l)"

definition slots_ok :: "poly_abi_layout \<Rightarrow> nat \<Rightarrow> bool" where
  "slots_ok l lim \<longleftrightarrow>
     sorted_wrt (\<lambda>a b. slot_end a \<le> unat (loc_stack_offset b)) (stack_slots l) \<and>
     (\<forall>loc \<in> set (stack_slots l). slot_end loc \<le> lim \<and> 8 dvd unat (loc_stack_offset loc))"

definition stack_inv :: "nat \<Rightarrow> alloc_state \<Rightarrow> bool" where
  "stack_inv n s \<longleftrightarrow> (case s of (l, c) \<Rightarrow>
     wf_layout l \<and> free_from l n \<and>
     8 dvd unat (cur_stack c) \<and> unat (cur_stack c) \<le> 1008 * length (layout_locs l) \<and>
     slots_ok l (unat (cur_stack c)))"

lemma length_layout_locs: "wf_layout l \<Longrightarrow> length (layout_locs l) \<le> 64"
proof -
  assume wf: "wf_layout l"
  have sum: "sum_list (map (\<lambda>a. length (arg_list a)) as) \<le> 4 * length as"
    if "\<forall>a \<in> set as. arg_loc_count a \<le> 4" for as
    using that by (induction as) (auto simp: arg_list_def)
  have "length (layout_locs l) \<le> 4 * length (lay_args l)"
    using sum[of "lay_args l"] wf
    by (auto simp: layout_locs_def length_concat wf_layout_def comp_def)
  with wf show ?thesis by (simp add: wf_layout_def)
qed

lemma stack_loc_small:
  assumes "stack_loc c sz al = (loc, c')" and "small_req sz al"
    and "8 dvd unat (cur_stack c)" and "unat (cur_stack c) \<le> 1008 * 63"
  shows "unat (cur_stack c) \<le> unat (loc_stack_offset loc)"
    and "8 dvd unat (loc_stack_offset loc)"
    and "unat (loc_stack_offset loc) + unat (loc_size loc) \<le> unat (cur_stack c')"
    and "8 dvd unat (cur_stack c')"
    and "unat (cur_stack c') \<le> unat (cur_stack c) + 1008"
    and "loc_kind loc = POLY_ABI_LOC_STACK" and "loc_size loc = sz"
    and "cur_gpr c' = cur_gpr c" and "cur_fpr c' = cur_fpr c"
proof -
  let ?s = "unat (cur_stack c)"
  let ?al = "if al > 8 then al else 8"
  let ?off = "align_to (cur_stack c) ?al"
  from assms(1) have loc: "loc = poly_abi_loc_stack ?off sz"
    and c': "c' = c\<lparr>cur_stack := ?off + align_to sz 8\<rparr>"
    by (auto simp: stack_loc_def Let_def)
  from assms(2) have sz: "unat sz \<le> 1000" by (simp add: small_req_def)
  from assms(2) have al: "unat ?al = 2 ^ 3 \<or> unat ?al = 2 ^ 4"
    by (auto simp: small_req_def word_less_nat_alt)
  from assms(3) obtain q where q: "?s = 8 * q" by auto
  have off: "?s \<le> unat ?off \<and> unat ?off \<le> ?s + 8 \<and> 8 dvd unat ?off"
    using al
  proof
    assume a: "unat ?al = 2 ^ 3"
    have "unat ?off = (?s + 2 ^ 3 - 1) div 2 ^ 3 * 2 ^ 3"
      by (rule unat_align_to) (use a assms(4) in simp_all)
    then show ?thesis using q by simp
  next
    assume a: "unat ?al = 2 ^ 4"
    have "unat ?off = (?s + 2 ^ 4 - 1) div 2 ^ 4 * 2 ^ 4"
      by (rule unat_align_to) (use a assms(4) in simp_all)
    then have "unat ?off = (8 * q + 15) div 16 * 16" using q by simp
    moreover have "8 dvd (8 * q + 15) div 16 * 16" by simp
    moreover have "8 * q \<le> (8 * q + 15) div 16 * 16 \<and> (8 * q + 15) div 16 * 16 \<le> 8 * q + 8"
      by presburger
    ultimately show ?thesis using q by simp
  qed
  have "unat (align_to sz 8) = (unat sz + 2 ^ 3 - 1) div 2 ^ 3 * 2 ^ 3"
    by (rule unat_align_to) (use sz in simp_all)
  then have szr: "unat sz \<le> unat (align_to sz 8) \<and> unat (align_to sz 8) \<le> 1000 \<and> 8 dvd unat (align_to sz 8)"
    using sz by simp presburger
  have "unat (cur_stack c') = unat ?off + unat (align_to sz 8)"
    using off szr assms(4) by (simp add: c' unat_word_ariths)
  then show "unat (cur_stack c) \<le> unat (loc_stack_offset loc)"
    and "8 dvd unat (loc_stack_offset loc)"
    and "unat (loc_stack_offset loc) + unat (loc_size loc) \<le> unat (cur_stack c')"
    and "8 dvd unat (cur_stack c')"
    and "unat (cur_stack c') \<le> unat (cur_stack c) + 1008"
    using off szr by (simp_all add: loc poly_abi_loc_stack_def)
  show "loc_kind loc = POLY_ABI_LOC_STACK" "loc_size loc = sz"
    "cur_gpr c' = cur_gpr c" "cur_fpr c' = cur_fpr c"
    by (simp_all add: loc poly_abi_loc_stack_def c')
qed

lemma stack_inv_add_reg:
  assumes "stack_inv (Suc n) (l, c)" and "poly_abi_layout_add_arg_loc l n loc = Some l'"
    and "\<not> is_stack_loc loc" and "cur_stack c' = cur_stack c"
  shows "stack_inv (Suc n) (l', c')"
  using assms by (auto simp: stack_inv_def slots_ok_def stack_slots_def add_arg_locD)

lemma alloc1_stack_inv:
  assumes "alloc1 gmax True n s s'" and "stack_inv (Suc n) s"
  shows "stack_inv (Suc n) s'"
  using assms
proof (induction rule: alloc1.induct)
  case (gpr c l sz l')
  then show ?case
    by (auto intro: stack_inv_add_reg simp: is_stack_loc_def poly_abi_loc_reg_def)
next
  case (fpr c k l sz l')
  then show ?case
    by (auto intro: stack_inv_add_reg simp: is_stack_loc_def poly_abi_loc_reg_def)
next
  case (stack c sz al loc c' l l')
  from stack have wf: "wf_layout l" and free: "free_from l (Suc n)" by (auto simp: stack_inv_def)
  note add = add_arg_locD[OF stack(3) wf free]
  have "length (layout_locs l) \<le> 63" using length_layout_locs[OF add(2)] add(4) by simp
  moreover have "unat (cur_stack c) \<le> 1008 * length (layout_locs l)" "8 dvd unat (cur_stack c)"
    using stack.prems by (auto simp: stack_inv_def)
  ultimately have "unat (cur_stack c) \<le> 1008 * 63" "8 dvd unat (cur_stack c)" by auto
  note s = stack_loc_small[OF stack(1) stack(2)[OF TrueI] this(2,1)]
  show ?case
    using stack.prems add s
    by (fastforce simp: stack_inv_def slots_ok_def stack_slots_def is_stack_loc_def slot_end_def
        sorted_wrt_append)
qed

lemma alloc_stack_inv:
  "alloc gmax True n s s' \<Longrightarrow> stack_inv (Suc n) s \<Longrightarrow> stack_inv (Suc n) s'"
  by (induction rule: rtranclp_induct) (auto intro: alloc1_stack_inv)

lemma stack_inv_next: "stack_inv n s \<Longrightarrow> stack_inv (Suc n) s"
  by (auto simp: stack_inv_def free_from_def)

subsection \<open>When allocation cannot fail\<close>

text \<open>Argument \<open>n\<close> exists and has \<open>k\<close> locations so far.\<close>

definition arg_ready :: "nat \<Rightarrow> nat \<Rightarrow> alloc_state \<Rightarrow> bool" where
  "arg_ready n k s \<longleftrightarrow> (case s of (l, c) \<Rightarrow>
     wf_layout l \<and> n < POLY_ABI_LAYOUT_MAX_ARGS \<and> arg_loc_count (lay_args l ! n) = k)"

lemma add_arg_loc_ready:
  assumes "arg_ready n k (l, c)" and "k < 4"
  shows "\<exists>l'. poly_abi_layout_add_arg_loc l n loc = Some l' \<and> arg_ready n (Suc k) (l', c')"
proof -
  from assms have add: "poly_abi_layout_add_arg_loc l n loc \<noteq> None" and len: "n < length (lay_args l)"
    by (auto simp: arg_ready_def poly_abi_layout_add_arg_loc_def Let_def wf_layout_def)
  from add obtain l' where l': "poly_abi_layout_add_arg_loc l n loc = Some l'" by blast
  moreover from l' len assms have "arg_loc_count (lay_args l' ! n) = Suc k"
    by (auto simp: arg_ready_def poly_abi_layout_add_arg_loc_def Let_def split: if_splits)
  ultimately show ?thesis using add_arg_loc_wf[OF l'] assms(1) by (auto simp: arg_ready_def)
qed

lemma reg_inv_ready:
  "reg_inv gmax g0 n s \<Longrightarrow> n < 16 \<Longrightarrow> arg_ready n 0 s"
  by (auto simp: reg_inv_def arg_ready_def free_from_def wf_layout_def)

subsection \<open>The parts of a small aggregate\<close>

lemma part_count_le: "sz \<le> 16 \<Longrightarrow> part_count sz \<le> 2"
  by (simp add: part_count_def word_le_nat_alt)

lemma part_size_le:
  assumes "sz \<le> 16" and "n < part_count sz"
  shows "unat (part_size sz n) \<le> 8"
proof -
  have sz: "unat sz \<le> 16" using assms(1) by (simp add: word_le_nat_alt)
  have pc: "part_count sz = (unat sz + 7) div 8" using sz by (simp add: part_count_def)
  show ?thesis
  proof (cases "n + 1 = part_count sz")
    case True
    have n: "8 * n \<le> unat sz" "unat sz \<le> 8 * n + 8" "n < 2" using True pc sz assms(2) by auto
    have "unat (of_nat n * 8 :: u16) = n * 8" using n(3) by (simp add: unat_word_ariths unsigned_of_nat take_bit_eq_mod)
    then have "unat (sz - of_nat n * 8) = unat sz - n * 8"
      using n by (simp add: unat_sub_if' )
    then show ?thesis using True n by (simp add: part_size_def)
  next
    case False
    then show ?thesis by (simp add: part_size_def)
  qed
qed

definition small_type :: "poly_abi_type \<Rightarrow> bool" where
  "small_type t \<longleftrightarrow> small_req (ty_size t) (ty_align t) \<and>
     (\<forall>n < unat (ty_field_count t). unat (fld_size (ty_fields t ! n)) \<le> 1000)"

lemma add_stack_loc_alloc:
  "add_stack_loc n sz al s = Some s' \<Longrightarrow> (b \<Longrightarrow> small_req sz al) \<Longrightarrow> alloc1 gmax b n s s'"
  by (cases s) (auto simp: add_stack_loc_def split: prod.splits intro: alloc1.intros)

lemma add_stack_loc_run:
  "add_stack_loc n sz al s = Some s' \<Longrightarrow> (b \<Longrightarrow> small_req sz al) \<Longrightarrow> alloc gmax b n s s'"
  by (blast intro: r_into_rtranclp add_stack_loc_alloc)

lemma small_typeD:
  "small_type t \<Longrightarrow> small_req (ty_size t) (ty_align t)"
  "small_type t \<Longrightarrow> unat (ty_size t) \<le> 1000"
  "small_type t \<Longrightarrow> i < unat (ty_field_count t) \<Longrightarrow> unat (fld_size (ty_fields t ! i)) \<le> 1000"
  by (auto simp: small_type_def small_req_def)

lemma part_size_small: "sz \<le> 16 \<Longrightarrow> n < part_count sz \<Longrightarrow> unat (part_size sz n) \<le> 1000"
  by (drule (1) part_size_le) simp

lemma add_stack_loc_total:
  "arg_ready n k s \<Longrightarrow> k < 4 \<Longrightarrow> \<exists>s'. add_stack_loc n sz al s = Some s' \<and> arg_ready n (Suc k) s'"
  using add_arg_loc_ready[of n k "fst s" "snd s"]
  by (cases s) (fastforce simp: add_stack_loc_def split: prod.splits)

lemma add_stack_loc_ready: "arg_ready n 0 s \<Longrightarrow> add_stack_loc n sz al s \<noteq> None"
  using add_stack_loc_total[of n 0 s] by fastforce

subsection \<open>The interface of a location allocator\<close>

text \<open>
  What an argument classifier relies on: adding one location of a given class
  is one allocation step, and it succeeds while the argument has a free part.
\<close>

locale loc_allocator =
  fixes gmax :: nat
    and add_loc :: "nat \<Rightarrow> poly_abi_loc_kind \<Rightarrow> u16 \<Rightarrow> alloc_state \<Rightarrow> alloc_state option"
  assumes add_loc_alloc: "add_loc n kind sz s = Some s' \<Longrightarrow> (b \<Longrightarrow> unat sz \<le> 1000) \<Longrightarrow> alloc1 gmax b n s s'"
    and add_loc_total: "arg_ready n k s \<Longrightarrow> k < 4 \<Longrightarrow>
      \<exists>s'. add_loc n kind sz s = Some s' \<and> arg_ready n (Suc k) s'"
begin

lemma add_loc_run:
  "add_loc n kind sz s = Some s' \<Longrightarrow> (b \<Longrightarrow> unat sz \<le> 1000) \<Longrightarrow> alloc gmax b n s s'"
  by (blast intro: r_into_rtranclp add_loc_alloc)

lemma parts_run:
  assumes "fold_opt (\<lambda>i. add_loc n (kind i) (sz i)) xs s = Some s'"
    and "\<And>i. i \<in> set xs \<Longrightarrow> b \<Longrightarrow> unat (sz i) \<le> 1000"
  shows "alloc gmax b n s s'"
  using assms(1) rtranclp.rtrancl_refl
proof (induction rule: fold_opt_invariant)
  case (1 x t t')
  then show ?case using add_loc_alloc assms(2) by (meson rtranclp.rtrancl_into_rtrancl)
qed

lemma ready_simps:
  assumes "arg_ready n 0 s"
  shows "add_loc n k0 sz0 s \<noteq> None"
    and "k \<le> 4 \<Longrightarrow> fold_opt (\<lambda>i. add_loc n (kind i) (sz i)) [0..<k] s \<noteq> None"
proof -
  show "add_loc n k0 sz0 s \<noteq> None" using add_loc_total[OF assms] by fastforce
  assume k: "k \<le> 4"
  have "\<exists>s'. fold_opt (\<lambda>i. add_loc n (kind i) (sz i)) [0..<k] s = Some s' \<and> arg_ready n k s'"
    by (rule fold_opt_upt_total) (use k assms add_loc_total in auto)
  then show "fold_opt (\<lambda>i. add_loc n (kind i) (sz i)) [0..<k] s \<noteq> None" by fastforce
qed

end

subsection \<open>The interface of an argument classifier\<close>

text \<open>
  What the whole-signature loop relies on: a classifier of one argument is a
  sequence of allocation steps with at most \<open>gmax\<close> general registers, and it
  accepts every well-formed type when the argument has no locations yet.
\<close>

locale arg_classifier =
  fixes gmax :: nat
    and classify_arg :: "poly_abi_type \<Rightarrow> nat \<Rightarrow> alloc_state \<Rightarrow> alloc_state option"
  assumes gmax_le: "gmax \<le> 8"
    and classify_alloc: "classify_arg t n s = Some s' \<Longrightarrow> alloc gmax (small_type t) n s s'"
    and classify_total: "wf_type t \<Longrightarrow> arg_ready n 0 s \<Longrightarrow> \<exists>s'. classify_arg t n s = Some s'"
begin

lemma loop_reg_inv:
  assumes "fold_opt (\<lambda>n. classify_arg (args ! n) n) [0..<k] s = Some s'"
    and "reg_inv gmax g0 0 s"
  shows "reg_inv gmax g0 k s'"
  using assms(1) le0 assms(2)
proof (induction rule: fold_opt_upt_invariant)
  case (1 i t t')
  then show ?case
    using alloc_reg_inv[OF classify_alloc reg_inv_next gmax_le] by blast
qed

lemma loop_ret:
  assumes "fold_opt (\<lambda>n. classify_arg (args ! n) n) xs s = Some s'"
  shows "lay_ret (fst s') = lay_ret (fst s) \<and> lay_ret_count (fst s') = lay_ret_count (fst s) \<and>
    lay_uses_sret (fst s') = lay_uses_sret (fst s)"
proof -
  let ?I = "\<lambda>t. lay_ret (fst t) = lay_ret (fst s) \<and> lay_ret_count (fst t) = lay_ret_count (fst s) \<and>
    lay_uses_sret (fst t) = lay_uses_sret (fst s)"
  have "?I s" by simp
  with assms show ?thesis
  proof (induction rule: fold_opt_invariant[where I="?I"])
    case (1 x t t')
    then show ?case using alloc_ret[OF classify_alloc, of _ x "fst t" "snd t" "fst t'" "snd t'"] by simp
  qed
qed

lemma loop_stack_inv:
  assumes "fold_opt (\<lambda>n. classify_arg (args ! n) n) [0..<k] s = Some s'"
    and "stack_inv 0 s" and "\<And>n. n < k \<Longrightarrow> small_type (args ! n)"
  shows "stack_inv k s'"
  using assms(1) le0 assms(2)
proof (induction rule: fold_opt_upt_invariant)
  case (1 i t t')
  then have "alloc gmax True i t t'" using classify_alloc assms(3) by fastforce
  with 1 show ?case by (blast intro: alloc_stack_inv stack_inv_next)
qed

lemma loop_total:
  assumes "\<And>n. n < k \<Longrightarrow> wf_type (args ! n)" and "k \<le> 16" and "reg_inv gmax g0 0 s"
  shows "\<exists>s'. fold_opt (\<lambda>n. classify_arg (args ! n) n) [0..<k] s = Some s'"
proof -
  have "\<exists>s'. fold_opt (\<lambda>n. classify_arg (args ! n) n) [0..<k] s = Some s' \<and> reg_inv gmax g0 k s'"
  proof (rule fold_opt_upt_total)
    fix i t assume i: "0 \<le> i" "i < k" "reg_inv gmax g0 i t"
    then obtain t' where t': "classify_arg (args ! i) i t = Some t'"
      using classify_total[OF assms(1) reg_inv_ready] assms(2) by fastforce
    then have "reg_inv gmax g0 (Suc i) t'"
      using alloc_reg_inv[OF classify_alloc reg_inv_next gmax_le] i(3) by blast
    with t' show "\<exists>t'. classify_arg (args ! i) i t = Some t' \<and> reg_inv gmax g0 (Suc i) t'" by blast
  qed (use assms(3) in auto)
  then show ?thesis by blast
qed

end

subsection \<open>Return locations\<close>

text \<open>A return classifier only appends return locations and may set \<open>uses_sret\<close>.\<close>

definition ret_frame :: "poly_abi_layout \<Rightarrow> poly_abi_layout \<Rightarrow> bool" where
  "ret_frame l l' \<longleftrightarrow>
     lay_args l' = lay_args l \<and> lay_arg_count l' = lay_arg_count l \<and>
     lay_arch l' = lay_arch l \<and> lay_stack_align l' = lay_stack_align l \<and>
     (wf_layout l \<longrightarrow> wf_layout l')"

lemma ret_frame_refl [simp]: "ret_frame l l"
  by (simp add: ret_frame_def)

lemma ret_frame_trans: "ret_frame l m \<Longrightarrow> ret_frame m r \<Longrightarrow> ret_frame l r"
  by (simp add: ret_frame_def)

lemma add_ret_loc_frame: "poly_abi_layout_add_ret_loc l loc = Some l' \<Longrightarrow> ret_frame l l'"
  by (auto simp: ret_frame_def poly_abi_layout_add_ret_loc_def wf_layout_def split: if_splits)

lemma add_ret_loc_frame_sret:
  "poly_abi_layout_add_ret_loc (l\<lparr>lay_uses_sret := True\<rparr>) loc = Some l' \<Longrightarrow> ret_frame l l'"
  by (auto simp: ret_frame_def poly_abi_layout_add_ret_loc_def wf_layout_def split: if_splits)

lemma fold_ret_frame:
  assumes "fold_opt f xs l = Some l'"
    and "\<And>x l l'. f x l = Some l' \<Longrightarrow> ret_frame l l'"
  shows "ret_frame l l'"
  using assms(1) ret_frame_refl
proof (induction rule: fold_opt_invariant)
  case (1 x t t')
  then show ?case using assms(2) by (meson ret_frame_trans)
qed

lemma add_ret_loc_total:
  "lay_ret_count l = k \<Longrightarrow> k < 4 \<Longrightarrow>
     \<exists>l'. poly_abi_layout_add_ret_loc l loc = Some l' \<and> lay_ret_count l' = Suc k"
  by (simp add: poly_abi_layout_add_ret_loc_def)

lemma fold_ret_total:
  assumes "k \<le> 4" and "lay_ret_count l = 0"
  shows "\<exists>l'. fold_opt (\<lambda>n l. poly_abi_layout_add_ret_loc l (g n)) [0..<k] l = Some l'"
proof -
  have "\<exists>l'. fold_opt (\<lambda>n l. poly_abi_layout_add_ret_loc l (g n)) [0..<k] l = Some l' \<and>
          lay_ret_count l' = k"
    by (rule fold_opt_upt_total) (use assms add_ret_loc_total in auto)
  then show ?thesis by blast
qed

lemma parts_ret_total:
  assumes "sz \<le> 16" and "lay_ret_count l = 0"
  shows "\<exists>l'. fold_opt (\<lambda>n l. poly_abi_layout_add_ret_loc l (g n)) [0..<part_count sz] l = Some l'"
  by (rule fold_ret_total) (use assms part_count_le[OF assms(1)] in auto)

text \<open>Rounding the final cursor up to 16 loses nothing below the largest cursor value.\<close>

lemma align_to_16_le: "unat v \<le> 64512 \<Longrightarrow> unat v \<le> unat (align_to v 16)"
  using unat_align_to[of 16 4 v] round_up_bounds(1)[of "unat v" 4] by simp

subsection \<open>The interface of a call classifier\<close>

text \<open>
  The three entry points have one shape: place the return value (in memory when
  the signature says so, with the result pointer in \<open>sret_reg\<close> and the first
  \<open>sret_gpr\<close> argument registers taken), classify the arguments in order, and
  record the rounded stack size.
\<close>

definition ret_by_sret :: "poly_function_sig \<Rightarrow> bool" where
  "ret_by_sret sig \<longleftrightarrow> sig_flags sig AND POLY_FUNCTION_SIG_FLAG_RET_BY_SRET \<noteq> 0"

definition small_sig :: "poly_function_sig \<Rightarrow> bool" where
  "small_sig sig \<longleftrightarrow> (\<forall>n < sig_arg_count sig. small_type (sig_args sig ! n))"

locale call_classifier = arg_classifier +
  fixes arch :: poly_abi_arch
    and classify_ret :: "poly_abi_type \<Rightarrow> poly_abi_layout \<Rightarrow> poly_abi_layout option"
    and sret_reg :: u8 and sret_gpr :: u8
    and round_stack :: "u16 \<Rightarrow> u16"
    and classify_call :: "poly_function_sig \<Rightarrow> poly_abi_layout option"
  assumes ret_frame: "classify_ret t l = Some l' \<Longrightarrow> ret_frame l l'"
    and ret_total: "wf_type t \<Longrightarrow> lay_ret_count l = 0 \<Longrightarrow> \<exists>l'. classify_ret t l = Some l'"
    and sret_gpr_le: "unat sret_gpr \<le> gmax"
    and round_stack_le: "unat v \<le> 64512 \<Longrightarrow> unat v \<le> unat (round_stack v)"
    and classify_call_eq: "classify_call sig =
      (if sig_arg_count sig > POLY_FUNCTION_SIG_MAX_ARGS then None
       else do {
         (out, cursor) \<leftarrow>
           (if ret_by_sret sig then
              map_option (\<lambda>out'. (out', zero_cursor\<lparr>cur_gpr := sret_gpr\<rparr>))
                (poly_abi_layout_add_ret_loc ((poly_abi_layout_init arch)\<lparr>lay_uses_sret := True\<rparr>)
                  (poly_abi_loc_sret_ptr sret_reg (ty_size (sig_ret sig))))
            else map_option (\<lambda>out'. (out', zero_cursor))
                   (classify_ret (sig_ret sig) (poly_abi_layout_init arch)));
         (out, cursor) \<leftarrow>
           fold_opt (\<lambda>n. classify_arg (sig_args sig ! n) n) [0..<sig_arg_count sig] (out, cursor);
         Some (out\<lparr>lay_stack_arg_size := round_stack (cur_stack cursor)\<rparr>)
       })"
begin

definition first_gpr :: "poly_function_sig \<Rightarrow> nat" where
  "first_gpr sig = (if ret_by_sret sig then unat sret_gpr else 0)"

definition start_cursor :: "poly_function_sig \<Rightarrow> abi_cursor" where
  "start_cursor sig = (if ret_by_sret sig then zero_cursor\<lparr>cur_gpr := sret_gpr\<rparr> else zero_cursor)"

lemma classify_callE:
  assumes "classify_call sig = Some l"
  obtains out l' c where "ret_frame (poly_abi_layout_init arch) out"
    and "fold_opt (\<lambda>n. classify_arg (sig_args sig ! n) n) [0..<sig_arg_count sig]
           (out, start_cursor sig) = Some (l', c)"
    and "l = l'\<lparr>lay_stack_arg_size := round_stack (cur_stack c)\<rparr>"
    and "sig_arg_count sig \<le> 16"
  using assms
  by (auto simp: classify_call_eq start_cursor_def Option.bind_eq_Some_conv split: if_splits
      dest!: ret_frame add_ret_loc_frame_sret)

lemma start_invs:
  assumes "ret_frame (poly_abi_layout_init arch) out"
  shows "reg_inv gmax (first_gpr sig) 0 (out, start_cursor sig)"
    and "stack_inv 0 (out, start_cursor sig)"
proof -
  have args: "lay_args out = lay_args (poly_abi_layout_init arch)" and wf: "wf_layout out"
    using assms wf_layout_init by (auto simp: ret_frame_def)
  have locs: "layout_locs out = []"
    using args layout_locs_init[of arch] by (simp add: layout_locs_def)
  have free: "free_from out 0" using args free_from_init[of arch 0] by (simp add: free_from_def)
  show "reg_inv gmax (first_gpr sig) 0 (out, start_cursor sig)"
    using wf free locs sret_gpr_le
    by (simp add: reg_inv_def reg_nums_def start_cursor_def first_gpr_def zero_cursor_def)
  show "stack_inv 0 (out, start_cursor sig)"
    using wf free locs
    by (simp add: stack_inv_def slots_ok_def stack_slots_def start_cursor_def zero_cursor_def)
qed

lemma update_stack_size [simp]:
  "wf_layout (l\<lparr>lay_stack_arg_size := v\<rparr>) = wf_layout l"
  "layout_locs (l\<lparr>lay_stack_arg_size := v\<rparr>) = layout_locs l"
  by (simp_all add: wf_layout_def layout_locs_def)

lemma call_registers:
  assumes "classify_call sig = Some l"
  shows "wf_layout l"
    and "\<exists>g f. g \<le> gmax \<and> f \<le> 8 \<and> reg_nums is_gpr_loc l = [first_gpr sig..<g] \<and>
           reg_nums is_fpr_loc l = [0..<f]"
    and "\<forall>loc \<in> set (layout_locs l). is_gpr_loc loc \<or> is_fpr_loc loc \<or> is_stack_loc loc"
proof -
  from assms obtain out l' c where out: "ret_frame (poly_abi_layout_init arch) out"
    and loop: "fold_opt (\<lambda>n. classify_arg (sig_args sig ! n) n) [0..<sig_arg_count sig]
           (out, start_cursor sig) = Some (l', c)"
    and l: "l = l'\<lparr>lay_stack_arg_size := round_stack (cur_stack c)\<rparr>"
    by (rule classify_callE)
  have inv: "reg_inv gmax (first_gpr sig) (sig_arg_count sig) (l', c)"
    using loop start_invs(1)[OF out] by (rule loop_reg_inv)
  then show "wf_layout l"
    and "\<forall>loc \<in> set (layout_locs l). is_gpr_loc loc \<or> is_fpr_loc loc \<or> is_stack_loc loc"
    by (simp_all add: l reg_inv_def)
  from inv show "\<exists>g f. g \<le> gmax \<and> f \<le> 8 \<and> reg_nums is_gpr_loc l = [first_gpr sig..<g] \<and>
           reg_nums is_fpr_loc l = [0..<f]"
    by (auto simp: l reg_inv_def reg_nums_def)
qed

text \<open>
  With the result returned through memory, the only return location is the
  result pointer.
\<close>

lemma call_sret:
  assumes "classify_call sig = Some l" and "ret_by_sret sig"
  shows "ret_list l = [poly_abi_loc_sret_ptr sret_reg (ty_size (sig_ret sig))]" and "lay_uses_sret l"
proof -
  let ?loc = "poly_abi_loc_sret_ptr sret_reg (ty_size (sig_ret sig))"
  from assms obtain out l' c where
    out: "poly_abi_layout_add_ret_loc ((poly_abi_layout_init arch)\<lparr>lay_uses_sret := True\<rparr>) ?loc = Some out"
    and loop: "fold_opt (\<lambda>n. classify_arg (sig_args sig ! n) n) [0..<sig_arg_count sig]
           (out, zero_cursor\<lparr>cur_gpr := sret_gpr\<rparr>) = Some (l', c)"
    and l: "l = l'\<lparr>lay_stack_arg_size := round_stack (cur_stack c)\<rparr>"
    by (auto simp: classify_call_eq Option.bind_eq_Some_conv split: if_splits)
  from out have "lay_uses_sret out" "ret_list out = [?loc]"
    by (auto simp: poly_abi_layout_add_ret_loc_def poly_abi_layout_init_def ret_list_def
        take_Suc_conv_app_nth split: if_splits)
  with loop_ret[OF loop] show "ret_list l = [?loc]" and "lay_uses_sret l"
    by (simp_all add: l ret_list_def)
qed

lemma call_stack:
  assumes "classify_call sig = Some l" and "small_sig sig"
  shows "slots_ok l (unat (lay_stack_arg_size l))"
proof -
  from assms obtain out l' c where out: "ret_frame (poly_abi_layout_init arch) out"
    and loop: "fold_opt (\<lambda>n. classify_arg (sig_args sig ! n) n) [0..<sig_arg_count sig]
           (out, start_cursor sig) = Some (l', c)"
    and l: "l = l'\<lparr>lay_stack_arg_size := round_stack (cur_stack c)\<rparr>"
    using classify_callE by blast
  have inv: "stack_inv (sig_arg_count sig) (l', c)"
    by (rule loop_stack_inv[OF loop start_invs(2)[OF out]]) (use assms(2) in \<open>simp add: small_sig_def\<close>)
  then have "length (layout_locs l') \<le> 64" by (intro length_layout_locs) (simp add: stack_inv_def)
  with inv have "unat (cur_stack c) \<le> 64512" by (simp add: stack_inv_def)
  then have "unat (cur_stack c) \<le> unat (lay_stack_arg_size l)" by (simp add: l round_stack_le)
  with inv show ?thesis
    by (auto simp: stack_inv_def slots_ok_def stack_slots_def l intro: le_trans)
qed

lemma call_total:
  assumes "wf_sig sig"
  shows "\<exists>l. classify_call sig = Some l"
proof -
  have count: "sig_arg_count sig \<le> 16" and ret: "wf_type (sig_ret sig)"
    and args: "\<And>n. n < sig_arg_count sig \<Longrightarrow> wf_type (sig_args sig ! n)"
    using assms by (auto simp: wf_sig_def)
  have init: "lay_ret_count (poly_abi_layout_init arch) = 0"
    by (simp add: poly_abi_layout_init_def)
  have loop: "\<exists>s'. fold_opt (\<lambda>n. classify_arg (sig_args sig ! n) n) [0..<sig_arg_count sig]
      (out, start_cursor sig) = Some s'" if "ret_frame (poly_abi_layout_init arch) out" for out
    using loop_total[OF args count start_invs(1)[OF that]] by blast
  show ?thesis
  proof (cases "ret_by_sret sig")
    case True
    obtain out where "poly_abi_layout_add_ret_loc ((poly_abi_layout_init arch)\<lparr>lay_uses_sret := True\<rparr>)
        (poly_abi_loc_sret_ptr sret_reg (ty_size (sig_ret sig))) = Some out"
      by (simp add: poly_abi_layout_add_ret_loc_def poly_abi_layout_init_def)
    with loop[OF add_ret_loc_frame_sret[OF this]] True count show ?thesis
      by (auto simp: classify_call_eq start_cursor_def)
  next
    case False
    obtain out where "classify_ret (sig_ret sig) (poly_abi_layout_init arch) = Some out"
      using ret_total[OF ret init] by blast
    with loop[OF ret_frame[OF this]] False count show ?thesis
      by (auto simp: classify_call_eq start_cursor_def)
  qed
qed

end

end
