(* ===== verification/Abi_X86.thy ===== *)
theory Abi_X86
  imports Abi_Alloc
begin

text \<open>
  The System V AMD64 classifier, \<open>tools/runtime/abi/poly_abi_x86_sysv.c\<close>: six
  general registers and eight vector registers for arguments, with the hidden
  result pointer in the first general register.
\<close>

definition x86_add_arg_loc ::
    "nat \<Rightarrow> poly_abi_loc_kind \<Rightarrow> u16 \<Rightarrow> alloc_state \<Rightarrow> alloc_state option" where
  "x86_add_arg_loc arg_index kind sz s = (case s of (out, cursor) \<Rightarrow>
     if kind = POLY_ABI_LOC_GPR \<and> cur_gpr cursor < 6 then
       map_option (\<lambda>out'. (out', cursor\<lparr>cur_gpr := cur_gpr cursor + 1\<rparr>))
         (poly_abi_layout_add_arg_loc out arg_index (poly_abi_loc_reg kind (cur_gpr cursor) sz))
     else if (kind = POLY_ABI_LOC_FPR \<or> kind = POLY_ABI_LOC_VEC) \<and> cur_fpr cursor < 8 then
       map_option (\<lambda>out'. (out', cursor\<lparr>cur_fpr := cur_fpr cursor + 1\<rparr>))
         (poly_abi_layout_add_arg_loc out arg_index (poly_abi_loc_reg kind (cur_fpr cursor) sz))
     else add_stack_loc arg_index sz (if sz \<ge> 16 then 16 else 8) s)"

text \<open>
  A field count above four makes the loop read past the \<open>fields\<close> array; the
  fifth location is refused whatever was read, so the result is the error.
\<close>

definition x86_classify_arg :: "poly_abi_type \<Rightarrow> nat \<Rightarrow> alloc_state \<Rightarrow> alloc_state option" where
  "x86_classify_arg type arg_index s =
     (if is_integer_kind (ty_kind type) then
        x86_add_arg_loc arg_index POLY_ABI_LOC_GPR (ty_size type) s
      else if is_float_kind (ty_kind type) then
        x86_add_arg_loc arg_index POLY_ABI_LOC_FPR (ty_size type) s
      else if ty_kind type = POLY_ABI_TYPE_VEC128 then
        x86_add_arg_loc arg_index POLY_ABI_LOC_VEC (ty_size type) s
      else if ty_kind type = POLY_ABI_TYPE_AGGREGATE \<and> ty_size type \<le> 16 \<and> ty_field_count type > 0 then
        fold_opt (\<lambda>n.
            x86_add_arg_loc arg_index
              (if is_float_kind (fld_kind (ty_fields type ! n)) then POLY_ABI_LOC_FPR else POLY_ABI_LOC_GPR)
              (fld_size (ty_fields type ! n)))
          [0..<unat (ty_field_count type)] s
      else if ty_kind type = POLY_ABI_TYPE_HFA \<and> ty_size type \<le> 16 then
        fold_opt (\<lambda>n. x86_add_arg_loc arg_index POLY_ABI_LOC_FPR (part_size (ty_size type) n))
          [0..<part_count (ty_size type)] s
      else add_stack_loc arg_index (ty_size type) (ty_align type) s)"

definition x86_add_ret_loc ::
    "poly_abi_layout \<Rightarrow> poly_abi_loc_kind \<Rightarrow> u8 \<Rightarrow> u16 \<Rightarrow> poly_abi_layout option" where
  "x86_add_ret_loc out kind reg sz = poly_abi_layout_add_ret_loc out (poly_abi_loc_reg kind reg sz)"

text \<open>One field of a small aggregate returned in registers, with the two register counters.\<close>

definition x86_ret_field ::
    "poly_abi_type \<Rightarrow> nat \<Rightarrow> poly_abi_layout \<times> u8 \<times> u8 \<Rightarrow> (poly_abi_layout \<times> u8 \<times> u8) option" where
  "x86_ret_field type n s = (case s of (out, gpr, fpr) \<Rightarrow>
     let field = ty_fields type ! n in
     if is_float_kind (fld_kind field) then
       map_option (\<lambda>out'. (out', gpr, fpr + 1)) (x86_add_ret_loc out POLY_ABI_LOC_FPR fpr (fld_size field))
     else
       map_option (\<lambda>out'. (out', gpr + 1, fpr)) (x86_add_ret_loc out POLY_ABI_LOC_GPR gpr (fld_size field)))"

definition x86_classify_ret :: "poly_abi_type \<Rightarrow> poly_abi_layout \<Rightarrow> poly_abi_layout option" where
  "x86_classify_ret type out =
     (if ty_kind type = POLY_ABI_TYPE_VOID then Some out
      else if is_integer_kind (ty_kind type) then
        x86_add_ret_loc out POLY_ABI_LOC_GPR 0 (ty_size type)
      else if is_float_kind (ty_kind type) then
        x86_add_ret_loc out POLY_ABI_LOC_FPR 0 (ty_size type)
      else if ty_kind type = POLY_ABI_TYPE_VEC128 then
        x86_add_ret_loc out POLY_ABI_LOC_VEC 0 (ty_size type)
      else if ty_kind type = POLY_ABI_TYPE_AGGREGATE \<and> ty_size type \<le> 16 \<and> ty_field_count type > 0 then
        map_option fst (fold_opt (x86_ret_field type)
          [0..<unat (ty_field_count type)] (out, 0, 0))
      else if ty_kind type = POLY_ABI_TYPE_HFA \<and> ty_size type \<le> 16 then
        fold_opt (\<lambda>n out. x86_add_ret_loc out POLY_ABI_LOC_FPR (of_nat n) (part_size (ty_size type) n))
          [0..<part_count (ty_size type)] out
      else poly_abi_layout_add_ret_loc (out\<lparr>lay_uses_sret := True\<rparr>)
             (poly_abi_loc_sret_ptr 0 (ty_size type)))"

definition poly_classify_x86_sysv_call_abi :: "poly_function_sig \<Rightarrow> poly_abi_layout option" where
  "poly_classify_x86_sysv_call_abi sig =
     (if sig_arg_count sig > POLY_FUNCTION_SIG_MAX_ARGS then None
      else do {
        let out = poly_abi_layout_init POLY_ABI_ARCH_X86;
        (out, cursor) \<leftarrow>
          (if sig_flags sig AND POLY_FUNCTION_SIG_FLAG_RET_BY_SRET \<noteq> 0 then
             map_option (\<lambda>out'. (out', zero_cursor\<lparr>cur_gpr := 1\<rparr>))
               (poly_abi_layout_add_ret_loc (out\<lparr>lay_uses_sret := True\<rparr>)
                 (poly_abi_loc_sret_ptr 0 (ty_size (sig_ret sig))))
           else map_option (\<lambda>out'. (out', zero_cursor)) (x86_classify_ret (sig_ret sig) out));
        (out, cursor) \<leftarrow>
          fold_opt (\<lambda>n. x86_classify_arg (sig_args sig ! n) n) [0..<sig_arg_count sig] (out, cursor);
        Some (out\<lparr>lay_stack_arg_size := cur_stack cursor\<rparr>)
      })"

subsection \<open>The classifier as allocation steps\<close>

interpretation x86: loc_allocator 6 x86_add_arg_loc
proof
  fix n kind sz s s' b
  assume "x86_add_arg_loc n kind sz s = Some s'" and "b \<Longrightarrow> unat sz \<le> 1000"
  then show "alloc1 6 b n s s'"
    by (cases s) (auto simp: x86_add_arg_loc_def word_less_nat_alt small_req_def split: if_splits
        intro: alloc1.intros add_stack_loc_alloc)
next
  fix n k s kind sz
  assume "arg_ready n k s" and "k < (4::nat)"
  then show "\<exists>s'. x86_add_arg_loc n kind sz s = Some s' \<and> arg_ready n (Suc k) s'"
    using add_arg_loc_ready[of n k "fst s" "snd s"] add_stack_loc_total[of n k s]
    by (cases s) (fastforce simp: x86_add_arg_loc_def)
qed

interpretation x86_args: arg_classifier 6 x86_classify_arg
proof
  fix t n s s'
  assume "x86_classify_arg t n s = Some s'"
  then show "alloc 6 (small_type t) n s s'"
    unfolding x86_classify_arg_def
    by (auto simp: small_typeD part_size_small split: if_splits
        elim!: x86.add_loc_run x86.parts_run add_stack_loc_run)
next
  fix t n s
  assume wf: "wf_type t" and ready: "arg_ready n 0 s"
  have "unat (ty_field_count t) \<le> 4" using wf by (simp add: wf_type_def)
  moreover have "ty_size t \<le> 16 \<Longrightarrow> part_count (ty_size t) \<le> 4"
    using part_count_le[of "ty_size t"] by simp
  ultimately have "x86_classify_arg t n s \<noteq> None"
    using x86.ready_simps[OF ready] add_stack_loc_ready[OF ready]
    by (simp add: x86_classify_arg_def)
  then show "\<exists>s'. x86_classify_arg t n s = Some s'" by blast
qed simp

lemma x86_ret_field_frame: "x86_ret_field t n s = Some s' \<Longrightarrow> ret_frame (fst s) (fst s')"
  by (cases s) (auto simp: x86_ret_field_def x86_add_ret_loc_def Let_def split: if_splits
      intro: add_ret_loc_frame)

lemma x86_ret_fields_frame:
  assumes "fold_opt (x86_ret_field t) xs s = Some s'"
  shows "ret_frame (fst s) (fst s')"
  using assms ret_frame_refl
proof (induction rule: fold_opt_invariant)
  case (1 x u u')
  then show ?case using x86_ret_field_frame ret_frame_trans by blast
qed

lemma x86_classify_ret_frame: "x86_classify_ret t l = Some l' \<Longrightarrow> ret_frame l l'"
  unfolding x86_classify_ret_def x86_add_ret_loc_def
  by (auto split: if_splits intro: add_ret_loc_frame add_ret_loc_frame_sret
      elim: fold_ret_frame dest!: x86_ret_fields_frame)

lemma x86_ret_fields_total:
  assumes "wf_type t" and "lay_ret_count l = 0"
  shows "\<exists>s. fold_opt (x86_ret_field t) [0..<unat (ty_field_count t)] (l, 0, 0) = Some s \<and>
           lay_ret_count (fst s) = unat (ty_field_count t)"
  by (rule fold_opt_upt_total)
    (use assms in \<open>auto simp: wf_type_def Let_def x86_ret_field_def x86_add_ret_loc_def
       poly_abi_layout_add_ret_loc_def\<close>)

lemma x86_classify_ret_total:
  assumes "wf_type t" and "lay_ret_count l = 0"
  shows "\<exists>l'. x86_classify_ret t l = Some l'"
  using assms x86_ret_fields_total[OF assms] parts_ret_total[OF _ assms(2), of "ty_size t"]
  by (auto simp: x86_classify_ret_def x86_add_ret_loc_def add_ret_loc_total poly_abi_layout_add_ret_loc_def)

interpretation x86_call: call_classifier 6 x86_classify_arg POLY_ABI_ARCH_X86 x86_classify_ret 0 1 "\<lambda>v. v"
  poly_classify_x86_sysv_call_abi
  by unfold_locales
    (simp_all add: x86_classify_ret_frame x86_classify_ret_total poly_classify_x86_sysv_call_abi_def
      ret_by_sret_def Let_def)

end
