(* ===== verification/Abi_AArch64.thy ===== *)
theory Abi_AArch64
  imports Abi_Alloc
begin

text \<open>
  The AAPCS64 classifier, \<open>tools/runtime/abi/poly_abi_aarch64.c\<close>: eight general
  and eight vector argument registers, homogeneous floating-point aggregates in
  vector registers or wholly in memory, and the result pointer in \<open>x8\<close>, which
  takes no argument register.
\<close>

definition aarch64_add_arg_loc ::
    "nat \<Rightarrow> poly_abi_loc_kind \<Rightarrow> u16 \<Rightarrow> alloc_state \<Rightarrow> alloc_state option" where
  "aarch64_add_arg_loc arg_index kind sz s = (case s of (out, cursor) \<Rightarrow>
     if kind = POLY_ABI_LOC_GPR \<and> cur_gpr cursor < 8 then
       map_option (\<lambda>out'. (out', cursor\<lparr>cur_gpr := cur_gpr cursor + 1\<rparr>))
         (poly_abi_layout_add_arg_loc out arg_index (poly_abi_loc_reg kind (cur_gpr cursor) sz))
     else if (kind = POLY_ABI_LOC_FPR \<or> kind = POLY_ABI_LOC_VEC) \<and> cur_fpr cursor < 8 then
       map_option (\<lambda>out'. (out', cursor\<lparr>cur_fpr := cur_fpr cursor + 1\<rparr>))
         (poly_abi_layout_add_arg_loc out arg_index (poly_abi_loc_reg kind (cur_fpr cursor) sz))
     else add_stack_loc arg_index sz (if sz \<ge> 16 then 16 else 8) s)"

text \<open>
  The register loop writes the locations directly: the guard has made sure
  that all \<open>count\<close> registers are free. \<open>(uint16_t) cursor->fpr + count\<close> cannot
  wrap, the operands being 8-bit.
\<close>

definition aarch64_classify_hfa_arg :: "poly_abi_type \<Rightarrow> nat \<Rightarrow> alloc_state \<Rightarrow> alloc_state option" where
  "aarch64_classify_hfa_arg type arg_index s =
     (if \<not> is_float_kind (ty_elem_kind type) \<or> ty_count type = 0 \<or>
         unat (ty_count type) > POLY_ABI_LOC_MAX_PARTS then None
      else if unat (cur_fpr (snd s)) + unat (ty_count type) \<le> 8 then
        (let elem_size = ty_size (poly_abi_scalar_type (ty_elem_kind type)) in
         fold_opt (\<lambda>n s. case s of (out, cursor) \<Rightarrow>
             map_option (\<lambda>out'. (out', cursor\<lparr>cur_fpr := cur_fpr cursor + 1\<rparr>))
               (poly_abi_layout_add_arg_loc out arg_index
                 (poly_abi_loc_reg POLY_ABI_LOC_FPR (cur_fpr cursor) elem_size)))
           [0..<unat (ty_count type)] s)
      else add_stack_loc arg_index (ty_size type) (ty_align type) s)"

definition aarch64_classify_arg :: "poly_abi_type \<Rightarrow> nat \<Rightarrow> alloc_state \<Rightarrow> alloc_state option" where
  "aarch64_classify_arg type arg_index s =
     (if is_integer_kind (ty_kind type) then
        aarch64_add_arg_loc arg_index POLY_ABI_LOC_GPR (ty_size type) s
      else if is_float_kind (ty_kind type) then
        aarch64_add_arg_loc arg_index POLY_ABI_LOC_FPR (ty_size type) s
      else if ty_kind type = POLY_ABI_TYPE_VEC128 then
        aarch64_add_arg_loc arg_index POLY_ABI_LOC_VEC (ty_size type) s
      else if ty_kind type = POLY_ABI_TYPE_HFA then
        aarch64_classify_hfa_arg type arg_index s
      else if ty_kind type = POLY_ABI_TYPE_AGGREGATE \<and> ty_size type \<le> 16 then
        fold_opt (\<lambda>n. aarch64_add_arg_loc arg_index POLY_ABI_LOC_GPR (part_size (ty_size type) n))
          [0..<part_count (ty_size type)] s
      else add_stack_loc arg_index (ty_size type) (ty_align type) s)"

definition aarch64_classify_ret :: "poly_abi_type \<Rightarrow> poly_abi_layout \<Rightarrow> poly_abi_layout option" where
  "aarch64_classify_ret type out =
     (if ty_kind type = POLY_ABI_TYPE_VOID then Some out
      else if is_integer_kind (ty_kind type) then
        poly_abi_layout_add_ret_loc out (poly_abi_loc_reg POLY_ABI_LOC_GPR 0 (ty_size type))
      else if is_float_kind (ty_kind type) then
        poly_abi_layout_add_ret_loc out (poly_abi_loc_reg POLY_ABI_LOC_FPR 0 (ty_size type))
      else if ty_kind type = POLY_ABI_TYPE_VEC128 then
        poly_abi_layout_add_ret_loc out (poly_abi_loc_reg POLY_ABI_LOC_VEC 0 (ty_size type))
      else if ty_kind type = POLY_ABI_TYPE_HFA then
        (if \<not> is_float_kind (ty_elem_kind type) \<or> ty_count type = 0 \<or>
            unat (ty_count type) > POLY_ABI_LOC_MAX_PARTS then None
         else
           (let elem_size = ty_size (poly_abi_scalar_type (ty_elem_kind type)) in
            fold_opt (\<lambda>n out. poly_abi_layout_add_ret_loc out
                (poly_abi_loc_reg POLY_ABI_LOC_FPR (of_nat n) elem_size))
              [0..<unat (ty_count type)] out))
      else if ty_kind type = POLY_ABI_TYPE_AGGREGATE \<and> ty_size type \<le> 16 then
        fold_opt (\<lambda>n out. poly_abi_layout_add_ret_loc out
            (poly_abi_loc_reg POLY_ABI_LOC_GPR (of_nat n) (part_size (ty_size type) n)))
          [0..<part_count (ty_size type)] out
      else poly_abi_layout_add_ret_loc (out\<lparr>lay_uses_sret := True\<rparr>)
             (poly_abi_loc_sret_ptr 8 (ty_size type)))"

definition poly_classify_aarch64_call_abi :: "poly_function_sig \<Rightarrow> poly_abi_layout option" where
  "poly_classify_aarch64_call_abi sig =
     (if sig_arg_count sig > POLY_FUNCTION_SIG_MAX_ARGS then None
      else do {
        let out = poly_abi_layout_init POLY_ABI_ARCH_AARCH64;
        (out, cursor) \<leftarrow>
          (if sig_flags sig AND POLY_FUNCTION_SIG_FLAG_RET_BY_SRET \<noteq> 0 then
             map_option (\<lambda>out'. (out', zero_cursor))
               (poly_abi_layout_add_ret_loc (out\<lparr>lay_uses_sret := True\<rparr>)
                 (poly_abi_loc_sret_ptr 8 (ty_size (sig_ret sig))))
           else map_option (\<lambda>out'. (out', zero_cursor)) (aarch64_classify_ret (sig_ret sig) out));
        (out, cursor) \<leftarrow>
          fold_opt (\<lambda>n. aarch64_classify_arg (sig_args sig ! n) n) [0..<sig_arg_count sig] (out, cursor);
        Some (out\<lparr>lay_stack_arg_size := align_to (cur_stack cursor) 16\<rparr>)
      })"

subsection \<open>The classifier as allocation steps\<close>

interpretation aarch64: loc_allocator 8 aarch64_add_arg_loc
proof
  fix n kind sz s s' b
  assume "aarch64_add_arg_loc n kind sz s = Some s'" and "b \<Longrightarrow> unat sz \<le> 1000"
  then show "alloc1 8 b n s s'"
    by (cases s) (auto simp: aarch64_add_arg_loc_def word_less_nat_alt small_req_def split: if_splits
        intro: alloc1.intros add_stack_loc_alloc)
next
  fix n k s kind sz
  assume "arg_ready n k s" and "k < (4::nat)"
  then show "\<exists>s'. aarch64_add_arg_loc n kind sz s = Some s' \<and> arg_ready n (Suc k) s'"
    using add_arg_loc_ready[of n k "fst s" "snd s"] add_stack_loc_total[of n k s]
    by (cases s) (fastforce simp: aarch64_add_arg_loc_def)
qed

text \<open>
  The HFA register loop is the allocator's: its guard keeps the cursor below
  eight, so \<open>aarch64_add_arg_loc\<close> would take the same branch.
\<close>

lemma aarch64_add_fpr:
  "cur_fpr c < 8 \<Longrightarrow> aarch64_add_arg_loc n POLY_ABI_LOC_FPR sz (l, c) =
     map_option (\<lambda>out'. (out', c\<lparr>cur_fpr := cur_fpr c + 1\<rparr>))
       (poly_abi_layout_add_arg_loc l n (poly_abi_loc_reg POLY_ABI_LOC_FPR (cur_fpr c) sz))"
  by (simp add: aarch64_add_arg_loc_def)

lemma aarch64_hfa_loop:
  "unat (cur_fpr c) + length xs \<le> 8 \<Longrightarrow>
   fold_opt (\<lambda>n s. case s of (out, cursor) \<Rightarrow>
       map_option (\<lambda>out'. (out', cursor\<lparr>cur_fpr := cur_fpr cursor + 1\<rparr>))
         (poly_abi_layout_add_arg_loc out arg_index
           (poly_abi_loc_reg POLY_ABI_LOC_FPR (cur_fpr cursor) sz))) xs (l, c) =
   fold_opt (\<lambda>n. aarch64_add_arg_loc arg_index POLY_ABI_LOC_FPR sz) xs (l, c)"
proof (induction xs arbitrary: l c)
  case Nil
  then show ?case by simp
next
  case (Cons x xs)
  have "cur_fpr c < 8" using Cons.prems by (simp add: word_less_nat_alt)
  moreover have "unat (cur_fpr c + 1) + length xs \<le> 8"
    using Cons.prems by (simp add: unat_u8_succ)
  ultimately show ?case
    using Cons.IH by (simp add: aarch64_add_fpr split: option.split)
qed

lemma aarch64_classify_hfa_arg_eq:
  "aarch64_classify_hfa_arg t n s =
     (if \<not> is_float_kind (ty_elem_kind t) \<or> ty_count t = 0 \<or> unat (ty_count t) > 4 then None
      else if unat (cur_fpr (snd s)) + unat (ty_count t) \<le> 8 then
        fold_opt (\<lambda>i. aarch64_add_arg_loc n POLY_ABI_LOC_FPR
          (ty_size (poly_abi_scalar_type (ty_elem_kind t)))) [0..<unat (ty_count t)] s
      else add_stack_loc n (ty_size t) (ty_align t) s)"
  using aarch64_hfa_loop[of "snd s" "[0..<unat (ty_count t)]" n _ "fst s"]
  by (cases s) (simp add: aarch64_classify_hfa_arg_def Let_def)

interpretation aarch64_args: arg_classifier 8 aarch64_classify_arg
proof
  fix t n s s'
  assume "aarch64_classify_arg t n s = Some s'"
  then show "alloc 8 (small_type t) n s s'"
    unfolding aarch64_classify_arg_def aarch64_classify_hfa_arg_eq
    by (auto simp: small_typeD part_size_small le_trans[OF scalar_size_le] split: if_splits
        elim!: aarch64.add_loc_run aarch64.parts_run add_stack_loc_run)
next
  fix t n s
  assume wf: "wf_type t" and ready: "arg_ready n 0 s"
  have "ty_size t \<le> 16 \<Longrightarrow> part_count (ty_size t) \<le> 4"
    using part_count_le[of "ty_size t"] by simp
  moreover have "ty_kind t = POLY_ABI_TYPE_HFA \<Longrightarrow>
      is_float_kind (ty_elem_kind t) \<and> ty_count t \<noteq> 0 \<and> unat (ty_count t) \<le> 4"
    using wf by (auto simp: wf_type_def)
  ultimately have "aarch64_classify_arg t n s \<noteq> None"
    using aarch64.ready_simps[OF ready] add_stack_loc_ready[OF ready]
    by (auto simp: aarch64_classify_arg_def aarch64_classify_hfa_arg_eq)
  then show "\<exists>s'. aarch64_classify_arg t n s = Some s'" by blast
qed simp

lemma aarch64_classify_ret_frame: "aarch64_classify_ret t l = Some l' \<Longrightarrow> ret_frame l l'"
  unfolding aarch64_classify_ret_def Let_def
  by (auto split: if_splits intro: add_ret_loc_frame add_ret_loc_frame_sret elim: fold_ret_frame)

lemma aarch64_classify_ret_total:
  assumes "wf_type t" and "lay_ret_count l = 0"
  shows "\<exists>l'. aarch64_classify_ret t l = Some l'"
  using assms parts_ret_total[OF _ assms(2), of "ty_size t"]
    fold_ret_total[OF _ assms(2), of "unat (ty_count t)"]
  by (auto simp: aarch64_classify_ret_def Let_def wf_type_def poly_abi_layout_add_ret_loc_def)

interpretation aarch64_call: call_classifier 8 aarch64_classify_arg POLY_ABI_ARCH_AARCH64
  aarch64_classify_ret 8 0 "\<lambda>v. align_to v 16" poly_classify_aarch64_call_abi
  by unfold_locales
    (simp_all add: aarch64_classify_ret_frame aarch64_classify_ret_total align_to_16_le
      poly_classify_aarch64_call_abi_def ret_by_sret_def Let_def zero_cursor_def)

end
