(* ===== verification/Abi_Classify.thy ===== *)
theory Abi_Classify
  imports Abi_X86 Abi_AArch64 Abi_RiscV
begin

text \<open>
  The dispatch of \<open>tools/runtime/abi/poly_abi_classify.c\<close> and the properties of
  the classifiers, stated over the dispatcher and proved from the three
  interpretations of \<open>call_classifier\<close>.
\<close>

definition poly_classify_call_abi :: "poly_abi_arch \<Rightarrow> poly_function_sig \<Rightarrow> poly_abi_layout option" where
  "poly_classify_call_abi arch sig =
     (case arch of
        POLY_ABI_ARCH_X86 \<Rightarrow> poly_classify_x86_sysv_call_abi sig
      | POLY_ABI_ARCH_AARCH64 \<Rightarrow> poly_classify_aarch64_call_abi sig
      | POLY_ABI_ARCH_RISCV \<Rightarrow> poly_classify_riscv_lp64d_call_abi sig
      | POLY_ABI_ARCH_other _ \<Rightarrow> None)"

text \<open>The number of general argument registers, and the first one an argument may use.\<close>

definition gpr_limit :: "poly_abi_arch \<Rightarrow> nat" where
  "gpr_limit arch = (if arch = POLY_ABI_ARCH_X86 then 6 else 8)"

definition first_arg_gpr :: "poly_abi_arch \<Rightarrow> poly_function_sig \<Rightarrow> nat" where
  "first_arg_gpr arch sig =
     (if sig_flags sig AND POLY_FUNCTION_SIG_FLAG_RET_BY_SRET \<noteq> 0 \<and> arch \<noteq> POLY_ABI_ARCH_AARCH64
      then 1 else 0)"

lemma call_first_gpr:
  "x86_call.first_gpr sig = first_arg_gpr POLY_ABI_ARCH_X86 sig"
  "aarch64_call.first_gpr sig = first_arg_gpr POLY_ABI_ARCH_AARCH64 sig"
  "riscv_call.first_gpr sig = first_arg_gpr POLY_ABI_ARCH_RISCV sig"
  by (simp_all add: x86_call.first_gpr_def aarch64_call.first_gpr_def riscv_call.first_gpr_def
      ret_by_sret_def first_arg_gpr_def)

lemma classify_call_cases:
  assumes "poly_classify_call_abi arch sig = Some l"
  obtains "arch = POLY_ABI_ARCH_X86" "poly_classify_x86_sysv_call_abi sig = Some l"
  | "arch = POLY_ABI_ARCH_AARCH64" "poly_classify_aarch64_call_abi sig = Some l"
  | "arch = POLY_ABI_ARCH_RISCV" "poly_classify_riscv_lp64d_call_abi sig = Some l"
  using assms by (auto simp: poly_classify_call_abi_def split: poly_abi_arch.splits)

lemma call_wf_layout: "poly_classify_call_abi arch sig = Some l \<Longrightarrow> wf_layout l"
  by (erule classify_call_cases)
    (auto dest: x86_call.call_registers(1) aarch64_call.call_registers(1) riscv_call.call_registers(1))

lemma call_reg_nums:
  assumes "poly_classify_call_abi arch sig = Some l"
  shows "\<exists>g f. g \<le> gpr_limit arch \<and> f \<le> 8 \<and>
           reg_nums is_gpr_loc l = [first_arg_gpr arch sig..<g] \<and> reg_nums is_fpr_loc l = [0..<f]"
    and "\<forall>loc \<in> set (layout_locs l). is_gpr_loc loc \<or> is_fpr_loc loc \<or> is_stack_loc loc"
proof -
  show "\<exists>g f. g \<le> gpr_limit arch \<and> f \<le> 8 \<and>
           reg_nums is_gpr_loc l = [first_arg_gpr arch sig..<g] \<and> reg_nums is_fpr_loc l = [0..<f]"
    using assms
    by (cases rule: classify_call_cases)
      (use x86_call.call_registers(2)[of sig l] aarch64_call.call_registers(2)[of sig l]
        riscv_call.call_registers(2)[of sig l] in \<open>simp_all add: gpr_limit_def call_first_gpr[symmetric]\<close>)
  show "\<forall>loc \<in> set (layout_locs l). is_gpr_loc loc \<or> is_fpr_loc loc \<or> is_stack_loc loc"
    using assms
    by (cases rule: classify_call_cases)
      (use x86_call.call_registers(3)[of sig l] aarch64_call.call_registers(3)[of sig l]
        riscv_call.call_registers(3)[of sig l] in simp_all)
qed

lemma call_slots_ok:
  assumes "poly_classify_call_abi arch sig = Some l" and "small_sig sig"
  shows "slots_ok l (unat (lay_stack_arg_size l))"
  using assms(1)
  by (cases rule: classify_call_cases)
    (use assms(2) x86_call.call_stack aarch64_call.call_stack riscv_call.call_stack in auto)

text \<open>The register of the hidden result pointer.\<close>

definition sret_register :: "poly_abi_arch \<Rightarrow> u8" where
  "sret_register arch = (if arch = POLY_ABI_ARCH_AARCH64 then 8 else 0)"

lemma call_sret_loc:
  assumes "poly_classify_call_abi arch sig = Some l" and "ret_by_sret sig"
  shows "ret_list l = [poly_abi_loc_sret_ptr (sret_register arch) (ty_size (sig_ret sig))]"
    and "lay_uses_sret l"
  using assms(1)
  by (cases rule: classify_call_cases;
      use assms(2) x86_call.call_sret[of sig l] aarch64_call.call_sret[of sig l] riscv_call.call_sret[of sig l]
      in \<open>simp add: sret_register_def\<close>)+

text \<open>
  An integer, a double and a four-double aggregate, with the result returned
  through memory: the example the witnesses below evaluate.
\<close>

definition example_sig :: poly_function_sig where
  "example_sig = zero_sig\<lparr>
     sig_args := (sig_args zero_sig)
       [0 := poly_abi_scalar_type POLY_ABI_TYPE_I64,
        1 := poly_abi_scalar_type POLY_ABI_TYPE_F64,
        2 := poly_abi_hfa_type POLY_ABI_TYPE_F64 4],
     sig_arg_count := 3, sig_ret := poly_abi_scalar_type POLY_ABI_TYPE_I64,
     sig_flags := POLY_FUNCTION_SIG_FLAG_RET_BY_SRET\<rparr>"

lemma wf_example_sig: "wf_sig example_sig"
  by code_simp

lemma small_example_sig: "small_sig example_sig"
  by code_simp

subsection \<open>Registers\<close>

text \<open>
  C20. In every layout a classifier produces, the general registers used by the
  arguments are, in argument order, consecutive from the first available one
  (after the hidden result pointer, where that takes an argument register) and
  below the architecture's limit; the floating-point and vector registers are
  consecutive from 0 and below 8. So no register is given to two arguments and
  none is skipped. Every location is a register of one of these classes or a
  stack slot.
\<close>

theorem classify_call_registers:
  assumes "poly_classify_call_abi arch sig = Some l"
  shows "\<exists>g f. g \<le> gpr_limit arch \<and> f \<le> 8 \<and>
           reg_nums is_gpr_loc l = [first_arg_gpr arch sig..<g] \<and>
           reg_nums is_fpr_loc l = [0..<f] \<and>
           (\<forall>loc \<in> set (layout_locs l). is_gpr_loc loc \<or> is_fpr_loc loc \<or> is_stack_loc loc)"
  using call_reg_nums[OF assms] by blast

theorem classify_call_registers_witness:
  "\<exists>l. poly_classify_call_abi POLY_ABI_ARCH_X86 example_sig = Some l \<and>
     (\<exists>g f. g \<le> 6 \<and> f \<le> 8 \<and> reg_nums is_gpr_loc l = [1..<g] \<and> reg_nums is_fpr_loc l = [0..<f])"
proof -
  have "poly_classify_call_abi POLY_ABI_ARCH_X86 example_sig \<noteq> None" by code_simp
  then obtain l where l: "poly_classify_call_abi POLY_ABI_ARCH_X86 example_sig = Some l" by blast
  have g0: "first_arg_gpr POLY_ABI_ARCH_X86 example_sig = 1" by code_simp
  show ?thesis
    using l classify_call_registers[OF l] unfolding g0 by (auto simp: gpr_limit_def)
qed

subsection \<open>Stack slots\<close>

text \<open>
  C21. For arguments of at most 1000 bytes aligned to at most 16, the stack slots
  of a layout are 8-byte aligned, lie one after another without overlap, and end
  within the recorded stack argument area: the 16-bit cursor does not wrap.
\<close>

theorem classify_call_stack:
  assumes "poly_classify_call_abi arch sig = Some l" and "small_sig sig"
  shows "slots_ok l (unat (lay_stack_arg_size l))"
  using assms by (rule call_slots_ok)

theorem classify_call_stack_witness:
  "small_sig example_sig \<and>
   (\<exists>l. poly_classify_call_abi POLY_ABI_ARCH_X86 example_sig = Some l \<and>
        length (stack_slots l) = 1 \<and> slots_ok l (unat (lay_stack_arg_size l)))"
proof -
  have ev: "map_option (\<lambda>l. length (stack_slots l)) (poly_classify_call_abi POLY_ABI_ARCH_X86 example_sig) = Some 1"
    by code_simp
  then obtain l where l: "poly_classify_call_abi POLY_ABI_ARCH_X86 example_sig = Some l" by blast
  with ev show ?thesis using classify_call_stack[OF l small_example_sig] small_example_sig by simp
qed

subsection \<open>Totality\<close>

text \<open>
  C33. Every classifier accepts every well-formed signature (at most 16
  arguments, aggregates of at most four fields, homogeneous aggregates of one
  to four floating-point elements): the location arrays never fill up, so the
  only rejections are of malformed input or of an unknown architecture.
\<close>

theorem classify_call_total:
  assumes "wf_sig sig"
    and "arch \<in> {POLY_ABI_ARCH_X86, POLY_ABI_ARCH_AARCH64, POLY_ABI_ARCH_RISCV}"
  shows "\<exists>l. poly_classify_call_abi arch sig = Some l \<and> wf_layout l"
  using assms x86_call.call_total[OF assms(1)] aarch64_call.call_total[OF assms(1)]
    riscv_call.call_total[OF assms(1)] x86_call.call_registers(1) aarch64_call.call_registers(1)
    riscv_call.call_registers(1)
  by (auto simp: poly_classify_call_abi_def)

theorem classify_call_total_witness:
  "wf_sig example_sig \<and> (\<exists>l. poly_classify_call_abi POLY_ABI_ARCH_RISCV example_sig = Some l \<and> wf_layout l)"
  using classify_call_total[OF wf_example_sig, of POLY_ABI_ARCH_RISCV] wf_example_sig by simp

subsection \<open>The hidden result pointer\<close>

text \<open>
  When a signature asks for its result in memory, the only return location is
  the hidden pointer (register 8 on AArch64, the first argument register
  otherwise), and no argument is placed in that register.
\<close>

lemma classify_sret_reserved:
  assumes "poly_classify_call_abi arch sig = Some l" and "ret_by_sret sig"
  shows "lay_uses_sret l \<and>
    ret_list l = [poly_abi_loc_sret_ptr (sret_register arch) (ty_size (sig_ret sig))] \<and>
    (\<forall>loc \<in> set (layout_locs l). is_gpr_loc loc \<longrightarrow> loc_reg loc \<noteq> sret_register arch)"
proof -
  from call_reg_nums(1)[OF assms(1)] obtain g where g: "g \<le> gpr_limit arch"
    "reg_nums is_gpr_loc l = [first_arg_gpr arch sig..<g]" by blast
  have "loc_reg loc \<noteq> sret_register arch" if "loc \<in> set (layout_locs l)" "is_gpr_loc loc" for loc
  proof -
    have "unat (loc_reg loc) \<in> set (reg_nums is_gpr_loc l)"
      using that by (auto simp: reg_nums_def)
    then show ?thesis
      using g assms(2) by (auto simp: sret_register_def first_arg_gpr_def gpr_limit_def ret_by_sret_def split: if_splits)
  qed
  with call_sret_loc[OF assms] show ?thesis by blast
qed

definition large_result_sig :: poly_function_sig where
  "large_result_sig = zero_sig\<lparr>
     sig_args := (sig_args zero_sig)[0 := poly_abi_scalar_type POLY_ABI_TYPE_I64],
     sig_arg_count := 1,
     sig_ret := zero_type\<lparr>ty_kind := POLY_ABI_TYPE_AGGREGATE, ty_field_count := 4, ty_size := 32, ty_align := 8,
       ty_fields := map (\<lambda>n. \<lparr>fld_kind = POLY_ABI_TYPE_I64, fld_offset = 8 * of_nat n, fld_size = 8\<rparr>) [0..<4]\<rparr>\<rparr>"

definition sret_clash :: "poly_abi_arch \<Rightarrow> poly_function_sig \<Rightarrow> bool" where
  "sret_clash arch sig = (case poly_classify_call_abi arch sig of None \<Rightarrow> False | Some l \<Rightarrow>
     list_ex (\<lambda>r. loc_kind r = POLY_ABI_LOC_SRET_PTR \<and>
       list_ex (\<lambda>a. is_gpr_loc a \<and> loc_reg a = loc_reg r) (layout_locs l)) (ret_list l))"


end
