(* ===== verification/Abi_Signature.thy ===== *)
theory Abi_Signature
  imports Poly_Prelude
begin

text \<open>
  The ABI signature numbering of \<open>tools/include/polycpuid.h\<close>: signature slots,
  signature kinds and register maps, the map from a kind to the register
  exchange it selects, and the 64-bit control word that programs a slot.
\<close>

abbreviation (input) UINT32_MAX :: u32 where "UINT32_MAX \<equiv> 0xFFFFFFFF"

abbreviation (input) POLY_ABI_SIGNATURE_SLOT_EXCHANGE :: u32 where "POLY_ABI_SIGNATURE_SLOT_EXCHANGE \<equiv> 0"
abbreviation (input) POLY_ABI_SIGNATURE_SLOT_X86_SYSV_REGS :: u32 where "POLY_ABI_SIGNATURE_SLOT_X86_SYSV_REGS \<equiv> 1"
abbreviation (input) POLY_ABI_SIGNATURE_SLOT_X86_SYSV_REGS_I128 :: u32 where "POLY_ABI_SIGNATURE_SLOT_X86_SYSV_REGS_I128 \<equiv> 2"
abbreviation (input) POLY_ABI_SIGNATURE_SLOT_NATIVE_REGS :: u32 where "POLY_ABI_SIGNATURE_SLOT_NATIVE_REGS \<equiv> 3"
abbreviation (input) POLY_ABI_SIGNATURE_SLOT_NATIVE_REGS_I128 :: u32 where "POLY_ABI_SIGNATURE_SLOT_NATIVE_REGS_I128 \<equiv> 4"
abbreviation (input) POLY_ABI_SIGNATURE_SLOT_NATIVE_REGS_VEC128_U32 :: u32 where "POLY_ABI_SIGNATURE_SLOT_NATIVE_REGS_VEC128_U32 \<equiv> 5"
abbreviation (input) POLY_ABI_SIGNATURE_SLOT_NATIVE_REGS_COMPACT_U32_F32 :: u32 where "POLY_ABI_SIGNATURE_SLOT_NATIVE_REGS_COMPACT_U32_F32 \<equiv> 6"
abbreviation (input) POLY_ABI_SIGNATURE_SLOT_NATIVE_REGS_COMPACT_F32_U32 :: u32 where "POLY_ABI_SIGNATURE_SLOT_NATIVE_REGS_COMPACT_F32_U32 \<equiv> 7"
abbreviation (input) POLY_ABI_SIGNATURE_SLOT_NATIVE_REGS_FP64 :: u32 where "POLY_ABI_SIGNATURE_SLOT_NATIVE_REGS_FP64 \<equiv> 8"
abbreviation (input) POLY_ABI_SIGNATURE_SLOT_NATIVE_REGS_FP32 :: u32 where "POLY_ABI_SIGNATURE_SLOT_NATIVE_REGS_FP32 \<equiv> 9"
abbreviation (input) POLY_ABI_SIGNATURE_SLOT_SRET_X86_SYSV_REGS :: u32 where "POLY_ABI_SIGNATURE_SLOT_SRET_X86_SYSV_REGS \<equiv> 10"
abbreviation (input) POLY_ABI_SIGNATURE_SLOT_X86_SYSV_REGS_FP128_RET :: u32 where "POLY_ABI_SIGNATURE_SLOT_X86_SYSV_REGS_FP128_RET \<equiv> 11"
abbreviation (input) POLY_ABI_SIGNATURE_SLOT_NATIVE_SRET_REGS :: u32 where "POLY_ABI_SIGNATURE_SLOT_NATIVE_SRET_REGS \<equiv> 12"

abbreviation (input) POLY_ABI_SIGNATURE_KIND_EXCHANGE :: u32 where "POLY_ABI_SIGNATURE_KIND_EXCHANGE \<equiv> 0"
abbreviation (input) POLY_ABI_SIGNATURE_KIND_X86_SYSV :: u32 where "POLY_ABI_SIGNATURE_KIND_X86_SYSV \<equiv> 1"
abbreviation (input) POLY_ABI_SIGNATURE_KIND_X86_SYSV_REGS :: u32 where "POLY_ABI_SIGNATURE_KIND_X86_SYSV_REGS \<equiv> 2"
abbreviation (input) POLY_ABI_SIGNATURE_KIND_X86_SYSV_REGS_I128 :: u32 where "POLY_ABI_SIGNATURE_KIND_X86_SYSV_REGS_I128 \<equiv> 3"
abbreviation (input) POLY_ABI_SIGNATURE_KIND_NATIVE_REGS :: u32 where "POLY_ABI_SIGNATURE_KIND_NATIVE_REGS \<equiv> 4"
abbreviation (input) POLY_ABI_SIGNATURE_KIND_NATIVE_REGS_I128 :: u32 where "POLY_ABI_SIGNATURE_KIND_NATIVE_REGS_I128 \<equiv> 5"
abbreviation (input) POLY_ABI_SIGNATURE_KIND_NATIVE_REGS_VEC128_U32 :: u32 where "POLY_ABI_SIGNATURE_KIND_NATIVE_REGS_VEC128_U32 \<equiv> 6"
abbreviation (input) POLY_ABI_SIGNATURE_KIND_NATIVE_REGS_COMPACT_U32_F32 :: u32 where "POLY_ABI_SIGNATURE_KIND_NATIVE_REGS_COMPACT_U32_F32 \<equiv> 7"
abbreviation (input) POLY_ABI_SIGNATURE_KIND_NATIVE_REGS_COMPACT_F32_U32 :: u32 where "POLY_ABI_SIGNATURE_KIND_NATIVE_REGS_COMPACT_F32_U32 \<equiv> 8"
abbreviation (input) POLY_ABI_SIGNATURE_KIND_NATIVE_REGS_FP64 :: u32 where "POLY_ABI_SIGNATURE_KIND_NATIVE_REGS_FP64 \<equiv> 9"
abbreviation (input) POLY_ABI_SIGNATURE_KIND_NATIVE_REGS_FP32 :: u32 where "POLY_ABI_SIGNATURE_KIND_NATIVE_REGS_FP32 \<equiv> 10"
abbreviation (input) POLY_ABI_SIGNATURE_KIND_SRET_X86_SYSV_REGS :: u32 where "POLY_ABI_SIGNATURE_KIND_SRET_X86_SYSV_REGS \<equiv> 11"
abbreviation (input) POLY_ABI_SIGNATURE_KIND_X86_SYSV_REGS_FP128_RET :: u32 where "POLY_ABI_SIGNATURE_KIND_X86_SYSV_REGS_FP128_RET \<equiv> 12"
abbreviation (input) POLY_ABI_SIGNATURE_KIND_X86_SYSV_REGS_FPAIR32_RET :: u32 where "POLY_ABI_SIGNATURE_KIND_X86_SYSV_REGS_FPAIR32_RET \<equiv> 13"
abbreviation (input) POLY_ABI_SIGNATURE_KIND_X86_SYSV_REGS_FPAIR32_ARG :: u32 where "POLY_ABI_SIGNATURE_KIND_X86_SYSV_REGS_FPAIR32_ARG \<equiv> 14"
abbreviation (input) POLY_ABI_SIGNATURE_KIND_X86_SYSV_REGS_HETERO_U64_F64 :: u32 where "POLY_ABI_SIGNATURE_KIND_X86_SYSV_REGS_HETERO_U64_F64 \<equiv> 15"
abbreviation (input) POLY_ABI_SIGNATURE_KIND_X86_SYSV_REGS_HETERO_F64_U64 :: u32 where "POLY_ABI_SIGNATURE_KIND_X86_SYSV_REGS_HETERO_F64_U64 \<equiv> 16"
abbreviation (input) POLY_ABI_SIGNATURE_KIND_X86_SYSV_REGS_HETERO_U64_F32 :: u32 where "POLY_ABI_SIGNATURE_KIND_X86_SYSV_REGS_HETERO_U64_F32 \<equiv> 17"
abbreviation (input) POLY_ABI_SIGNATURE_KIND_X86_SYSV_REGS_HETERO_F32_U64 :: u32 where "POLY_ABI_SIGNATURE_KIND_X86_SYSV_REGS_HETERO_F32_U64 \<equiv> 18"
abbreviation (input) POLY_ABI_SIGNATURE_KIND_X86_SYSV_REGS_FPAIR64_RET :: u32 where "POLY_ABI_SIGNATURE_KIND_X86_SYSV_REGS_FPAIR64_RET \<equiv> 19"
abbreviation (input) POLY_ABI_SIGNATURE_KIND_X86_SYSV_REGS_FPAIR64_ARG :: u32 where "POLY_ABI_SIGNATURE_KIND_X86_SYSV_REGS_FPAIR64_ARG \<equiv> 20"
abbreviation (input) POLY_ABI_SIGNATURE_KIND_X86_SYSV_REGS_MIXED_U64_FP64 :: u32 where "POLY_ABI_SIGNATURE_KIND_X86_SYSV_REGS_MIXED_U64_FP64 \<equiv> 21"
abbreviation (input) POLY_ABI_SIGNATURE_KIND_X86_SYSV_REGS_AARCH64_HFA3_F32_RET :: u32 where "POLY_ABI_SIGNATURE_KIND_X86_SYSV_REGS_AARCH64_HFA3_F32_RET \<equiv> 22"
abbreviation (input) POLY_ABI_SIGNATURE_KIND_X86_SYSV_REGS_AARCH64_HFA4_F32_RET :: u32 where "POLY_ABI_SIGNATURE_KIND_X86_SYSV_REGS_AARCH64_HFA4_F32_RET \<equiv> 23"
abbreviation (input) POLY_ABI_SIGNATURE_KIND_X86_SYSV_REGS_AARCH64_HFA3_F32_ARG :: u32 where "POLY_ABI_SIGNATURE_KIND_X86_SYSV_REGS_AARCH64_HFA3_F32_ARG \<equiv> 24"
abbreviation (input) POLY_ABI_SIGNATURE_KIND_X86_SYSV_REGS_AARCH64_HFA4_F32_ARG :: u32 where "POLY_ABI_SIGNATURE_KIND_X86_SYSV_REGS_AARCH64_HFA4_F32_ARG \<equiv> 25"
abbreviation (input) POLY_ABI_SIGNATURE_KIND_NATIVE_SRET_REGS :: u32 where "POLY_ABI_SIGNATURE_KIND_NATIVE_SRET_REGS \<equiv> 26"
abbreviation (input) POLY_ABI_SIGNATURE_KIND_X86_SYSV_REGS_AARCH64_HFA3_F64_RET :: u32 where "POLY_ABI_SIGNATURE_KIND_X86_SYSV_REGS_AARCH64_HFA3_F64_RET \<equiv> 27"
abbreviation (input) POLY_ABI_SIGNATURE_KIND_X86_SYSV_REGS_AARCH64_HFA4_F64_RET :: u32 where "POLY_ABI_SIGNATURE_KIND_X86_SYSV_REGS_AARCH64_HFA4_F64_RET \<equiv> 28"

abbreviation (input) POLY_ABI_REGISTER_MAP_EXCHANGE :: u32 where "POLY_ABI_REGISTER_MAP_EXCHANGE \<equiv> 0"
abbreviation (input) POLY_ABI_REGISTER_MAP_X86_SYSV_TO_NATIVE :: u32 where "POLY_ABI_REGISTER_MAP_X86_SYSV_TO_NATIVE \<equiv> 1"
abbreviation (input) POLY_ABI_REGISTER_MAP_X86_SYSV_TO_NATIVE_I128 :: u32 where "POLY_ABI_REGISTER_MAP_X86_SYSV_TO_NATIVE_I128 \<equiv> 2"
abbreviation (input) POLY_ABI_REGISTER_MAP_NATIVE :: u32 where "POLY_ABI_REGISTER_MAP_NATIVE \<equiv> 3"
abbreviation (input) POLY_ABI_REGISTER_MAP_NATIVE_I128 :: u32 where "POLY_ABI_REGISTER_MAP_NATIVE_I128 \<equiv> 4"
abbreviation (input) POLY_ABI_REGISTER_MAP_NATIVE_VEC128_U32 :: u32 where "POLY_ABI_REGISTER_MAP_NATIVE_VEC128_U32 \<equiv> 5"
abbreviation (input) POLY_ABI_REGISTER_MAP_NATIVE_COMPACT_U32_F32 :: u32 where "POLY_ABI_REGISTER_MAP_NATIVE_COMPACT_U32_F32 \<equiv> 6"
abbreviation (input) POLY_ABI_REGISTER_MAP_NATIVE_COMPACT_F32_U32 :: u32 where "POLY_ABI_REGISTER_MAP_NATIVE_COMPACT_F32_U32 \<equiv> 7"
abbreviation (input) POLY_ABI_REGISTER_MAP_NATIVE_FP64 :: u32 where "POLY_ABI_REGISTER_MAP_NATIVE_FP64 \<equiv> 8"
abbreviation (input) POLY_ABI_REGISTER_MAP_NATIVE_FP32 :: u32 where "POLY_ABI_REGISTER_MAP_NATIVE_FP32 \<equiv> 9"
abbreviation (input) POLY_ABI_REGISTER_MAP_SRET_X86_SYSV_TO_NATIVE :: u32 where "POLY_ABI_REGISTER_MAP_SRET_X86_SYSV_TO_NATIVE \<equiv> 10"
abbreviation (input) POLY_ABI_REGISTER_MAP_X86_SYSV_TO_NATIVE_FP128_RET :: u32 where "POLY_ABI_REGISTER_MAP_X86_SYSV_TO_NATIVE_FP128_RET \<equiv> 11"
abbreviation (input) POLY_ABI_REGISTER_MAP_X86_SYSV_TO_NATIVE_FPAIR32_RET :: u32 where "POLY_ABI_REGISTER_MAP_X86_SYSV_TO_NATIVE_FPAIR32_RET \<equiv> 12"
abbreviation (input) POLY_ABI_REGISTER_MAP_X86_SYSV_TO_NATIVE_FPAIR32_ARG :: u32 where "POLY_ABI_REGISTER_MAP_X86_SYSV_TO_NATIVE_FPAIR32_ARG \<equiv> 13"
abbreviation (input) POLY_ABI_REGISTER_MAP_X86_SYSV_TO_NATIVE_HETERO_U64_F64 :: u32 where "POLY_ABI_REGISTER_MAP_X86_SYSV_TO_NATIVE_HETERO_U64_F64 \<equiv> 14"
abbreviation (input) POLY_ABI_REGISTER_MAP_X86_SYSV_TO_NATIVE_HETERO_F64_U64 :: u32 where "POLY_ABI_REGISTER_MAP_X86_SYSV_TO_NATIVE_HETERO_F64_U64 \<equiv> 15"
abbreviation (input) POLY_ABI_REGISTER_MAP_X86_SYSV_TO_NATIVE_HETERO_U64_F32 :: u32 where "POLY_ABI_REGISTER_MAP_X86_SYSV_TO_NATIVE_HETERO_U64_F32 \<equiv> 16"
abbreviation (input) POLY_ABI_REGISTER_MAP_X86_SYSV_TO_NATIVE_HETERO_F32_U64 :: u32 where "POLY_ABI_REGISTER_MAP_X86_SYSV_TO_NATIVE_HETERO_F32_U64 \<equiv> 17"
abbreviation (input) POLY_ABI_REGISTER_MAP_X86_SYSV_TO_NATIVE_FPAIR64_RET :: u32 where "POLY_ABI_REGISTER_MAP_X86_SYSV_TO_NATIVE_FPAIR64_RET \<equiv> 18"
abbreviation (input) POLY_ABI_REGISTER_MAP_X86_SYSV_TO_NATIVE_FPAIR64_ARG :: u32 where "POLY_ABI_REGISTER_MAP_X86_SYSV_TO_NATIVE_FPAIR64_ARG \<equiv> 19"
abbreviation (input) POLY_ABI_REGISTER_MAP_X86_SYSV_TO_NATIVE_MIXED_U64_FP64 :: u32 where "POLY_ABI_REGISTER_MAP_X86_SYSV_TO_NATIVE_MIXED_U64_FP64 \<equiv> 20"
abbreviation (input) POLY_ABI_REGISTER_MAP_X86_SYSV_TO_AARCH64_HFA3_F32_RET :: u32 where "POLY_ABI_REGISTER_MAP_X86_SYSV_TO_AARCH64_HFA3_F32_RET \<equiv> 21"
abbreviation (input) POLY_ABI_REGISTER_MAP_X86_SYSV_TO_AARCH64_HFA4_F32_RET :: u32 where "POLY_ABI_REGISTER_MAP_X86_SYSV_TO_AARCH64_HFA4_F32_RET \<equiv> 22"
abbreviation (input) POLY_ABI_REGISTER_MAP_X86_SYSV_TO_AARCH64_HFA3_F32_ARG :: u32 where "POLY_ABI_REGISTER_MAP_X86_SYSV_TO_AARCH64_HFA3_F32_ARG \<equiv> 23"
abbreviation (input) POLY_ABI_REGISTER_MAP_X86_SYSV_TO_AARCH64_HFA4_F32_ARG :: u32 where "POLY_ABI_REGISTER_MAP_X86_SYSV_TO_AARCH64_HFA4_F32_ARG \<equiv> 24"
abbreviation (input) POLY_ABI_REGISTER_MAP_NATIVE_SRET :: u32 where "POLY_ABI_REGISTER_MAP_NATIVE_SRET \<equiv> 25"
abbreviation (input) POLY_ABI_REGISTER_MAP_X86_SYSV_TO_AARCH64_HFA3_F64_RET :: u32 where "POLY_ABI_REGISTER_MAP_X86_SYSV_TO_AARCH64_HFA3_F64_RET \<equiv> 26"
abbreviation (input) POLY_ABI_REGISTER_MAP_X86_SYSV_TO_AARCH64_HFA4_F64_RET :: u32 where "POLY_ABI_REGISTER_MAP_X86_SYSV_TO_AARCH64_HFA4_F64_RET \<equiv> 27"

abbreviation (input) POLY_ABI_SIGNATURE_KIND_LAST_VALID :: u32 where
  "POLY_ABI_SIGNATURE_KIND_LAST_VALID \<equiv> POLY_ABI_SIGNATURE_KIND_X86_SYSV_REGS_AARCH64_HFA4_F64_RET"

definition POLY_ABI_REGISTER_MAP_FLAG_TLS_BASE :: u32 where
  "POLY_ABI_REGISTER_MAP_FLAG_TLS_BASE = push_bit 31 1"

definition poly_abi_signature_register_map :: "u32 \<Rightarrow> u32" where
  "poly_abi_signature_register_map kind =
     (if kind = POLY_ABI_SIGNATURE_KIND_EXCHANGE then POLY_ABI_REGISTER_MAP_EXCHANGE
      else if kind = POLY_ABI_SIGNATURE_KIND_X86_SYSV_REGS then POLY_ABI_REGISTER_MAP_X86_SYSV_TO_NATIVE
      else if kind = POLY_ABI_SIGNATURE_KIND_X86_SYSV_REGS_I128 then POLY_ABI_REGISTER_MAP_X86_SYSV_TO_NATIVE_I128
      else if kind = POLY_ABI_SIGNATURE_KIND_NATIVE_REGS then POLY_ABI_REGISTER_MAP_NATIVE
      else if kind = POLY_ABI_SIGNATURE_KIND_NATIVE_REGS_I128 then POLY_ABI_REGISTER_MAP_NATIVE_I128
      else if kind = POLY_ABI_SIGNATURE_KIND_NATIVE_REGS_VEC128_U32 then POLY_ABI_REGISTER_MAP_NATIVE_VEC128_U32
      else if kind = POLY_ABI_SIGNATURE_KIND_NATIVE_REGS_COMPACT_U32_F32 then POLY_ABI_REGISTER_MAP_NATIVE_COMPACT_U32_F32
      else if kind = POLY_ABI_SIGNATURE_KIND_NATIVE_REGS_COMPACT_F32_U32 then POLY_ABI_REGISTER_MAP_NATIVE_COMPACT_F32_U32
      else if kind = POLY_ABI_SIGNATURE_KIND_NATIVE_REGS_FP64 then POLY_ABI_REGISTER_MAP_NATIVE_FP64
      else if kind = POLY_ABI_SIGNATURE_KIND_NATIVE_REGS_FP32 then POLY_ABI_REGISTER_MAP_NATIVE_FP32
      else if kind = POLY_ABI_SIGNATURE_KIND_SRET_X86_SYSV_REGS then POLY_ABI_REGISTER_MAP_SRET_X86_SYSV_TO_NATIVE
      else if kind = POLY_ABI_SIGNATURE_KIND_X86_SYSV_REGS_FP128_RET then POLY_ABI_REGISTER_MAP_X86_SYSV_TO_NATIVE_FP128_RET
      else if kind = POLY_ABI_SIGNATURE_KIND_X86_SYSV_REGS_FPAIR32_RET then POLY_ABI_REGISTER_MAP_X86_SYSV_TO_NATIVE_FPAIR32_RET
      else if kind = POLY_ABI_SIGNATURE_KIND_X86_SYSV_REGS_FPAIR32_ARG then POLY_ABI_REGISTER_MAP_X86_SYSV_TO_NATIVE_FPAIR32_ARG
      else if kind = POLY_ABI_SIGNATURE_KIND_X86_SYSV_REGS_HETERO_U64_F64 then POLY_ABI_REGISTER_MAP_X86_SYSV_TO_NATIVE_HETERO_U64_F64
      else if kind = POLY_ABI_SIGNATURE_KIND_X86_SYSV_REGS_HETERO_F64_U64 then POLY_ABI_REGISTER_MAP_X86_SYSV_TO_NATIVE_HETERO_F64_U64
      else if kind = POLY_ABI_SIGNATURE_KIND_X86_SYSV_REGS_HETERO_U64_F32 then POLY_ABI_REGISTER_MAP_X86_SYSV_TO_NATIVE_HETERO_U64_F32
      else if kind = POLY_ABI_SIGNATURE_KIND_X86_SYSV_REGS_HETERO_F32_U64 then POLY_ABI_REGISTER_MAP_X86_SYSV_TO_NATIVE_HETERO_F32_U64
      else if kind = POLY_ABI_SIGNATURE_KIND_X86_SYSV_REGS_FPAIR64_RET then POLY_ABI_REGISTER_MAP_X86_SYSV_TO_NATIVE_FPAIR64_RET
      else if kind = POLY_ABI_SIGNATURE_KIND_X86_SYSV_REGS_FPAIR64_ARG then POLY_ABI_REGISTER_MAP_X86_SYSV_TO_NATIVE_FPAIR64_ARG
      else if kind = POLY_ABI_SIGNATURE_KIND_X86_SYSV_REGS_MIXED_U64_FP64 then POLY_ABI_REGISTER_MAP_X86_SYSV_TO_NATIVE_MIXED_U64_FP64
      else if kind = POLY_ABI_SIGNATURE_KIND_X86_SYSV_REGS_AARCH64_HFA3_F32_RET then POLY_ABI_REGISTER_MAP_X86_SYSV_TO_AARCH64_HFA3_F32_RET
      else if kind = POLY_ABI_SIGNATURE_KIND_X86_SYSV_REGS_AARCH64_HFA4_F32_RET then POLY_ABI_REGISTER_MAP_X86_SYSV_TO_AARCH64_HFA4_F32_RET
      else if kind = POLY_ABI_SIGNATURE_KIND_X86_SYSV_REGS_AARCH64_HFA3_F32_ARG then POLY_ABI_REGISTER_MAP_X86_SYSV_TO_AARCH64_HFA3_F32_ARG
      else if kind = POLY_ABI_SIGNATURE_KIND_X86_SYSV_REGS_AARCH64_HFA4_F32_ARG then POLY_ABI_REGISTER_MAP_X86_SYSV_TO_AARCH64_HFA4_F32_ARG
      else if kind = POLY_ABI_SIGNATURE_KIND_NATIVE_SRET_REGS then POLY_ABI_REGISTER_MAP_NATIVE_SRET
      else if kind = POLY_ABI_SIGNATURE_KIND_X86_SYSV_REGS_AARCH64_HFA3_F64_RET then POLY_ABI_REGISTER_MAP_X86_SYSV_TO_AARCH64_HFA3_F64_RET
      else if kind = POLY_ABI_SIGNATURE_KIND_X86_SYSV_REGS_AARCH64_HFA4_F64_RET then POLY_ABI_REGISTER_MAP_X86_SYSV_TO_AARCH64_HFA4_F64_RET
      else UINT32_MAX)"

definition poly_abi_signature_control_value :: "u64 \<Rightarrow> u64" where
  "poly_abi_signature_control_value kind =
     (if drop_bit 32 kind \<noteq> 0 then kind
      else
        (let register_map = poly_abi_signature_register_map (ucast kind) in
         if register_map = UINT32_MAX then kind
         else ucast (ucast kind :: u32) OR push_bit 32 (ucast register_map)))"

definition poly_abi_signature_control_value_with_flags :: "u64 \<Rightarrow> u32 \<Rightarrow> u64" where
  "poly_abi_signature_control_value_with_flags kind flags =
     (if drop_bit 32 kind \<noteq> 0 then kind OR push_bit 32 (ucast flags)
      else
        (let register_map = poly_abi_signature_register_map (ucast kind) in
         if register_map = UINT32_MAX then kind
         else ucast (ucast kind :: u32) OR push_bit 32 (ucast (register_map OR flags))))"

subsection \<open>The control word\<close>

text \<open>
  The kinds with a register map are 0 and 2 to 28; kind 1 is defined in the
  enumeration but has none. The map of kind \<open>k\<close> is \<open>k - 1\<close> (0 for 0).
\<close>

definition mapped_kind :: "u32 \<Rightarrow> bool" where
  "mapped_kind kind \<longleftrightarrow> kind \<le> POLY_ABI_SIGNATURE_KIND_LAST_VALID \<and> kind \<noteq> POLY_ABI_SIGNATURE_KIND_X86_SYSV"

lemma small_word_cases:
  fixes k :: u32
  assumes "k \<le> 28"
  shows "k \<in> (of_nat :: nat \<Rightarrow> u32) ` set [0..<29]"
proof -
  have "unat k < 29" using assms by (simp add: word_le_nat_alt)
  moreover have "k = of_nat (unat k)" by simp
  ultimately show ?thesis by (metis atLeastLessThan_upt atLeastLessThan_iff image_eqI le0)
qed

lemma register_map_closed:
  "poly_abi_signature_register_map k =
     (if mapped_kind k then (if k = 0 then 0 else k - 1) else UINT32_MAX)"
proof (cases "k \<le> 28")
  case True
  then have "k \<in> (of_nat :: nat \<Rightarrow> u32) ` set [0..<29]" by (rule small_word_cases)
  then show ?thesis by (auto simp: upt_rec poly_abi_signature_register_map_def mapped_kind_def)
next
  case False
  then show ?thesis by (auto simp: poly_abi_signature_register_map_def mapped_kind_def)
qed

lemma control_value_halves:
  assumes "high_half w = 0"
  shows "low_half (poly_abi_signature_control_value w) = low_half w \<and>
         high_half (poly_abi_signature_control_value w) =
           (if mapped_kind (low_half w) \<and> low_half w \<noteq> 0 then low_half w - 1 else 0)"
proof -
  have ne: "k - 1 \<noteq> (UINT32_MAX :: u32)" if "mapped_kind k" "k \<noteq> 0" for k :: u32
    using that by (auto simp: mapped_kind_def)
  show ?thesis
  using assms ne[of "low_half w"]
    unfolding poly_abi_signature_control_value_def Let_def high_half_zero register_map_closed low_half_def[symmetric]
    by (auto simp: halves_of_pair)
qed

lemma control_value_idem:
  "poly_abi_signature_control_value (poly_abi_signature_control_value w) = poly_abi_signature_control_value w"
proof (cases "high_half w = 0")
  case True
  note h = control_value_halves[OF True]
  show ?thesis
  proof (cases "high_half (poly_abi_signature_control_value w) = 0")
    case z: True
    show ?thesis using control_value_halves[OF z] h z by (auto intro!: halves_eqI)
  next
    case False
    then show ?thesis by (simp add: poly_abi_signature_control_value_def[of "poly_abi_signature_control_value w"] high_half_zero)
  qed
next
  case False
  then show ?thesis by (simp add: poly_abi_signature_control_value_def high_half_zero)
qed

lemma with_flags_zero: "poly_abi_signature_control_value_with_flags w 0 = poly_abi_signature_control_value w"
  by (simp add: poly_abi_signature_control_value_with_flags_def poly_abi_signature_control_value_def Let_def)

lemma register_map_inj:
  assumes "mapped_kind j" and "mapped_kind k" and "j \<noteq> 0" and "k \<noteq> 0"
    and "poly_abi_signature_register_map j = poly_abi_signature_register_map k"
  shows "j = k"
  using assms by (simp add: register_map_closed)

text \<open>
  Completing a signature control word never changes its low half, the
  signature kind; a word whose high half is set is left alone, and otherwise
  the high half becomes the register map of the kind where it has one. Doing it
  twice is the same as doing it once, and no flags is the plain completion.
\<close>

lemma control_value_spec:
  "low_half (poly_abi_signature_control_value w) = low_half w \<and>
   high_half (poly_abi_signature_control_value w) =
     (if high_half w \<noteq> 0 then high_half w
      else if mapped_kind (low_half w) \<and> low_half w \<noteq> 0 then low_half w - 1 else 0) \<and>
   poly_abi_signature_control_value (poly_abi_signature_control_value w) = poly_abi_signature_control_value w \<and>
   poly_abi_signature_control_value_with_flags w 0 = poly_abi_signature_control_value w"
proof (cases "high_half w = 0")
  case True
  then show ?thesis by (simp add: control_value_halves control_value_idem with_flags_zero)
next
  case False
  then have "poly_abi_signature_control_value w = w"
    by (simp add: poly_abi_signature_control_value_def high_half_zero)
  with False show ?thesis by (simp add: with_flags_zero)
qed

end
