(* ===== verification/Abi_Descriptor.thy ===== *)
theory Abi_Descriptor
  imports Abi_Classify Abi_Signature
begin

text \<open>
  The bridge descriptors of \<open>tools/runtime/abi/poly_abi_descriptor.c\<close>: each of
  the 21 bridge kinds of \<open>poly_process_bridge_kind.h\<close> stands for a function
  signature, a signature kind of the hardware and a name in the ELF metadata.
\<close>

datatype poly_process_bridge_kind =
    POLY_PROCESS_BRIDGE_DEFAULT
  | POLY_PROCESS_BRIDGE_VEC128_U32
  | POLY_PROCESS_BRIDGE_COMPACT_U32_F32
  | POLY_PROCESS_BRIDGE_COMPACT_F32_U32
  | POLY_PROCESS_BRIDGE_U64_STACK9
  | POLY_PROCESS_BRIDGE_FP64
  | POLY_PROCESS_BRIDGE_FP32
  | POLY_PROCESS_BRIDGE_AARCH64_HFA3_F32_RET
  | POLY_PROCESS_BRIDGE_AARCH64_HFA4_F32_RET
  | POLY_PROCESS_BRIDGE_FPAIR32_ARG
  | POLY_PROCESS_BRIDGE_FPAIR64_ARG
  | POLY_PROCESS_BRIDGE_FPAIR32_RET
  | POLY_PROCESS_BRIDGE_FPAIR64_RET
  | POLY_PROCESS_BRIDGE_AARCH64_HFA3_F32_ARG
  | POLY_PROCESS_BRIDGE_AARCH64_HFA4_F32_ARG
  | POLY_PROCESS_BRIDGE_SRET_X86_SYSV
  | POLY_PROCESS_BRIDGE_NATIVE_SRET
  | POLY_PROCESS_BRIDGE_AARCH64_HFA3_F64_RET
  | POLY_PROCESS_BRIDGE_AARCH64_HFA4_F64_RET
  | POLY_PROCESS_BRIDGE_AARCH64_HFA3_F64_ARG
  | POLY_PROCESS_BRIDGE_AARCH64_HFA4_F64_ARG
  | POLY_PROCESS_BRIDGE_other int

definition aggregate2 :: "poly_abi_type_kind \<Rightarrow> poly_abi_type_kind \<Rightarrow> poly_abi_type" where
  "aggregate2 first second =
     (let first_type = poly_abi_scalar_type first; second_type = poly_abi_scalar_type second in
      zero_type\<lparr>
        ty_kind := POLY_ABI_TYPE_AGGREGATE,
        ty_field_count := 2,
        ty_size := ty_size first_type + ty_size second_type,
        ty_align := (if ty_align first_type > ty_align second_type
                     then ty_align first_type else ty_align second_type),
        ty_fields := (ty_fields zero_type)
          [0 := \<lparr>fld_kind = first, fld_offset = 0, fld_size = ty_size first_type\<rparr>,
           1 := \<lparr>fld_kind = second, fld_offset = ty_size first_type, fld_size = ty_size second_type\<rparr>]\<rparr>)"

definition aggregate4 :: "poly_abi_type_kind \<Rightarrow> poly_abi_type" where
  "aggregate4 kind =
     (let field_type = poly_abi_scalar_type kind in
      zero_type\<lparr>
        ty_kind := POLY_ABI_TYPE_AGGREGATE,
        ty_field_count := 4,
        ty_size := ty_size field_type * 4,
        ty_align := ty_align field_type,
        ty_fields := map (\<lambda>n. \<lparr>fld_kind = kind, fld_offset = of_nat n * ty_size field_type,
                                 fld_size = ty_size field_type\<rparr>) [0..<4]\<rparr>)"

definition set_void_ret :: "poly_function_sig \<Rightarrow> poly_function_sig" where
  "set_void_ret sig = sig\<lparr>sig_ret := poly_abi_scalar_type POLY_ABI_TYPE_VOID\<rparr>"

definition set_scalar_ret :: "poly_abi_type_kind \<Rightarrow> poly_function_sig \<Rightarrow> poly_function_sig" where
  "set_scalar_ret kind sig = sig\<lparr>sig_ret := poly_abi_scalar_type kind\<rparr>"

text \<open>\<open>sig->args[sig->arg_count++] = type\<close>\<close>

definition add_arg :: "poly_abi_type \<Rightarrow> poly_function_sig \<Rightarrow> poly_function_sig" where
  "add_arg type sig = sig\<lparr>sig_args := (sig_args sig)[sig_arg_count sig := type],
                         sig_arg_count := sig_arg_count sig + 1\<rparr>"

definition add_scalar_arg :: "poly_abi_type_kind \<Rightarrow> poly_function_sig \<Rightarrow> poly_function_sig" where
  "add_scalar_arg kind sig = add_arg (poly_abi_scalar_type kind) sig"

definition set_hfa_ret :: "poly_abi_type_kind \<Rightarrow> u8 \<Rightarrow> poly_function_sig \<Rightarrow> poly_function_sig" where
  "set_hfa_ret elem_kind count sig =
     (fold (\<lambda>n. add_scalar_arg elem_kind) [0..<unat count] sig)
       \<lparr>sig_ret := poly_abi_hfa_type elem_kind count\<rparr>"

definition set_hfa_arg :: "poly_abi_type_kind \<Rightarrow> u8 \<Rightarrow> poly_function_sig \<Rightarrow> poly_function_sig" where
  "set_hfa_arg elem_kind count sig =
     set_scalar_ret elem_kind (add_scalar_arg elem_kind (add_arg (poly_abi_hfa_type elem_kind count) sig))"

definition set_fpair_arg :: "poly_abi_type_kind \<Rightarrow> poly_function_sig \<Rightarrow> poly_function_sig" where
  "set_fpair_arg elem_kind sig =
     set_scalar_ret elem_kind (add_scalar_arg elem_kind (add_arg (aggregate2 elem_kind elem_kind) sig))"

definition set_fpair_ret :: "poly_abi_type_kind \<Rightarrow> poly_function_sig \<Rightarrow> poly_function_sig" where
  "set_fpair_ret elem_kind sig =
     (add_scalar_arg elem_kind (add_scalar_arg elem_kind (add_scalar_arg elem_kind sig)))
       \<lparr>sig_ret := aggregate2 elem_kind elem_kind\<rparr>"

definition set_sret :: "u32 \<Rightarrow> poly_function_sig \<Rightarrow> poly_function_sig" where
  "set_sret flags sig =
     (let sig = add_scalar_arg POLY_ABI_TYPE_I64 (add_scalar_arg POLY_ABI_TYPE_I64
                  (add_scalar_arg POLY_ABI_TYPE_I64 sig))
      in sig\<lparr>sig_ret := aggregate4 POLY_ABI_TYPE_I64, sig_flags := sig_flags sig OR flags\<rparr>)"

definition poly_abi_descriptor_decode_kind :: "poly_process_bridge_kind \<Rightarrow> poly_function_sig option" where
  "poly_abi_descriptor_decode_kind bridge_kind =
     (let sig = set_void_ret zero_sig in
      case bridge_kind of
        POLY_PROCESS_BRIDGE_DEFAULT \<Rightarrow>
          Some (set_scalar_ret POLY_ABI_TYPE_I64
            (sig\<lparr>sig_flags := sig_flags sig OR POLY_FUNCTION_SIG_FLAG_OPAQUE_DESCRIPTOR\<rparr>))
      | POLY_PROCESS_BRIDGE_VEC128_U32 \<Rightarrow>
          Some (set_scalar_ret POLY_ABI_TYPE_VEC128
            (add_scalar_arg POLY_ABI_TYPE_VEC128 (add_scalar_arg POLY_ABI_TYPE_VEC128 sig)))
      | POLY_PROCESS_BRIDGE_COMPACT_U32_F32 \<Rightarrow>
          Some ((add_scalar_arg POLY_ABI_TYPE_I32
              (add_arg (aggregate2 POLY_ABI_TYPE_I32 POLY_ABI_TYPE_F32) sig))
            \<lparr>sig_ret := aggregate2 POLY_ABI_TYPE_I32 POLY_ABI_TYPE_F32\<rparr>)
      | POLY_PROCESS_BRIDGE_COMPACT_F32_U32 \<Rightarrow>
          Some ((add_scalar_arg POLY_ABI_TYPE_I32
              (add_arg (aggregate2 POLY_ABI_TYPE_F32 POLY_ABI_TYPE_I32) sig))
            \<lparr>sig_ret := aggregate2 POLY_ABI_TYPE_F32 POLY_ABI_TYPE_I32\<rparr>)
      | POLY_PROCESS_BRIDGE_U64_STACK9 \<Rightarrow>
          Some (set_scalar_ret POLY_ABI_TYPE_I64
            (fold (\<lambda>n. add_scalar_arg POLY_ABI_TYPE_I64) [0..<9] sig))
      | POLY_PROCESS_BRIDGE_FP64 \<Rightarrow> Some (set_scalar_ret POLY_ABI_TYPE_F64 sig)
      | POLY_PROCESS_BRIDGE_FP32 \<Rightarrow> Some (set_scalar_ret POLY_ABI_TYPE_F32 sig)
      | POLY_PROCESS_BRIDGE_AARCH64_HFA3_F32_RET \<Rightarrow> Some (set_hfa_ret POLY_ABI_TYPE_F32 3 sig)
      | POLY_PROCESS_BRIDGE_AARCH64_HFA4_F32_RET \<Rightarrow> Some (set_hfa_ret POLY_ABI_TYPE_F32 4 sig)
      | POLY_PROCESS_BRIDGE_FPAIR32_ARG \<Rightarrow> Some (set_fpair_arg POLY_ABI_TYPE_F32 sig)
      | POLY_PROCESS_BRIDGE_FPAIR64_ARG \<Rightarrow> Some (set_fpair_arg POLY_ABI_TYPE_F64 sig)
      | POLY_PROCESS_BRIDGE_FPAIR32_RET \<Rightarrow> Some (set_fpair_ret POLY_ABI_TYPE_F32 sig)
      | POLY_PROCESS_BRIDGE_FPAIR64_RET \<Rightarrow> Some (set_fpair_ret POLY_ABI_TYPE_F64 sig)
      | POLY_PROCESS_BRIDGE_AARCH64_HFA3_F32_ARG \<Rightarrow> Some (set_hfa_arg POLY_ABI_TYPE_F32 3 sig)
      | POLY_PROCESS_BRIDGE_AARCH64_HFA4_F32_ARG \<Rightarrow> Some (set_hfa_arg POLY_ABI_TYPE_F32 4 sig)
      | POLY_PROCESS_BRIDGE_SRET_X86_SYSV \<Rightarrow> Some (set_sret POLY_FUNCTION_SIG_FLAG_RET_BY_SRET sig)
      | POLY_PROCESS_BRIDGE_NATIVE_SRET \<Rightarrow>
          Some (set_sret (POLY_FUNCTION_SIG_FLAG_RET_BY_SRET OR POLY_FUNCTION_SIG_FLAG_NATIVE_SRET) sig)
      | POLY_PROCESS_BRIDGE_AARCH64_HFA3_F64_RET \<Rightarrow> Some (set_hfa_ret POLY_ABI_TYPE_F64 3 sig)
      | POLY_PROCESS_BRIDGE_AARCH64_HFA4_F64_RET \<Rightarrow> Some (set_hfa_ret POLY_ABI_TYPE_F64 4 sig)
      | POLY_PROCESS_BRIDGE_AARCH64_HFA3_F64_ARG \<Rightarrow> Some (set_hfa_arg POLY_ABI_TYPE_F64 3 sig)
      | POLY_PROCESS_BRIDGE_AARCH64_HFA4_F64_ARG \<Rightarrow> Some (set_hfa_arg POLY_ABI_TYPE_F64 4 sig)
      | POLY_PROCESS_BRIDGE_other _ \<Rightarrow> None)"

definition poly_abi_descriptor_signature_kind :: "poly_process_bridge_kind \<Rightarrow> u32" where
  "poly_abi_descriptor_signature_kind bridge_kind =
     (case bridge_kind of
        POLY_PROCESS_BRIDGE_VEC128_U32 \<Rightarrow> POLY_ABI_SIGNATURE_KIND_NATIVE_REGS_VEC128_U32
      | POLY_PROCESS_BRIDGE_COMPACT_U32_F32 \<Rightarrow> POLY_ABI_SIGNATURE_KIND_NATIVE_REGS_COMPACT_U32_F32
      | POLY_PROCESS_BRIDGE_COMPACT_F32_U32 \<Rightarrow> POLY_ABI_SIGNATURE_KIND_NATIVE_REGS_COMPACT_F32_U32
      | POLY_PROCESS_BRIDGE_FP64 \<Rightarrow> POLY_ABI_SIGNATURE_KIND_NATIVE_REGS_FP64
      | POLY_PROCESS_BRIDGE_FP32 \<Rightarrow> POLY_ABI_SIGNATURE_KIND_NATIVE_REGS_FP32
      | POLY_PROCESS_BRIDGE_AARCH64_HFA3_F32_RET \<Rightarrow> POLY_ABI_SIGNATURE_KIND_X86_SYSV_REGS_AARCH64_HFA3_F32_RET
      | POLY_PROCESS_BRIDGE_AARCH64_HFA4_F32_RET \<Rightarrow> POLY_ABI_SIGNATURE_KIND_X86_SYSV_REGS_AARCH64_HFA4_F32_RET
      | POLY_PROCESS_BRIDGE_FPAIR32_ARG \<Rightarrow> POLY_ABI_SIGNATURE_KIND_X86_SYSV_REGS_FPAIR32_ARG
      | POLY_PROCESS_BRIDGE_FPAIR64_ARG \<Rightarrow> POLY_ABI_SIGNATURE_KIND_X86_SYSV_REGS_FPAIR64_ARG
      | POLY_PROCESS_BRIDGE_FPAIR32_RET \<Rightarrow> POLY_ABI_SIGNATURE_KIND_X86_SYSV_REGS_FPAIR32_RET
      | POLY_PROCESS_BRIDGE_FPAIR64_RET \<Rightarrow> POLY_ABI_SIGNATURE_KIND_X86_SYSV_REGS_FPAIR64_RET
      | POLY_PROCESS_BRIDGE_AARCH64_HFA3_F32_ARG \<Rightarrow> POLY_ABI_SIGNATURE_KIND_X86_SYSV_REGS_AARCH64_HFA3_F32_ARG
      | POLY_PROCESS_BRIDGE_AARCH64_HFA4_F32_ARG \<Rightarrow> POLY_ABI_SIGNATURE_KIND_X86_SYSV_REGS_AARCH64_HFA4_F32_ARG
      | POLY_PROCESS_BRIDGE_SRET_X86_SYSV \<Rightarrow> POLY_ABI_SIGNATURE_KIND_SRET_X86_SYSV_REGS
      | POLY_PROCESS_BRIDGE_NATIVE_SRET \<Rightarrow> POLY_ABI_SIGNATURE_KIND_NATIVE_SRET_REGS
      | POLY_PROCESS_BRIDGE_AARCH64_HFA3_F64_RET \<Rightarrow> POLY_ABI_SIGNATURE_KIND_X86_SYSV_REGS_AARCH64_HFA3_F64_RET
      | POLY_PROCESS_BRIDGE_AARCH64_HFA4_F64_RET \<Rightarrow> POLY_ABI_SIGNATURE_KIND_X86_SYSV_REGS_AARCH64_HFA4_F64_RET
      | POLY_PROCESS_BRIDGE_DEFAULT \<Rightarrow> POLY_ABI_SIGNATURE_KIND_NATIVE_REGS
      | POLY_PROCESS_BRIDGE_U64_STACK9 \<Rightarrow> POLY_ABI_SIGNATURE_KIND_NATIVE_REGS
      | _ \<Rightarrow> UINT32_MAX)"

definition poly_abi_descriptor_kind_name :: "poly_process_bridge_kind \<Rightarrow> string option" where
  "poly_abi_descriptor_kind_name bridge_kind =
     (case bridge_kind of
        POLY_PROCESS_BRIDGE_DEFAULT \<Rightarrow> Some ''default''
      | POLY_PROCESS_BRIDGE_VEC128_U32 \<Rightarrow> Some ''vec128_u32''
      | POLY_PROCESS_BRIDGE_COMPACT_U32_F32 \<Rightarrow> Some ''compact_u32_f32''
      | POLY_PROCESS_BRIDGE_COMPACT_F32_U32 \<Rightarrow> Some ''compact_f32_u32''
      | POLY_PROCESS_BRIDGE_U64_STACK9 \<Rightarrow> Some ''u64_stack9''
      | POLY_PROCESS_BRIDGE_FP64 \<Rightarrow> Some ''fp64''
      | POLY_PROCESS_BRIDGE_FP32 \<Rightarrow> Some ''fp32''
      | POLY_PROCESS_BRIDGE_AARCH64_HFA3_F32_RET \<Rightarrow> Some ''aarch64_hfa3_f32_ret''
      | POLY_PROCESS_BRIDGE_AARCH64_HFA4_F32_RET \<Rightarrow> Some ''aarch64_hfa4_f32_ret''
      | POLY_PROCESS_BRIDGE_FPAIR32_ARG \<Rightarrow> Some ''fpair32_arg''
      | POLY_PROCESS_BRIDGE_FPAIR64_ARG \<Rightarrow> Some ''fpair64_arg''
      | POLY_PROCESS_BRIDGE_FPAIR32_RET \<Rightarrow> Some ''fpair32_ret''
      | POLY_PROCESS_BRIDGE_FPAIR64_RET \<Rightarrow> Some ''fpair64_ret''
      | POLY_PROCESS_BRIDGE_AARCH64_HFA3_F32_ARG \<Rightarrow> Some ''aarch64_hfa3_f32_arg''
      | POLY_PROCESS_BRIDGE_AARCH64_HFA4_F32_ARG \<Rightarrow> Some ''aarch64_hfa4_f32_arg''
      | POLY_PROCESS_BRIDGE_SRET_X86_SYSV \<Rightarrow> Some ''sret_x86_sysv''
      | POLY_PROCESS_BRIDGE_NATIVE_SRET \<Rightarrow> Some ''native_sret''
      | POLY_PROCESS_BRIDGE_AARCH64_HFA3_F64_RET \<Rightarrow> Some ''aarch64_hfa3_f64_ret''
      | POLY_PROCESS_BRIDGE_AARCH64_HFA4_F64_RET \<Rightarrow> Some ''aarch64_hfa4_f64_ret''
      | POLY_PROCESS_BRIDGE_AARCH64_HFA3_F64_ARG \<Rightarrow> Some ''aarch64_hfa3_f64_arg''
      | POLY_PROCESS_BRIDGE_AARCH64_HFA4_F64_ARG \<Rightarrow> Some ''aarch64_hfa4_f64_arg''
      | POLY_PROCESS_BRIDGE_other _ \<Rightarrow> None)"

definition all_bridge_kinds :: "poly_process_bridge_kind list" where
  "all_bridge_kinds =
     [POLY_PROCESS_BRIDGE_DEFAULT,
      POLY_PROCESS_BRIDGE_VEC128_U32,
      POLY_PROCESS_BRIDGE_COMPACT_U32_F32,
      POLY_PROCESS_BRIDGE_COMPACT_F32_U32,
      POLY_PROCESS_BRIDGE_U64_STACK9,
      POLY_PROCESS_BRIDGE_FP64,
      POLY_PROCESS_BRIDGE_FP32,
      POLY_PROCESS_BRIDGE_AARCH64_HFA3_F32_RET,
      POLY_PROCESS_BRIDGE_AARCH64_HFA4_F32_RET,
      POLY_PROCESS_BRIDGE_FPAIR32_ARG,
      POLY_PROCESS_BRIDGE_FPAIR64_ARG,
      POLY_PROCESS_BRIDGE_FPAIR32_RET,
      POLY_PROCESS_BRIDGE_FPAIR64_RET,
      POLY_PROCESS_BRIDGE_AARCH64_HFA3_F32_ARG,
      POLY_PROCESS_BRIDGE_AARCH64_HFA4_F32_ARG,
      POLY_PROCESS_BRIDGE_SRET_X86_SYSV,
      POLY_PROCESS_BRIDGE_NATIVE_SRET,
      POLY_PROCESS_BRIDGE_AARCH64_HFA3_F64_RET,
      POLY_PROCESS_BRIDGE_AARCH64_HFA4_F64_RET,
      POLY_PROCESS_BRIDGE_AARCH64_HFA3_F64_ARG,
      POLY_PROCESS_BRIDGE_AARCH64_HFA4_F64_ARG]"


text \<open>
  Every signature kind a descriptor names has a register map. The only
  defined bridge kinds without a signature kind are the three- and four-element
  double aggregates passed as arguments.
\<close>

lemma descriptor_signature_kind_mapped:
  "mapped_kind (poly_abi_descriptor_signature_kind k) \<noteq>
     (poly_abi_descriptor_signature_kind k = UINT32_MAX) \<and>
   (poly_abi_descriptor_signature_kind k = UINT32_MAX) =
     (k \<in> {POLY_PROCESS_BRIDGE_AARCH64_HFA3_F64_ARG, POLY_PROCESS_BRIDGE_AARCH64_HFA4_F64_ARG} \<or>
      (\<exists>n. k = POLY_PROCESS_BRIDGE_other n))"
  by (cases k) (simp_all add: poly_abi_descriptor_signature_kind_def mapped_kind_def)

end
