(* ===== verification/Bridge_Plan.thy ===== *)
theory Bridge_Plan
  imports Abi_Descriptor
begin

text \<open>
  The bridge planner, \<open>tools/runtime/bridge/poly_bridge_plan.c\<close>: from the layouts
  of one signature under two ABIs it builds the list of moves that carries the
  arguments over, performs the call and brings the results back.
\<close>

datatype poly_bridge_move_kind =
    POLY_BRIDGE_MOVE_REG_TO_REG
  | POLY_BRIDGE_MOVE_REG_TO_STACK
  | POLY_BRIDGE_MOVE_STACK_TO_REG
  | POLY_BRIDGE_MOVE_STACK_TO_STACK
  | POLY_BRIDGE_MOVE_LOAD_IMM
  | POLY_BRIDGE_MOVE_SAVE_CALLER_REG
  | POLY_BRIDGE_MOVE_RESTORE_CALLER_REG
  | POLY_BRIDGE_MOVE_SET_STATE_KEY
  | POLY_BRIDGE_MOVE_SET_SIGNATURE_SLOT
  | POLY_BRIDGE_MOVE_PCALL
  | POLY_BRIDGE_MOVE_other int

definition POLY_BRIDGE_PLAN_MAX_OPS :: nat where
  "POLY_BRIDGE_PLAN_MAX_OPS = 128"

definition POLY_BRIDGE_PLAN_NO_SIGNATURE_SLOT :: u32 where
  "POLY_BRIDGE_PLAN_NO_SIGNATURE_SLOT = UINT32_MAX"

record poly_bridge_op =
  op_kind :: poly_bridge_move_kind
  op_src :: poly_abi_loc
  op_dst :: poly_abi_loc
  op_imm :: u64

record poly_bridge_plan =
  plan_caller :: poly_abi_arch
  plan_callee :: poly_abi_arch
  plan_ops :: "poly_bridge_op list"
  plan_op_count :: nat
  plan_signature_slot :: u32
  plan_needs_x86_tls_wrapper :: bool
  plan_needs_state_key :: bool

definition zero_op :: poly_bridge_op where
  "zero_op = \<lparr>op_kind = POLY_BRIDGE_MOVE_REG_TO_REG, op_src = poly_abi_loc_none,
              op_dst = poly_abi_loc_none, op_imm = 0\<rparr>"

definition poly_bridge_plan_init :: "poly_abi_arch \<Rightarrow> poly_abi_arch \<Rightarrow> poly_bridge_plan" where
  "poly_bridge_plan_init caller callee =
     \<lparr>plan_caller = caller, plan_callee = callee,
      plan_ops = replicate POLY_BRIDGE_PLAN_MAX_OPS zero_op, plan_op_count = 0,
      plan_signature_slot = POLY_BRIDGE_PLAN_NO_SIGNATURE_SLOT,
      plan_needs_x86_tls_wrapper = False, plan_needs_state_key = False\<rparr>"

definition valid_arch :: "poly_abi_arch \<Rightarrow> bool" where
  "valid_arch arch \<longleftrightarrow>
     arch = POLY_ABI_ARCH_X86 \<or> arch = POLY_ABI_ARCH_AARCH64 \<or> arch = POLY_ABI_ARCH_RISCV"

definition valid_loc :: "poly_abi_loc \<Rightarrow> bool" where
  "valid_loc loc =
     (case loc_kind loc of
        POLY_ABI_LOC_NONE \<Rightarrow> loc_reg loc = 0 \<and> loc_stack_offset loc = 0 \<and> loc_size loc = 0
      | POLY_ABI_LOC_GPR \<Rightarrow> loc_size loc \<noteq> 0
      | POLY_ABI_LOC_FPR \<Rightarrow> loc_size loc \<noteq> 0
      | POLY_ABI_LOC_VEC \<Rightarrow> loc_size loc \<noteq> 0
      | POLY_ABI_LOC_SRET_PTR \<Rightarrow> loc_size loc \<noteq> 0
      | POLY_ABI_LOC_STACK \<Rightarrow> loc_size loc \<noteq> 0
      | POLY_ABI_LOC_other _ \<Rightarrow> False)"

definition valid_op_locs :: "poly_bridge_op \<Rightarrow> bool" where
  "valid_op_locs op =
     (let src = loc_kind (op_src op); dst = loc_kind (op_dst op) in
      case op_kind op of
        POLY_BRIDGE_MOVE_REG_TO_REG \<Rightarrow>
          src \<noteq> POLY_ABI_LOC_STACK \<and> src \<noteq> POLY_ABI_LOC_NONE \<and>
          dst \<noteq> POLY_ABI_LOC_STACK \<and> dst \<noteq> POLY_ABI_LOC_NONE
      | POLY_BRIDGE_MOVE_REG_TO_STACK \<Rightarrow>
          src \<noteq> POLY_ABI_LOC_STACK \<and> src \<noteq> POLY_ABI_LOC_NONE \<and> dst = POLY_ABI_LOC_STACK
      | POLY_BRIDGE_MOVE_STACK_TO_REG \<Rightarrow>
          src = POLY_ABI_LOC_STACK \<and> dst \<noteq> POLY_ABI_LOC_STACK \<and> dst \<noteq> POLY_ABI_LOC_NONE
      | POLY_BRIDGE_MOVE_STACK_TO_STACK \<Rightarrow>
          src = POLY_ABI_LOC_STACK \<and> dst = POLY_ABI_LOC_STACK
      | POLY_BRIDGE_MOVE_LOAD_IMM \<Rightarrow> src = POLY_ABI_LOC_NONE \<and> dst \<noteq> POLY_ABI_LOC_NONE
      | POLY_BRIDGE_MOVE_SAVE_CALLER_REG \<Rightarrow> src \<noteq> POLY_ABI_LOC_NONE \<or> dst \<noteq> POLY_ABI_LOC_NONE
      | POLY_BRIDGE_MOVE_RESTORE_CALLER_REG \<Rightarrow> src \<noteq> POLY_ABI_LOC_NONE \<or> dst \<noteq> POLY_ABI_LOC_NONE
      | POLY_BRIDGE_MOVE_SET_STATE_KEY \<Rightarrow> src = POLY_ABI_LOC_NONE \<and> dst = POLY_ABI_LOC_NONE
      | POLY_BRIDGE_MOVE_SET_SIGNATURE_SLOT \<Rightarrow> src = POLY_ABI_LOC_NONE \<and> dst = POLY_ABI_LOC_NONE
      | POLY_BRIDGE_MOVE_PCALL \<Rightarrow> src = POLY_ABI_LOC_NONE \<and> dst = POLY_ABI_LOC_NONE
      | POLY_BRIDGE_MOVE_other _ \<Rightarrow> False)"

definition poly_bridge_plan_add_op ::
    "poly_bridge_move_kind \<Rightarrow> poly_abi_loc \<Rightarrow> poly_abi_loc \<Rightarrow> u64 \<Rightarrow> poly_bridge_plan \<Rightarrow> poly_bridge_plan option" where
  "poly_bridge_plan_add_op kind src dst imm plan =
     (if plan_op_count plan \<ge> POLY_BRIDGE_PLAN_MAX_OPS then None
      else Some (plan\<lparr>
        plan_ops := (plan_ops plan)[plan_op_count plan :=
          \<lparr>op_kind = kind, op_src = src, op_dst = dst, op_imm = imm\<rparr>],
        plan_op_count := plan_op_count plan + 1\<rparr>))"

definition loc_is_register_like :: "poly_abi_loc \<Rightarrow> bool" where
  "loc_is_register_like loc \<longleftrightarrow>
     loc_kind loc = POLY_ABI_LOC_GPR \<or> loc_kind loc = POLY_ABI_LOC_FPR \<or>
     loc_kind loc = POLY_ABI_LOC_VEC \<or> loc_kind loc = POLY_ABI_LOC_SRET_PTR"

definition add_move_for_locs ::
    "poly_abi_loc \<Rightarrow> poly_abi_loc \<Rightarrow> poly_bridge_plan \<Rightarrow> poly_bridge_plan option" where
  "add_move_for_locs src dst plan =
     (if loc_size src \<noteq> loc_size dst then None
      else if loc_is_register_like src \<and> loc_is_register_like dst then
        poly_bridge_plan_add_op POLY_BRIDGE_MOVE_REG_TO_REG src dst 0 plan
      else if loc_is_register_like src \<and> loc_kind dst = POLY_ABI_LOC_STACK then
        poly_bridge_plan_add_op POLY_BRIDGE_MOVE_REG_TO_STACK src dst 0 plan
      else if loc_kind src = POLY_ABI_LOC_STACK \<and> loc_is_register_like dst then
        poly_bridge_plan_add_op POLY_BRIDGE_MOVE_STACK_TO_REG src dst 0 plan
      else if loc_kind src = POLY_ABI_LOC_STACK \<and> loc_kind dst = POLY_ABI_LOC_STACK then
        poly_bridge_plan_add_op POLY_BRIDGE_MOVE_STACK_TO_STACK src dst 0 plan
      else None)"

definition add_arg_moves ::
    "poly_abi_layout \<Rightarrow> poly_abi_layout \<Rightarrow> poly_bridge_plan \<Rightarrow> poly_bridge_plan option" where
  "add_arg_moves caller_layout callee_layout plan =
     (if lay_arg_count caller_layout \<noteq> lay_arg_count callee_layout then None
      else fold_opt (\<lambda>arg plan.
          let src_arg = lay_args caller_layout ! arg; dst_arg = lay_args callee_layout ! arg in
          if arg_loc_count src_arg \<noteq> arg_loc_count dst_arg then None
          else fold_opt (\<lambda>loc. add_move_for_locs (arg_locs src_arg ! loc) (arg_locs dst_arg ! loc))
                 [0..<arg_loc_count src_arg] plan)
        [0..<lay_arg_count caller_layout] plan)"

definition add_ret_moves ::
    "poly_abi_layout \<Rightarrow> poly_abi_layout \<Rightarrow> poly_bridge_plan \<Rightarrow> poly_bridge_plan option" where
  "add_ret_moves caller_layout callee_layout plan =
     (if lay_ret_count caller_layout \<noteq> lay_ret_count callee_layout then None
      else fold_opt (\<lambda>ret. add_move_for_locs (lay_ret callee_layout ! ret) (lay_ret caller_layout ! ret))
             [0..<lay_ret_count caller_layout] plan)"

definition poly_bridge_plan_validate :: "poly_bridge_plan \<Rightarrow> bool" where
  "poly_bridge_plan_validate plan \<longleftrightarrow>
     valid_arch (plan_caller plan) \<and> valid_arch (plan_callee plan) \<and>
     plan_op_count plan \<le> POLY_BRIDGE_PLAN_MAX_OPS \<and>
     (\<forall>n < plan_op_count plan.
        let op = plan_ops plan ! n in
        valid_loc (op_src op) \<and> valid_loc (op_dst op) \<and> valid_op_locs op)"

definition poly_bridge_plan_from_layouts ::
    "poly_abi_layout \<Rightarrow> poly_abi_layout \<Rightarrow> u32 \<Rightarrow> bool \<Rightarrow> poly_bridge_plan option" where
  "poly_bridge_plan_from_layouts caller_layout callee_layout signature_slot needs_state_key =
     (let none = poly_abi_loc_none in
      if \<not> valid_arch (lay_arch caller_layout) \<or> \<not> valid_arch (lay_arch callee_layout) then None
      else do {
        let plan = (poly_bridge_plan_init (lay_arch caller_layout) (lay_arch callee_layout))
          \<lparr>plan_signature_slot := signature_slot, plan_needs_state_key := needs_state_key\<rparr>;
        plan \<leftarrow> (if plan_needs_state_key plan
                 then poly_bridge_plan_add_op POLY_BRIDGE_MOVE_SET_STATE_KEY none none 0 plan
                 else Some plan);
        plan \<leftarrow> (if signature_slot \<noteq> POLY_BRIDGE_PLAN_NO_SIGNATURE_SLOT
                 then poly_bridge_plan_add_op POLY_BRIDGE_MOVE_SET_SIGNATURE_SLOT none none
                        (ucast signature_slot) plan
                 else Some plan);
        plan \<leftarrow> add_arg_moves caller_layout callee_layout plan;
        plan \<leftarrow> poly_bridge_plan_add_op POLY_BRIDGE_MOVE_PCALL none none 0 plan;
        plan \<leftarrow> add_ret_moves caller_layout callee_layout plan;
        if poly_bridge_plan_validate plan then Some plan else None
      })"

definition poly_bridge_plan_from_descriptor_kind ::
    "poly_abi_arch \<Rightarrow> poly_abi_arch \<Rightarrow> poly_process_bridge_kind \<Rightarrow> u32 \<Rightarrow> bool \<Rightarrow> poly_bridge_plan option" where
  "poly_bridge_plan_from_descriptor_kind caller callee bridge_kind signature_slot needs_state_key =
     do {
       sig \<leftarrow> poly_abi_descriptor_decode_kind bridge_kind;
       caller_layout \<leftarrow> poly_classify_call_abi caller sig;
       callee_layout \<leftarrow> poly_classify_call_abi callee sig;
       poly_bridge_plan_from_layouts caller_layout callee_layout signature_slot needs_state_key
     }"

subsection \<open>A plan as the list of its operations\<close>

definition plan_list :: "poly_bridge_plan \<Rightarrow> poly_bridge_op list" where
  "plan_list plan = take (plan_op_count plan) (plan_ops plan)"

definition wf_plan :: "poly_bridge_plan \<Rightarrow> bool" where
  "wf_plan plan \<longleftrightarrow> length (plan_ops plan) = POLY_BRIDGE_PLAN_MAX_OPS"

definition push_op :: "poly_bridge_op \<Rightarrow> poly_bridge_plan \<Rightarrow> poly_bridge_plan" where
  "push_op op plan = plan\<lparr>plan_ops := (plan_ops plan)[plan_op_count plan := op],
                         plan_op_count := plan_op_count plan + 1\<rparr>"

lemma push_op_frame [simp]:
  "plan_caller (push_op op p) = plan_caller p"
  "plan_callee (push_op op p) = plan_callee p"
  "plan_signature_slot (push_op op p) = plan_signature_slot p"
  "plan_needs_state_key (push_op op p) = plan_needs_state_key p"
  "plan_op_count (push_op op p) = Suc (plan_op_count p)"
  "wf_plan (push_op op p) = wf_plan p"
  by (simp_all add: push_op_def wf_plan_def)

lemma plan_list_push_op [simp]:
  "wf_plan p \<Longrightarrow> plan_op_count p < 128 \<Longrightarrow> plan_list (push_op op p) = plan_list p @ [op]"
  by (simp add: plan_list_def push_op_def wf_plan_def POLY_BRIDGE_PLAN_MAX_OPS_def take_Suc_update)

lemma fold_push_frame [simp]:
  "plan_caller (fold push_op ops p) = plan_caller p"
  "plan_callee (fold push_op ops p) = plan_callee p"
  "plan_signature_slot (fold push_op ops p) = plan_signature_slot p"
  "plan_needs_state_key (fold push_op ops p) = plan_needs_state_key p"
  "plan_op_count (fold push_op ops p) = plan_op_count p + length ops"
  "wf_plan (fold push_op ops p) = wf_plan p"
  by (induction ops arbitrary: p) simp_all

lemma plan_list_fold_push [simp]:
  "wf_plan p \<Longrightarrow> plan_op_count p + length ops \<le> 128 \<Longrightarrow>
   plan_list (fold push_op ops p) = plan_list p @ ops"
  by (induction ops arbitrary: p) simp_all

lemma add_op_push:
  "plan_op_count p < 128 \<Longrightarrow>
   poly_bridge_plan_add_op k s d i p = Some (push_op \<lparr>op_kind = k, op_src = s, op_dst = d, op_imm = i\<rparr> p)"
  by (simp add: poly_bridge_plan_add_op_def push_op_def POLY_BRIDGE_PLAN_MAX_OPS_def)

subsection \<open>What a plan should be\<close>

text \<open>
  A piece can be moved when both locations are a register or a stack slot and
  have the same non-zero size; the kind of the move follows from where the two
  ends are.
\<close>

definition placed :: "poly_abi_loc \<Rightarrow> bool" where
  "placed loc \<longleftrightarrow> loc_is_register_like loc \<or> loc_kind loc = POLY_ABI_LOC_STACK"

definition connectable :: "poly_abi_loc \<times> poly_abi_loc \<Rightarrow> bool" where
  "connectable p \<longleftrightarrow> loc_size (fst p) = loc_size (snd p) \<and> placed (fst p) \<and> placed (snd p)"

definition movable :: "poly_abi_loc \<times> poly_abi_loc \<Rightarrow> bool" where
  "movable p \<longleftrightarrow> connectable p \<and> loc_size (fst p) \<noteq> 0"

definition move_kind :: "poly_abi_loc \<Rightarrow> poly_abi_loc \<Rightarrow> poly_bridge_move_kind" where
  "move_kind src dst =
     (if loc_kind src = POLY_ABI_LOC_STACK
      then if loc_kind dst = POLY_ABI_LOC_STACK then POLY_BRIDGE_MOVE_STACK_TO_STACK
           else POLY_BRIDGE_MOVE_STACK_TO_REG
      else if loc_kind dst = POLY_ABI_LOC_STACK then POLY_BRIDGE_MOVE_REG_TO_STACK
           else POLY_BRIDGE_MOVE_REG_TO_REG)"

definition move_op :: "poly_abi_loc \<times> poly_abi_loc \<Rightarrow> poly_bridge_op" where
  "move_op p = \<lparr>op_kind = move_kind (fst p) (snd p), op_src = fst p, op_dst = snd p, op_imm = 0\<rparr>"

definition control_op :: "poly_bridge_move_kind \<Rightarrow> u64 \<Rightarrow> poly_bridge_op" where
  "control_op k imm = \<lparr>op_kind = k, op_src = poly_abi_loc_none, op_dst = poly_abi_loc_none, op_imm = imm\<rparr>"

definition arg_lists :: "poly_abi_layout \<Rightarrow> poly_abi_loc list list" where
  "arg_lists l = map arg_list (take (lay_arg_count l) (lay_args l))"

definition arg_pairs :: "poly_abi_layout \<Rightarrow> poly_abi_layout \<Rightarrow> (poly_abi_loc \<times> poly_abi_loc) list" where
  "arg_pairs caller callee = zip (concat (arg_lists caller)) (concat (arg_lists callee))"

definition ret_pairs :: "poly_abi_layout \<Rightarrow> poly_abi_layout \<Rightarrow> (poly_abi_loc \<times> poly_abi_loc) list" where
  "ret_pairs caller callee = zip (ret_list callee) (ret_list caller)"

text \<open>The two layouts split every argument and the result into equally many pieces.\<close>

definition same_shape :: "poly_abi_layout \<Rightarrow> poly_abi_layout \<Rightarrow> bool" where
  "same_shape caller callee \<longleftrightarrow>
     map length (arg_lists caller) = map length (arg_lists callee) \<and>
     length (ret_list caller) = length (ret_list callee)"

definition plan_prefix :: "u32 \<Rightarrow> bool \<Rightarrow> poly_bridge_op list" where
  "plan_prefix slot key =
     (if key then [control_op POLY_BRIDGE_MOVE_SET_STATE_KEY 0] else []) @
     (if slot \<noteq> POLY_BRIDGE_PLAN_NO_SIGNATURE_SLOT
      then [control_op POLY_BRIDGE_MOVE_SET_SIGNATURE_SLOT (ucast slot)] else [])"

definition planned_ops ::
    "poly_abi_layout \<Rightarrow> poly_abi_layout \<Rightarrow> u32 \<Rightarrow> bool \<Rightarrow> poly_bridge_op list" where
  "planned_ops caller callee slot key =
     plan_prefix slot key @ map move_op (arg_pairs caller callee) @
     [control_op POLY_BRIDGE_MOVE_PCALL 0] @ map move_op (ret_pairs caller callee)"

definition plannable :: "poly_abi_layout \<Rightarrow> poly_abi_layout \<Rightarrow> bool" where
  "plannable caller callee \<longleftrightarrow>
     valid_arch (lay_arch caller) \<and> valid_arch (lay_arch callee) \<and> same_shape caller callee \<and>
     list_all movable (arg_pairs caller callee @ ret_pairs caller callee)"

subsection \<open>The loops\<close>

lemma add_move_for_locs_push:
  assumes "plan_op_count p < 128"
  shows "add_move_for_locs s d p = (if connectable (s, d) then Some (push_op (move_op (s, d)) p) else None)"
  using assms
  by (auto simp: add_move_for_locs_def add_op_push connectable_def placed_def move_op_def move_kind_def
      loc_is_register_like_def)

lemma moves_push:
  "plan_op_count p + length ps \<le> 128 \<Longrightarrow>
   fold_opt (\<lambda>(s, d). add_move_for_locs s d) ps p =
     (if list_all connectable ps then Some (fold push_op (map move_op ps) p) else None)"
  by (induction ps arbitrary: p) (auto simp: add_move_for_locs_push)

lemma zip_concat_same_shape:
  "map length xss = map length yss \<Longrightarrow>
   concat (map (\<lambda>(xs, ys). zip xs ys) (zip xss yss)) = zip (concat xss) (concat yss)"
proof (induction xss arbitrary: yss)
  case (Cons xs xss)
  then obtain ys yss' where "yss = ys # yss'" by (cases yss) auto
  with Cons show ?case by simp
qed simp

lemma zip_all_same:
  "length xs = length ys \<Longrightarrow> (\<forall>x \<in> set (zip xs ys). f (fst x) = f (snd x)) \<longleftrightarrow> map f xs = map f ys"
  by (induction xs ys rule: list_induct2) auto

lemma length_arg_list: "wf_layout l \<Longrightarrow> a \<in> set (lay_args l) \<Longrightarrow> length (arg_list a) = arg_loc_count a"
  by (auto simp: wf_layout_def arg_list_def)

lemma length_ret_list: "wf_layout l \<Longrightarrow> length (ret_list l) = lay_ret_count l"
  by (auto simp: wf_layout_def ret_list_def)

lemma map_length_arg_lists:
  "wf_layout l \<Longrightarrow> map length (arg_lists l) = map arg_loc_count (take (lay_arg_count l) (lay_args l))"
  by (auto simp: arg_lists_def length_arg_list dest!: in_set_takeD)

lemma add_arg_moves_eq:
  assumes c: "wf_layout c" and d: "wf_layout d"
  shows "add_arg_moves c d p =
    (if map length (arg_lists c) = map length (arg_lists d)
     then fold_opt (\<lambda>(s, t). add_move_for_locs s t) (arg_pairs c d) p else None)"
proof (cases "lay_arg_count c = lay_arg_count d")
  case False
  then have "length (arg_lists c) \<noteq> length (arg_lists d)"
    using c d by (simp add: arg_lists_def wf_layout_def)
  then have "map length (arg_lists c) \<noteq> map length (arg_lists d)"
    by (metis length_map)
  with False show ?thesis by (simp add: add_arg_moves_def)
next
  case True
  let ?n = "lay_arg_count c"
  let ?as = "take ?n (lay_args c)" and ?bs = "take ?n (lay_args d)"
  let ?body = "\<lambda>(a, b) p. fold_opt (\<lambda>(s, t). add_move_for_locs s t) (zip (arg_list a) (arg_list b)) p"
  let ?ok = "\<lambda>(a, b). arg_loc_count a = arg_loc_count b"
  have len: "?n \<le> length (lay_args c)" "?n \<le> length (lay_args d)"
    using c d True by (auto simp: wf_layout_def)
  have body: "(if arg_loc_count a \<noteq> arg_loc_count b then None
        else fold_opt (\<lambda>i. add_move_for_locs (arg_locs a ! i) (arg_locs b ! i)) [0..<arg_loc_count a] q)
      = (if ?ok (a, b) then ?body (a, b) q else None)"
    if "(a, b) \<in> set (zip ?as ?bs)" for a b q
  proof -
    have "a \<in> set (lay_args c)" "b \<in> set (lay_args d)"
      using that by (auto dest: set_zip_leftD set_zip_rightD in_set_takeD)
    then have "arg_loc_count a \<le> length (arg_locs a)" "arg_loc_count b \<le> length (arg_locs b)"
      using c d by (auto simp: wf_layout_def)
    then show ?thesis by (simp add: fold_opt_nth_pair arg_list_def)
  qed
  have "add_arg_moves c d p = fold_opt (\<lambda>(a, b) q. if arg_loc_count a \<noteq> arg_loc_count b then None
        else fold_opt (\<lambda>i. add_move_for_locs (arg_locs a ! i) (arg_locs b ! i)) [0..<arg_loc_count a] q)
      (zip ?as ?bs) p"
    using True fold_opt_nth_pair[OF len, where f="\<lambda>a b q. if arg_loc_count a \<noteq> arg_loc_count b then None
        else fold_opt (\<lambda>i. add_move_for_locs (arg_locs a ! i) (arg_locs b ! i)) [0..<arg_loc_count a] q"]
    by (simp add: add_arg_moves_def Let_def)
  also have "\<dots> = fold_opt (\<lambda>x q. if ?ok x then ?body x q else None) (zip ?as ?bs) p"
  proof (rule fold_opt_cong_list, goal_cases)
    case (1 x q)
    obtain a b where x: "x = (a, b)" by (rule prod.exhaust)
    show ?case using body 1 unfolding x prod.case by blast
  qed
  finally have eq: "add_arg_moves c d p = \<dots>" .
  have same: "(\<forall>x \<in> set (zip ?as ?bs). ?ok x) \<longleftrightarrow> map length (arg_lists c) = map length (arg_lists d)"
    using zip_all_same[of ?as ?bs arg_loc_count] True len
    by (simp add: map_length_arg_lists[OF c] map_length_arg_lists[OF d] case_prod_unfold)
  show ?thesis
  proof (cases "map length (arg_lists c) = map length (arg_lists d)")
    case t: True
    have "concat (map (\<lambda>(a, b). zip (arg_list a) (arg_list b)) (zip ?as ?bs)) = arg_pairs c d"
      using zip_concat_same_shape[OF t] True
      by (simp add: arg_pairs_def arg_lists_def zip_map1 zip_map2 comp_def case_prod_unfold)
    with t same show ?thesis
      by (simp add: eq fold_opt_guard case_prod_unfold
          fold_opt_concat[where h="\<lambda>x. zip (arg_list (fst x)) (arg_list (snd x))"])
  next
    case False
    with same have "\<exists>x \<in> set (zip ?as ?bs). \<not> ?ok x" by blast
    from fold_opt_guard_fail[OF this] False show ?thesis by (simp add: eq)
  qed
qed

lemma add_ret_moves_eq:
  assumes "wf_layout c" and "wf_layout d"
  shows "add_ret_moves c d p =
    (if length (ret_list c) = length (ret_list d)
     then fold_opt (\<lambda>(s, t). add_move_for_locs s t) (ret_pairs c d) p else None)"
  using assms
  by (auto simp: add_ret_moves_def length_ret_list ret_pairs_def ret_list_def fold_opt_nth_pair wf_layout_def)

lemma sum_list_bound: "(\<forall>x \<in> set xs. f x \<le> k) \<Longrightarrow> sum_list (map f xs) \<le> length xs * (k::nat)"
  by (induction xs) auto

lemma length_arg_pairs: 
  assumes "wf_layout c" shows "length (arg_pairs c d) \<le> 64"
proof -
  let ?as = "take (lay_arg_count c) (lay_args c)"
  have "length (concat (arg_lists c)) = sum_list (map arg_loc_count ?as)"
    using map_length_arg_lists[OF assms] by (simp add: length_concat)
  also have "\<dots> \<le> length ?as * 4"
    using assms by (intro sum_list_bound) (auto simp: wf_layout_def dest: in_set_takeD)
  also have "\<dots> \<le> 64" using assms by (simp add: wf_layout_def)
  finally show ?thesis by (simp add: arg_pairs_def)
qed

lemma length_ret_pairs: "wf_layout c \<Longrightarrow> length (ret_pairs c d) \<le> 4"
  by (auto simp: ret_pairs_def length_ret_list wf_layout_def)

subsection \<open>Validation\<close>

definition valid_op :: "poly_bridge_op \<Rightarrow> bool" where
  "valid_op op \<longleftrightarrow> valid_loc (op_src op) \<and> valid_loc (op_dst op) \<and> valid_op_locs op"

lemma validate_list:
  assumes "wf_plan p" and "plan_op_count p \<le> 128"
  shows "poly_bridge_plan_validate p \<longleftrightarrow>
    valid_arch (plan_caller p) \<and> valid_arch (plan_callee p) \<and> list_all valid_op (plan_list p)"
  using assms
  by (auto simp: poly_bridge_plan_validate_def plan_list_def wf_plan_def valid_op_def Let_def
      POLY_BRIDGE_PLAN_MAX_OPS_def list_all_length)

lemma valid_control_op [simp]:
  "valid_op (control_op POLY_BRIDGE_MOVE_SET_STATE_KEY i)"
  "valid_op (control_op POLY_BRIDGE_MOVE_SET_SIGNATURE_SLOT i)"
  "valid_op (control_op POLY_BRIDGE_MOVE_PCALL i)"
  by (simp_all add: valid_op_def control_op_def valid_loc_def valid_op_locs_def poly_abi_loc_none_def)

lemma valid_move_op: "connectable x \<Longrightarrow> valid_op (move_op x) \<longleftrightarrow> loc_size (fst x) \<noteq> 0"
  by (cases "loc_kind (fst x)"; cases "loc_kind (snd x)";
      simp add: valid_op_def move_op_def move_kind_def connectable_def placed_def loc_is_register_like_def
        valid_loc_def valid_op_locs_def)

lemma all_movable:
  "list_all movable ps \<longleftrightarrow> list_all connectable ps \<and> list_all valid_op (map move_op ps)"
  by (induction ps) (auto simp: movable_def valid_move_op)

lemma add_op_control:
  "plan_op_count p < 128 \<Longrightarrow>
   poly_bridge_plan_add_op k poly_abi_loc_none poly_abi_loc_none i p = Some (push_op (control_op k i) p)"
  by (simp add: add_op_push control_op_def)

definition blank_plan :: "poly_abi_layout \<Rightarrow> poly_abi_layout \<Rightarrow> u32 \<Rightarrow> bool \<Rightarrow> poly_bridge_plan" where
  "blank_plan caller callee slot key =
     (poly_bridge_plan_init (lay_arch caller) (lay_arch callee))
       \<lparr>plan_signature_slot := slot, plan_needs_state_key := key\<rparr>"

lemma blank_plan_facts [simp]:
  "wf_plan (blank_plan c d slot key)" "plan_op_count (blank_plan c d slot key) = 0"
  "plan_list (blank_plan c d slot key) = []"
  "plan_caller (blank_plan c d slot key) = lay_arch c" "plan_callee (blank_plan c d slot key) = lay_arch d"
  "plan_signature_slot (blank_plan c d slot key) = slot" "plan_needs_state_key (blank_plan c d slot key) = key"
  by (simp_all add: wf_plan_def poly_bridge_plan_init_def plan_list_def blank_plan_def)

lemma length_plan_prefix: "length (plan_prefix slot key) \<le> 2"
  by (simp add: plan_prefix_def)

lemma length_planned_ops: "wf_layout c \<Longrightarrow> length (planned_ops c d slot key) \<le> 71"
  using length_arg_pairs[of c d] length_ret_pairs[of c d] length_plan_prefix[of slot key]
  by (simp add: planned_ops_def)

lemma from_layouts_closed_form:
  assumes c: "wf_layout c" and d: "wf_layout d"
  shows "poly_bridge_plan_from_layouts c d slot key =
    (if plannable c d then Some (fold push_op (planned_ops c d slot key) (blank_plan c d slot key)) else None)"
proof -
  let ?init = "blank_plan c d slot key"
  let ?p0 = "fold push_op (plan_prefix slot key) ?init"
  let ?Q = "fold push_op (planned_ops c d slot key) ?init"
  have pre: "list_all valid_op (plan_prefix slot key)"
    by (simp add: plan_prefix_def)
  note sizes = length_arg_pairs[OF c, of d] length_ret_pairs[OF c, of d] length_plan_prefix[of slot key]
    length_planned_ops[OF c, of d slot key]
  have unfold_plan: "poly_bridge_plan_from_layouts c d slot key =
    (if \<not> valid_arch (lay_arch c) \<or> \<not> valid_arch (lay_arch d) then None
     else do { p \<leftarrow> add_arg_moves c d ?p0;
               p \<leftarrow> poly_bridge_plan_add_op POLY_BRIDGE_MOVE_PCALL poly_abi_loc_none poly_abi_loc_none 0 p;
               p \<leftarrow> add_ret_moves c d p;
               if poly_bridge_plan_validate p then Some p else None })"
    unfolding poly_bridge_plan_from_layouts_def Let_def blank_plan_def[symmetric]
    by (simp add: add_op_control plan_prefix_def)
  have valid: "poly_bridge_plan_validate ?Q \<longleftrightarrow>
      valid_arch (lay_arch c) \<and> valid_arch (lay_arch d) \<and>
      list_all valid_op (map move_op (arg_pairs c d)) \<and> list_all valid_op (map move_op (ret_pairs c d))"
    using pre sizes by (simp add: validate_list) (simp add: planned_ops_def)
  have ret: "fold_opt (\<lambda>(s, t). add_move_for_locs s t) (ret_pairs c d)
      (push_op (control_op POLY_BRIDGE_MOVE_PCALL 0) (fold push_op (map move_op (arg_pairs c d)) ?p0))
    = (if list_all connectable (ret_pairs c d) then Some ?Q else None)"
    using sizes by (subst moves_push) (simp_all add: planned_ops_def)
  show ?thesis
    using sizes valid
    by (simp add: unfold_plan add_op_control add_arg_moves_eq[OF c d] add_ret_moves_eq[OF c d]
        moves_push[of ?p0] ret all_movable same_shape_def plannable_def)
qed

end
