(* ===== verification/Bridge_Transfer.thy ===== *)
theory Bridge_Transfer
  imports Bridge_Plan
begin

text \<open>
  What a bridge plan achieves: the properties of \<open>poly_bridge_plan.c\<close> together
  with the classifiers. A plan's moves before the call, carried out one after
  another, leave every argument piece where the callee expects it; and the
  kinds and architecture pairs that can be planned are known exactly.
\<close>

subsection \<open>Where the argument pieces live\<close>

datatype abi_cell = Gpr_cell u8 | Fpr_cell u8 | Stack_cell u16 | No_cell

definition loc_cell :: "poly_abi_loc \<Rightarrow> abi_cell" where
  "loc_cell loc =
     (case loc_kind loc of
        POLY_ABI_LOC_GPR \<Rightarrow> Gpr_cell (loc_reg loc)
      | POLY_ABI_LOC_SRET_PTR \<Rightarrow> Gpr_cell (loc_reg loc)
      | POLY_ABI_LOC_FPR \<Rightarrow> Fpr_cell (loc_reg loc)
      | POLY_ABI_LOC_VEC \<Rightarrow> Fpr_cell (loc_reg loc)
      | POLY_ABI_LOC_STACK \<Rightarrow> Stack_cell (loc_stack_offset loc)
      | _ \<Rightarrow> No_cell)"

lemma distinct_map_split:
  assumes "\<And>x y. x \<in> set xs \<Longrightarrow> y \<in> set xs \<Longrightarrow> P x \<Longrightarrow> \<not> P y \<Longrightarrow> f x \<noteq> f y"
  shows "distinct (map f xs) \<longleftrightarrow> distinct (map f (filter P xs)) \<and> distinct (map f (filter (\<lambda>x. \<not> P x) xs))"
  using assms
proof (induction xs)
  case (Cons a xs)
  from Cons.IH Cons.prems have ih: "distinct (map f xs) \<longleftrightarrow>
      distinct (map f (filter P xs)) \<and> distinct (map f (filter (\<lambda>x. \<not> P x) xs))" by simp
  have "f a \<in> f ` set xs \<longleftrightarrow> f a \<in> f ` {x \<in> set xs. P x = P a}"
    using Cons.prems by (auto simp: image_iff) metis+
  then show ?case by (auto simp: ih)
qed simp

lemma distinct_map_unat: "distinct (map (\<lambda>x. unat (f x)) xs) \<longleftrightarrow> distinct (map f xs)"
  by (simp add: distinct_map inj_on_def word_eq_iff_unsigned[where 'a=nat])

lemma sorted_wrt_neq_distinct: "sorted_wrt (\<lambda>a b. f a \<noteq> f b) xs \<Longrightarrow> distinct (map f xs)"
  by (induction xs) auto

lemma distinct_cells:
  assumes "poly_classify_call_abi arch sig = Some l" and "small_sig sig"
    and sized: "\<forall>loc \<in> set (layout_locs l). loc_size loc \<noteq> 0"
  shows "distinct (map loc_cell (layout_locs l))"
proof -
  let ?locs = "layout_locs l" and ?rest = "filter (\<lambda>x. \<not> is_gpr_loc x) (layout_locs l)"
  from call_reg_nums[OF assms(1)] obtain g f where
    g: "reg_nums is_gpr_loc l = [first_arg_gpr arch sig..<g]" and f: "reg_nums is_fpr_loc l = [0..<f]"
    and cls: "\<forall>loc \<in> set ?locs. is_gpr_loc loc \<or> is_fpr_loc loc \<or> is_stack_loc loc" by blast
  have gpr: "distinct (map loc_cell (filter is_gpr_loc ?locs))"
  proof -
    have "distinct (map loc_reg (filter is_gpr_loc ?locs))"
      using g by (metis distinct_upt distinct_map_unat reg_nums_def)
    moreover have "map loc_cell (filter is_gpr_loc ?locs) = map Gpr_cell (map loc_reg (filter is_gpr_loc ?locs))"
      by (auto simp: loc_cell_def is_gpr_loc_def)
    ultimately show ?thesis by (auto simp: distinct_map inj_on_def)
  qed
  have fpr: "distinct (map loc_cell (filter is_fpr_loc ?rest))"
  proof -
    have eq: "filter is_fpr_loc ?rest = filter is_fpr_loc ?locs"
      by (auto simp: loc_class_defs intro: filter_cong)
    have "distinct (map loc_reg (filter is_fpr_loc ?locs))"
      using f by (metis distinct_upt distinct_map_unat reg_nums_def)
    moreover have "map loc_cell (filter is_fpr_loc ?locs) = map Fpr_cell (map loc_reg (filter is_fpr_loc ?locs))"
      by (auto simp: loc_cell_def is_fpr_loc_def)
    ultimately show ?thesis unfolding eq by (auto simp: distinct_map inj_on_def)
  qed
  have stk: "distinct (map loc_cell (filter (\<lambda>x. \<not> is_fpr_loc x) ?rest))"
  proof -
    have eq: "filter (\<lambda>x. \<not> is_fpr_loc x) ?rest = stack_slots l"
      using cls by (auto simp: stack_slots_def loc_class_defs intro!: filter_cong)
    have "sorted_wrt (\<lambda>a b. loc_cell a \<noteq> loc_cell b) (stack_slots l)"
      using call_slots_ok[OF assms(1,2)] sized unfolding slots_ok_def
      by (auto simp: stack_slots_def slot_end_def loc_cell_def is_stack_loc_def unat_eq_zero
          elim!: sorted_wrt_mono_rel[rotated])
    then show ?thesis unfolding eq by (rule sorted_wrt_neq_distinct)
  qed
  have "distinct (map loc_cell ?rest)"
    using fpr stk by (subst distinct_map_split[where P=is_fpr_loc]) 
      (use cls in \<open>auto simp: loc_class_defs loc_cell_def split: poly_abi_loc_kind.splits\<close>)
  with gpr show ?thesis by (subst distinct_map_split[where P=is_gpr_loc])
      (use cls in \<open>auto simp: loc_class_defs loc_cell_def split: poly_abi_loc_kind.splits\<close>)
qed

subsection \<open>Carrying out the moves before the call\<close>

definition run_move :: "(abi_cell \<Rightarrow> 'v) \<Rightarrow> poly_bridge_op \<Rightarrow> (abi_cell \<Rightarrow> 'v) \<Rightarrow> abi_cell \<Rightarrow> 'v" where
  "run_move caller op callee =
     (if op_kind op \<in> {POLY_BRIDGE_MOVE_REG_TO_REG, POLY_BRIDGE_MOVE_REG_TO_STACK,
                       POLY_BRIDGE_MOVE_STACK_TO_REG, POLY_BRIDGE_MOVE_STACK_TO_STACK}
      then callee(loc_cell (op_dst op) := caller (loc_cell (op_src op))) else callee)"

definition before_call :: "poly_bridge_op list \<Rightarrow> poly_bridge_op list" where
  "before_call ops = takeWhile (\<lambda>op. op_kind op \<noteq> POLY_BRIDGE_MOVE_PCALL) ops"

definition enter_callee :: "(abi_cell \<Rightarrow> 'v) \<Rightarrow> poly_bridge_plan \<Rightarrow> (abi_cell \<Rightarrow> 'v) \<Rightarrow> abi_cell \<Rightarrow> 'v" where
  "enter_callee caller plan callee = fold (run_move caller) (before_call (plan_list plan)) callee"

lemma run_move_move_op [simp]:
  "run_move m (move_op x) m' = m'(loc_cell (snd x) := m (loc_cell (fst x)))"
  by (simp add: run_move_def move_op_def move_kind_def)

lemma run_moves:
  "distinct (map loc_cell ds) \<Longrightarrow> length ss = length ds \<Longrightarrow>
   map (fold (run_move m) (map move_op (zip ss ds)) m' \<circ> loc_cell) ds = map (m \<circ> loc_cell) ss"
proof (induction ss ds arbitrary: m' rule: list_induct2')
  case (4 s ss d ds)
  have keep: "fold (run_move m) (map move_op (zip ss ds)) m'' c = m'' c" if "c \<notin> loc_cell ` set ds" for m'' c
    using that by (induction ss ds arbitrary: m'' rule: list_induct2') auto
  from 4 show ?case by (simp add: keep)
qed simp_all

lemma run_prefix: "fold (run_move m) (plan_prefix slot key) m' = m'"
  by (simp add: plan_prefix_def control_op_def run_move_def)

lemma before_call_planned:
  "before_call (planned_ops c d slot key) = plan_prefix slot key @ map move_op (arg_pairs c d)"
proof -
  have "\<forall>op \<in> set (plan_prefix slot key @ map move_op (arg_pairs c d)). op_kind op \<noteq> POLY_BRIDGE_MOVE_PCALL"
    by (auto simp: plan_prefix_def control_op_def move_op_def move_kind_def split: if_splits)
  then show ?thesis
    using takeWhile_append2[of "plan_prefix slot key @ map move_op (arg_pairs c d)"
        "\<lambda>op. op_kind op \<noteq> POLY_BRIDGE_MOVE_PCALL"
        "control_op POLY_BRIDGE_MOVE_PCALL 0 # map move_op (ret_pairs c d)"]
    by (simp add: before_call_def planned_ops_def control_op_def)
qed

lemma concat_arg_lists: "wf_layout l \<Longrightarrow> concat (arg_lists l) = layout_locs l"
  using concat_free_tail[of l "lay_arg_count l"]
  unfolding layout_locs_def arg_lists_def wf_layout_def
  by (metis append.right_neutral append_take_drop_id concat_append map_append)

lemma same_shape_length:
  "same_shape c d \<Longrightarrow> length (concat (arg_lists c)) = length (concat (arg_lists d))"
  by (simp add: same_shape_def length_concat)

definition portable_kind :: "poly_process_bridge_kind \<Rightarrow> bool" where
  "portable_kind k \<longleftrightarrow> k \<in> {POLY_PROCESS_BRIDGE_DEFAULT, POLY_PROCESS_BRIDGE_VEC128_U32,
     POLY_PROCESS_BRIDGE_U64_STACK9, POLY_PROCESS_BRIDGE_FP64, POLY_PROCESS_BRIDGE_FP32,
     POLY_PROCESS_BRIDGE_FPAIR64_ARG, POLY_PROCESS_BRIDGE_FPAIR64_RET,
     POLY_PROCESS_BRIDGE_SRET_X86_SYSV, POLY_PROCESS_BRIDGE_NATIVE_SRET}"

definition known_archs :: "poly_abi_arch list" where
  "known_archs = [POLY_ABI_ARCH_X86, POLY_ABI_ARCH_AARCH64, POLY_ABI_ARCH_RISCV]"

definition plan_supported :: "poly_abi_arch \<Rightarrow> poly_abi_arch \<Rightarrow> poly_process_bridge_kind \<Rightarrow> bool" where
  "plan_supported a b k \<longleftrightarrow> (a = POLY_ABI_ARCH_X86) = (b = POLY_ABI_ARCH_X86) \<or> portable_kind k"

definition support_entry :: "poly_abi_arch \<Rightarrow> poly_abi_arch \<Rightarrow> poly_process_bridge_kind \<Rightarrow> bool" where
  "support_entry a b k =
     (case poly_abi_descriptor_decode_kind k of None \<Rightarrow> False | Some sig \<Rightarrow>
      case poly_classify_call_abi a sig of None \<Rightarrow> False | Some c \<Rightarrow>
      case poly_classify_call_abi b sig of None \<Rightarrow> False | Some d \<Rightarrow>
      plannable c d = plan_supported a b k)"

lemma support_entries:
  "list_all (\<lambda>k. list_all (\<lambda>a. list_all (\<lambda>b. support_entry a b k) known_archs) known_archs) all_bridge_kinds"
  by code_simp

lemma all_bridge_kinds_complete: "k \<in> set all_bridge_kinds \<longleftrightarrow> (\<nexists>n. k = POLY_PROCESS_BRIDGE_other n)"
  by (cases k) (simp_all add: all_bridge_kinds_def)

lemma known_archs_iff: "a \<in> set known_archs \<longleftrightarrow> valid_arch a"
  by (auto simp: known_archs_def valid_arch_def)

subsection \<open>The plan as specified\<close>

definition plan_view :: "poly_bridge_plan \<Rightarrow> poly_abi_arch \<times> poly_abi_arch \<times> u32 \<times> bool \<times> poly_bridge_op list" where
  "plan_view p = (plan_caller p, plan_callee p, plan_signature_slot p, plan_needs_state_key p, plan_list p)"

text \<open>
  C10. For well-formed layouts the planner succeeds exactly when both
  architectures are known, both layouts split every argument and the result
  into the same number of pieces, and every pair of pieces is movable; the plan
  is then the state-key operation if asked for, the signature-slot operation if
  a slot is given, one move per argument piece from caller to callee, the call,
  and one move per result piece from callee to caller, in this order. The final
  validation rejects nothing else and the 128-entry array never overflows.
\<close>

theorem plan_from_layouts_refines:
  assumes "wf_layout c" and "wf_layout d"
  shows "map_option plan_view (poly_bridge_plan_from_layouts c d slot key) =
         (if plannable c d then Some (lay_arch c, lay_arch d, slot, key, planned_ops c d slot key) else None)"
  using length_planned_ops[OF assms(1), of d slot key]
  by (simp add: from_layouts_closed_form[OF assms] plan_view_def)

lemma int_sig_classified:
  "list_all (\<lambda>a. poly_classify_call_abi a
     (set_scalar_ret POLY_ABI_TYPE_I64 (add_scalar_arg POLY_ABI_TYPE_I64 zero_sig)) \<noteq> None) known_archs"
  by code_simp

definition int_layout :: "poly_abi_arch \<Rightarrow> poly_abi_layout" where
  "int_layout arch = the (poly_classify_call_abi arch
     (set_scalar_ret POLY_ABI_TYPE_I64 (add_scalar_arg POLY_ABI_TYPE_I64 zero_sig)))"

lemma wf_int_layout: "a \<in> set known_archs \<Longrightarrow> wf_layout (int_layout a)"
  using int_sig_classified unfolding list_all_iff int_layout_def
  by (auto intro: call_wf_layout)

theorem plan_from_layouts_refines_witness:
  "wf_layout (int_layout POLY_ABI_ARCH_X86) \<and> wf_layout (int_layout POLY_ABI_ARCH_RISCV) \<and>
   map_option plan_view (poly_bridge_plan_from_layouts (int_layout POLY_ABI_ARCH_X86)
       (int_layout POLY_ABI_ARCH_RISCV) 7 True) =
     Some (POLY_ABI_ARCH_X86, POLY_ABI_ARCH_RISCV, 7, True,
       planned_ops (int_layout POLY_ABI_ARCH_X86) (int_layout POLY_ABI_ARCH_RISCV) 7 True)"
proof -
  have wf: "wf_layout (int_layout POLY_ABI_ARCH_X86)" "wf_layout (int_layout POLY_ABI_ARCH_RISCV)"
    by (rule wf_int_layout; simp add: known_archs_def)+
  have ok: "plannable (int_layout POLY_ABI_ARCH_X86) (int_layout POLY_ABI_ARCH_RISCV)"
    and arch: "lay_arch (int_layout POLY_ABI_ARCH_X86) = POLY_ABI_ARCH_X86"
      "lay_arch (int_layout POLY_ABI_ARCH_RISCV) = POLY_ABI_ARCH_RISCV"
    by code_simp+
  show ?thesis using plan_from_layouts_refines[OF wf, of 7 True] wf ok arch by simp
qed

lemma movable_swap: "movable (b, a) = movable (a, b)"
  by (auto simp: connectable_def movable_def)

lemma list_all_movable_swap: "list_all movable (zip ys xs) = list_all movable (zip xs ys)"
  by (induction xs ys rule: list_induct2') (auto simp: movable_swap)

lemma plannable_sym: "plannable c d = plannable d c"
  using list_all_movable_swap[of "concat (arg_lists c)" "concat (arg_lists d)"]
   list_all_movable_swap[of "ret_list c" "ret_list d"]
  by (auto simp: plannable_def same_shape_def arg_pairs_def ret_pairs_def)

text \<open>
  Planning is symmetric: a call from one layout to the other can be planned
  exactly when the call in the other direction can.
\<close>

lemma plan_from_layouts_symmetric:
  assumes "wf_layout c" and "wf_layout d"
  shows "poly_bridge_plan_from_layouts c d slot key = None \<longleftrightarrow>
         poly_bridge_plan_from_layouts d c slot' key' = None"
  using plannable_sym[of c d]
  by (simp add: from_layouts_closed_form assms)

subsection \<open>Arguments arrive\<close>

text \<open>
  C1. Take a signature of small arguments, its layouts under two ABIs and the plan
  between them. Carrying out the plan's operations up to the call, each reading
  the caller's registers and stack and writing the callee's, gives a callee
  state in which the k-th argument piece of the callee's layout holds the value
  of the k-th piece of the caller's layout, for every k and every initial
  content: no move overwrites an argument placed by an earlier one.
\<close>

theorem plan_delivers_arguments:
  assumes "small_sig sig"
    and "poly_classify_call_abi caller sig = Some c" and "poly_classify_call_abi callee sig = Some d"
    and "poly_bridge_plan_from_layouts c d slot key = Some plan"
  shows "map (enter_callee m plan m' \<circ> loc_cell) (layout_locs d) = map (m \<circ> loc_cell) (layout_locs c)"
proof -
  have c: "wf_layout c" and d: "wf_layout d" using assms(2,3) by (auto intro: call_wf_layout)
  have ok: "plannable c d" and plan: "plan = fold push_op (planned_ops c d slot key) (blank_plan c d slot key)"
    using assms(4) by (simp_all add: from_layouts_closed_form[OF c d] split: if_splits)
  have len: "length (layout_locs c) = length (layout_locs d)"
    using same_shape_length[of c d] ok by (simp add: concat_arg_lists[OF c] concat_arg_lists[OF d] plannable_def)
  have sized: "\<forall>loc \<in> set (layout_locs d). loc_size loc \<noteq> 0"
  proof
    fix loc assume "loc \<in> set (layout_locs d)"
    then obtain loc' where "(loc', loc) \<in> set (arg_pairs c d)"
      using len by (auto simp: arg_pairs_def concat_arg_lists[OF c] concat_arg_lists[OF d] in_set_conv_nth set_zip)
    then have "movable (loc', loc)" using ok by (auto simp: plannable_def list_all_iff)
    then show "loc_size loc \<noteq> 0" by (auto simp: movable_def connectable_def)
  qed
  have "before_call (plan_list plan) = plan_prefix slot key @ map move_op (zip (layout_locs c) (layout_locs d))"
    using length_planned_ops[OF c, of d slot key]
    by (simp add: plan before_call_planned arg_pairs_def concat_arg_lists[OF c] concat_arg_lists[OF d])
  then show ?thesis
    using run_moves[OF distinct_cells[OF assms(3,1) sized] len]
    by (simp add: enter_callee_def run_prefix)
qed

theorem plan_delivers_arguments_witness:
  "\<exists>sig c d plan. poly_abi_descriptor_decode_kind POLY_PROCESS_BRIDGE_U64_STACK9 = Some sig \<and> small_sig sig \<and>
     poly_classify_call_abi POLY_ABI_ARCH_X86 sig = Some c \<and>
     poly_classify_call_abi POLY_ABI_ARCH_AARCH64 sig = Some d \<and>
     poly_bridge_plan_from_layouts c d 3 True = Some plan \<and> length (layout_locs d) = 9 \<and>
     (\<forall>m m' :: abi_cell \<Rightarrow> nat.
        map (enter_callee m plan m' \<circ> loc_cell) (layout_locs d) = map (m \<circ> loc_cell) (layout_locs c))"
proof -
  have "(case poly_abi_descriptor_decode_kind POLY_PROCESS_BRIDGE_U64_STACK9 of None \<Rightarrow> False | Some sig \<Rightarrow>
      small_sig sig \<and>
      (case poly_classify_call_abi POLY_ABI_ARCH_X86 sig of None \<Rightarrow> False | Some c \<Rightarrow>
       case poly_classify_call_abi POLY_ABI_ARCH_AARCH64 sig of None \<Rightarrow> False | Some d \<Rightarrow>
       length (layout_locs d) = 9 \<and> poly_bridge_plan_from_layouts c d 3 True \<noteq> None))"
    by code_simp
  then obtain sig c d plan where
    w: "poly_abi_descriptor_decode_kind POLY_PROCESS_BRIDGE_U64_STACK9 = Some sig" "small_sig sig"
      "poly_classify_call_abi POLY_ABI_ARCH_X86 sig = Some c"
      "poly_classify_call_abi POLY_ABI_ARCH_AARCH64 sig = Some d"
      "poly_bridge_plan_from_layouts c d 3 True = Some plan" "length (layout_locs d) = 9"
    by (auto split: option.splits)
  then show ?thesis using plan_delivers_arguments[OF w(2,3,4,5)] by blast
qed

subsection \<open>What can be planned\<close>

text \<open>
  A descriptor kind can be planned for a pair of architectures exactly when
  both are known, the kind is one of the 21 defined ones, and either neither or
  both sides are x86 or the kind is one of the nine whose pieces have the same
  shape under every ABI. Signature slot and state key make no difference.
\<close>

lemma plan_support_matrix:
  "poly_bridge_plan_from_descriptor_kind a b k slot key \<noteq> None \<longleftrightarrow>
     valid_arch a \<and> valid_arch b \<and> k \<in> set all_bridge_kinds \<and> plan_supported a b k"
proof (cases "valid_arch a \<and> valid_arch b \<and> k \<in> set all_bridge_kinds")
  case True
  then have entry: "support_entry a b k"
    using support_entries known_archs_iff unfolding list_all_iff by blast
  then obtain sig c d where
    sig: "poly_abi_descriptor_decode_kind k = Some sig" and
    c: "poly_classify_call_abi a sig = Some c" and d: "poly_classify_call_abi b sig = Some d" and
    ok: "plannable c d = plan_supported a b k"
    using entry by (auto simp: support_entry_def split: option.splits)
  show ?thesis
    using True ok by (simp add: poly_bridge_plan_from_descriptor_kind_def sig c d
        from_layouts_closed_form[OF call_wf_layout[OF c] call_wf_layout[OF d]])
next
  case False
  have "poly_abi_descriptor_decode_kind k = None" if "k \<notin> set all_bridge_kinds"
    using that by (auto simp: all_bridge_kinds_complete poly_abi_descriptor_decode_kind_def)
  moreover have "poly_classify_call_abi a sig = None" if "\<not> valid_arch a" for a sig
    using that by (auto simp: valid_arch_def poly_classify_call_abi_def split: poly_abi_arch.splits)
  ultimately show ?thesis using False
    by (auto simp: poly_bridge_plan_from_descriptor_kind_def bind_eq_None_conv split: bind_splits)
qed


definition decodes_well :: "poly_process_bridge_kind \<Rightarrow> bool" where
  "decodes_well k = (case poly_abi_descriptor_decode_kind k of
     None \<Rightarrow> False | Some sig \<Rightarrow> wf_sig sig \<and> small_sig sig)"

lemma all_kinds_decode: "list_all decodes_well all_bridge_kinds"
  by code_simp

text \<open>
  Every defined bridge kind decodes to a well-formed signature of small
  arguments, which all three classifiers accept; every other kind is rejected.
\<close>

lemma descriptor_decode_wf:
  "case poly_abi_descriptor_decode_kind k of
     None \<Rightarrow> (\<exists>n. k = POLY_PROCESS_BRIDGE_other n)
   | Some sig \<Rightarrow> k \<in> set all_bridge_kinds \<and> wf_sig sig \<and> small_sig sig"
proof (cases "k \<in> set all_bridge_kinds")
  case True
  then have "decodes_well k" using all_kinds_decode by (auto simp: list_all_iff)
  with True show ?thesis by (auto simp: decodes_well_def split: option.splits)
next
  case False
  then show ?thesis by (auto simp: all_bridge_kinds_complete poly_abi_descriptor_decode_kind_def)
qed

end
