(* ===== verification/Process_Bridge.thy ===== *)
theory Process_Bridge
  imports Abi_Descriptor
begin

text \<open>
  The bridge metadata of a program, \<open>tools/runtime/polyexec.c\<close>: an ELF note
  named \<open>POLYABI\<close> holds text lines, each naming a symbol and a bridge kind. The
  loader parses the notes into a table of at most 16 entries and looks symbols
  up in it. The byte readers of the same file and the predicates on bridge
  kinds that the call stub emitter uses are here too.

  Text is a \<open>string\<close> (a list of 8-bit characters), file contents a list of
  bytes. A read outside the file is a value of its own, \<open>Out_of_bounds\<close>, so that
  the parser's bounds checks can be shown to prevent it.
\<close>

subsection \<open>Little-endian readers and writers\<close>

definition read_u64_le :: "u8 list \<Rightarrow> u64" where
  "read_u64_le bytes = fold (\<lambda>n value. value OR push_bit (n * 8) (ucast (bytes ! n))) [0..<8] 0"

definition read_u32_le :: "u8 list \<Rightarrow> u32" where
  "read_u32_le bytes = fold (\<lambda>n value. value OR push_bit (n * 8) (ucast (bytes ! n))) [0..<4] 0"

definition read_u16_le :: "u8 list \<Rightarrow> u16" where
  "read_u16_le bytes = fold (\<lambda>n value. value OR push_bit (n * 8) (ucast (bytes ! n))) [0..<2] 0"

definition write_u64_le :: "u8 list \<Rightarrow> u64 \<Rightarrow> u8 list" where
  "write_u64_le bytes value =
     fold (\<lambda>n bytes. bytes[n := ucast (drop_bit (n * 8) value AND 0xff)]) [0..<8] bytes"

subsection \<open>Bridge names\<close>

definition process_bridge_kind_from_name :: "string \<Rightarrow> poly_process_bridge_kind option" where
  "process_bridge_kind_from_name name =
     (if name = ''default'' then Some POLY_PROCESS_BRIDGE_DEFAULT
      else if name = ''vec128_u32'' then Some POLY_PROCESS_BRIDGE_VEC128_U32
      else if name = ''compact_u32_f32'' then Some POLY_PROCESS_BRIDGE_COMPACT_U32_F32
      else if name = ''compact_f32_u32'' then Some POLY_PROCESS_BRIDGE_COMPACT_F32_U32
      else if name = ''u64_stack9'' then Some POLY_PROCESS_BRIDGE_U64_STACK9
      else if name = ''fp64'' then Some POLY_PROCESS_BRIDGE_FP64
      else if name = ''fp32'' then Some POLY_PROCESS_BRIDGE_FP32
      else if name = ''aarch64_hfa3_f32_ret'' then Some POLY_PROCESS_BRIDGE_AARCH64_HFA3_F32_RET
      else if name = ''aarch64_hfa4_f32_ret'' then Some POLY_PROCESS_BRIDGE_AARCH64_HFA4_F32_RET
      else if name = ''aarch64_hfa3_f64_ret'' then Some POLY_PROCESS_BRIDGE_AARCH64_HFA3_F64_RET
      else if name = ''aarch64_hfa4_f64_ret'' then Some POLY_PROCESS_BRIDGE_AARCH64_HFA4_F64_RET
      else if name = ''aarch64_hfa3_f64_arg'' then Some POLY_PROCESS_BRIDGE_AARCH64_HFA3_F64_ARG
      else if name = ''aarch64_hfa4_f64_arg'' then Some POLY_PROCESS_BRIDGE_AARCH64_HFA4_F64_ARG
      else if name = ''aarch64_hfa3_f32_arg'' then Some POLY_PROCESS_BRIDGE_AARCH64_HFA3_F32_ARG
      else if name = ''aarch64_hfa4_f32_arg'' then Some POLY_PROCESS_BRIDGE_AARCH64_HFA4_F32_ARG
      else if name = ''fpair32_arg'' then Some POLY_PROCESS_BRIDGE_FPAIR32_ARG
      else if name = ''fpair64_arg'' then Some POLY_PROCESS_BRIDGE_FPAIR64_ARG
      else if name = ''fpair32_ret'' then Some POLY_PROCESS_BRIDGE_FPAIR32_RET
      else if name = ''fpair64_ret'' then Some POLY_PROCESS_BRIDGE_FPAIR64_RET
      else if name = ''sret_x86_sysv'' then Some POLY_PROCESS_BRIDGE_SRET_X86_SYSV
      else if name = ''native_sret'' then Some POLY_PROCESS_BRIDGE_NATIVE_SRET
      else None)"

subsection \<open>The table of bridge specifications\<close>

definition MAX_PROCESS_BRIDGE_SPECS :: nat where
  "MAX_PROCESS_BRIDGE_SPECS = 16"

definition spec_symbol_size :: nat where
  "spec_symbol_size = 80"

record poly_process_bridge_spec =
  spec_symbol :: string
  spec_bridge_kind :: poly_process_bridge_kind

text \<open>
  The first \<open>bridge_spec_count\<close> entries of \<open>bridge_specs\<close>, in order. A stored
  symbol is its bytes without the terminator; what C sees of it is \<open>cstr\<close>, the
  bytes before the first NUL.
\<close>

type_synonym bridge_specs = "poly_process_bridge_spec list"

definition cstr :: "string \<Rightarrow> string" where
  "cstr s = takeWhile (\<lambda>c. c \<noteq> CHR 0x00) s"

definition append_process_bridge_spec :: "string \<Rightarrow> string \<Rightarrow> bridge_specs \<Rightarrow> bridge_specs option" where
  "append_process_bridge_spec symbol bridge specs =
     (if length symbol = 0 \<or> length symbol \<ge> spec_symbol_size \<or>
         length bridge = 0 \<or> length bridge \<ge> 40 \<or>
         length specs \<ge> MAX_PROCESS_BRIDGE_SPECS then None
      else
        (case process_bridge_kind_from_name (cstr bridge) of
           None \<Rightarrow> None
         | Some bridge_kind \<Rightarrow>
             Some (specs @ [\<lparr>spec_symbol = symbol, spec_bridge_kind = bridge_kind\<rparr>])))"

definition is_blank :: "char \<Rightarrow> bool" where
  "is_blank c \<longleftrightarrow> c = CHR '' '' \<or> c = CHR 0x09"

text \<open>The first two blank-separated words of a line.\<close>

definition line_symbol :: "string \<Rightarrow> string" where
  "line_symbol line = takeWhile (\<lambda>c. \<not> is_blank c) (dropWhile is_blank line)"

definition line_bridge :: "string \<Rightarrow> string" where
  "line_bridge line =
     takeWhile (\<lambda>c. \<not> is_blank c)
       (dropWhile is_blank (dropWhile (\<lambda>c. \<not> is_blank c) (dropWhile is_blank line)))"

definition parse_line :: "string \<Rightarrow> bridge_specs \<Rightarrow> bridge_specs option" where
  "parse_line line specs =
     (if line_symbol line \<noteq> [] \<and> line_bridge line \<noteq> []
      then append_process_bridge_spec (line_symbol line) (line_bridge line) specs
      else Some specs)"

function parse_process_bridge_specs_text :: "string \<Rightarrow> bridge_specs \<Rightarrow> bridge_specs option" where
  "parse_process_bridge_specs_text desc specs =
     (if desc = [] then Some specs
      else
        (let line = takeWhile (\<lambda>c. c \<noteq> CHR 0x0A) desc in
         case parse_line line specs of
           None \<Rightarrow> None
         | Some specs \<Rightarrow> parse_process_bridge_specs_text (drop (length line + 1) desc) specs))"
  by pat_completeness auto
termination
  by (relation "measure (\<lambda>(desc, specs). length desc)") auto

declare parse_process_bridge_specs_text.simps [simp del]

subsection \<open>The notes\<close>

datatype parse_error = Rejected | Out_of_bounds

definition read_bytes :: "u8 list \<Rightarrow> nat \<Rightarrow> nat \<Rightarrow> parse_error + u8 list" where
  "read_bytes data offset n =
     (if offset + n \<le> length data then Inr (take n (drop offset data)) else Inl Out_of_bounds)"

definition bytes_string :: "u8 list \<Rightarrow> string" where
  "bytes_string = map (\<lambda>b. char_of (unat b))"

text \<open>\<open>(n + 3U) & ~3U\<close> in 32 bits.\<close>

definition round4 :: "u32 \<Rightarrow> u32" where
  "round4 n = (n + 3) AND NOT 3"

definition polyabi_name :: "u8 list" where
  "polyabi_name = [0x50, 0x4F, 0x4C, 0x59, 0x41, 0x42, 0x49, 0x00]"

text \<open>One note that has passed the size checks: its name is compared and its text parsed.\<close>

definition parse_note_body ::
    "u8 list \<Rightarrow> nat \<Rightarrow> nat \<Rightarrow> u32 \<Rightarrow> u32 \<Rightarrow> bridge_specs \<Rightarrow> parse_error + bridge_specs" where
  "parse_note_body data name_offset desc_offset namesz descsz specs =
     (if namesz \<noteq> 8 then Inr specs
      else
        (case read_bytes data name_offset 8 of
           Inl e \<Rightarrow> Inl e
         | Inr name \<Rightarrow>
             if name \<noteq> polyabi_name then Inr specs
             else
               (case read_bytes data desc_offset (unat descsz) of
                  Inl e \<Rightarrow> Inl e
                | Inr desc \<Rightarrow>
                    (case parse_process_bridge_specs_text (bytes_string desc) specs of
                       None \<Rightarrow> Inl Rejected
                     | Some specs \<Rightarrow> Inr specs))))"

function parse_notes_loop :: "u8 list \<Rightarrow> nat \<Rightarrow> nat \<Rightarrow> bridge_specs \<Rightarrow> parse_error + bridge_specs" where
  "parse_notes_loop data lim offset specs =
     (if \<not> offset < lim then Inr specs
      else if lim - offset < 12 then Inl Rejected
      else
        (case read_bytes data offset 8 of
           Inl e \<Rightarrow> Inl e
         | Inr header \<Rightarrow>
             (let namesz = read_u32_le header; descsz = read_u32_le (drop 4 header);
                  name_offset = offset + 12;
                  desc_offset = name_offset + unat (round4 namesz);
                  next_offset = desc_offset + unat (round4 descsz)
              in if unat namesz > lim - name_offset then Inl Rejected
                 else if desc_offset > lim \<or> unat descsz > lim - desc_offset then Inl Rejected
                 else if next_offset > lim then Inl Rejected
                 else
                   (case parse_note_body data name_offset desc_offset namesz descsz specs of
                      Inl e \<Rightarrow> Inl e
                    | Inr specs \<Rightarrow> parse_notes_loop data lim next_offset specs))))"
  by pat_completeness auto
termination
  by (relation "measure (\<lambda>(data, lim, offset, specs). lim - offset)") (auto simp: Let_def)

declare parse_notes_loop.simps [simp del]

definition parse_process_bridge_specs_notes ::
    "u8 list \<Rightarrow> nat \<Rightarrow> nat \<Rightarrow> bridge_specs \<Rightarrow> parse_error + bridge_specs" where
  "parse_process_bridge_specs_notes data offset note_size specs =
     (if offset > length data \<or> note_size > length data - offset then Inl Rejected
      else parse_notes_loop data (offset + note_size) offset specs)"

subsection \<open>Lookup\<close>

fun process_bridge_kind_for_symbol :: "bridge_specs \<Rightarrow> string option \<Rightarrow> poly_process_bridge_kind" where
  "process_bridge_kind_for_symbol specs None = POLY_PROCESS_BRIDGE_DEFAULT"
| "process_bridge_kind_for_symbol [] (Some symbol_name) = POLY_PROCESS_BRIDGE_DEFAULT"
| "process_bridge_kind_for_symbol (spec # specs) (Some symbol_name) =
     (if cstr (spec_symbol spec) = symbol_name then spec_bridge_kind spec
      else process_bridge_kind_for_symbol specs (Some symbol_name))"

subsection \<open>Signature slots and predicates on bridge kinds\<close>

text \<open>The file-scope slot variables, with the values they are initialised to.\<close>

record signature_slots =
  process_native_signature_slot :: u32
  process_fp64_signature_slot :: u32
  process_fp32_signature_slot :: u32
  process_sret_signature_slot :: u32
  process_native_sret_signature_slot :: u32
  process_vec128_signature_slot :: u32
  process_compact_u32_f32_signature_slot :: u32
  process_compact_f32_u32_signature_slot :: u32

definition initial_signature_slots :: signature_slots where
  "initial_signature_slots =
     \<lparr>process_native_signature_slot = 3,
      process_fp64_signature_slot = POLY_ABI_SIGNATURE_SLOT_NATIVE_REGS_FP64,
      process_fp32_signature_slot = POLY_ABI_SIGNATURE_SLOT_NATIVE_REGS_FP32,
      process_sret_signature_slot = POLY_ABI_SIGNATURE_SLOT_SRET_X86_SYSV_REGS,
      process_native_sret_signature_slot = POLY_ABI_SIGNATURE_SLOT_NATIVE_SRET_REGS,
      process_vec128_signature_slot = 5,
      process_compact_u32_f32_signature_slot = 6,
      process_compact_f32_u32_signature_slot = 7\<rparr>"

definition process_signature_slot_for_bridge_kind :: "signature_slots \<Rightarrow> poly_process_bridge_kind \<Rightarrow> u32" where
  "process_signature_slot_for_bridge_kind slots bridge_kind =
     (if bridge_kind = POLY_PROCESS_BRIDGE_VEC128_U32 then process_vec128_signature_slot slots
      else if bridge_kind = POLY_PROCESS_BRIDGE_COMPACT_U32_F32 then process_compact_u32_f32_signature_slot slots
      else if bridge_kind = POLY_PROCESS_BRIDGE_COMPACT_F32_U32 then process_compact_f32_u32_signature_slot slots
      else if bridge_kind = POLY_PROCESS_BRIDGE_U64_STACK9 then POLY_ABI_SIGNATURE_SLOT_EXCHANGE
      else if bridge_kind = POLY_PROCESS_BRIDGE_FP64 then process_fp64_signature_slot slots
      else if bridge_kind = POLY_PROCESS_BRIDGE_FP32 then process_fp32_signature_slot slots
      else if bridge_kind = POLY_PROCESS_BRIDGE_SRET_X86_SYSV then process_sret_signature_slot slots
      else if bridge_kind = POLY_PROCESS_BRIDGE_NATIVE_SRET then process_native_sret_signature_slot slots
      else if bridge_kind = POLY_PROCESS_BRIDGE_AARCH64_HFA3_F32_RET \<or>
              bridge_kind = POLY_PROCESS_BRIDGE_AARCH64_HFA4_F32_RET \<or>
              bridge_kind = POLY_PROCESS_BRIDGE_AARCH64_HFA3_F64_RET \<or>
              bridge_kind = POLY_PROCESS_BRIDGE_AARCH64_HFA4_F64_RET \<or>
              bridge_kind = POLY_PROCESS_BRIDGE_AARCH64_HFA3_F64_ARG \<or>
              bridge_kind = POLY_PROCESS_BRIDGE_AARCH64_HFA4_F64_ARG \<or>
              bridge_kind = POLY_PROCESS_BRIDGE_AARCH64_HFA3_F32_ARG \<or>
              bridge_kind = POLY_PROCESS_BRIDGE_AARCH64_HFA4_F32_ARG then
        (if bridge_kind = POLY_PROCESS_BRIDGE_AARCH64_HFA3_F64_ARG \<or>
            bridge_kind = POLY_PROCESS_BRIDGE_AARCH64_HFA4_F64_ARG
         then process_fp64_signature_slot slots
         else POLY_ABI_SIGNATURE_SLOT_X86_SYSV_REGS_FP128_RET)
      else if bridge_kind = POLY_PROCESS_BRIDGE_FPAIR32_ARG \<or>
              bridge_kind = POLY_PROCESS_BRIDGE_FPAIR64_ARG \<or>
              bridge_kind = POLY_PROCESS_BRIDGE_FPAIR32_RET \<or>
              bridge_kind = POLY_PROCESS_BRIDGE_FPAIR64_RET then
        POLY_ABI_SIGNATURE_SLOT_X86_SYSV_REGS_FP128_RET
      else process_native_signature_slot slots)"

definition process_bridge_is_compact :: "poly_process_bridge_kind \<Rightarrow> bool" where
  "process_bridge_is_compact bridge_kind \<longleftrightarrow>
     bridge_kind = POLY_PROCESS_BRIDGE_COMPACT_U32_F32 \<or>
     bridge_kind = POLY_PROCESS_BRIDGE_COMPACT_F32_U32"

definition process_bridge_is_aarch64_hfa32_ret :: "poly_process_bridge_kind \<Rightarrow> bool" where
  "process_bridge_is_aarch64_hfa32_ret bridge_kind \<longleftrightarrow>
     bridge_kind = POLY_PROCESS_BRIDGE_AARCH64_HFA3_F32_RET \<or>
     bridge_kind = POLY_PROCESS_BRIDGE_AARCH64_HFA4_F32_RET"

definition process_bridge_is_aarch64_hfa64_ret :: "poly_process_bridge_kind \<Rightarrow> bool" where
  "process_bridge_is_aarch64_hfa64_ret bridge_kind \<longleftrightarrow>
     bridge_kind = POLY_PROCESS_BRIDGE_AARCH64_HFA3_F64_RET \<or>
     bridge_kind = POLY_PROCESS_BRIDGE_AARCH64_HFA4_F64_RET"

definition process_bridge_is_aarch64_hfa64_arg :: "poly_process_bridge_kind \<Rightarrow> bool" where
  "process_bridge_is_aarch64_hfa64_arg bridge_kind \<longleftrightarrow>
     bridge_kind = POLY_PROCESS_BRIDGE_AARCH64_HFA3_F64_ARG \<or>
     bridge_kind = POLY_PROCESS_BRIDGE_AARCH64_HFA4_F64_ARG"

definition process_bridge_aarch64_hfa64_ret_count :: "poly_process_bridge_kind \<Rightarrow> u32" where
  "process_bridge_aarch64_hfa64_ret_count bridge_kind =
     (if bridge_kind = POLY_PROCESS_BRIDGE_AARCH64_HFA4_F64_RET then 4 else 3)"

definition process_bridge_aarch64_hfa64_arg_count :: "poly_process_bridge_kind \<Rightarrow> u32" where
  "process_bridge_aarch64_hfa64_arg_count bridge_kind =
     (if bridge_kind = POLY_PROCESS_BRIDGE_AARCH64_HFA4_F64_ARG then 4 else 3)"

definition process_bridge_is_aarch64_hfa32_arg :: "poly_process_bridge_kind \<Rightarrow> bool" where
  "process_bridge_is_aarch64_hfa32_arg bridge_kind \<longleftrightarrow>
     bridge_kind = POLY_PROCESS_BRIDGE_AARCH64_HFA3_F32_ARG \<or>
     bridge_kind = POLY_PROCESS_BRIDGE_AARCH64_HFA4_F32_ARG"

definition process_bridge_is_fpair :: "poly_process_bridge_kind \<Rightarrow> bool" where
  "process_bridge_is_fpair bridge_kind \<longleftrightarrow>
     bridge_kind = POLY_PROCESS_BRIDGE_FPAIR32_ARG \<or>
     bridge_kind = POLY_PROCESS_BRIDGE_FPAIR64_ARG \<or>
     bridge_kind = POLY_PROCESS_BRIDGE_FPAIR32_RET \<or>
     bridge_kind = POLY_PROCESS_BRIDGE_FPAIR64_RET"

definition process_bridge_is_fpair32 :: "poly_process_bridge_kind \<Rightarrow> bool" where
  "process_bridge_is_fpair32 bridge_kind \<longleftrightarrow>
     bridge_kind = POLY_PROCESS_BRIDGE_FPAIR32_ARG \<or>
     bridge_kind = POLY_PROCESS_BRIDGE_FPAIR32_RET"

definition process_bridge_is_fpair64 :: "poly_process_bridge_kind \<Rightarrow> bool" where
  "process_bridge_is_fpair64 bridge_kind \<longleftrightarrow>
     bridge_kind = POLY_PROCESS_BRIDGE_FPAIR64_ARG \<or>
     bridge_kind = POLY_PROCESS_BRIDGE_FPAIR64_RET"

definition process_bridge_is_sret :: "poly_process_bridge_kind \<Rightarrow> bool" where
  "process_bridge_is_sret bridge_kind \<longleftrightarrow>
     bridge_kind = POLY_PROCESS_BRIDGE_SRET_X86_SYSV"

definition process_bridge_is_native_sret :: "poly_process_bridge_kind \<Rightarrow> bool" where
  "process_bridge_is_native_sret bridge_kind \<longleftrightarrow>
     bridge_kind = POLY_PROCESS_BRIDGE_NATIVE_SRET"

definition process_bridge_is_x86_source_signature :: "poly_process_bridge_kind \<Rightarrow> bool" where
  "process_bridge_is_x86_source_signature bridge_kind \<longleftrightarrow>
     process_bridge_is_aarch64_hfa32_ret bridge_kind \<or>
     process_bridge_is_aarch64_hfa64_ret bridge_kind \<or>
     process_bridge_is_aarch64_hfa32_arg bridge_kind \<or>
     process_bridge_is_fpair bridge_kind \<or>
     process_bridge_is_sret bridge_kind"

definition process_bridge_is_stack_thunk :: "poly_process_bridge_kind \<Rightarrow> bool" where
  "process_bridge_is_stack_thunk bridge_kind \<longleftrightarrow>
     bridge_kind = POLY_PROCESS_BRIDGE_U64_STACK9 \<or>
     process_bridge_is_aarch64_hfa64_ret bridge_kind \<or>
     process_bridge_is_aarch64_hfa64_arg bridge_kind"

definition process_bridge_needs_foreign_signature_set :: "poly_abi_arch \<Rightarrow> poly_abi_arch \<Rightarrow> poly_process_bridge_kind \<Rightarrow> bool" where
  "process_bridge_needs_foreign_signature_set caller_arch callee_arch bridge_kind \<longleftrightarrow>
     caller_arch \<noteq> POLY_ABI_ARCH_X86 \<and>
     callee_arch = POLY_ABI_ARCH_X86 \<and>
     process_bridge_is_fpair bridge_kind"

definition process_bridge_is_direct_foreign_fpair :: "poly_abi_arch \<Rightarrow> poly_abi_arch \<Rightarrow> poly_process_bridge_kind \<Rightarrow> bool" where
  "process_bridge_is_direct_foreign_fpair caller_arch callee_arch bridge_kind \<longleftrightarrow>
     caller_arch \<noteq> POLY_ABI_ARCH_X86 \<and>
     callee_arch \<noteq> POLY_ABI_ARCH_X86 \<and>
     caller_arch \<noteq> callee_arch \<and>
     process_bridge_is_fpair bridge_kind"

definition process_bridge_signature_kind :: "poly_process_bridge_kind \<Rightarrow> u32" where
  "process_bridge_signature_kind bridge_kind =
     (if bridge_kind = POLY_PROCESS_BRIDGE_AARCH64_HFA3_F32_RET \<or>
           bridge_kind = POLY_PROCESS_BRIDGE_AARCH64_HFA4_F32_RET \<or>
           bridge_kind = POLY_PROCESS_BRIDGE_AARCH64_HFA3_F64_RET \<or>
           bridge_kind = POLY_PROCESS_BRIDGE_AARCH64_HFA4_F64_RET \<or>
           bridge_kind = POLY_PROCESS_BRIDGE_AARCH64_HFA3_F32_ARG \<or>
           bridge_kind = POLY_PROCESS_BRIDGE_AARCH64_HFA4_F32_ARG \<or>
           bridge_kind = POLY_PROCESS_BRIDGE_FPAIR32_ARG \<or>
           bridge_kind = POLY_PROCESS_BRIDGE_FPAIR64_ARG \<or>
           bridge_kind = POLY_PROCESS_BRIDGE_FPAIR32_RET \<or>
           bridge_kind = POLY_PROCESS_BRIDGE_FPAIR64_RET \<or>
           bridge_kind = POLY_PROCESS_BRIDGE_SRET_X86_SYSV \<or>
           bridge_kind = POLY_PROCESS_BRIDGE_NATIVE_SRET
      then poly_abi_descriptor_signature_kind bridge_kind
      else UINT32_MAX)"

subsection \<open>Names\<close>

definition bridge_names :: "(string \<times> poly_process_bridge_kind) list" where
  "bridge_names =
     [(''default'', POLY_PROCESS_BRIDGE_DEFAULT),
      (''vec128_u32'', POLY_PROCESS_BRIDGE_VEC128_U32),
      (''compact_u32_f32'', POLY_PROCESS_BRIDGE_COMPACT_U32_F32),
      (''compact_f32_u32'', POLY_PROCESS_BRIDGE_COMPACT_F32_U32),
      (''u64_stack9'', POLY_PROCESS_BRIDGE_U64_STACK9),
      (''fp64'', POLY_PROCESS_BRIDGE_FP64),
      (''fp32'', POLY_PROCESS_BRIDGE_FP32),
      (''aarch64_hfa3_f32_ret'', POLY_PROCESS_BRIDGE_AARCH64_HFA3_F32_RET),
      (''aarch64_hfa4_f32_ret'', POLY_PROCESS_BRIDGE_AARCH64_HFA4_F32_RET),
      (''aarch64_hfa3_f64_ret'', POLY_PROCESS_BRIDGE_AARCH64_HFA3_F64_RET),
      (''aarch64_hfa4_f64_ret'', POLY_PROCESS_BRIDGE_AARCH64_HFA4_F64_RET),
      (''aarch64_hfa3_f64_arg'', POLY_PROCESS_BRIDGE_AARCH64_HFA3_F64_ARG),
      (''aarch64_hfa4_f64_arg'', POLY_PROCESS_BRIDGE_AARCH64_HFA4_F64_ARG),
      (''aarch64_hfa3_f32_arg'', POLY_PROCESS_BRIDGE_AARCH64_HFA3_F32_ARG),
      (''aarch64_hfa4_f32_arg'', POLY_PROCESS_BRIDGE_AARCH64_HFA4_F32_ARG),
      (''fpair32_arg'', POLY_PROCESS_BRIDGE_FPAIR32_ARG),
      (''fpair64_arg'', POLY_PROCESS_BRIDGE_FPAIR64_ARG),
      (''fpair32_ret'', POLY_PROCESS_BRIDGE_FPAIR32_RET),
      (''fpair64_ret'', POLY_PROCESS_BRIDGE_FPAIR64_RET),
      (''sret_x86_sysv'', POLY_PROCESS_BRIDGE_SRET_X86_SYSV),
      (''native_sret'', POLY_PROCESS_BRIDGE_NATIVE_SRET)]"

lemma kind_from_name_map_of: "process_bridge_kind_from_name n = map_of bridge_names n"
  by (simp add: process_bridge_kind_from_name_def bridge_names_def)

lemma distinct_bridge_names: "distinct (map fst bridge_names)"
  by code_simp

lemma kind_name_in_bridge_names: "poly_abi_descriptor_kind_name k = Some n \<longleftrightarrow> (n, k) \<in> set bridge_names"
  by (cases k) (auto simp: poly_abi_descriptor_kind_name_def bridge_names_def)

text \<open>
  The loader's table of bridge names and the descriptor's table agree in both
  directions: a name denotes a kind exactly when it is that kind's name.
\<close>

lemma kind_from_name_iff:
  "process_bridge_kind_from_name n = Some k \<longleftrightarrow> poly_abi_descriptor_kind_name k = Some n"
  by (simp add: kind_from_name_map_of kind_name_in_bridge_names distinct_bridge_names)

lemma bridge_names_shape:
  "list_all (\<lambda>(n, k). n \<noteq> [] \<and> length n < 40 \<and> k \<in> set all_bridge_kinds \<and>
     list_all (\<lambda>c. \<not> is_blank c \<and> c \<noteq> CHR 0x0A \<and> c \<noteq> CHR 0x00) n) bridge_names"
  by code_simp

subsection \<open>The table\<close>

definition wf_spec :: "poly_process_bridge_spec \<Rightarrow> bool" where
  "wf_spec spec \<longleftrightarrow> spec_symbol spec \<noteq> [] \<and> length (spec_symbol spec) < spec_symbol_size \<and>
     spec_bridge_kind spec \<in> set all_bridge_kinds"

definition wf_specs :: "bridge_specs \<Rightarrow> bool" where
  "wf_specs specs \<longleftrightarrow> length specs \<le> MAX_PROCESS_BRIDGE_SPECS \<and> list_all wf_spec specs"

lemma kind_from_name_defined: "process_bridge_kind_from_name n = Some k \<Longrightarrow> k \<in> set all_bridge_kinds"
  using bridge_names_shape by (auto simp: kind_from_name_map_of list_all_iff dest!: map_of_SomeD)

lemma append_spec_wf:
  "append_process_bridge_spec s b specs = Some specs' \<Longrightarrow> wf_specs specs \<Longrightarrow> wf_specs specs'"
  by (auto simp: append_process_bridge_spec_def wf_specs_def wf_spec_def kind_from_name_defined
      split: if_splits option.splits)

lemma parse_line_wf: "parse_line l specs = Some specs' \<Longrightarrow> wf_specs specs \<Longrightarrow> wf_specs specs'"
  by (auto simp: parse_line_def append_spec_wf split: if_splits)

lemma parse_text_wf:
  "parse_process_bridge_specs_text d specs = Some specs' \<Longrightarrow> wf_specs specs \<Longrightarrow> wf_specs specs'"
proof (induction d specs rule: parse_process_bridge_specs_text.induct)
  case (1 d specs)
  from 1(2,3) show ?case
    by (subst (asm) parse_process_bridge_specs_text.simps)
       (auto simp: Let_def split: if_splits option.splits intro: 1(1) parse_line_wf)
qed

lemma parse_text_prefix:
  "parse_process_bridge_specs_text d specs = Some specs' \<Longrightarrow> \<exists>more. specs' = specs @ more"
proof (induction d specs rule: parse_process_bridge_specs_text.induct)
  case (1 d specs)
  have line: "parse_line l specs = Some s \<Longrightarrow> \<exists>more. s = specs @ more" for l s
    by (auto simp: parse_line_def append_process_bridge_spec_def split: if_splits option.splits)
  from 1(2) show ?case
    by (subst (asm) parse_process_bridge_specs_text.simps)
       (auto simp: Let_def split: if_splits option.splits dest!: 1(1) dest: line)
qed

subsection \<open>The notes parser stays in bounds\<close>

lemma parse_note_body_safe:
  assumes "name_offset + 8 \<le> length data \<or> namesz \<noteq> 8" and "desc_offset + unat descsz \<le> length data"
  shows "parse_note_body data name_offset desc_offset namesz descsz specs \<noteq> Inl Out_of_bounds"
  using assms by (auto simp: parse_note_body_def read_bytes_def split: option.splits)

lemma parse_notes_loop_safe:
  "lim \<le> length data \<Longrightarrow> parse_notes_loop data lim offset specs \<noteq> Inl Out_of_bounds"
proof (induction data lim offset specs rule: parse_notes_loop.induct)
  case (1 data lim offset specs)
  show ?case
  proof (cases "offset < lim \<and> \<not> lim - offset < 12")
    case False
    then show ?thesis by (subst parse_notes_loop.simps) auto
  next
    case True
    let ?header = "take 8 (drop offset data)"
    let ?namesz = "read_u32_le ?header" and ?descsz = "read_u32_le (drop 4 ?header)"
    let ?d = "offset + 12 + unat (round4 ?namesz)"
    have rd: "read_bytes data offset 8 = Inr ?header" using True 1(2) by (auto simp: read_bytes_def)
    have body: "parse_note_body data (offset + 12) ?d ?namesz ?descsz specs \<noteq> Inl Out_of_bounds"
      if "\<not> unat ?namesz > lim - (offset + 12)" "\<not> ?d > lim" "\<not> unat ?descsz > lim - ?d"
      using that True 1(2) by (intro parse_note_body_safe) auto
    show ?thesis
      using True body 1(1)[OF _ _ rd refl refl refl refl refl] 1(2)
      by (subst parse_notes_loop.simps)
         (auto simp: rd Let_def split: sum.splits)
  qed
qed

lemma parse_notes_safe: "parse_process_bridge_specs_notes data offset n specs \<noteq> Inl Out_of_bounds"
  by (auto simp: parse_process_bridge_specs_notes_def parse_notes_loop_safe)

definition le_bytes :: "nat \<Rightarrow> 'a::len word \<Rightarrow> u8 list" where
  "le_bytes k w = map (\<lambda>n. ucast (drop_bit (n * 8) w)) [0..<k]"

lemma byte_index: "(k::nat) * 8 \<le> i \<and> i - k * 8 < 8 \<longleftrightarrow> i div 8 = k"
  by linarith

lemma byte_offset: "i div 8 = k \<Longrightarrow> i - k * 8 = (i::nat) mod 8"
  by (metis minus_div_mult_eq_mod)

lemma bit_push_byte:
  "bit (push_bit (k * 8) (ucast (b :: u8)) :: 'a::len word) i \<longleftrightarrow> i < LENGTH('a) \<and> i div 8 = k \<and> bit b (i mod 8)"
proof (cases "i div 8 = k")
  case True
  then have "k * 8 \<le> i" "i - k * 8 = i mod 8" using byte_index[of k i] byte_offset[of i k] by blast+
  then show ?thesis using True by (auto simp: bit_simps)
next
  case False
  then have "k * 8 \<le> i \<Longrightarrow> \<not> bit b (i - k * 8)" using byte_index[of k i] by (auto dest: bit_imp_le_length)
  then show ?thesis using False by (auto simp: bit_simps)
qed

lemma bit_or_fold:
  "bit (fold (\<lambda>n v. v OR push_bit (n * 8) (ucast (bs ! n :: u8))) [0..<k] (0 :: 'a::len word)) i \<longleftrightarrow>
     i < LENGTH('a) \<and> i div 8 < k \<and> bit (bs ! (i div 8)) (i mod 8)"
proof (induction k)
  case (Suc k)
  show ?case unfolding upt_Suc fold_append by (auto simp: bit_or_iff Suc bit_push_byte less_Suc_eq)
qed simp

lemma bit_drop_byte: "bit (ucast (drop_bit (k * 8) (w :: 'a::len word)) :: u8) j \<longleftrightarrow> j < 8 \<and> bit w (k * 8 + j)"
  by (auto simp: bit_simps)

lemma read_le_bytes:
  fixes w :: "'a::len word"
  assumes "LENGTH('a) \<le> k * 8" and "\<And>n. n < k \<Longrightarrow> bs ! n = ucast (drop_bit (n * 8) w)"
  shows "fold (\<lambda>n v. v OR push_bit (n * 8) (ucast (bs ! n :: u8))) [0..<k] (0 :: 'a word) = w"
proof (rule bit_word_eqI)
  fix i assume "i < LENGTH('a)"
  moreover from this have "i div 8 < k" using assms(1) by linarith
  moreover have "i div 8 * 8 + i mod 8 = i" by (rule div_mult_mod_eq)
  ultimately show "bit (fold (\<lambda>n v. v OR push_bit (n * 8) (ucast (bs ! n))) [0..<k] (0 :: 'a word)) i = bit w i"
    by (simp add: bit_or_fold assms(2) bit_drop_byte)
qed


lemma read_u32_le_bytes: "read_u32_le (le_bytes 4 w @ rest) = w"
  unfolding read_u32_le_def by (rule read_le_bytes) (simp_all add: le_bytes_def nth_append)

lemma read_u16_le_bytes: "read_u16_le (le_bytes 2 w @ rest) = w"
  unfolding read_u16_le_def by (rule read_le_bytes) (simp_all add: le_bytes_def nth_append)

lemma nth_fold_update:
  "n < length bs \<Longrightarrow> fold (\<lambda>n bs. bs[n := f n]) [0..<k] bs ! n = (if n < k then f n else bs ! n)"
  "length (fold (\<lambda>n bs. bs[n := f n]) [0..<k] bs) = length bs"
proof (induction k)
  case (Suc k)
  {
    case 1
    then show ?case using Suc by (auto simp: nth_list_update less_Suc_eq)
  next
    case 2
    then show ?case using Suc by simp
  }
qed simp_all

lemma read_write_u64_le:
  assumes "8 \<le> length bs"
  shows "read_u64_le (write_u64_le bs v) = v"
  unfolding read_u64_le_def write_u64_le_def
proof (rule read_le_bytes)
  have ff: "(0xff :: u64) = mask 8" by (simp add: mask_eq_exp_minus_1)
  fix n :: nat assume "n < 8"
  then show "fold (\<lambda>n bs. bs[n := ucast (drop_bit (n * 8) v AND 0xff)]) [0..<8] bs ! n = ucast (drop_bit (n * 8) v)"
    using assms by (subst nth_fold_update) (auto simp: ff bit_simps intro!: bit_word_eqI)
qed simp

subsection \<open>Round trips\<close>

definition clean_symbol :: "string \<Rightarrow> bool" where
  "clean_symbol s \<longleftrightarrow> s \<noteq> [] \<and> length s < spec_symbol_size \<and>
     list_all (\<lambda>c. \<not> is_blank c \<and> c \<noteq> CHR 0x0A \<and> c \<noteq> CHR 0x00) s"

definition clean_spec :: "poly_process_bridge_spec \<Rightarrow> bool" where
  "clean_spec spec \<longleftrightarrow> clean_symbol (spec_symbol spec) \<and> spec_bridge_kind spec \<in> set all_bridge_kinds"

definition spec_line :: "poly_process_bridge_spec \<Rightarrow> string" where
  "spec_line spec = spec_symbol spec @ '' '' @ the (poly_abi_descriptor_kind_name (spec_bridge_kind spec))"

definition print_specs :: "bridge_specs \<Rightarrow> string" where
  "print_specs specs = concat (map (\<lambda>spec. spec_line spec @ [CHR 0x0A]) specs)"

lemma takeWhile_all_append: "list_all P xs \<Longrightarrow> takeWhile P (xs @ y # ys) = xs @ (if P y then y # takeWhile P ys else [])"
  by (induction xs) auto

lemma dropWhile_all_append: "list_all P xs \<Longrightarrow> \<not> P y \<Longrightarrow> dropWhile P (xs @ y # ys) = y # ys"
  by (induction xs) auto

lemma two_words:
  assumes "list_all (\<lambda>c. \<not> is_blank c) s" "s \<noteq> []" "list_all (\<lambda>c. \<not> is_blank c) b" "b \<noteq> []"
  shows "line_symbol (s @ '' '' @ b) = s" and "line_bridge (s @ '' '' @ b) = b"
proof -
  have blank: "is_blank (CHR '' '')" by (simp add: is_blank_def)
  have drop_s: "dropWhile is_blank (s @ '' '' @ b) = s @ '' '' @ b"
    using assms by (cases s) auto
  have tw: "takeWhile (\<lambda>c. \<not> is_blank c) b = b" using assms by (auto simp: list_all_iff)
  have db: "dropWhile is_blank b = b" using assms by (cases b) auto
  show "line_symbol (s @ '' '' @ b) = s"
    using drop_s assms blank by (simp add: line_symbol_def takeWhile_all_append)
  show "line_bridge (s @ '' '' @ b) = b"
    unfolding line_bridge_def drop_s using assms blank
    by (simp add: dropWhile_all_append tw db)
qed


lemma kind_name_total:
  assumes "k \<in> set all_bridge_kinds"
  obtains n where "poly_abi_descriptor_kind_name k = Some n" "(n, k) \<in> set bridge_names"
  using assms by (cases k) (auto simp: poly_abi_descriptor_kind_name_def all_bridge_kinds_def
      bridge_names_def)

lemma cstr_clean: "list_all (\<lambda>c. c \<noteq> CHR 0x00) s \<Longrightarrow> cstr s = s"
  by (simp add: cstr_def list_all_iff takeWhile_eq_all_conv)

lemma parse_spec_line:
  assumes "clean_spec spec" and "length specs < MAX_PROCESS_BRIDGE_SPECS"
  shows "parse_line (spec_line spec) specs = Some (specs @ [spec])"
    and "list_all (\<lambda>c. c \<noteq> CHR 0x0A) (spec_line spec)"
proof -
  from assms(1) obtain n where n: "poly_abi_descriptor_kind_name (spec_bridge_kind spec) = Some n"
      "(n, spec_bridge_kind spec) \<in> set bridge_names"
    using kind_name_total by (auto simp: clean_spec_def)
  then have shape: "n \<noteq> []" "length n < 40"
      "list_all (\<lambda>c. \<not> is_blank c \<and> c \<noteq> CHR 0x0A \<and> c \<noteq> CHR 0x00) n"
    using bridge_names_shape by (auto simp: list_all_iff)
  have sym: "spec_symbol spec \<noteq> []" "length (spec_symbol spec) < spec_symbol_size"
      "list_all (\<lambda>c. \<not> is_blank c \<and> c \<noteq> CHR 0x0A \<and> c \<noteq> CHR 0x00) (spec_symbol spec)"
    using assms(1) by (simp_all add: clean_spec_def clean_symbol_def)
  have words: "line_symbol (spec_line spec) = spec_symbol spec" "line_bridge (spec_line spec) = n"
    unfolding spec_line_def n option.sel by (rule two_words; use shape sym in \<open>simp add: list_all_iff\<close>)+
  have "cstr n = n" using shape by (intro cstr_clean) (simp add: list_all_iff)
  then show "parse_line (spec_line spec) specs = Some (specs @ [spec])"
    using shape sym assms(2) kind_from_name_iff[of n "spec_bridge_kind spec"] n
    by (simp add: parse_line_def words append_process_bridge_spec_def)
  show "list_all (\<lambda>c. c \<noteq> CHR 0x0A) (spec_line spec)"
    using shape sym by (auto simp: spec_line_def n list_all_iff)
qed

lemma parse_print_specs:
  assumes "list_all clean_spec new" and "length old + length new \<le> MAX_PROCESS_BRIDGE_SPECS"
  shows "parse_process_bridge_specs_text (print_specs new) old = Some (old @ new)"
  using assms
proof (induction new arbitrary: old)
  case Nil
  then show ?case by (simp add: print_specs_def parse_process_bridge_specs_text.simps)
next
  case (Cons spec new)
  then have line: "parse_line (spec_line spec) old = Some (old @ [spec])"
      "list_all (\<lambda>c. c \<noteq> CHR 0x0A) (spec_line spec)"
    using parse_spec_line[of spec old] by simp_all
  have printed: "print_specs (spec # new) = spec_line spec @ CHR 0x0A # print_specs new"
    by (simp add: print_specs_def)
  show ?case
    using Cons line
    by (subst parse_process_bridge_specs_text.simps) (simp add: printed takeWhile_all_append)
qed

definition string_bytes :: "string \<Rightarrow> u8 list" where
  "string_bytes = map (\<lambda>c. of_nat (of_char c))"

lemma bytes_string_inverse: "bytes_string (string_bytes s) = s"
proof -
  have "unat (of_nat (of_char c) :: u8) = of_char c" for c :: char
  proof -
    have "of_char c < (256 :: nat)" by (metis of_char_of nat_of_char_less_256)
    then show ?thesis by (simp add: unat_of_nat take_bit_nat_eq_self)
  qed
  then show ?thesis by (simp add: bytes_string_def string_bytes_def comp_def)
qed

lemma length_string_bytes [simp]: "length (string_bytes s) = length s"
  by (simp add: string_bytes_def)

definition abi_note :: "u32 \<Rightarrow> u8 list \<Rightarrow> u8 list" where
  "abi_note type desc =
     le_bytes 4 (8 :: u32) @ le_bytes 4 (of_nat (length desc) :: u32) @ le_bytes 4 type @
     polyabi_name @ desc @ replicate ((4 - length desc mod 4) mod 4) 0"

lemma unat_round4:
  assumes "n \<le> 2 ^ 32 - 4"
  shows "unat (round4 (of_nat n)) = (n + 3) div 4 * 4"
proof -
  have n: "unat (of_nat n :: u32) = n" using assms by (simp add: unat_of_nat take_bit_nat_eq_self)
  have "unat ((of_nat n + 4 - 1 :: u32) AND NOT (4 - 1)) = (unat (of_nat n :: u32) + 2 ^ 2 - 1) div 2 ^ 2 * 2 ^ 2"
    by (rule unat_round_up_word) (use n assms in simp_all)
  then show ?thesis by (simp add: round4_def n add.commute)
qed

lemma length_le_bytes [simp]: "length (le_bytes k w) = k"
  by (simp add: le_bytes_def)

lemma pad_length: "n + (4 - n mod 4) mod 4 = (n + 3) div 4 * (4::nat)"
proof -
  obtain q r where n: "n = 4 * q + r" "r < 4"
    by (metis mult_div_mod_eq mod_less_divisor zero_less_numeral)
  then have "r = 0 \<or> r = 1 \<or> r = 2 \<or> r = 3" by linarith
  with n show ?thesis by auto
qed

lemma parse_abi_note:
  assumes "length desc \<le> 2 ^ 32 - 4"
  shows "parse_process_bridge_specs_notes (pre @ abi_note type desc @ post) (length pre)
      (length (abi_note type desc)) specs =
    (case parse_process_bridge_specs_text (bytes_string desc) specs of
       None \<Rightarrow> Inl Rejected | Some specs' \<Rightarrow> Inr specs')"
proof -
  let ?data = "pre @ abi_note type desc @ post"
  let ?lim = "length pre + length (abi_note type desc)"
  let ?hdr = "le_bytes 4 (8 :: u32) @ le_bytes 4 (of_nat (length desc) :: u32)"
  have len: "length (abi_note type desc) = 20 + (length desc + 3) div 4 * 4"
    using pad_length[of "length desc"] by (simp add: abi_note_def polyabi_name_def)
  have dlen: "unat (of_nat (length desc) :: u32) = length desc"
    using assms by (simp add: unat_of_nat take_bit_nat_eq_self)
  have le: "length desc \<le> (length desc + 3) div 4 * 4" by linarith
  have header: "read_bytes ?data (length pre) 8 = Inr ?hdr"
    using len by (simp add: read_bytes_def abi_note_def)
  have name: "read_bytes ?data (length pre + 12) 8 = Inr polyabi_name"
    using len by (simp add: read_bytes_def abi_note_def polyabi_name_def)
  have body_text: "read_bytes ?data (length pre + 20) (length desc) = Inr desc"
    using len le by (simp add: read_bytes_def abi_note_def polyabi_name_def)
  have r8: "unat (round4 8) = 8" by (simp add: round4_def)
  have body: "parse_note_body ?data (length pre + 12) (length pre + 20) 8 (of_nat (length desc)) specs =
      (case parse_process_bridge_specs_text (bytes_string desc) specs of
         None \<Rightarrow> Inl Rejected | Some specs' \<Rightarrow> Inr specs')"
    by (simp add: parse_note_body_def name dlen body_text)
  have "parse_notes_loop ?data ?lim (length pre) specs =
     (case parse_process_bridge_specs_text (bytes_string desc) specs of
         None \<Rightarrow> Inl Rejected | Some specs' \<Rightarrow> parse_notes_loop ?data ?lim ?lim specs')"
    using le
    by (subst parse_notes_loop.simps)
      (simp add: header read_u32_le_bytes read_u32_le_bytes[where rest="[]", simplified] r8 unat_round4[OF assms]
        len dlen body Let_def add.assoc add.left_commute[of 20] split: option.splits)
  then show ?thesis
    by (simp add: parse_process_bridge_specs_notes_def parse_notes_loop.simps[of _ ?lim ?lim] cong: option.case_cong)
qed

lemma parse_notes_loop_wf:
  "parse_notes_loop data lim offset specs = Inr specs' \<Longrightarrow> wf_specs specs \<Longrightarrow>
     wf_specs specs' \<and> (\<exists>more. specs' = specs @ more)"
proof (induction data lim offset specs rule: parse_notes_loop.induct)
  case (1 data lim offset specs)
  have body: "parse_note_body data a b c d specs = Inr s \<Longrightarrow> wf_specs s \<and> (\<exists>more. s = specs @ more)" for a b c d s
    using 1(3) parse_text_wf parse_text_prefix
    by (fastforce simp: parse_note_body_def split: if_splits sum.splits option.splits)
  show ?case
  proof (cases "offset < lim \<and> \<not> lim - offset < 12")
    case False
    then show ?thesis using 1(2,3) by (subst (asm) parse_notes_loop.simps) (auto split: if_splits)
  next
    case True
    then obtain header where rd: "read_bytes data offset 8 = Inr header"
      using 1(2) by (subst (asm) parse_notes_loop.simps) (auto split: sum.splits)
    let ?namesz = "read_u32_le header" and ?descsz = "read_u32_le (drop 4 header)"
    let ?d = "offset + 12 + unat (round4 ?namesz)"
    from 1(2) True obtain s where s: "parse_note_body data (offset + 12) ?d ?namesz ?descsz specs = Inr s"
        "parse_notes_loop data lim (?d + unat (round4 ?descsz)) s = Inr specs'"
      and sizes: "\<not> unat ?namesz > lim - (offset + 12)" "\<not> (?d > lim \<or> unat ?descsz > lim - ?d)"
        "\<not> ?d + unat (round4 ?descsz) > lim"
      by (subst (asm) parse_notes_loop.simps) (auto simp: rd Let_def split: if_splits sum.splits)
    have "wf_specs specs' \<and> (\<exists>more. specs' = s @ more)"
      using 1(1)[OF _ _ rd refl refl refl refl refl sizes s(1) s(2)] body[OF s(1)] True by blast
    with body[OF s(1)] show ?thesis by auto
  qed
qed

subsection \<open>Properties\<close>

text \<open>
  C24. Whatever the file contains, parsing the notes of a program header reads no
  byte outside the file: the size checks precede every read.
\<close>

theorem notes_parse_in_bounds:
  "parse_process_bridge_specs_notes data offset note_size specs \<noteq> Inl Out_of_bounds"
  by (rule parse_notes_safe)

text \<open>
  Successful parsing keeps the table well formed: at most 16 entries, every
  symbol non-empty and shorter than its 80-byte buffer, every kind defined; the
  entries already there stay in front.
\<close>

lemma notes_parse_wf:
  assumes "wf_specs specs"
    and "parse_process_bridge_specs_notes data offset note_size specs = Inr specs'"
  shows "wf_specs specs' \<and> (\<exists>more. specs' = specs @ more)"
proof -
  from assms(2) have "parse_notes_loop data (offset + note_size) offset specs = Inr specs'"
    by (simp add: parse_process_bridge_specs_notes_def split: if_splits)
  then show ?thesis using assms(1) by (rule parse_notes_loop_wf)
qed

definition example_specs :: bridge_specs where
  "example_specs =
     [\<lparr>spec_symbol = ''scale'', spec_bridge_kind = POLY_PROCESS_BRIDGE_FP64\<rparr>,
      \<lparr>spec_symbol = ''fill'', spec_bridge_kind = POLY_PROCESS_BRIDGE_NATIVE_SRET\<rparr>]"

lemma clean_example_specs: "list_all clean_spec example_specs"
  by code_simp

lemma length_example_specs:
  "length (print_specs example_specs) \<le> 2 ^ 32 - 4"
  "length ([] :: bridge_specs) + length example_specs \<le> MAX_PROCESS_BRIDGE_SPECS"
  by (simp_all add: print_specs_def spec_line_def example_specs_def poly_abi_descriptor_kind_name_def
      MAX_PROCESS_BRIDGE_SPECS_def)

text \<open>
  C25. Round trip: a table of specifications with clean symbols, printed one per
  line and wrapped in a \<open>POLYABI\<close> note anywhere in a file, is parsed back to
  itself after the entries already present.
\<close>

theorem notes_roundtrip:
  assumes "list_all clean_spec new" and "length old + length new \<le> MAX_PROCESS_BRIDGE_SPECS"
    and "length (print_specs new) \<le> 2 ^ 32 - 4"
  shows "parse_process_bridge_specs_notes
      (pre @ abi_note type (string_bytes (print_specs new)) @ post) (length pre)
      (length (abi_note type (string_bytes (print_specs new)))) old = Inr (old @ new)"
  using parse_abi_note[of "string_bytes (print_specs new)" pre type post old] assms
  by (simp add: bytes_string_inverse parse_print_specs)

theorem notes_roundtrip_witness:
  "list_all clean_spec example_specs \<and>
   parse_process_bridge_specs_notes (abi_note 1 (string_bytes (print_specs example_specs))) 0
     (length (abi_note 1 (string_bytes (print_specs example_specs)))) [] = Inr example_specs"
  using notes_roundtrip[OF clean_example_specs length_example_specs(2,1), of "[]" 1 "[]"]
  by (simp add: clean_example_specs)

lemma lookup_append:
  "process_bridge_kind_for_symbol (specs @ [spec]) (Some s) =
     (if s \<in> (\<lambda>x. cstr (spec_symbol x)) ` set specs then process_bridge_kind_for_symbol specs (Some s)
      else if cstr (spec_symbol spec) = s then spec_bridge_kind spec else POLY_PROCESS_BRIDGE_DEFAULT)"
  by (induction specs) auto

text \<open>
  Looking a symbol up after a specification was added: an entry that was
  already there for the symbol wins, otherwise the new entry answers for its own
  symbol, and every other symbol has the default kind.
\<close>

lemma bridge_lookup_after_append:
  assumes "append_process_bridge_spec symbol bridge specs = Some specs'"
  shows "process_bridge_kind_for_symbol specs' (Some s) =
    (if s \<in> (\<lambda>x. cstr (spec_symbol x)) ` set specs then process_bridge_kind_for_symbol specs (Some s)
     else if s = cstr symbol then the (process_bridge_kind_from_name (cstr bridge))
     else POLY_PROCESS_BRIDGE_DEFAULT)"
  using assms
  by (auto simp: append_process_bridge_spec_def lookup_append split: if_splits option.splits)

end
