(* ===== verification/Guest_Memory.thy ===== *)
theory Guest_Memory
  imports Process_Bridge "HOL-Library.Sublist"
begin

text \<open>
  Guest memory as the monitor sees it, \<open>tools/runtime/polyexec.c\<close>: every access
  first asks the processor's range probe whether the bytes are mapped. The probe
  instruction is not part of the sources, so it is a field of the memory state,
  a function from address, length and flags to a status and a metadata word.
\<close>

record guest_memory =
  gm_byte :: "u64 \<Rightarrow> u8"
  gm_probe :: "u64 \<Rightarrow> u64 \<Rightarrow> u64 \<Rightarrow> u64 \<times> u64"

definition POLY_V2_MEM_PROBE_FLAG_READ :: u64 where
  "POLY_V2_MEM_PROBE_FLAG_READ = 1"

definition POLY_V2_MEM_PROBE_FLAG_WRITE :: u64 where
  "POLY_V2_MEM_PROBE_FLAG_WRITE = 2"

definition POLY_V2_MEM_PROBE_RESULT_PRESENT :: u64 where
  "POLY_V2_MEM_PROBE_RESULT_PRESENT = 2"

definition POLY_V2_MEM_PROBE_RESULT_READABLE :: u64 where
  "POLY_V2_MEM_PROBE_RESULT_READABLE = 4"

definition POLY_V2_MEM_PROBE_RESULT_WRITABLE :: u64 where
  "POLY_V2_MEM_PROBE_RESULT_WRITABLE = 8"

definition poly_guest_range_is_mapped :: "guest_memory \<Rightarrow> u64 \<Rightarrow> u64 \<Rightarrow> bool \<Rightarrow> bool" where
  "poly_guest_range_is_mapped gm address len writable =
     (if len = 0 then True
      else if address = 0 \<or> address > -1 - len then False
      else
        (let flags = (if writable then POLY_V2_MEM_PROBE_FLAG_WRITE else POLY_V2_MEM_PROBE_FLAG_READ);
             (status, metadata) = gm_probe gm address len flags
         in status = 0 \<and> metadata AND POLY_V2_MEM_PROBE_RESULT_PRESENT \<noteq> 0 \<and>
            (if writable then metadata AND POLY_V2_MEM_PROBE_RESULT_WRITABLE \<noteq> 0
             else metadata AND POLY_V2_MEM_PROBE_RESULT_READABLE \<noteq> 0)))"

definition guest_bytes :: "guest_memory \<Rightarrow> u64 \<Rightarrow> nat \<Rightarrow> u8 list" where
  "guest_bytes gm address n = map (\<lambda>i. gm_byte gm (address + of_nat i)) [0..<n]"

definition guest_store :: "guest_memory \<Rightarrow> u64 \<Rightarrow> u8 list \<Rightarrow> guest_memory" where
  "guest_store gm address bytes =
     gm\<lparr>gm_byte := (\<lambda>a. if unat (a - address) < length bytes then bytes ! unat (a - address)
                        else gm_byte gm a)\<rparr>"

definition poly_guest_read_u64 :: "guest_memory \<Rightarrow> u64 \<Rightarrow> u64 option" where
  "poly_guest_read_u64 gm address =
     (if \<not> poly_guest_range_is_mapped gm address 8 False then None
      else Some (read_u64_le (guest_bytes gm address 8)))"

definition poly_guest_write_u64 :: "guest_memory \<Rightarrow> u64 \<Rightarrow> u64 \<Rightarrow> guest_memory option" where
  "poly_guest_write_u64 gm address value =
     (if \<not> poly_guest_range_is_mapped gm address 8 True then None
      else Some (guest_store gm address (le_bytes 8 value)))"

record poly_linux_ksigaction =
  sa_handler :: u64
  sa_flags :: u64
  sa_restorer :: u64
  sa_mask :: u64

definition poly_guest_read_ksigaction :: "guest_memory \<Rightarrow> u64 \<Rightarrow> poly_linux_ksigaction option" where
  "poly_guest_read_ksigaction gm address =
     (if \<not> poly_guest_range_is_mapped gm address 32 False then None
      else
        (let bytes = guest_bytes gm address 32 in
         Some \<lparr>sa_handler = read_u64_le bytes, sa_flags = read_u64_le (drop 8 bytes),
               sa_restorer = read_u64_le (drop 16 bytes), sa_mask = read_u64_le (drop 24 bytes)\<rparr>))"

definition poly_guest_write_ksigaction ::
    "guest_memory \<Rightarrow> u64 \<Rightarrow> poly_linux_ksigaction \<Rightarrow> guest_memory option" where
  "poly_guest_write_ksigaction gm address value =
     (if \<not> poly_guest_range_is_mapped gm address 32 True then None
      else Some (guest_store gm address
        (le_bytes 8 (sa_handler value) @ le_bytes 8 (sa_flags value) @
         le_bytes 8 (sa_restorer value) @ le_bytes 8 (sa_mask value))))"

subsection \<open>Searching a guest string\<close>

text \<open>
  The loop of \<open>poly_guest_cstring_contains\<close>; \<open>n\<close> is the number of characters of
  the 1024 still to look at. The inner \<open>while\<close> sets \<open>matched\<close> to zero, so it runs
  at most once.
\<close>

primrec cstring_contains_loop :: "guest_memory \<Rightarrow> u8 list \<Rightarrow> nat \<Rightarrow> u64 \<Rightarrow> nat \<Rightarrow> bool" where
  "cstring_contains_loop gm needle 0 address matched = False"
| "cstring_contains_loop gm needle (Suc n) address matched =
     (if \<not> poly_guest_range_is_mapped gm address 1 False then False
      else
        (let ch = gm_byte gm address in
         if ch = 0 then False
         else
           (let matched = (if matched \<noteq> 0 \<and> ch \<noteq> needle ! matched then 0 else matched) in
            if ch = needle ! matched
            then if matched + 1 = length needle then True
                 else cstring_contains_loop gm needle n (address + 1) (matched + 1)
            else cstring_contains_loop gm needle n (address + 1) matched)))"

definition poly_guest_cstring_contains :: "guest_memory \<Rightarrow> u64 \<Rightarrow> u8 list \<Rightarrow> bool" where
  "poly_guest_cstring_contains gm address needle =
     (if address = 0 \<or> needle = [] then False
      else cstring_contains_loop gm needle 1024 address 0)"

subsection \<open>Reading back what was written\<close>

lemma guest_bytes_store:
  assumes "length bytes \<le> n" and "n < 2 ^ 64"
  shows "take (length bytes) (guest_bytes (guest_store gm address bytes) address n) = bytes"
proof (rule nth_equalityI)
  show "length (take (length bytes) (guest_bytes (guest_store gm address bytes) address n)) = length bytes"
    using assms by (simp add: guest_bytes_def)
next
  fix i assume "i < length (take (length bytes) (guest_bytes (guest_store gm address bytes) address n))"
  then have i: "i < length bytes" using assms by (simp add: guest_bytes_def)
  have "unat (of_nat i :: u64) = i" using i assms by (simp add: unat_of_nat take_bit_nat_eq_self)
  then show "take (length bytes) (guest_bytes (guest_store gm address bytes) address n) ! i = bytes ! i"
    using i assms by (simp add: guest_bytes_def guest_store_def)
qed

lemma read_u64_le_bytes: "read_u64_le (le_bytes 8 w @ rest) = w"
  unfolding read_u64_le_def by (rule read_le_bytes) (simp_all add: le_bytes_def nth_append)

lemma mapped_store [simp]:
  "poly_guest_range_is_mapped (guest_store gm a bs) address len w = poly_guest_range_is_mapped gm address len w"
  by (simp add: poly_guest_range_is_mapped_def guest_store_def)

lemma read_write_ksigaction:
  assumes "poly_guest_write_ksigaction gm address value = Some gm'"
    and "poly_guest_range_is_mapped gm address 32 False"
  shows "poly_guest_read_ksigaction gm' address = Some value"
proof -
  let ?bs = "le_bytes 8 (sa_handler value) @ le_bytes 8 (sa_flags value) @
         le_bytes 8 (sa_restorer value) @ le_bytes 8 (sa_mask value)"
  have gm': "gm' = guest_store gm address ?bs"
    using assms(1) by (simp add: poly_guest_write_ksigaction_def split: if_splits)
  have "guest_bytes gm' address 32 = ?bs"
    using guest_bytes_store[of ?bs 32 gm address] by (simp add: gm' guest_bytes_def)
  then show ?thesis
    using assms(2)
    by (simp add: poly_guest_read_ksigaction_def gm' read_u64_le_bytes read_u64_le_bytes[where rest="[]", simplified])
qed

subsection \<open>What the search finds\<close>

text \<open>The characters the search looks at: mapped, non-zero, at most \<open>n\<close>.\<close>

primrec guest_cstring :: "guest_memory \<Rightarrow> nat \<Rightarrow> u64 \<Rightarrow> u8 list" where
  "guest_cstring gm 0 address = []"
| "guest_cstring gm (Suc n) address =
     (if poly_guest_range_is_mapped gm address 1 False \<and> gm_byte gm address \<noteq> 0
      then gm_byte gm address # guest_cstring gm n (address + 1) else [])"

fun match_scan :: "u8 list \<Rightarrow> nat \<Rightarrow> u8 list \<Rightarrow> bool" where
  "match_scan needle matched [] = False"
| "match_scan needle matched (ch # cs) =
     (let matched = (if matched \<noteq> 0 \<and> ch \<noteq> needle ! matched then 0 else matched) in
      if ch = needle ! matched
      then if matched + 1 = length needle then True else match_scan needle (matched + 1) cs
      else match_scan needle matched cs)"

lemma contains_loop_scan:
  "cstring_contains_loop gm needle n address matched = match_scan needle matched (guest_cstring gm n address)"
  by (induction n arbitrary: address matched) (simp_all add: Let_def)

lemma take_snoc: "m < length xs \<Longrightarrow> take (Suc m) xs = take m xs @ [xs ! m]"
  by (rule take_Suc_conv_app_nth)

lemma sublist_drop_prefix: "sublist xs ys \<Longrightarrow> sublist xs (zs @ ys)"
  by (meson sublist_append_leftI sublist_order.order_trans)

lemma match_scan_sound:
  "match_scan needle m cs \<Longrightarrow> m < length needle \<Longrightarrow> sublist needle (take m needle @ cs)"
proof (induction cs arbitrary: m)
  case (Cons ch cs)
  define m' where "m' = (if m \<noteq> 0 \<and> ch \<noteq> needle ! m then 0 else m)"
  have m': "m' < length needle" "m' = m \<or> m' = 0" using Cons(3) by (auto simp: m'_def)
  have scan: "if ch = needle ! m' then m' + 1 = length needle \<or> match_scan needle (m' + 1) cs
      else match_scan needle m' cs"
    using Cons(2) unfolding match_scan.simps Let_def m'_def[symmetric] by (simp split: if_splits)
  have sub: "sublist needle (take m' needle @ ch # cs)"
  proof (cases "ch = needle ! m'")
    case True
    have next_take: "take m' needle @ ch # cs = take (Suc m') needle @ cs"
      using True m'(1) by (simp add: take_snoc)
    show ?thesis
    proof (cases "m' + 1 = length needle")
      case t: True
      then have "take (Suc m') needle = needle" by simp
      then show ?thesis unfolding next_take by simp
    next
      case False
      then have "match_scan needle (Suc m') cs" "Suc m' < length needle"
        using scan True m'(1) by simp_all
      then show ?thesis unfolding next_take by (rule Cons.IH)
    qed
  next
    case False
    then have "m' = 0" by (auto simp: m'_def split: if_splits)
    moreover have "sublist needle (take m' needle @ cs)" using Cons.IH scan False m'(1) by simp
    ultimately show ?thesis using sublist_drop_prefix[of needle cs "[ch]"] by simp
  qed
  from m'(2) show ?case
  proof
    assume "m' = m"
    with sub show ?thesis by simp
  next
    assume "m' = 0"
    with sub show ?thesis by (simp add: sublist_drop_prefix)
  qed
qed simp


lemma match_scan_complete:
  assumes "sublist needle (take m needle @ cs)" and "m < length needle" and "needle ! 0 \<notin> set (tl needle)"
  shows "match_scan needle m cs"
  using assms(1,2)
proof (induction cs arbitrary: m)
  case Nil
  then have "length needle \<le> m" using sublist_length_le by fastforce
  with Nil show ?case by simp
next
  case (Cons ch cs)
  define m' where "m' = (if m \<noteq> 0 \<and> ch \<noteq> needle ! m then 0 else m)"
  have m': "m' < length needle" using Cons(3) by (auto simp: m'_def)
  from Cons(2) obtain ps ss where occ: "take m needle @ ch # cs = ps @ needle @ ss"
    by (auto simp: sublist_def)
  have hd: "needle \<noteq> []" using Cons(3) by auto
  have ps: "ps = [] \<or> m \<le> length ps"
  proof (rule ccontr)
    assume a: "\<not> (ps = [] \<or> m \<le> length ps)"
    then have "take m needle ! length ps = needle ! 0"
      using occ hd Cons(3) by (metis append_Cons length_take linorder_not_le min.absorb4 nth_append nth_append_length list.exhaust_sel hd_conv_nth)
    moreover have "take m needle ! length ps \<in> set (tl needle)"
      using a Cons(3) by (cases needle) (auto simp: nth_Cons' intro!: nth_mem)
    ultimately show False using assms(3) by simp
  qed
  have sub: "sublist needle (take m' needle @ ch # cs)"
  proof (cases "m' = m")
    case True
    with Cons(2) show ?thesis by simp
  next
    case False
    then have mm: "m' = 0" "m \<noteq> 0" "ch \<noteq> needle ! m" by (auto simp: m'_def split: if_splits)
    have "ps \<noteq> []"
    proof
      assume "ps = []"
      with occ have "(take m needle @ ch # cs) ! m = needle ! m" using Cons(3) by (metis append_Nil nth_append)
      then show False using mm Cons(3) by (simp add: nth_append)
    qed
    with ps have "m \<le> length ps" by simp
    then have "ch # cs = drop m ps @ needle @ ss"
      using occ Cons(3) by (metis append_eq_append_conv_if append_eq_conv_conj drop_append length_take min.absorb4 order.strict_implies_order diff_is_0_eq drop_0)
    then show ?thesis using mm by (auto simp: sublist_def)
  qed
  have "if ch = needle ! m' then m' + 1 = length needle \<or> match_scan needle (m' + 1) cs
      else match_scan needle m' cs"
  proof (cases "ch = needle ! m'")
    case True
    then have "take m' needle @ ch # cs = take (Suc m') needle @ cs" using m' by (simp add: take_snoc)
    with sub have "sublist needle (take (Suc m') needle @ cs)" by simp
    then show ?thesis using Cons.IH[of "Suc m'"] m' True by (cases "m' + 1 = length needle") simp_all
  next
    case False
    then have z: "m' = 0" by (auto simp: m'_def split: if_splits)
    with sub have "sublist needle (ch # cs)" by simp
    moreover have "\<not> prefix needle (ch # cs)" using False z hd by (cases needle) auto
    ultimately have "sublist needle cs" by (simp add: sublist_Cons_right)
    then show ?thesis using Cons.IH[of 0] m' False z by simp
  qed
  then show ?case
    unfolding match_scan.simps Let_def m'_def[symmetric] by (auto split: if_splits)
qed

definition flat_memory :: "u64 \<Rightarrow> u8 list \<Rightarrow> guest_memory" where
  "flat_memory base bytes =
     \<lparr>gm_byte = (\<lambda>a. if unat (a - base) < length bytes then bytes ! unat (a - base) else 0),
      gm_probe = (\<lambda>a n flags. (0, 0x1f))\<rparr>"

definition storage_needle :: "u8 list" where
  "storage_needle = string_bytes ''/run/containers/storage''"

definition nested_storage_memory :: guest_memory where
  "nested_storage_memory = flat_memory 4096 (string_bytes ''/run/run/containers/storage'')"

lemma example_found: "poly_guest_cstring_contains nested_storage_memory 4096 (string_bytes ''/containers'')"
  by code_simp

text \<open>
  The string search never reports a false match: when it answers yes, the
  needle occurs in the mapped, zero-terminated characters at the address.
\<close>

lemma cstring_contains_sound:
  assumes "poly_guest_cstring_contains gm address needle"
  shows "sublist needle (guest_cstring gm 1024 address)"
  using assms match_scan_sound[of needle 0]
  by (auto simp: poly_guest_cstring_contains_def contains_loop_scan split: if_splits)


text \<open>
  For a needle whose first character does not occur again in it the search is
  exact: it answers yes precisely when the needle occurs.
\<close>

lemma cstring_contains_exact:
  assumes "needle \<noteq> []" and "needle ! 0 \<notin> set (tl needle)" and "address \<noteq> 0"
  shows "poly_guest_cstring_contains gm address needle \<longleftrightarrow> sublist needle (guest_cstring gm 1024 address)"
  using assms match_scan_sound[of needle 0] match_scan_complete[of needle 0]
  by (auto simp: poly_guest_cstring_contains_def contains_loop_scan)


end
