(* ===== verification/Syscall_Map.thy ===== *)
theory Syscall_Map
  imports Poly_Prelude
begin

text \<open>
  The translation of system call numbers, \<open>poly_generic_linux_syscall_to_x86\<close> in
  \<open>tools/runtime/polyexec.c\<close>: AArch64 and RISC-V guests share the generic Linux
  numbers, the host is x86-64. The host numbers are macros of a system header,
  so a host call is named by its macro without the \<open>SYS_\<close> prefix; different
  macros are different numbers. Entries the source guards by \<open>#ifdef\<close> exist only
  when the header defines the macro, which is the parameter \<open>has\<close>.
\<close>

type_synonym x86_syscall = string

definition syscall_table :: "(int \<times> x86_syscall) list" where
  "syscall_table =
     [(5, ''setxattr''), (6, ''lsetxattr''), (7, ''fsetxattr''), (8, ''getxattr''),
      (9, ''lgetxattr''), (10, ''fgetxattr''), (11, ''listxattr''), (12, ''llistxattr''),
      (13, ''flistxattr''), (14, ''removexattr''), (15, ''lremovexattr''), (16, ''fremovexattr''),
      (17, ''getcwd''), (19, ''eventfd2''), (20, ''epoll_create1''), (21, ''epoll_ctl''),
      (22, ''epoll_pwait''), (23, ''dup''), (24, ''dup3''), (25, ''fcntl''),
      (26, ''inotify_init1''), (27, ''inotify_add_watch''), (28, ''inotify_rm_watch''),
      (29, ''ioctl''), (30, ''ioprio_set''), (31, ''ioprio_get''), (32, ''flock''),
      (33, ''mknodat''), (34, ''mkdirat''), (35, ''unlinkat''), (36, ''symlinkat''),
      (37, ''linkat''), (38, ''renameat''), (39, ''umount2''), (40, ''mount''),
      (41, ''pivot_root''), (43, ''statfs''), (44, ''fstatfs''), (45, ''truncate''),
      (46, ''ftruncate''), (47, ''fallocate''), (48, ''faccessat''), (49, ''chdir''),
      (50, ''fchdir''), (51, ''chroot''), (52, ''fchmod''), (53, ''fchmodat''), (54, ''fchownat''),
      (55, ''fchown''), (56, ''openat''), (57, ''close''), (59, ''pipe2''), (61, ''getdents64''),
      (62, ''lseek''), (63, ''read''), (64, ''write''), (65, ''readv''), (66, ''writev''),
      (67, ''pread64''), (68, ''pwrite64''), (69, ''preadv''), (70, ''pwritev''),
      (72, ''pselect6''), (73, ''ppoll''), (74, ''signalfd4''), (78, ''readlinkat''),
      (79, ''newfstatat''), (80, ''fstat''), (81, ''sync''), (82, ''fsync''), (83, ''fdatasync''),
      (84, ''sync_file_range''), (85, ''timerfd_create''), (86, ''timerfd_settime''),
      (87, ''timerfd_gettime''), (88, ''utimensat''), (90, ''capget''), (91, ''capset''),
      (92, ''personality''), (93, ''exit''), (94, ''exit_group''), (95, ''waitid''),
      (96, ''set_tid_address''), (98, ''futex''), (99, ''set_robust_list''),
      (100, ''get_robust_list''), (101, ''nanosleep''), (102, ''getitimer''), (103, ''setitimer''),
      (107, ''timer_create''), (108, ''timer_gettime''), (109, ''timer_getoverrun''),
      (110, ''timer_settime''), (111, ''timer_delete''), (113, ''clock_gettime''),
      (114, ''clock_getres''), (115, ''clock_nanosleep''), (118, ''sched_setparam''),
      (119, ''sched_setscheduler''), (120, ''sched_getscheduler''), (121, ''sched_getparam''),
      (122, ''sched_setaffinity''), (123, ''sched_getaffinity''), (124, ''sched_yield''),
      (125, ''sched_get_priority_max''), (126, ''sched_get_priority_min''), (129, ''kill''),
      (130, ''tkill''), (131, ''tgkill''), (132, ''sigaltstack''), (133, ''rt_sigsuspend''),
      (134, ''rt_sigaction''), (135, ''rt_sigprocmask''), (136, ''rt_sigpending''),
      (140, ''setpriority''), (141, ''getpriority''), (143, ''setregid''), (144, ''setgid''),
      (145, ''setreuid''), (146, ''setuid''), (147, ''setresuid''), (148, ''getresuid''),
      (149, ''setresgid''), (150, ''getresgid''), (151, ''setfsuid''), (152, ''setfsgid''),
      (153, ''times''), (154, ''setpgid''), (160, ''uname''), (163, ''getrlimit''),
      (164, ''setrlimit''), (165, ''getrusage''), (166, ''umask''), (167, ''prctl''),
      (168, ''getcpu''), (169, ''gettimeofday''), (155, ''getpgid''), (156, ''getsid''),
      (157, ''setsid''), (158, ''getgroups''), (159, ''setgroups''), (172, ''getpid''),
      (173, ''getppid''), (174, ''getuid''), (175, ''geteuid''), (176, ''getgid''),
      (177, ''getegid''), (178, ''gettid''), (179, ''sysinfo''), (180, ''mq_open''),
      (181, ''mq_unlink''), (182, ''mq_timedsend''), (183, ''mq_timedreceive''),
      (184, ''mq_notify''), (185, ''mq_getsetattr''), (186, ''msgget''), (187, ''msgctl''),
      (188, ''msgrcv''), (189, ''msgsnd''), (190, ''semget''), (191, ''semctl''),
      (192, ''semtimedop''), (193, ''semop''), (194, ''shmget''), (195, ''shmctl''),
      (196, ''shmat''), (197, ''shmdt''), (198, ''socket''), (199, ''socketpair''),
      (200, ''bind''), (201, ''listen''), (202, ''accept''), (203, ''connect''),
      (204, ''getsockname''), (205, ''getpeername''), (206, ''sendto''), (207, ''recvfrom''),
      (208, ''setsockopt''), (209, ''getsockopt''), (210, ''shutdown''), (211, ''sendmsg''),
      (212, ''recvmsg''), (214, ''brk''), (215, ''munmap''), (216, ''mremap''), (220, ''clone''),
      (221, ''execve''), (222, ''mmap''), (223, ''fadvise64''), (226, ''mprotect''),
      (228, ''mlock''), (229, ''munlock''), (230, ''mlockall''), (231, ''munlockall''),
      (233, ''madvise''), (236, ''get_mempolicy''), (237, ''set_mempolicy''),
      (238, ''migrate_pages''), (239, ''move_pages''), (242, ''accept4''), (243, ''recvmmsg''),
      (260, ''wait4''), (261, ''prlimit64''), (269, ''sendmmsg''), (276, ''renameat2''),
      (277, ''seccomp''), (278, ''getrandom''), (279, ''memfd_create''), (280, ''bpf''),
      (282, ''userfaultfd''), (283, ''membarrier''), (284, ''mlock2''), (286, ''preadv2''),
      (287, ''pwritev2''), (288, ''pkey_mprotect''), (289, ''pkey_alloc''), (290, ''pkey_free''),
      (291, ''statx''), (293, ''rseq''), (424, ''pidfd_send_signal''), (425, ''io_uring_setup''),
      (426, ''io_uring_enter''), (427, ''io_uring_register''), (428, ''open_tree''),
      (429, ''move_mount''), (430, ''fsopen''), (431, ''fsconfig''), (432, ''fsmount''),
      (433, ''fspick''), (434, ''pidfd_open''), (435, ''clone3''), (436, ''close_range''),
      (437, ''openat2''), (438, ''pidfd_getfd''), (439, ''faccessat2''),
      (440, ''process_madvise''), (441, ''epoll_pwait2''), (442, ''mount_setattr''),
      (443, ''quotactl_fd''), (444, ''landlock_create_ruleset''), (445, ''landlock_add_rule''),
      (446, ''landlock_restrict_self''), (447, ''memfd_secret''), (448, ''process_mrelease''),
      (449, ''futex_waitv''), (450, ''set_mempolicy_home_node''), (451, ''cachestat''),
      (452, ''fchmodat2''), (453, ''map_shadow_stack''), (454, ''futex_wake''),
      (455, ''futex_wait''), (456, ''futex_requeue''), (457, ''statmount''), (458, ''listmount''),
      (459, ''lsm_get_self_attr''), (460, ''lsm_set_self_attr''), (461, ''lsm_list_modules'')]"

definition optional_syscalls :: "x86_syscall list" where
  "optional_syscalls =
     [''mq_open'', ''mq_unlink'', ''mq_timedsend'', ''mq_timedreceive'', ''mq_notify'',
      ''mq_getsetattr'', ''preadv2'', ''pwritev2'', ''quotactl_fd'', ''memfd_secret'',
      ''cachestat'', ''fchmodat2'', ''map_shadow_stack'', ''futex_wake'', ''futex_wait'',
      ''futex_requeue'', ''statmount'', ''listmount'', ''lsm_get_self_attr'',
      ''lsm_set_self_attr'', ''lsm_list_modules'']"

definition poly_generic_linux_syscall_to_x86 :: "(x86_syscall \<Rightarrow> bool) \<Rightarrow> u64 \<Rightarrow> x86_syscall option" where
  "poly_generic_linux_syscall_to_x86 has number =
     (case map_of syscall_table (uint number) of
        None \<Rightarrow> None
      | Some x86_number \<Rightarrow>
          if x86_number \<in> set optional_syscalls \<and> \<not> has x86_number then None else Some x86_number)"

text \<open>Guest numbers of a given host call.\<close>

definition numbers_of :: "x86_syscall list \<Rightarrow> (int \<times> x86_syscall) list" where
  "numbers_of names = filter (\<lambda>e. snd e \<in> set names) syscall_table"

lemma syscall_to_x86_SomeD:
  assumes "poly_generic_linux_syscall_to_x86 has number = Some x" and "x \<in> set names"
  shows "(uint number, x) \<in> set (numbers_of names)"
  using assms
  by (auto simp: poly_generic_linux_syscall_to_x86_def numbers_of_def dest!: map_of_SomeD
      split: option.splits if_splits)

lemma control_call_numbers:
  "numbers_of [''prctl'', ''seccomp'', ''bpf''] = [(167, ''prctl''), (277, ''seccomp''), (280, ''bpf'')]"
  by (simp add: numbers_of_def syscall_table_def)

end
