(* ===== verification/Runtime_Base.thy ===== *)
theory Runtime_Base
  imports Poly_Prelude
begin

text \<open>
  What the components of the monitor share: the modes a trap can come from, the
  reasons of a trap, the Linux error numbers, and the record of a trap that
  \<open>tools/runtime/polyexec.c\<close> hands to its handlers.
\<close>

abbreviation (input) POLY_MODE_X86 :: u64 where "POLY_MODE_X86 \<equiv> 0"
abbreviation (input) POLY_MODE_RAW_AARCH64 :: u64 where "POLY_MODE_RAW_AARCH64 \<equiv> 1"
abbreviation (input) POLY_MODE_RAW_RISCV :: u64 where "POLY_MODE_RAW_RISCV \<equiv> 2"

abbreviation (input) EPERM :: u64 where "EPERM \<equiv> 1"
abbreviation (input) ENOMEM :: u64 where "ENOMEM \<equiv> 12"
abbreviation (input) EFAULT :: u64 where "EFAULT \<equiv> 14"
abbreviation (input) EINVAL :: u64 where "EINVAL \<equiv> 22"
abbreviation (input) ENOSYS :: u64 where "ENOSYS \<equiv> 38"
abbreviation (input) EOPNOTSUPP :: u64 where "EOPNOTSUPP \<equiv> 95"

abbreviation (input) POLY_TRAP_SYSCALL :: u64 where "POLY_TRAP_SYSCALL \<equiv> 1"
abbreviation (input) POLY_TRAP_BREAK :: u64 where "POLY_TRAP_BREAK \<equiv> 2"
abbreviation (input) POLY_TRAP_IMPORT :: u64 where "POLY_TRAP_IMPORT \<equiv> 3"
abbreviation (input) POLY_TRAP_ILLEGAL :: u64 where "POLY_TRAP_ILLEGAL \<equiv> 4"

definition poly_is_raw_foreign_mode :: "u64 \<Rightarrow> bool" where
  "poly_is_raw_foreign_mode mode \<longleftrightarrow> mode = POLY_MODE_RAW_AARCH64 \<or> mode = POLY_MODE_RAW_RISCV"

record poly_runtime_event_record =
  ev_reason :: u64
  ev_mode :: u64
  ev_number :: u64
  ev_selector :: u64
  ev_pc :: u64
  ev_next_pc :: u64
  ev_flags :: u64
  ev_reserved :: "u64 list"
  ev_args :: "u64 list"

end
