(* ===== verification/Seccomp.thy ===== *)
theory Seccomp
  imports Guest_Memory Syscall_Map Runtime_Base
begin

text \<open>
  The monitor's seccomp implementation, \<open>tools/runtime/polyexec.c\<close>: guest filter
  programs in classic BPF are validated when installed and interpreted before
  every guest system call; the most restrictive verdict decides. The state is
  the group of file-scope variables \<open>poly_seccomp_*\<close>. The mutex around them makes
  each operation atomic, so an operation is a function on the state.

  A filter program is the list of its first \<open>len\<close> instructions.
\<close>

subsection \<open>Constants\<close>

abbreviation (input) POLY_BPF_LD :: u16 where "POLY_BPF_LD \<equiv> 0x00"
abbreviation (input) POLY_BPF_LDX :: u16 where "POLY_BPF_LDX \<equiv> 0x01"
abbreviation (input) POLY_BPF_ST :: u16 where "POLY_BPF_ST \<equiv> 0x02"
abbreviation (input) POLY_BPF_STX :: u16 where "POLY_BPF_STX \<equiv> 0x03"
abbreviation (input) POLY_BPF_ALU :: u16 where "POLY_BPF_ALU \<equiv> 0x04"
abbreviation (input) POLY_BPF_JMP :: u16 where "POLY_BPF_JMP \<equiv> 0x05"
abbreviation (input) POLY_BPF_RET :: u16 where "POLY_BPF_RET \<equiv> 0x06"
abbreviation (input) POLY_BPF_MISC :: u16 where "POLY_BPF_MISC \<equiv> 0x07"
abbreviation (input) POLY_BPF_W :: u16 where "POLY_BPF_W \<equiv> 0x00"
abbreviation (input) POLY_BPF_H :: u16 where "POLY_BPF_H \<equiv> 0x08"
abbreviation (input) POLY_BPF_B :: u16 where "POLY_BPF_B \<equiv> 0x10"
abbreviation (input) POLY_BPF_IMM :: u16 where "POLY_BPF_IMM \<equiv> 0x00"
abbreviation (input) POLY_BPF_ABS :: u16 where "POLY_BPF_ABS \<equiv> 0x20"
abbreviation (input) POLY_BPF_MEM :: u16 where "POLY_BPF_MEM \<equiv> 0x60"
abbreviation (input) POLY_BPF_LEN :: u16 where "POLY_BPF_LEN \<equiv> 0x80"
abbreviation (input) POLY_BPF_ADD :: u16 where "POLY_BPF_ADD \<equiv> 0x00"
abbreviation (input) POLY_BPF_SUB :: u16 where "POLY_BPF_SUB \<equiv> 0x10"
abbreviation (input) POLY_BPF_MUL :: u16 where "POLY_BPF_MUL \<equiv> 0x20"
abbreviation (input) POLY_BPF_DIV :: u16 where "POLY_BPF_DIV \<equiv> 0x30"
abbreviation (input) POLY_BPF_OR :: u16 where "POLY_BPF_OR \<equiv> 0x40"
abbreviation (input) POLY_BPF_AND :: u16 where "POLY_BPF_AND \<equiv> 0x50"
abbreviation (input) POLY_BPF_LSH :: u16 where "POLY_BPF_LSH \<equiv> 0x60"
abbreviation (input) POLY_BPF_RSH :: u16 where "POLY_BPF_RSH \<equiv> 0x70"
abbreviation (input) POLY_BPF_NEG :: u16 where "POLY_BPF_NEG \<equiv> 0x80"
abbreviation (input) POLY_BPF_MOD :: u16 where "POLY_BPF_MOD \<equiv> 0x90"
abbreviation (input) POLY_BPF_XOR :: u16 where "POLY_BPF_XOR \<equiv> 0xa0"
abbreviation (input) POLY_BPF_JA :: u16 where "POLY_BPF_JA \<equiv> 0x00"
abbreviation (input) POLY_BPF_JEQ :: u16 where "POLY_BPF_JEQ \<equiv> 0x10"
abbreviation (input) POLY_BPF_JGT :: u16 where "POLY_BPF_JGT \<equiv> 0x20"
abbreviation (input) POLY_BPF_JGE :: u16 where "POLY_BPF_JGE \<equiv> 0x30"
abbreviation (input) POLY_BPF_JSET :: u16 where "POLY_BPF_JSET \<equiv> 0x40"
abbreviation (input) POLY_BPF_K :: u16 where "POLY_BPF_K \<equiv> 0x00"
abbreviation (input) POLY_BPF_X :: u16 where "POLY_BPF_X \<equiv> 0x08"
abbreviation (input) POLY_BPF_A :: u16 where "POLY_BPF_A \<equiv> 0x10"
abbreviation (input) POLY_BPF_TAX :: u16 where "POLY_BPF_TAX \<equiv> 0x00"
abbreviation (input) POLY_BPF_TXA :: u16 where "POLY_BPF_TXA \<equiv> 0x80"

abbreviation (input) POLY_SECCOMP_RET_KILL_PROCESS :: u32 where "POLY_SECCOMP_RET_KILL_PROCESS \<equiv> 0x80000000"
abbreviation (input) POLY_SECCOMP_RET_KILL_THREAD :: u32 where "POLY_SECCOMP_RET_KILL_THREAD \<equiv> 0x00000000"
abbreviation (input) POLY_SECCOMP_RET_TRAP :: u32 where "POLY_SECCOMP_RET_TRAP \<equiv> 0x00030000"
abbreviation (input) POLY_SECCOMP_RET_ERRNO :: u32 where "POLY_SECCOMP_RET_ERRNO \<equiv> 0x00050000"
abbreviation (input) POLY_SECCOMP_RET_TRACE :: u32 where "POLY_SECCOMP_RET_TRACE \<equiv> 0x7ff00000"
abbreviation (input) POLY_SECCOMP_RET_LOG :: u32 where "POLY_SECCOMP_RET_LOG \<equiv> 0x7ffc0000"
abbreviation (input) POLY_SECCOMP_RET_ALLOW :: u32 where "POLY_SECCOMP_RET_ALLOW \<equiv> 0x7fff0000"
abbreviation (input) POLY_SECCOMP_RET_ACTION_FULL :: u32 where "POLY_SECCOMP_RET_ACTION_FULL \<equiv> 0xffff0000"
abbreviation (input) POLY_SECCOMP_RET_DATA :: u32 where "POLY_SECCOMP_RET_DATA \<equiv> 0x0000ffff"

abbreviation (input) POLY_AUDIT_ARCH_AARCH64 :: u32 where "POLY_AUDIT_ARCH_AARCH64 \<equiv> 0xc00000b7"
abbreviation (input) POLY_AUDIT_ARCH_RISCV64 :: u32 where "POLY_AUDIT_ARCH_RISCV64 \<equiv> 0xc00000f3"
abbreviation (input) POLY_AUDIT_ARCH_X86_64 :: u32 where "POLY_AUDIT_ARCH_X86_64 \<equiv> 0xc000003e"

abbreviation (input) POLY_SECCOMP_MODE_DISABLED :: u64 where "POLY_SECCOMP_MODE_DISABLED \<equiv> 0"
abbreviation (input) POLY_SECCOMP_MODE_STRICT :: u64 where "POLY_SECCOMP_MODE_STRICT \<equiv> 1"
abbreviation (input) POLY_SECCOMP_MODE_FILTER :: u64 where "POLY_SECCOMP_MODE_FILTER \<equiv> 2"
abbreviation (input) POLY_SECCOMP_SET_MODE_STRICT :: u64 where "POLY_SECCOMP_SET_MODE_STRICT \<equiv> 0"
abbreviation (input) POLY_SECCOMP_SET_MODE_FILTER :: u64 where "POLY_SECCOMP_SET_MODE_FILTER \<equiv> 1"
abbreviation (input) POLY_SECCOMP_GET_ACTION_AVAIL :: u64 where "POLY_SECCOMP_GET_ACTION_AVAIL \<equiv> 2"
abbreviation (input) POLY_SECCOMP_FILTER_FLAG_TSYNC :: u64 where "POLY_SECCOMP_FILTER_FLAG_TSYNC \<equiv> 1"
abbreviation (input) POLY_SECCOMP_FILTER_FLAG_LOG :: u64 where "POLY_SECCOMP_FILTER_FLAG_LOG \<equiv> 2"
abbreviation (input) POLY_SECCOMP_FILTER_FLAG_SPEC_ALLOW :: u64 where "POLY_SECCOMP_FILTER_FLAG_SPEC_ALLOW \<equiv> 4"


abbreviation (input) PR_GET_SECCOMP :: u64 where "PR_GET_SECCOMP \<equiv> 21"
abbreviation (input) PR_SET_SECCOMP :: u64 where "PR_SET_SECCOMP \<equiv> 22"
abbreviation (input) PR_SET_NO_NEW_PRIVS :: u64 where "PR_SET_NO_NEW_PRIVS \<equiv> 38"
abbreviation (input) PR_GET_NO_NEW_PRIVS :: u64 where "PR_GET_NO_NEW_PRIVS \<equiv> 39"

definition POLY_SECCOMP_MAX_FILTERS :: nat where
  "POLY_SECCOMP_MAX_FILTERS = 16"

definition POLY_SECCOMP_MAX_INSNS :: nat where
  "POLY_SECCOMP_MAX_INSNS = 4096"

definition POLY_SECCOMP_MEM_WORDS :: nat where
  "POLY_SECCOMP_MEM_WORDS = 16"

definition POLY_BPF_CLASS :: "u16 \<Rightarrow> u16" where "POLY_BPF_CLASS code = code AND 0x07"
definition POLY_BPF_SIZE :: "u16 \<Rightarrow> u16" where "POLY_BPF_SIZE code = code AND 0x18"
definition POLY_BPF_MODE :: "u16 \<Rightarrow> u16" where "POLY_BPF_MODE code = code AND 0xe0"
definition POLY_BPF_OP :: "u16 \<Rightarrow> u16" where "POLY_BPF_OP code = code AND 0xf0"
definition POLY_BPF_SRC :: "u16 \<Rightarrow> u16" where "POLY_BPF_SRC code = code AND 0x08"
definition POLY_BPF_RVAL :: "u16 \<Rightarrow> u16" where "POLY_BPF_RVAL code = code AND 0x18"
definition POLY_BPF_MISCOP :: "u16 \<Rightarrow> u16" where "POLY_BPF_MISCOP code = code AND 0xf8"

subsection \<open>Data\<close>

record poly_bpf_insn =
  bpf_code :: u16
  bpf_jt :: u8
  bpf_jf :: u8
  bpf_k :: u32

type_synonym poly_seccomp_program = "poly_bpf_insn list"

record poly_seccomp_data =
  data_nr :: u32
  data_arch :: u32
  data_instruction_pointer :: u64
  data_args :: "u64 list"

text \<open>The object representation of the data block: 64 bytes, little endian.\<close>

definition data_bytes :: "poly_seccomp_data \<Rightarrow> u8 list" where
  "data_bytes d =
     le_bytes 4 (data_nr d) @ le_bytes 4 (data_arch d) @ le_bytes 8 (data_instruction_pointer d) @
     concat (map (le_bytes 8) (data_args d))"

definition seccomp_data_size :: nat where
  "seccomp_data_size = 64"

record seccomp_state =
  poly_seccomp_no_new_privs :: u64
  poly_seccomp_mode :: u64
  poly_seccomp_filters :: "poly_seccomp_program list"
  poly_seccomp_preflight_count :: u64
  poly_seccomp_denied_count :: u64

definition initial_seccomp_state :: seccomp_state where
  "initial_seccomp_state =
     \<lparr>poly_seccomp_no_new_privs = 0, poly_seccomp_mode = POLY_SECCOMP_MODE_DISABLED,
      poly_seccomp_filters = [], poly_seccomp_preflight_count = 0, poly_seccomp_denied_count = 0\<rparr>"

subsection \<open>Actions\<close>

definition poly_seccomp_arch_for_mode :: "u64 \<Rightarrow> u32" where
  "poly_seccomp_arch_for_mode mode =
     (if mode = POLY_MODE_RAW_AARCH64 then POLY_AUDIT_ARCH_AARCH64
      else if mode = POLY_MODE_RAW_RISCV then POLY_AUDIT_ARCH_RISCV64
      else POLY_AUDIT_ARCH_X86_64)"

definition poly_seccomp_action_rank :: "u32 \<Rightarrow> nat" where
  "poly_seccomp_action_rank action =
     (let a = action AND POLY_SECCOMP_RET_ACTION_FULL in
      if a = POLY_SECCOMP_RET_KILL_PROCESS then 8
      else if a = POLY_SECCOMP_RET_KILL_THREAD then 7
      else if a = POLY_SECCOMP_RET_TRAP then 6
      else if a = POLY_SECCOMP_RET_ERRNO then 5
      else if a = POLY_SECCOMP_RET_TRACE then 3
      else if a = POLY_SECCOMP_RET_LOG then 2
      else if a = POLY_SECCOMP_RET_ALLOW then 1
      else 4)"

definition bpf_width :: "u16 \<Rightarrow> nat option" where
  "bpf_width sz =
     (if sz = POLY_BPF_W then Some 4 else if sz = POLY_BPF_H then Some 2
      else if sz = POLY_BPF_B then Some 1 else None)"

definition poly_seccomp_load_data_word :: "poly_seccomp_data \<Rightarrow> u32 \<Rightarrow> u16 \<Rightarrow> u32 option" where
  "poly_seccomp_load_data_word data offset sz =
     (case bpf_width sz of
        None \<Rightarrow> None
      | Some width \<Rightarrow>
          if unat offset > seccomp_data_size \<or> width > seccomp_data_size - unat offset then None
          else
            (let bytes = take width (drop (unat offset) (data_bytes data));
                 value = fold (\<lambda>n value. value OR push_bit (n * 8) (ucast (bytes ! n))) [0..<width] 0
             in Some (if width = 1 then value AND 0xff
                      else if width = 2 then value AND 0xffff else value)))"

subsection \<open>Validation\<close>

text \<open>The checks of one instruction, at position \<open>pc\<close> of a program of \<open>len\<close> instructions.\<close>

definition bpf_alu_op :: "u16 \<Rightarrow> bool" where
  "bpf_alu_op op \<longleftrightarrow> op = POLY_BPF_ADD \<or> op = POLY_BPF_SUB \<or> op = POLY_BPF_MUL \<or> op = POLY_BPF_DIV \<or>
     op = POLY_BPF_OR \<or> op = POLY_BPF_AND \<or> op = POLY_BPF_LSH \<or> op = POLY_BPF_RSH \<or> op = POLY_BPF_NEG \<or>
     op = POLY_BPF_MOD \<or> op = POLY_BPF_XOR"

definition bpf_jump_op :: "u16 \<Rightarrow> bool" where
  "bpf_jump_op op \<longleftrightarrow> op = POLY_BPF_JEQ \<or> op = POLY_BPF_JGT \<or> op = POLY_BPF_JGE \<or> op = POLY_BPF_JSET"

definition validate_insn :: "nat \<Rightarrow> nat \<Rightarrow> poly_bpf_insn \<Rightarrow> bool" where
  "validate_insn len pc insn =
     (let code = bpf_code insn; k = unat (bpf_k insn); class = POLY_BPF_CLASS code in
      if class = POLY_BPF_LD \<or> class = POLY_BPF_LDX then
        (if POLY_BPF_MODE code = POLY_BPF_ABS then
           (case bpf_width (POLY_BPF_SIZE code) of
              None \<Rightarrow> False
            | Some width \<Rightarrow> \<not> (k > seccomp_data_size \<or> width > seccomp_data_size - k))
         else if POLY_BPF_MODE code = POLY_BPF_MEM then \<not> k \<ge> POLY_SECCOMP_MEM_WORDS
         else \<not> (POLY_BPF_MODE code \<noteq> POLY_BPF_IMM \<and> POLY_BPF_MODE code \<noteq> POLY_BPF_LEN))
      else if class = POLY_BPF_ST \<or> class = POLY_BPF_STX then \<not> k \<ge> POLY_SECCOMP_MEM_WORDS
      else if class = POLY_BPF_ALU then
        \<not> ((POLY_BPF_OP code = POLY_BPF_DIV \<or> POLY_BPF_OP code = POLY_BPF_MOD) \<and>
           POLY_BPF_SRC code = POLY_BPF_K \<and> k = 0) \<and>
        bpf_alu_op (POLY_BPF_OP code)
      else if class = POLY_BPF_JMP then
        (if POLY_BPF_OP code = POLY_BPF_JA then \<not> k \<ge> len - pc
         else bpf_jump_op (POLY_BPF_OP code) \<and>
              \<not> (unat (bpf_jt insn) \<ge> len - pc \<or> unat (bpf_jf insn) \<ge> len - pc))
      else if class = POLY_BPF_RET then
        \<not> (POLY_BPF_RVAL code \<noteq> POLY_BPF_K \<and> POLY_BPF_RVAL code \<noteq> POLY_BPF_A)
      else if class = POLY_BPF_MISC then
        \<not> (POLY_BPF_MISCOP code \<noteq> POLY_BPF_TAX \<and> POLY_BPF_MISCOP code \<noteq> POLY_BPF_TXA)
      else False)"

definition poly_seccomp_validate_program :: "poly_seccomp_program \<Rightarrow> bool" where
  "poly_seccomp_validate_program program \<longleftrightarrow>
     length program \<noteq> 0 \<and> length program \<le> POLY_SECCOMP_MAX_INSNS \<and>
     list_all (\<lambda>pc. validate_insn (length program) pc (program ! pc)) [0..<length program]"

subsection \<open>Evaluation\<close>

record bpf_state =
  bpf_a :: u32
  bpf_x :: u32
  bpf_mem :: "u32 list"
  bpf_pc :: nat

definition initial_bpf_state :: bpf_state where
  "initial_bpf_state = \<lparr>bpf_a = 0, bpf_x = 0, bpf_mem = replicate POLY_SECCOMP_MEM_WORDS 0, bpf_pc = 0\<rparr>"

text \<open>
  One instruction. \<open>Bpf_kill\<close> is a \<open>return POLY_SECCOMP_RET_KILL_PROCESS\<close>, tagged with
  its reason: an instruction the validator should have refused, or a zero
  divisor at run time.
\<close>

datatype bpf_fault = Bad_instruction | Zero_divisor

datatype bpf_outcome = Bpf_next bpf_state | Bpf_return u32 | Bpf_kill bpf_fault

definition bpf_load :: "poly_bpf_insn \<Rightarrow> poly_seccomp_data \<Rightarrow> bpf_state \<Rightarrow> u32 option" where
  "bpf_load insn data s =
     (let code = bpf_code insn in
      if POLY_BPF_MODE code = POLY_BPF_ABS then
        poly_seccomp_load_data_word data (bpf_k insn) (POLY_BPF_SIZE code)
      else if POLY_BPF_MODE code = POLY_BPF_IMM then Some (bpf_k insn)
      else if POLY_BPF_MODE code = POLY_BPF_MEM \<and> unat (bpf_k insn) < POLY_SECCOMP_MEM_WORDS then
        Some (bpf_mem s ! unat (bpf_k insn))
      else if POLY_BPF_MODE code = POLY_BPF_LEN then Some (of_nat seccomp_data_size)
      else None)"

definition bpf_alu :: "u16 \<Rightarrow> u32 \<Rightarrow> u32 \<Rightarrow> bpf_fault + u32" where
  "bpf_alu op a src =
     (if op = POLY_BPF_ADD then Inr (a + src)
      else if op = POLY_BPF_SUB then Inr (a - src)
      else if op = POLY_BPF_MUL then Inr (a * src)
      else if op = POLY_BPF_DIV then (if src = 0 then Inl Zero_divisor else Inr (a div src))
      else if op = POLY_BPF_OR then Inr (a OR src)
      else if op = POLY_BPF_AND then Inr (a AND src)
      else if op = POLY_BPF_LSH then Inr (push_bit (unat (src AND 31)) a)
      else if op = POLY_BPF_RSH then Inr (drop_bit (unat (src AND 31)) a)
      else if op = POLY_BPF_NEG then Inr (- a)
      else if op = POLY_BPF_MOD then (if src = 0 then Inl Zero_divisor else Inr (a mod src))
      else if op = POLY_BPF_XOR then Inr (a XOR src)
      else Inl Bad_instruction)"

definition bpf_jump :: "u16 \<Rightarrow> u32 \<Rightarrow> u32 \<Rightarrow> bool option" where
  "bpf_jump op a src =
     (if op = POLY_BPF_JEQ then Some (a = src)
      else if op = POLY_BPF_JGT then Some (a > src)
      else if op = POLY_BPF_JGE then Some (a \<ge> src)
      else if op = POLY_BPF_JSET then Some (a AND src \<noteq> 0)
      else None)"

definition bpf_step :: "poly_bpf_insn \<Rightarrow> poly_seccomp_data \<Rightarrow> bpf_state \<Rightarrow> bpf_outcome" where
  "bpf_step insn data s =
     (let code = bpf_code insn; k = bpf_k insn; class = POLY_BPF_CLASS code;
          src = (if POLY_BPF_SRC code = POLY_BPF_X then bpf_x s else k);
          pc = bpf_pc s
      in
      if class = POLY_BPF_LD then
        (case bpf_load insn data s of
           None \<Rightarrow> Bpf_kill Bad_instruction
         | Some v \<Rightarrow> Bpf_next (s\<lparr>bpf_a := v, bpf_pc := pc + 1\<rparr>))
      else if class = POLY_BPF_LDX then
        (case bpf_load insn data s of
           None \<Rightarrow> Bpf_kill Bad_instruction
         | Some v \<Rightarrow> Bpf_next (s\<lparr>bpf_x := v, bpf_pc := pc + 1\<rparr>))
      else if class = POLY_BPF_ST then
        (if unat k \<ge> POLY_SECCOMP_MEM_WORDS then Bpf_kill Bad_instruction
         else Bpf_next (s\<lparr>bpf_mem := (bpf_mem s)[unat k := bpf_a s], bpf_pc := pc + 1\<rparr>))
      else if class = POLY_BPF_STX then
        (if unat k \<ge> POLY_SECCOMP_MEM_WORDS then Bpf_kill Bad_instruction
         else Bpf_next (s\<lparr>bpf_mem := (bpf_mem s)[unat k := bpf_x s], bpf_pc := pc + 1\<rparr>))
      else if class = POLY_BPF_ALU then
        (case bpf_alu (POLY_BPF_OP code) (bpf_a s) src of
           Inl fault \<Rightarrow> Bpf_kill fault
         | Inr v \<Rightarrow> Bpf_next (s\<lparr>bpf_a := v, bpf_pc := pc + 1\<rparr>))
      else if class = POLY_BPF_JMP then
        (if POLY_BPF_OP code = POLY_BPF_JA then Bpf_next (s\<lparr>bpf_pc := pc + unat k + 1\<rparr>)
         else
           (case bpf_jump (POLY_BPF_OP code) (bpf_a s) src of
              None \<Rightarrow> Bpf_kill Bad_instruction
            | Some taken \<Rightarrow>
                Bpf_next (s\<lparr>bpf_pc := pc + unat (if taken then bpf_jt insn else bpf_jf insn) + 1\<rparr>)))
      else if class = POLY_BPF_RET then
        Bpf_return (if POLY_BPF_RVAL code = POLY_BPF_A then bpf_a s else k)
      else if class = POLY_BPF_MISC then
        (if POLY_BPF_MISCOP code = POLY_BPF_TAX then Bpf_next (s\<lparr>bpf_x := bpf_a s, bpf_pc := pc + 1\<rparr>)
         else if POLY_BPF_MISCOP code = POLY_BPF_TXA then Bpf_next (s\<lparr>bpf_a := bpf_x s, bpf_pc := pc + 1\<rparr>)
         else Bpf_kill Bad_instruction)
      else Bpf_kill Bad_instruction)"

lemma bpf_step_pc: "bpf_step insn data s = Bpf_next s' \<Longrightarrow> bpf_pc s < bpf_pc s'"
  by (auto simp: bpf_step_def Let_def split: if_splits option.splits sum.splits)

function poly_seccomp_run :: "poly_seccomp_program \<Rightarrow> poly_seccomp_data \<Rightarrow> bpf_state \<Rightarrow> u32" where
  "poly_seccomp_run program data s =
     (if bpf_pc s < length program then
        (case bpf_step (program ! bpf_pc s) data s of
           Bpf_return r \<Rightarrow> r
         | Bpf_kill fault \<Rightarrow> POLY_SECCOMP_RET_KILL_PROCESS
         | Bpf_next s' \<Rightarrow>
             if bpf_pc s' > length program then POLY_SECCOMP_RET_KILL_PROCESS
             else poly_seccomp_run program data s')
      else POLY_SECCOMP_RET_KILL_PROCESS)"
  by pat_completeness auto
termination
  by (relation "measure (\<lambda>(program, data, s). length program - bpf_pc s)") (auto dest: bpf_step_pc)

declare poly_seccomp_run.simps [simp del]

definition poly_seccomp_eval_program :: "poly_seccomp_program \<Rightarrow> poly_seccomp_data \<Rightarrow> u32" where
  "poly_seccomp_eval_program program data = poly_seccomp_run program data initial_bpf_state"

subsection \<open>Installing filters\<close>

definition read_bpf_insn :: "u8 list \<Rightarrow> poly_bpf_insn" where
  "read_bpf_insn bytes =
     \<lparr>bpf_code = read_u16_le bytes, bpf_jt = bytes ! 2, bpf_jf = bytes ! 3, bpf_k = read_u32_le (drop 4 bytes)\<rparr>"

text \<open>\<open>len\<close> instructions of eight bytes each, copied from guest memory.\<close>

definition read_bpf_program :: "guest_memory \<Rightarrow> u64 \<Rightarrow> nat \<Rightarrow> poly_seccomp_program" where
  "read_bpf_program gm address len =
     map (\<lambda>i. read_bpf_insn (guest_bytes gm (address + of_nat (8 * i)) 8)) [0..<len]"

definition poly_seccomp_install_filter :: "guest_memory \<Rightarrow> u64 \<Rightarrow> seccomp_state \<Rightarrow> seccomp_state \<times> u64" where
  "poly_seccomp_install_filter gm fprog_addr st =
     (if fprog_addr = 0 \<or> \<not> poly_guest_range_is_mapped gm fprog_addr 16 False then (st, - EFAULT)
      else
        (let guest_fprog = guest_bytes gm fprog_addr 16;
             len = unat (read_u16_le guest_fprog);
             filter_addr = read_u64_le (drop 8 guest_fprog)
         in if len = 0 \<or> len > POLY_SECCOMP_MAX_INSNS \<or> filter_addr = 0 then (st, - EINVAL)
            else if \<not> poly_guest_range_is_mapped gm filter_addr (of_nat (len * 8)) False then (st, - EFAULT)
            else
              (let program = read_bpf_program gm filter_addr len
               in if \<not> poly_seccomp_validate_program program then (st, - EINVAL)
                  else if length (poly_seccomp_filters st) \<ge> POLY_SECCOMP_MAX_FILTERS then (st, - ENOMEM)
                  else (st\<lparr>poly_seccomp_filters := poly_seccomp_filters st @ [program],
                           poly_seccomp_mode := POLY_SECCOMP_MODE_FILTER\<rparr>, 0))))"

definition poly_seccomp_action_supported :: "u32 \<Rightarrow> bool" where
  "poly_seccomp_action_supported action =
     (let a = action AND POLY_SECCOMP_RET_ACTION_FULL in
      a = POLY_SECCOMP_RET_KILL_PROCESS \<or> a = POLY_SECCOMP_RET_KILL_THREAD \<or>
      a = POLY_SECCOMP_RET_TRAP \<or> a = POLY_SECCOMP_RET_ERRNO \<or> a = POLY_SECCOMP_RET_TRACE \<or>
      a = POLY_SECCOMP_RET_LOG \<or> a = POLY_SECCOMP_RET_ALLOW)"

subsection \<open>The control system calls\<close>

text \<open>\<open>None\<close> is the return value 0: the call is not one of these.\<close>

definition poly_seccomp_dispatch_guest_bpf :: "x86_syscall \<Rightarrow> u64 option" where
  "poly_seccomp_dispatch_guest_bpf x86_number = (if x86_number \<noteq> ''bpf'' then None else Some (- EPERM))"

definition dispatch_prctl ::
    "guest_memory \<Rightarrow> poly_runtime_event_record \<Rightarrow> seccomp_state \<Rightarrow> (seccomp_state \<times> u64) option" where
  "dispatch_prctl gm packet st =
     (let option = ev_args packet ! 0 in
      if option = PR_SET_NO_NEW_PRIVS then
        (if ev_args packet ! 1 \<noteq> 1 \<or> ev_args packet ! 2 \<noteq> 0 \<or> ev_args packet ! 3 \<noteq> 0 \<or>
            ev_args packet ! 4 \<noteq> 0 then Some (st, - EINVAL)
         else Some (st\<lparr>poly_seccomp_no_new_privs := 1\<rparr>, 0))
      else if option = PR_GET_NO_NEW_PRIVS then Some (st, poly_seccomp_no_new_privs st)
      else if option = PR_GET_SECCOMP then Some (st, poly_seccomp_mode st)
      else if option = PR_SET_SECCOMP then
        (if ev_args packet ! 1 = POLY_SECCOMP_MODE_STRICT then
           Some (st\<lparr>poly_seccomp_mode := POLY_SECCOMP_MODE_STRICT\<rparr>, 0)
         else if ev_args packet ! 1 = POLY_SECCOMP_MODE_FILTER then
           Some (poly_seccomp_install_filter gm (ev_args packet ! 2) st)
         else Some (st, - EINVAL))
      else None)"

definition dispatch_seccomp ::
    "guest_memory \<Rightarrow> poly_runtime_event_record \<Rightarrow> seccomp_state \<Rightarrow> seccomp_state \<times> u64" where
  "dispatch_seccomp gm packet st =
     (let operation = ev_args packet ! 0; flags = ev_args packet ! 1; uargs = ev_args packet ! 2 in
      if operation = POLY_SECCOMP_SET_MODE_STRICT then
        (if flags \<noteq> 0 then (st, - EINVAL)
         else (st\<lparr>poly_seccomp_mode := POLY_SECCOMP_MODE_STRICT\<rparr>, 0))
      else if operation = POLY_SECCOMP_SET_MODE_FILTER then
        (let supported_flags = POLY_SECCOMP_FILTER_FLAG_TSYNC OR POLY_SECCOMP_FILTER_FLAG_LOG OR
               POLY_SECCOMP_FILTER_FLAG_SPEC_ALLOW
         in if flags AND NOT supported_flags \<noteq> 0 then (st, - EINVAL)
            else poly_seccomp_install_filter gm uargs st)
      else if operation = POLY_SECCOMP_GET_ACTION_AVAIL then
        (if uargs = 0 \<or> \<not> poly_guest_range_is_mapped gm uargs 4 False then (st, - EFAULT)
         else (st, if poly_seccomp_action_supported (read_u32_le (guest_bytes gm uargs 4)) then 0
                   else - EOPNOTSUPP))
      else (st, - EINVAL))"

definition poly_seccomp_dispatch_control ::
    "guest_memory \<Rightarrow> poly_runtime_event_record \<Rightarrow> x86_syscall \<Rightarrow> seccomp_state \<Rightarrow> (seccomp_state \<times> u64) option" where
  "poly_seccomp_dispatch_control gm packet x86_number st =
     (case poly_seccomp_dispatch_guest_bpf x86_number of
        Some r \<Rightarrow> Some (st, r)
      | None \<Rightarrow>
          if x86_number = ''prctl'' then dispatch_prctl gm packet st
          else if x86_number = ''seccomp'' then Some (dispatch_seccomp gm packet st)
          else None)"

subsection \<open>The check before a system call\<close>

definition poly_seccomp_strict_allows :: "poly_runtime_event_record \<Rightarrow> bool" where
  "poly_seccomp_strict_allows packet \<longleftrightarrow>
     ev_number packet = 63 \<or> ev_number packet = 64 \<or> ev_number packet = 93 \<or>
     ev_number packet = 94 \<or> ev_number packet = 139"

definition packet_data :: "poly_runtime_event_record \<Rightarrow> poly_seccomp_data" where
  "packet_data packet =
     \<lparr>data_nr = ucast (ev_number packet), data_arch = poly_seccomp_arch_for_mode (ev_mode packet),
      data_instruction_pointer = ev_pc packet, data_args = map (\<lambda>n. ev_args packet ! n) [0..<6]\<rparr>"

definition select_action :: "poly_seccomp_program list \<Rightarrow> poly_seccomp_data \<Rightarrow> u32" where
  "select_action filters data =
     fold (\<lambda>program selected.
         let action = poly_seccomp_eval_program program data in
         if poly_seccomp_action_rank action > poly_seccomp_action_rank selected then action else selected)
       filters POLY_SECCOMP_RET_ALLOW"

definition deny :: "seccomp_state \<Rightarrow> u64 \<Rightarrow> seccomp_state \<times> u64 option" where
  "deny st result = (st\<lparr>poly_seccomp_denied_count := poly_seccomp_denied_count st + 1\<rparr>, Some result)"

text \<open>\<open>None\<close> in the second component lets the call through.\<close>

definition poly_seccomp_preflight_syscall ::
    "poly_runtime_event_record \<Rightarrow> seccomp_state \<Rightarrow> seccomp_state \<times> u64 option" where
  "poly_seccomp_preflight_syscall packet st =
     (let mode = poly_seccomp_mode st; filters = poly_seccomp_filters st in
      if (mode = POLY_SECCOMP_MODE_DISABLED \<or> length filters = 0) \<and> mode \<noteq> POLY_SECCOMP_MODE_STRICT
      then (st, None)
      else
        (let st = st\<lparr>poly_seccomp_preflight_count := poly_seccomp_preflight_count st + 1\<rparr> in
         if mode = POLY_SECCOMP_MODE_STRICT \<and> \<not> poly_seccomp_strict_allows packet then deny st (- EPERM)
         else if length filters = 0 then (st, None)
         else
           (let selected = select_action filters (packet_data packet);
                action = selected AND POLY_SECCOMP_RET_ACTION_FULL
            in if action = POLY_SECCOMP_RET_ALLOW \<or> action = POLY_SECCOMP_RET_LOG then (st, None)
               else if action = POLY_SECCOMP_RET_ERRNO then
                 (let error = selected AND POLY_SECCOMP_RET_DATA;
                      error = (if error = 0 then ucast EPERM else error)
                  in deny st (- ucast error))
               else deny st (- EPERM))))"

text \<open>
  The part of \<open>poly_trap_vector_dispatch\<close> that concerns this state: the check
  first; then, for a call it lets through, the number is translated and the
  control operations are tried. \<open>Some r\<close> answers the guest, \<open>None\<close> goes on to the
  other handlers.
\<close>

definition seccomp_syscall ::
    "(x86_syscall \<Rightarrow> bool) \<Rightarrow> guest_memory \<Rightarrow> poly_runtime_event_record \<Rightarrow> seccomp_state \<Rightarrow>
       seccomp_state \<times> u64 option" where
  "seccomp_syscall has gm packet st =
     (case poly_seccomp_preflight_syscall packet st of
        (st, Some r) \<Rightarrow> (st, Some r)
      | (st, None) \<Rightarrow>
          (case poly_generic_linux_syscall_to_x86 has (ev_number packet) of
             None \<Rightarrow> (st, Some (- ENOSYS))
           | Some x86_number \<Rightarrow>
               (case poly_seccomp_dispatch_control gm packet x86_number st of
                  Some (st, r) \<Rightarrow> (st, Some r)
                | None \<Rightarrow> (st, None))))"

end
