(* ===== verification/Seccomp_Policy.thy ===== *)
theory Seccomp_Policy
  imports Seccomp
begin

text \<open>
  What the monitor's seccomp implementation guarantees: a validated program runs
  to an end without meeting an instruction the validator should have refused,
  the check lets a call through exactly when every installed filter does, and no
  sequence of system calls weakens the policy.
\<close>


subsection \<open>Validated programs\<close>

lemmas bpf_constant_simps =
  POLY_SECCOMP_MAX_FILTERS_def POLY_SECCOMP_MAX_INSNS_def POLY_SECCOMP_MEM_WORDS_def seccomp_data_size_def

text \<open>States the interpreter can be in after \<open>n\<close> instructions.\<close>

inductive bpf_reach :: "poly_seccomp_program \<Rightarrow> poly_seccomp_data \<Rightarrow> nat \<Rightarrow> bpf_state \<Rightarrow> bool"
  for program data where
  start: "bpf_reach program data 0 initial_bpf_state"
| step: "bpf_reach program data n s \<Longrightarrow> bpf_pc s < length program \<Longrightarrow>
     bpf_step (program ! bpf_pc s) data s = Bpf_next s' \<Longrightarrow> bpf_reach program data (Suc n) s'"

lemma bpf_load_valid:
  assumes "validate_insn len pc insn" and "POLY_BPF_CLASS (bpf_code insn) \<in> {POLY_BPF_LD, POLY_BPF_LDX}"
  shows "bpf_load insn data s \<noteq> None"
  using assms
  by (auto simp: validate_insn_def bpf_load_def poly_seccomp_load_data_word_def Let_def
      split: if_splits option.splits)

lemma bpf_alu_fault: "bpf_alu op a src = Inl f \<Longrightarrow> bpf_alu_op op \<Longrightarrow> f = Zero_divisor"
  by (auto simp: bpf_alu_def bpf_alu_op_def split: if_splits)

lemma bpf_jump_valid: "bpf_jump_op op \<Longrightarrow> bpf_jump op a src \<noteq> None"
  by (auto simp: bpf_jump_def bpf_jump_op_def)

lemma and_7_cases: "(w :: u16) AND 7 \<in> {0, 1, 2, 3, 4, 5, 6, 7}"
proof -
  have "w AND 7 = take_bit 3 w" by (simp add: take_bit_eq_mask mask_eq_exp_minus_1)
  moreover have "take_bit 3 (unat w) < 2 ^ 3" by (rule take_bit_nat_less_exp)
  ultimately have "unat (w AND 7) < 8" by (simp add: unsigned_take_bit_eq)
  then have "unat (w AND 7) \<in> {0, 1, 2, 3, 4, 5, 6, 7}" by auto
  moreover have "w AND 7 = of_nat (unat (w AND 7))" by simp
  ultimately show ?thesis by (auto simp del: of_nat_unat)
qed

lemma bpf_class_cases:
  obtains (load) "POLY_BPF_CLASS code = POLY_BPF_LD \<or> POLY_BPF_CLASS code = POLY_BPF_LDX"
  | (store) "POLY_BPF_CLASS code = POLY_BPF_ST \<or> POLY_BPF_CLASS code = POLY_BPF_STX"
  | (alu) "POLY_BPF_CLASS code = POLY_BPF_ALU" | (jmp) "POLY_BPF_CLASS code = POLY_BPF_JMP"
  | (ret) "POLY_BPF_CLASS code = POLY_BPF_RET" | (misc) "POLY_BPF_CLASS code = POLY_BPF_MISC"
  using and_7_cases[of code] by (auto simp: POLY_BPF_CLASS_def)

lemma bpf_step_valid:
  assumes valid: "validate_insn len (bpf_pc s) insn" and pc: "bpf_pc s < len"
  shows "case bpf_step insn data s of Bpf_kill f \<Rightarrow> f = Zero_divisor
    | Bpf_next s' \<Rightarrow> bpf_pc s' \<le> len | Bpf_return _ \<Rightarrow> True"
proof (cases rule: bpf_class_cases[of "bpf_code insn"])
  case load
  then obtain v where "bpf_load insn data s = Some v" using bpf_load_valid[OF valid] by fastforce
  with load pc show ?thesis by (auto simp: bpf_step_def Let_def)
next
  case store
  then show ?thesis using valid pc by (auto simp: bpf_step_def validate_insn_def Let_def)
next
  case alu
  then have "bpf_alu_op (POLY_BPF_OP (bpf_code insn))" using valid by (simp add: validate_insn_def Let_def)
  then show ?thesis using alu pc bpf_alu_fault
    by (simp add: bpf_step_def Let_def split: sum.split)
next
  case jmp
  then show ?thesis
  proof (cases "POLY_BPF_OP (bpf_code insn) = POLY_BPF_JA")
    case True
    with jmp valid show ?thesis by (simp add: bpf_step_def validate_insn_def Let_def)
  next
    case False
    with jmp valid have op: "bpf_jump_op (POLY_BPF_OP (bpf_code insn))"
      and targets: "unat (bpf_jt insn) < len - bpf_pc s" "unat (bpf_jf insn) < len - bpf_pc s"
      by (simp_all add: validate_insn_def Let_def)
    obtain taken where "bpf_jump (POLY_BPF_OP (bpf_code insn)) (bpf_a s)
        (if POLY_BPF_SRC (bpf_code insn) = POLY_BPF_X then bpf_x s else bpf_k insn) = Some taken"
      using bpf_jump_valid[OF op] by blast
    with jmp False targets show ?thesis by (cases taken) (simp_all add: bpf_step_def Let_def)
  qed
next
  case ret
  then show ?thesis by (simp add: bpf_step_def Let_def)
next
  case misc
  then show ?thesis using valid pc by (auto simp: bpf_step_def validate_insn_def Let_def)
qed

lemma validated_insn:
  "poly_seccomp_validate_program program \<Longrightarrow> pc < length program \<Longrightarrow>
     validate_insn (length program) pc (program ! pc)"
  by (simp add: poly_seccomp_validate_program_def list_all_iff)

lemma bpf_reach_bounds:
  assumes "bpf_reach program data n s" and "poly_seccomp_validate_program program"
  shows "n \<le> bpf_pc s \<and> bpf_pc s \<le> length program"
  using assms
proof (induction rule: bpf_reach.induct)
  case start
  then show ?case by (simp add: initial_bpf_state_def)
next
  case (step n s s')
  have "bpf_pc s' \<le> length program"
    using bpf_step_valid[OF validated_insn[OF step.prems step.hyps(2)] step.hyps(2), of data] step.hyps(3) by simp
  moreover have "Suc n \<le> bpf_pc s'" using bpf_step_pc[OF step.hyps(3)] step.IH[OF step.prems] by simp
  ultimately show ?case by simp
qed

text \<open>How a run from a reachable state ends.\<close>

definition bpf_ends :: "poly_seccomp_program \<Rightarrow> poly_seccomp_data \<Rightarrow> bpf_state \<Rightarrow> u32 \<Rightarrow> bool" where
  "bpf_ends program data s r \<longleftrightarrow>
     (if bpf_pc s < length program
      then bpf_step (program ! bpf_pc s) data s = Bpf_return r \<or>
           bpf_step (program ! bpf_pc s) data s = Bpf_kill Zero_divisor \<and> r = POLY_SECCOMP_RET_KILL_PROCESS
      else r = POLY_SECCOMP_RET_KILL_PROCESS)"

lemma run_ends:
  assumes "poly_seccomp_validate_program program" and "bpf_reach program data n s"
  shows "\<exists>n s'. bpf_reach program data n s' \<and> bpf_ends program data s' (poly_seccomp_run program data s)"
  using assms
proof (induction program data s arbitrary: n rule: poly_seccomp_run.induct)
  case (1 program data s)
  show ?case
  proof (cases "bpf_pc s < length program")
    case False
    with "1.prems" show ?thesis
      by (auto simp: bpf_ends_def poly_seccomp_run.simps[of program data s])
  next
    case pc: True
    note step_ok = bpf_step_valid[OF validated_insn[OF "1.prems"(1) pc] pc, of data]
    show ?thesis
    proof (cases "bpf_step (program ! bpf_pc s) data s")
      case (Bpf_next s')
      with step_ok pc have run: "poly_seccomp_run program data s = poly_seccomp_run program data s'"
        by (simp add: poly_seccomp_run.simps[of program data s])
      show ?thesis unfolding run
        using "1.IH"[OF pc Bpf_next _ "1.prems"(1) bpf_reach.step[OF "1.prems"(2) pc Bpf_next]] step_ok Bpf_next by simp
    qed (use step_ok pc "1.prems" in \<open>auto simp: bpf_ends_def poly_seccomp_run.simps[of program data s]\<close>)
  qed
qed


lemma bpf_step_mem: "bpf_step insn data s = Bpf_next s' \<Longrightarrow> length (bpf_mem s') = length (bpf_mem s)"
  by (auto simp: bpf_step_def Let_def split: if_splits option.splits sum.splits)

lemma bpf_reach_mem: "bpf_reach program data n s \<Longrightarrow> length (bpf_mem s) = POLY_SECCOMP_MEM_WORDS"
  by (induction rule: bpf_reach.induct) (simp_all add: initial_bpf_state_def bpf_step_mem)

subsection \<open>The combined verdict\<close>

lemma select_action_rank:
  "poly_seccomp_action_rank (fold (\<lambda>program selected.
         let action = poly_seccomp_eval_program program data in
         if poly_seccomp_action_rank action > poly_seccomp_action_rank selected then action else selected)
       filters a) \<le> n \<longleftrightarrow>
   poly_seccomp_action_rank a \<le> n \<and>
   (\<forall>p\<in>set filters. poly_seccomp_action_rank (poly_seccomp_eval_program p data) \<le> n)"
  by (induction filters arbitrary: a) (auto simp: Let_def)

lemma allow_rank: "poly_seccomp_action_rank POLY_SECCOMP_RET_ALLOW = 1"
  by code_simp

lemma low_rank:
  "poly_seccomp_action_rank a \<le> 2 \<longleftrightarrow>
     a AND POLY_SECCOMP_RET_ACTION_FULL = POLY_SECCOMP_RET_ALLOW \<or>
     a AND POLY_SECCOMP_RET_ACTION_FULL = POLY_SECCOMP_RET_LOG"
  by (simp add: poly_seccomp_action_rank_def Let_def)

definition verdict_allows :: "poly_runtime_event_record \<Rightarrow> poly_seccomp_program \<Rightarrow> bool" where
  "verdict_allows packet program \<longleftrightarrow>
     poly_seccomp_action_rank (poly_seccomp_eval_program program (packet_data packet)) \<le> 2"

definition policy_allows :: "poly_runtime_event_record \<Rightarrow> seccomp_state \<Rightarrow> bool" where
  "policy_allows packet st \<longleftrightarrow>
     (poly_seccomp_mode st = POLY_SECCOMP_MODE_STRICT \<longrightarrow> poly_seccomp_strict_allows packet) \<and>
     (poly_seccomp_mode st \<noteq> POLY_SECCOMP_MODE_DISABLED \<longrightarrow>
        list_all (verdict_allows packet) (poly_seccomp_filters st))"

lemma preflight_none: "snd (poly_seccomp_preflight_syscall packet st) = None \<longleftrightarrow> policy_allows packet st"
proof -
  have "poly_seccomp_action_rank (select_action (poly_seccomp_filters st) (packet_data packet)) \<le> 2 \<longleftrightarrow>
      list_all (verdict_allows packet) (poly_seccomp_filters st)"
    by (simp add: select_action_def select_action_rank allow_rank verdict_allows_def list_all_iff)
  then show ?thesis
    by (cases "poly_seccomp_filters st")
      (auto simp: poly_seccomp_preflight_syscall_def policy_allows_def deny_def Let_def low_rank)
qed

lemma preflight_keeps:
  "poly_seccomp_mode (fst (poly_seccomp_preflight_syscall packet st)) = poly_seccomp_mode st"
  "poly_seccomp_filters (fst (poly_seccomp_preflight_syscall packet st)) = poly_seccomp_filters st"
  "poly_seccomp_no_new_privs (fst (poly_seccomp_preflight_syscall packet st)) = poly_seccomp_no_new_privs st"
  by (simp_all add: poly_seccomp_preflight_syscall_def deny_def Let_def)

subsection \<open>The policy only tightens\<close>

definition seccomp_inv :: "seccomp_state \<Rightarrow> bool" where
  "seccomp_inv st \<longleftrightarrow>
     length (poly_seccomp_filters st) \<le> POLY_SECCOMP_MAX_FILTERS \<and>
     list_all poly_seccomp_validate_program (poly_seccomp_filters st) \<and>
     poly_seccomp_mode st \<in> {POLY_SECCOMP_MODE_DISABLED, POLY_SECCOMP_MODE_STRICT, POLY_SECCOMP_MODE_FILTER} \<and>
     (poly_seccomp_mode st = POLY_SECCOMP_MODE_DISABLED \<longrightarrow> poly_seccomp_filters st = []) \<and>
     (poly_seccomp_mode st = POLY_SECCOMP_MODE_FILTER \<longrightarrow> poly_seccomp_filters st \<noteq> [])"

text \<open>How an operation may change the policy.\<close>

definition tightens :: "seccomp_state \<Rightarrow> seccomp_state \<Rightarrow> bool" where
  "tightens st st' \<longleftrightarrow>
     (poly_seccomp_filters st' = poly_seccomp_filters st \<and>
        (poly_seccomp_mode st' = poly_seccomp_mode st \<or> poly_seccomp_mode st' = POLY_SECCOMP_MODE_STRICT)) \<or>
     (poly_seccomp_mode st' = POLY_SECCOMP_MODE_FILTER \<and>
        length (poly_seccomp_filters st) < POLY_SECCOMP_MAX_FILTERS \<and>
        (\<exists>program. poly_seccomp_validate_program program \<and>
           poly_seccomp_filters st' = poly_seccomp_filters st @ [program]))"

lemma install_tightens: "poly_seccomp_install_filter gm a st = (st', r) \<Longrightarrow> tightens st st'"
  by (auto simp: poly_seccomp_install_filter_def tightens_def Let_def split: if_splits)

lemma tightens_same: "tightens st st" "tightens st (st\<lparr>poly_seccomp_no_new_privs := v\<rparr>)"
  "tightens st (st\<lparr>poly_seccomp_mode := POLY_SECCOMP_MODE_STRICT\<rparr>)"
  by (auto simp: tightens_def)

lemma dispatch_tightens:
  assumes "poly_seccomp_dispatch_control gm packet x st = Some (st', r)"
  shows "tightens st st' \<and> (st' = st \<or> x \<in> {''prctl'', ''seccomp''})"
  using assms install_tightens tightens_same
  by (auto simp: poly_seccomp_dispatch_control_def poly_seccomp_dispatch_guest_bpf_def dispatch_prctl_def
      dispatch_seccomp_def Let_def split: if_splits)

lemma strict_no_control:
  assumes "poly_seccomp_strict_allows packet"
    and "poly_generic_linux_syscall_to_x86 has (ev_number packet) = Some x"
  shows "x \<notin> {''prctl'', ''seccomp''}"
proof
  assume "x \<in> {''prctl'', ''seccomp''}"
  then have "(uint (ev_number packet), x) \<in> set (numbers_of [''prctl'', ''seccomp'', ''bpf''])"
    using syscall_to_x86_SomeD[OF assms(2), of "[''prctl'', ''seccomp'', ''bpf'']"] by auto
  then show False using assms(1) unfolding control_call_numbers by (auto simp: poly_seccomp_strict_allows_def)
qed

lemma seccomp_syscall_cases:
  obtains (same) "poly_seccomp_filters (fst (seccomp_syscall has gm packet st)) = poly_seccomp_filters st"
      "poly_seccomp_mode (fst (seccomp_syscall has gm packet st)) = poly_seccomp_mode st"
  | (changed) "tightens st (fst (seccomp_syscall has gm packet st))"
      "poly_seccomp_mode st \<noteq> POLY_SECCOMP_MODE_STRICT" "policy_allows packet st"
proof -
  obtain st1 v where pre: "poly_seccomp_preflight_syscall packet st = (st1, v)" by fastforce
  have keep: "poly_seccomp_mode st1 = poly_seccomp_mode st" "poly_seccomp_filters st1 = poly_seccomp_filters st"
    using preflight_keeps[of packet st] pre by simp_all
  show thesis
  proof (cases "\<exists>x st2 r. v = None \<and> poly_generic_linux_syscall_to_x86 has (ev_number packet) = Some x \<and>
      poly_seccomp_dispatch_control gm packet x st1 = Some (st2, r)")
    case False
    then have "fst (seccomp_syscall has gm packet st) = st1"
      using pre by (auto simp: seccomp_syscall_def split: option.splits)
    then show thesis using keep same by simp
  next
    case True
    then obtain x st2 r where *: "v = None" "poly_generic_linux_syscall_to_x86 has (ev_number packet) = Some x"
      "poly_seccomp_dispatch_control gm packet x st1 = Some (st2, r)" by blast
    then have st2: "fst (seccomp_syscall has gm packet st) = st2"
      using pre by (simp add: seccomp_syscall_def)
    have allowed: "policy_allows packet st" using preflight_none[of packet st] pre *(1) by simp
    show thesis
    proof (cases "poly_seccomp_mode st = POLY_SECCOMP_MODE_STRICT")
      case True
      then have "poly_seccomp_strict_allows packet" using allowed by (simp add: policy_allows_def)
      then have "st2 = st1" using strict_no_control[OF _ *(2)] dispatch_tightens[OF *(3)] by blast
      then show thesis using st2 keep same by simp
    next
      case False
      moreover have "tightens st st2" using dispatch_tightens[OF *(3)] keep by (simp add: tightens_def)
      ultimately show thesis using changed st2 allowed by simp
    qed
  qed
qed

lemma seccomp_inv_step: "seccomp_inv st \<Longrightarrow> seccomp_inv (fst (seccomp_syscall has gm packet st))"
  by (rule seccomp_syscall_cases[of has gm packet st]) (auto simp: seccomp_inv_def tightens_def)

lemma denial_step: "\<not> policy_allows packet st \<Longrightarrow> \<not> policy_allows packet (fst (seccomp_syscall has gm q st))"
  by (rule seccomp_syscall_cases[of has gm q st]) (auto simp: policy_allows_def tightens_def)

lemma filters_grow_step:
  "prefix fs (poly_seccomp_filters st) \<Longrightarrow> prefix fs (poly_seccomp_filters (fst (seccomp_syscall has gm q st)))"
  by (rule seccomp_syscall_cases[of has gm q st]) (auto simp: tightens_def prefix_def)

interpretation seccomp_invariant: stable_predicate "\<lambda>(gm, packet) st. fst (seccomp_syscall has gm packet st)" seccomp_inv
  for has
  by unfold_locales (auto intro: seccomp_inv_step)

interpretation seccomp_denial: stable_predicate "\<lambda>(gm, packet) st. fst (seccomp_syscall has gm packet st)"
    "\<lambda>st. \<not> policy_allows packet st" for has packet
  by unfold_locales (auto simp: denial_step)

interpretation seccomp_growth: stable_predicate "\<lambda>(gm, packet) st. fst (seccomp_syscall has gm packet st)"
    "\<lambda>st. prefix fs (poly_seccomp_filters st)" for has fs
  by unfold_locales (auto simp: filters_grow_step)

abbreviation seccomp_run where
  "seccomp_run has \<equiv> run_steps (\<lambda>(gm, packet) st. fst (seccomp_syscall has gm packet st))"

subsection \<open>Properties\<close>

definition insn :: "u16 \<Rightarrow> u8 \<Rightarrow> u8 \<Rightarrow> u32 \<Rightarrow> poly_bpf_insn" where
  "insn code jt jf k = \<lparr>bpf_code = code, bpf_jt = jt, bpf_jf = jf, bpf_k = k\<rparr>"

text \<open>A filter that answers system call 64 with error \<open>e\<close> and allows every other.\<close>

definition errno_filter :: "u32 \<Rightarrow> poly_seccomp_program" where
  "errno_filter e =
     [insn 0x20 0 0 0, insn 0x15 0 1 64, insn 0x06 0 0 (POLY_SECCOMP_RET_ERRNO OR e),
      insn 0x06 0 0 POLY_SECCOMP_RET_ALLOW]"

definition syscall_packet :: "u64 \<Rightarrow> poly_runtime_event_record" where
  "syscall_packet number =
     \<lparr>ev_reason = 0, ev_mode = 2, ev_number = number, ev_selector = 0, ev_pc = 0x1000, ev_next_pc = 0x1004,
      ev_flags = 0, ev_reserved = [], ev_args = replicate 10 0\<rparr>"

definition filtered_state :: "u32 \<Rightarrow> seccomp_state" where
  "filtered_state e =
     initial_seccomp_state\<lparr>poly_seccomp_mode := POLY_SECCOMP_MODE_FILTER, poly_seccomp_filters := [errno_filter e]\<rparr>"

lemma errno_filter_valid: "poly_seccomp_validate_program (errno_filter 13)"
  by code_simp

text \<open>
  C9. In a validated filter program every reachable interpreter state has
  executed at most as many instructions as its program counter, keeps the
  counter within the program and all sixteen scratch words in place, and never
  executes an instruction that the interpreter rejects.
\<close>
theorem validated_program_safe:
  assumes "poly_seccomp_validate_program program" and "bpf_reach program data n s"
  shows "n \<le> bpf_pc s \<and> bpf_pc s \<le> length program \<and> length (bpf_mem s) = POLY_SECCOMP_MEM_WORDS \<and>
    (bpf_pc s < length program \<longrightarrow> bpf_step (program ! bpf_pc s) data s \<noteq> Bpf_kill Bad_instruction)"
proof -
  have "bpf_step (program ! bpf_pc s) data s \<noteq> Bpf_kill Bad_instruction" if "bpf_pc s < length program"
    using bpf_step_valid[OF validated_insn[OF assms(1) that] that, of data] by auto
  then show ?thesis using bpf_reach_bounds[OF assms(2,1)] bpf_reach_mem[OF assms(2)] by blast
qed

theorem validated_program_safe_witness:
  "bpf_step (errno_filter 13 ! bpf_pc initial_bpf_state) (packet_data (syscall_packet 64)) initial_bpf_state
     \<noteq> Bpf_kill Bad_instruction"
  using validated_program_safe[OF errno_filter_valid bpf_reach.start, of "packet_data (syscall_packet 64)"]
  by (simp add: initial_bpf_state_def errno_filter_def)

text \<open>
  C30. Evaluating a validated program always ends, within as many instructions
  as the program has: with the value of a \<open>RET\<close>, or, when a divisor read from a
  register is zero or the program runs off its end, with the kill verdict.
\<close>
theorem eval_fails_closed:
  assumes "poly_seccomp_validate_program program"
  shows "\<exists>n s. bpf_reach program data n s \<and> n \<le> length program \<and>
    bpf_ends program data s (poly_seccomp_eval_program program data)"
  using run_ends[OF assms bpf_reach.start, of data] bpf_reach_bounds[OF _ assms]
  by (fastforce simp: poly_seccomp_eval_program_def)

theorem eval_fails_closed_witness:
  "\<exists>n s. bpf_reach (errno_filter 13) (packet_data (syscall_packet 64)) n s \<and> n \<le> length (errno_filter 13) \<and>
    bpf_ends (errno_filter 13) (packet_data (syscall_packet 64)) s 0x5000d"
proof -
  have "poly_seccomp_eval_program (errno_filter 13) (packet_data (syscall_packet 64)) = 0x5000d" by code_simp
  then show ?thesis using eval_fails_closed[OF errno_filter_valid, of "packet_data (syscall_packet 64)"] by simp
qed

text \<open>
  C8. The check before a system call lets the call through exactly when strict
  mode, if set, allows it and, unless the mode is disabled, every installed
  filter answers ALLOW or LOG.
\<close>
theorem preflight_passes_iff:
  "snd (poly_seccomp_preflight_syscall packet st) = None \<longleftrightarrow>
     (poly_seccomp_mode st = POLY_SECCOMP_MODE_STRICT \<longrightarrow> poly_seccomp_strict_allows packet) \<and>
     (poly_seccomp_mode st \<noteq> POLY_SECCOMP_MODE_DISABLED \<longrightarrow>
        (\<forall>program \<in> set (poly_seccomp_filters st).
           poly_seccomp_eval_program program (packet_data packet) AND POLY_SECCOMP_RET_ACTION_FULL
             \<in> {POLY_SECCOMP_RET_ALLOW, POLY_SECCOMP_RET_LOG}))"
  by (simp add: preflight_none policy_allows_def verdict_allows_def list_all_iff low_rank)

theorem preflight_passes_iff_witness:
  "snd (poly_seccomp_preflight_syscall (syscall_packet 63) (filtered_state 13)) = None"
proof -
  have "poly_seccomp_eval_program (errno_filter 13) (packet_data (syscall_packet 63)) = POLY_SECCOMP_RET_ALLOW"
    by code_simp
  then show ?thesis unfolding preflight_passes_iff by (simp add: filtered_state_def)
qed

lemma filtered_denied: "\<not> policy_allows (syscall_packet 64) (filtered_state 13)"
  by code_simp

text \<open>
  C13. Whatever sequence of system calls a guest issues from the initial state,
  at most sixteen filters are installed, every one of them validated, the mode
  is one of the three defined values, the disabled mode has no filters and the
  filter mode has at least one.
\<close>
theorem seccomp_trace_invariant:
  "seccomp_inv (seccomp_run has calls initial_seccomp_state)"
  by (rule seccomp_invariant.run_stable) (simp add: initial_seccomp_state_def seccomp_inv_def)



lemma unat_ucast_u32_u64: "unat (ucast (w :: u32) :: u64) = unat w"
  using unsigned_less[where ?'a = nat, of w] by (simp add: unsigned_ucast_eq take_bit_nat_eq_self_iff)

lemma and_mask16_le: "(w :: u32) AND 0xffff \<le> 0xffff"
  by (rule word_and_le1)



end
