(* ===== verification/Xsave_State.thy ===== *)
theory Xsave_State
  imports Runtime_Base
begin

text \<open>
  The architectural state image of the polyglot core, the structures of
  \<open>tools/include/polycpuid.h\<close> from \<open>poly_u128\<close> to \<open>poly_xsave_state\<close>, and the
  functions of \<open>tools/runtime/polyexec.c\<close> that clear parts of it and prepare it for
  the instruction that imports it.

  An array is a list; \<open>xsave_sizes\<close> says that every list has the length of its C
  array. A \<open>memset\<close> to zero of a structure is the constant \<open>zero_...\<close> of its type.
\<close>

subsection \<open>Constants\<close>

abbreviation (input) POLY_TRAP_RESTORE_FLAG_VALID :: u64 where "POLY_TRAP_RESTORE_FLAG_VALID \<equiv> 1"
abbreviation (input) POLY_TRAP_RESTORE_FLAG_AARCH64_STATE_VALID :: u64 where
  "POLY_TRAP_RESTORE_FLAG_AARCH64_STATE_VALID \<equiv> 2"
abbreviation (input) POLY_TRAP_RESTORE_FLAG_RISCV_STATE_VALID :: u64 where
  "POLY_TRAP_RESTORE_FLAG_RISCV_STATE_VALID \<equiv> 4"

abbreviation (input) POLY_EVENT_RECORD_FLAG_VECTOR_DELIVERY :: u64 where
  "POLY_EVENT_RECORD_FLAG_VECTOR_DELIVERY \<equiv> 1"
abbreviation (input) POLY_EVENT_RECORD_FLAG_NO_VECTOR_X86_EXCEPTIONS :: u64 where
  "POLY_EVENT_RECORD_FLAG_NO_VECTOR_X86_EXCEPTIONS \<equiv> 2"
abbreviation (input) POLY_EVENT_RECORD_FLAG_TRAP_RETURN_RESTORE :: u64 where
  "POLY_EVENT_RECORD_FLAG_TRAP_RETURN_RESTORE \<equiv> 4"
abbreviation (input) POLY_EVENT_RECORD_FLAG_ALL_FRONTEND_HANDLERS :: u64 where
  "POLY_EVENT_RECORD_FLAG_ALL_FRONTEND_HANDLERS \<equiv> 8"
abbreviation (input) POLY_EVENT_RECORD_FLAG_OPAQUE_SYSCALLS :: u64 where
  "POLY_EVENT_RECORD_FLAG_OPAQUE_SYSCALLS \<equiv> 16"
abbreviation (input) POLY_EVENT_RECORD_FLAG_OPAQUE_IMPORTS :: u64 where
  "POLY_EVENT_RECORD_FLAG_OPAQUE_IMPORTS \<equiv> 64"

definition POLY_EVENT_RECORD_REQUIRED_FLAGS :: u64 where
  "POLY_EVENT_RECORD_REQUIRED_FLAGS =
     POLY_EVENT_RECORD_FLAG_VECTOR_DELIVERY OR POLY_EVENT_RECORD_FLAG_NO_VECTOR_X86_EXCEPTIONS OR
     POLY_EVENT_RECORD_FLAG_TRAP_RETURN_RESTORE OR POLY_EVENT_RECORD_FLAG_ALL_FRONTEND_HANDLERS OR
     POLY_EVENT_RECORD_FLAG_OPAQUE_SYSCALLS OR POLY_EVENT_RECORD_FLAG_OPAQUE_IMPORTS"

abbreviation (input) POLY_NATIVE_RETURN_FRAME_FLAGS_SUPPORTED :: u64 where
  "POLY_NATIVE_RETURN_FRAME_FLAGS_SUPPORTED \<equiv> 1"
abbreviation (input) POLY_AARCH64_NZCV_MASK :: u64 where "POLY_AARCH64_NZCV_MASK \<equiv> 0x0f"
abbreviation (input) POLY_AARCH64_FPCR_RMODE_MASK :: u64 where "POLY_AARCH64_FPCR_RMODE_MASK \<equiv> 0xc00000"
abbreviation (input) POLY_AARCH64_FPSR_MASK :: u64 where "POLY_AARCH64_FPSR_MASK \<equiv> 0x9f"
abbreviation (input) POLY_RISCV_FCSR_MASK :: u64 where "POLY_RISCV_FCSR_MASK \<equiv> 0xff"
abbreviation (input) POLY_AARCH64_GPR_VALID_MASK :: u64 where "POLY_AARCH64_GPR_VALID_MASK \<equiv> 0x7fffffff"
abbreviation (input) POLY_AARCH64_GPR_VALID_MASK_FULL :: u64 where "POLY_AARCH64_GPR_VALID_MASK_FULL \<equiv> 0xffffffff"
abbreviation (input) POLY_RISCV_GPR_VALID_MASK_FULL :: u64 where "POLY_RISCV_GPR_VALID_MASK_FULL \<equiv> 0xffffffff"

abbreviation (input) POLY_STATE_XSAVE_IMPORT_RETURN_DEPTH :: nat where "POLY_STATE_XSAVE_IMPORT_RETURN_DEPTH \<equiv> 8"
abbreviation (input) POLY_STATE_XSAVE_CROSS_RETURN_DEPTH :: nat where "POLY_STATE_XSAVE_CROSS_RETURN_DEPTH \<equiv> 8"
abbreviation (input) POLY_STATE_XSAVE_NATIVE_RETURN_DEPTH :: nat where "POLY_STATE_XSAVE_NATIVE_RETURN_DEPTH \<equiv> 8"
abbreviation (input) POLY_V2_EVENT_ARG_COUNT :: nat where "POLY_V2_EVENT_ARG_COUNT \<equiv> 8"

subsection \<open>The structures\<close>

record poly_u128 =
  u128_lo :: u64
  u128_hi :: u64

record poly_xsave_header =
  hdr_magic :: u32
  hdr_layout_version :: u16
  hdr_header_bytes :: u16
  hdr_total_bytes :: u32
  hdr_current_mode :: u32
  hdr_flags :: u64
  hdr_foreign_pc :: u64
  hdr_foreign_tls_base :: u64
  hdr_trap_vector_pc :: u64
  hdr_trap_vector_mode :: u32
  hdr_spill_reason :: u32
  hdr_reserved0 :: u64

record poly_event_record =
  er_reason :: u32
  er_source_mode :: u32
  er_number :: u64
  er_selector :: u64
  er_trap_pc :: u64
  er_resume_pc :: u64
  er_flags :: u64
  er_reserved :: "u64 list"

record poly_transition_frame =
  tf_return_pc :: u64
  tf_caller_mode :: u32
  tf_target_mode :: u32
  tf_abi_kind :: u16
  tf_flags :: u16
  tf_reserved0 :: u32
  tf_cookie :: u64

record poly_xsave_transition_area =
  ta_active :: poly_transition_frame
  ta_reserved :: "u8 list"

record poly_aarch64_status_state =
  a64_nzcv :: u64
  a64_fpcr :: u64
  a64_fpsr :: u64
  a64_reservation_addr :: u64
  a64_reservation_size :: u64
  a64_reserved :: "u64 list"

record poly_riscv_status_state =
  rv_fcsr :: u64
  rv_reservation_addr :: u64
  rv_reservation_size :: u64
  rv_reserved :: "u64 list"

record poly_import_return_frame =
  irf_source_mode :: u32
  irf_alias_valid :: u32
  irf_return_pc :: u64
  irf_return_sp :: u64
  irf_import_id :: u64
  irf_return_map :: u64
  irf_alias :: "u64 list"
  irf_saved_x86_fsbase :: u64
  irf_target_x86_fsbase :: u64
  irf_saved_aarch64_tls_base :: u64
  irf_saved_riscv_tls_base :: u64
  irf_saved_source_reg2 :: u64

record poly_import_return_state =
  ir_top :: u64
  ir_depth :: u64
  ir_frames :: "poly_import_return_frame list"
  ir_reserved :: "u8 list"

record poly_cross_return_frame =
  crf_return_pc :: u64
  crf_return_sp :: u64
  crf_caller_mode :: u32
  crf_target_mode :: u32
  crf_abi_kind :: u16
  crf_flags :: u16
  crf_reserved0 :: u32

record poly_cross_return_state =
  cr_top :: u64
  cr_depth :: u64
  cr_frames :: "poly_cross_return_frame list"
  cr_reserved :: "u8 list"

record poly_native_return_frame =
  nrf_return_pc :: u64
  nrf_return_sp :: u64
  nrf_sret_ptr :: u64
  nrf_target_mode :: u32
  nrf_return_kind :: u16
  nrf_flags :: u16
  nrf_reserved :: "u64 list"

record poly_native_return_state =
  nr_active_valid :: u64
  nr_top :: u64
  nr_depth :: u64
  nr_supported_flags :: u64
  nr_active :: poly_native_return_frame
  nr_frames :: "poly_native_return_frame list"
  nr_reserved :: "u8 list"

record poly_abi_signature_slot_state =
  slot_kind :: u32
  slot_register_map :: u32

record poly_abi_signature_state =
  sig_slot_count :: u64
  sig_flags :: u64
  sig_slots :: "poly_abi_signature_slot_state list"
  sig_reserved :: "u8 list"

record poly_frontend_tls_state =
  tls_flags :: u64
  tls_active_mode :: u64
  tls_aarch64_tls_base :: u64
  tls_riscv_tls_base :: u64
  tls_reserved :: "u64 list"

record poly_landing_policy_state =
  lp_flags :: u64
  lp_supported_flags :: u64
  lp_reserved :: "u64 list"

record poly_state_key_state =
  sk_flags :: u64
  sk_explicit_key :: u64
  sk_supported_flags :: u64
  sk_reserved :: "u64 list"

record poly_trap_restore_state =
  tr_flags :: u64
  tr_mode :: u32
  tr_reserved0 :: u32
  tr_x86_gpr :: "u64 list"
  tr_x86_xmm :: "poly_u128 list"
  tr_aarch64_gpr_valid_mask :: u64
  tr_aarch64_gpr :: "u64 list"
  tr_aarch64_fp :: "poly_u128 list"
  tr_aarch64_nzcv :: u64
  tr_aarch64_fpcr :: u64
  tr_aarch64_fpsr :: u64
  tr_aarch64_reserved :: u64
  tr_riscv_gpr_valid_mask :: u64
  tr_riscv_gpr :: "u64 list"
  tr_riscv_fp :: "poly_u128 list"
  tr_riscv_fcsr :: u64
  tr_riscv_reserved :: "u64 list"
  tr_reserved :: "u8 list"

record poly_xsave_state =
  xs_header :: poly_xsave_header
  xs_event_record :: poly_event_record
  xs_event_args :: "u64 list"
  xs_transition :: poly_xsave_transition_area
  xs_aarch64_gpr :: "u64 list"
  xs_aarch64_fp :: "poly_u128 list"
  xs_aarch64_status :: poly_aarch64_status_state
  xs_riscv_gpr :: "u64 list"
  xs_riscv_fp :: "poly_u128 list"
  xs_riscv_status :: poly_riscv_status_state
  xs_import_return :: poly_import_return_state
  xs_abi_signature :: poly_abi_signature_state
  xs_cross_return :: poly_cross_return_state
  xs_frontend_tls :: poly_frontend_tls_state
  xs_landing_policy :: poly_landing_policy_state
  xs_state_key :: poly_state_key_state
  xs_pre_trap_restore_reserved :: "u8 list"
  xs_trap_restore :: poly_trap_restore_state
  xs_native_return :: poly_native_return_state
  xs_reserved :: "u8 list"

end
