(* ===== verification/Xsave_Import.thy ===== *)
theory Xsave_Import
  imports Xsave_State
begin

text \<open>
  Clearing and sanitizing the architectural state image, \<open>tools/runtime/polyexec.c\<close>:
  before the monitor hands an image to the instruction that activates it, reserved
  fields, dead stack entries and the payload of the other frontend must be zero.
\<close>

subsection \<open>Zeroed structures\<close>

definition zero_u128 :: poly_u128 where
  "zero_u128 = \<lparr>u128_lo = 0, u128_hi = 0\<rparr>"

definition zero_transition_area :: poly_xsave_transition_area where
  "zero_transition_area =
     \<lparr>ta_active = \<lparr>tf_return_pc = 0, tf_caller_mode = 0, tf_target_mode = 0, tf_abi_kind = 0, tf_flags = 0,
        tf_reserved0 = 0, tf_cookie = 0\<rparr>,
      ta_reserved = replicate 32 0\<rparr>"

definition zero_import_return_frame :: poly_import_return_frame where
  "zero_import_return_frame =
     \<lparr>irf_source_mode = 0, irf_alias_valid = 0, irf_return_pc = 0, irf_return_sp = 0, irf_import_id = 0,
      irf_return_map = 0, irf_alias = replicate 6 0, irf_saved_x86_fsbase = 0, irf_target_x86_fsbase = 0,
      irf_saved_aarch64_tls_base = 0, irf_saved_riscv_tls_base = 0, irf_saved_source_reg2 = 0\<rparr>"

definition zero_cross_return_frame :: poly_cross_return_frame where
  "zero_cross_return_frame =
     \<lparr>crf_return_pc = 0, crf_return_sp = 0, crf_caller_mode = 0, crf_target_mode = 0, crf_abi_kind = 0,
      crf_flags = 0, crf_reserved0 = 0\<rparr>"

definition zero_native_return_frame :: poly_native_return_frame where
  "zero_native_return_frame =
     \<lparr>nrf_return_pc = 0, nrf_return_sp = 0, nrf_sret_ptr = 0, nrf_target_mode = 0, nrf_return_kind = 0,
      nrf_flags = 0, nrf_reserved = replicate 4 0\<rparr>"

definition zero_event_record :: poly_event_record where
  "zero_event_record =
     \<lparr>er_reason = 0, er_source_mode = 0, er_number = 0, er_selector = 0, er_trap_pc = 0, er_resume_pc = 0,
      er_flags = 0, er_reserved = replicate 2 0\<rparr>"

definition zero_trap_restore :: poly_trap_restore_state where
  "zero_trap_restore =
     \<lparr>tr_flags = 0, tr_mode = 0, tr_reserved0 = 0, tr_x86_gpr = replicate 16 0,
      tr_x86_xmm = replicate 16 zero_u128, tr_aarch64_gpr_valid_mask = 0, tr_aarch64_gpr = replicate 32 0,
      tr_aarch64_fp = replicate 32 zero_u128, tr_aarch64_nzcv = 0, tr_aarch64_fpcr = 0, tr_aarch64_fpsr = 0,
      tr_aarch64_reserved = 0, tr_riscv_gpr_valid_mask = 0, tr_riscv_gpr = replicate 32 0,
      tr_riscv_fp = replicate 32 zero_u128, tr_riscv_fcsr = 0, tr_riscv_reserved = replicate 3 0,
      tr_reserved = replicate 32 0\<rparr>"

lemmas zero_defs = zero_u128_def zero_transition_area_def zero_import_return_frame_def
  zero_cross_return_frame_def zero_native_return_frame_def zero_event_record_def zero_trap_restore_def

subsection \<open>Clearing\<close>

definition poly_clear_native_return_state :: "poly_xsave_state \<Rightarrow> poly_xsave_state" where
  "poly_clear_native_return_state state =
     state\<lparr>xs_native_return :=
       \<lparr>nr_active_valid = 0, nr_top = 0, nr_depth = of_nat POLY_STATE_XSAVE_NATIVE_RETURN_DEPTH,
        nr_supported_flags = POLY_NATIVE_RETURN_FRAME_FLAGS_SUPPORTED, nr_active = zero_native_return_frame,
        nr_frames = replicate POLY_STATE_XSAVE_NATIVE_RETURN_DEPTH zero_native_return_frame,
        nr_reserved = replicate 32 0\<rparr>\<rparr>"

definition poly_clear_foreign_return_transition_state :: "poly_xsave_state \<Rightarrow> poly_xsave_state" where
  "poly_clear_foreign_return_transition_state state =
     state\<lparr>xs_transition := zero_transition_area,
       xs_import_return :=
         \<lparr>ir_top = 0, ir_depth = of_nat POLY_STATE_XSAVE_IMPORT_RETURN_DEPTH,
          ir_frames = replicate POLY_STATE_XSAVE_IMPORT_RETURN_DEPTH zero_import_return_frame,
          ir_reserved = replicate 240 0\<rparr>,
       xs_cross_return :=
         \<lparr>cr_top = 0, cr_depth = of_nat POLY_STATE_XSAVE_CROSS_RETURN_DEPTH,
          cr_frames = replicate POLY_STATE_XSAVE_CROSS_RETURN_DEPTH zero_cross_return_frame,
          cr_reserved = replicate 16 0\<rparr>\<rparr>"

definition poly_clear_return_transition_state :: "poly_xsave_state \<Rightarrow> poly_xsave_state" where
  "poly_clear_return_transition_state state =
     poly_clear_native_return_state (poly_clear_foreign_return_transition_state state)"

subsection \<open>Sanitizing\<close>

definition poly_sanitize_aarch64_trap_restore_payload :: "poly_trap_restore_state \<Rightarrow> poly_trap_restore_state" where
  "poly_sanitize_aarch64_trap_restore_payload restore =
     restore\<lparr>tr_aarch64_nzcv := tr_aarch64_nzcv restore AND POLY_AARCH64_NZCV_MASK,
       tr_aarch64_fpcr := tr_aarch64_fpcr restore AND POLY_AARCH64_FPCR_RMODE_MASK,
       tr_aarch64_fpsr := tr_aarch64_fpsr restore AND POLY_AARCH64_FPSR_MASK,
       tr_aarch64_reserved := 0,
       tr_riscv_gpr_valid_mask := 0,
       tr_riscv_gpr := replicate 32 0,
       tr_riscv_fp := replicate 32 zero_u128,
       tr_riscv_fcsr := 0,
       tr_riscv_reserved := replicate 3 0\<rparr>"

definition poly_sanitize_riscv_trap_restore_payload :: "poly_trap_restore_state \<Rightarrow> poly_trap_restore_state" where
  "poly_sanitize_riscv_trap_restore_payload restore =
     restore\<lparr>tr_aarch64_gpr_valid_mask := 0,
       tr_aarch64_gpr := replicate 32 0,
       tr_aarch64_fp := replicate 32 zero_u128,
       tr_aarch64_nzcv := 0,
       tr_aarch64_fpcr := 0,
       tr_aarch64_fpsr := 0,
       tr_aarch64_reserved := 0,
       tr_riscv_fcsr := tr_riscv_fcsr restore AND POLY_RISCV_FCSR_MASK,
       tr_riscv_reserved := replicate 3 0\<rparr>"

definition poly_aarch64_trap_restore_gpr_mask_usable :: "u64 \<Rightarrow> bool" where
  "poly_aarch64_trap_restore_gpr_mask_usable gpr_mask \<longleftrightarrow>
     gpr_mask = POLY_AARCH64_GPR_VALID_MASK \<or> gpr_mask = POLY_AARCH64_GPR_VALID_MASK_FULL"

text \<open>The sections of \<open>poly_sanitize_trap_state_for_import\<close>, in its order.\<close>

definition sanitize_event_flags :: "u64 \<Rightarrow> u64 \<Rightarrow> u64 \<Rightarrow> u64" where
  "sanitize_event_flags trap_vector_pc restore_flags flags =
     (let supported_trap_flags =
            POLY_EVENT_RECORD_FLAG_VECTOR_DELIVERY OR POLY_EVENT_RECORD_FLAG_NO_VECTOR_X86_EXCEPTIONS OR
            POLY_EVENT_RECORD_FLAG_TRAP_RETURN_RESTORE OR POLY_EVENT_RECORD_FLAG_ALL_FRONTEND_HANDLERS OR
            POLY_EVENT_RECORD_FLAG_OPAQUE_SYSCALLS OR POLY_EVENT_RECORD_FLAG_OPAQUE_IMPORTS;
          flags = flags AND supported_trap_flags;
          flags = (if trap_vector_pc = 0 then flags AND NOT POLY_EVENT_RECORD_FLAG_VECTOR_DELIVERY else flags)
      in if restore_flags AND POLY_TRAP_RESTORE_FLAG_VALID = 0
         then flags AND NOT POLY_EVENT_RECORD_FLAG_TRAP_RETURN_RESTORE else flags)"

definition sanitize_event :: "poly_xsave_state \<Rightarrow> poly_xsave_state" where
  "sanitize_event state =
     (let record = (xs_event_record state)\<lparr>er_reserved := [0, 0]\<rparr> in
      if er_reason record = 0 then
        state\<lparr>xs_event_record := record\<lparr>er_flags := 0\<rparr>,
          xs_event_args := replicate POLY_V2_EVENT_ARG_COUNT 0\<rparr>
      else
        state\<lparr>xs_header := (xs_header state)\<lparr>hdr_reserved0 := 0\<rparr>,
          xs_event_record := record\<lparr>er_flags :=
            sanitize_event_flags (hdr_trap_vector_pc (xs_header state)) (tr_flags (xs_trap_restore state))
              (er_flags record)\<rparr>\<rparr>)"

definition sanitize_status :: "poly_xsave_state \<Rightarrow> poly_xsave_state" where
  "sanitize_status state =
     state\<lparr>xs_pre_trap_restore_reserved := replicate 160 0,
       xs_reserved := replicate 1408 0,
       xs_state_key := (xs_state_key state)\<lparr>sk_reserved := replicate 5 0\<rparr>,
       xs_aarch64_status :=
         \<lparr>a64_nzcv = a64_nzcv (xs_aarch64_status state) AND POLY_AARCH64_NZCV_MASK,
          a64_fpcr = a64_fpcr (xs_aarch64_status state) AND POLY_AARCH64_FPCR_RMODE_MASK,
          a64_fpsr = a64_fpsr (xs_aarch64_status state) AND POLY_AARCH64_FPSR_MASK,
          a64_reservation_addr = 0, a64_reservation_size = 0, a64_reserved = replicate 11 0\<rparr>,
       xs_riscv_status :=
         \<lparr>rv_fcsr = rv_fcsr (xs_riscv_status state) AND POLY_RISCV_FCSR_MASK,
          rv_reservation_addr = 0, rv_reservation_size = 0, rv_reserved = replicate 13 0\<rparr>\<rparr>"

text \<open>The loop \<open>for (n = first; n < depth; n++)\<close> that rewrites the entries of an array.\<close>

definition update_range :: "('a \<Rightarrow> 'a) \<Rightarrow> nat \<Rightarrow> nat \<Rightarrow> 'a list \<Rightarrow> 'a list" where
  "update_range f first depth xs = fold (\<lambda>n xs. xs[n := f (xs ! n)]) [first..<depth] xs"

definition sanitize_import_return :: "poly_import_return_state \<Rightarrow> poly_import_return_state" where
  "sanitize_import_return ir =
     (if ir_depth ir \<noteq> of_nat POLY_STATE_XSAVE_IMPORT_RETURN_DEPTH \<or>
         ir_top ir > of_nat POLY_STATE_XSAVE_IMPORT_RETURN_DEPTH
      then \<lparr>ir_top = 0, ir_depth = of_nat POLY_STATE_XSAVE_IMPORT_RETURN_DEPTH,
            ir_frames = replicate POLY_STATE_XSAVE_IMPORT_RETURN_DEPTH zero_import_return_frame,
            ir_reserved = replicate 240 0\<rparr>
      else ir\<lparr>ir_frames := update_range (\<lambda>_. zero_import_return_frame) (unat (ir_top ir))
                POLY_STATE_XSAVE_IMPORT_RETURN_DEPTH (ir_frames ir),
              ir_reserved := replicate 240 0\<rparr>)"

definition sanitize_cross_return :: "poly_cross_return_state \<Rightarrow> poly_cross_return_state" where
  "sanitize_cross_return cr =
     (if cr_depth cr \<noteq> of_nat POLY_STATE_XSAVE_CROSS_RETURN_DEPTH \<or>
         cr_top cr > of_nat POLY_STATE_XSAVE_CROSS_RETURN_DEPTH
      then \<lparr>cr_top = 0, cr_depth = of_nat POLY_STATE_XSAVE_CROSS_RETURN_DEPTH,
            cr_frames = replicate POLY_STATE_XSAVE_CROSS_RETURN_DEPTH zero_cross_return_frame,
            cr_reserved = replicate 16 0\<rparr>
      else
        (let frames = update_range (\<lambda>frame. frame\<lparr>crf_reserved0 := 0\<rparr>) 0 (unat (cr_top cr)) (cr_frames cr)
         in cr\<lparr>cr_frames := update_range (\<lambda>_. zero_cross_return_frame) (unat (cr_top cr))
                 POLY_STATE_XSAVE_CROSS_RETURN_DEPTH frames,
               cr_reserved := replicate 16 0\<rparr>))"

definition sanitize_native_return :: "poly_native_return_state \<Rightarrow> poly_native_return_state" where
  "sanitize_native_return nr =
     (let nr = nr\<lparr>nr_active := (if nr_active_valid nr = 0 then zero_native_return_frame
                                 else (nr_active nr)\<lparr>nrf_reserved := replicate 4 0\<rparr>)\<rparr>;
          frames = update_range (\<lambda>frame. frame\<lparr>nrf_reserved := replicate 4 0\<rparr>) 0 (unat (nr_top nr)) (nr_frames nr);
          nr = (if nr_top nr \<le> of_nat POLY_STATE_XSAVE_NATIVE_RETURN_DEPTH
                then nr\<lparr>nr_frames := update_range (\<lambda>_. zero_native_return_frame) (unat (nr_top nr))
                       POLY_STATE_XSAVE_NATIVE_RETURN_DEPTH frames\<rparr>
                else nr)
      in nr\<lparr>nr_reserved := replicate 32 0\<rparr>)"

definition sanitize_trap_restore :: "poly_trap_restore_state \<Rightarrow> poly_trap_restore_state" where
  "sanitize_trap_restore tr =
     (if tr_flags tr = 0 then zero_trap_restore
      else
        (let tr = tr\<lparr>tr_reserved0 := 0, tr_aarch64_reserved := 0, tr_riscv_reserved := replicate 3 0,
               tr_reserved := replicate 32 0\<rparr>
         in if tr_mode tr = ucast POLY_MODE_RAW_AARCH64 then poly_sanitize_aarch64_trap_restore_payload tr
            else if tr_mode tr = ucast POLY_MODE_RAW_RISCV then poly_sanitize_riscv_trap_restore_payload tr
            else tr))"

definition poly_sanitize_trap_state_for_import :: "poly_xsave_state \<Rightarrow> poly_xsave_state" where
  "poly_sanitize_trap_state_for_import state =
     (let state = sanitize_status (sanitize_event state) in
      state\<lparr>xs_import_return := sanitize_import_return (xs_import_return state),
        xs_cross_return := sanitize_cross_return (xs_cross_return state),
        xs_native_return := sanitize_native_return (xs_native_return state),
        xs_trap_restore := sanitize_trap_restore (xs_trap_restore state)\<rparr>)"

subsection \<open>The state of a cloned child\<close>

definition poly_set_clone_child_frontend_state ::
    "u64 \<Rightarrow> u64 \<Rightarrow> u64 \<Rightarrow> poly_xsave_state \<Rightarrow> bool \<Rightarrow> poly_xsave_state" where
  "poly_set_clone_child_frontend_state mode child_stack tls_base state has_trap_state =
     (if \<not> has_trap_state then state
      else if mode = POLY_MODE_RAW_AARCH64 then
        (let state = (if child_stack \<noteq> 0 then
               state\<lparr>xs_aarch64_gpr := (xs_aarch64_gpr state)[31 := child_stack],
                 xs_trap_restore := (xs_trap_restore state)
                   \<lparr>tr_aarch64_gpr := (tr_aarch64_gpr (xs_trap_restore state))[31 := child_stack]\<rparr>\<rparr>
               else state)
         in if tls_base \<noteq> 0 then
              state\<lparr>xs_frontend_tls := (xs_frontend_tls state)
                \<lparr>tls_flags := 1, tls_active_mode := mode, tls_aarch64_tls_base := tls_base\<rparr>\<rparr>
            else state)
      else if mode = POLY_MODE_RAW_RISCV then
        (let state = (if child_stack \<noteq> 0 then
               state\<lparr>xs_riscv_gpr := (xs_riscv_gpr state)[2 := child_stack],
                 xs_trap_restore := (xs_trap_restore state)
                   \<lparr>tr_riscv_gpr := (tr_riscv_gpr (xs_trap_restore state))[2 := child_stack]\<rparr>\<rparr>
               else state)
         in if tls_base \<noteq> 0 then
              state\<lparr>xs_frontend_tls := (xs_frontend_tls state)
                \<lparr>tls_flags := 1, tls_active_mode := mode, tls_riscv_tls_base := tls_base\<rparr>\<rparr>
            else state)
      else state)"

definition poly_set_clone_child_event_record_state ::
    "poly_runtime_event_record \<Rightarrow> poly_xsave_state \<Rightarrow> poly_xsave_state" where
  "poly_set_clone_child_event_record_state packet state =
     state\<lparr>xs_event_record :=
         \<lparr>er_reason = ucast (ev_reason packet), er_source_mode = ucast (ev_mode packet),
          er_number = ev_number packet, er_selector = ev_selector packet, er_trap_pc = ev_pc packet,
          er_resume_pc = ev_next_pc packet, er_flags = ev_flags packet, er_reserved = [0, 0]\<rparr>,
       xs_event_args := fold (\<lambda>n args. args[n := ev_args packet ! n]) [0..<POLY_V2_EVENT_ARG_COUNT]
         (xs_event_args state)\<rparr>"

subsection \<open>Rewriting a range of entries\<close>

lemma length_update_range [simp]: "length (update_range f first depth xs) = length xs"
proof -
  have "length (fold (\<lambda>n xs. xs[n := f (xs ! n)]) ns xs) = length xs" for ns
    by (induction ns arbitrary: xs) simp_all
  then show ?thesis by (simp add: update_range_def)
qed

lemma nth_update_range [simp]:
  "i < length xs \<Longrightarrow> update_range f first depth xs ! i = (if first \<le> i \<and> i < depth then f (xs ! i) else xs ! i)"
proof (induction depth)
  case 0
  then show ?case by (simp add: update_range_def)
next
  case (Suc depth)
  have split: "update_range f first (Suc depth) xs =
      (if first \<le> depth then (update_range f first depth xs)[depth := f (update_range f first depth xs ! depth)]
       else xs)" by (simp add: update_range_def)
  show ?case
  proof (cases "first \<le> depth \<and> depth < length xs")
    case True
    then show ?thesis using Suc by (auto simp: split nth_list_update)
  next
    case False
    then have "update_range f first depth xs ! i = update_range f first (Suc depth) xs ! i"
      using Suc.prems by (auto simp: split update_range_def)
    then show ?thesis using Suc False by auto
  qed
qed

subsection \<open>The image the import accepts\<close>

definition xsave_sizes :: "poly_xsave_state \<Rightarrow> bool" where
  "xsave_sizes state \<longleftrightarrow>
     length (xs_event_args state) = POLY_V2_EVENT_ARG_COUNT \<and>
     length (er_reserved (xs_event_record state)) = 2 \<and>
     length (xs_aarch64_gpr state) = 32 \<and> length (xs_aarch64_fp state) = 32 \<and>
     length (xs_riscv_gpr state) = 32 \<and> length (xs_riscv_fp state) = 32 \<and>
     length (ir_frames (xs_import_return state)) = POLY_STATE_XSAVE_IMPORT_RETURN_DEPTH \<and>
     length (cr_frames (xs_cross_return state)) = POLY_STATE_XSAVE_CROSS_RETURN_DEPTH \<and>
     length (nr_frames (xs_native_return state)) = POLY_STATE_XSAVE_NATIVE_RETURN_DEPTH \<and>
     length (tr_x86_gpr (xs_trap_restore state)) = 16 \<and>
     length (tr_aarch64_gpr (xs_trap_restore state)) = 32 \<and> length (tr_aarch64_fp (xs_trap_restore state)) = 32 \<and>
     length (tr_riscv_gpr (xs_trap_restore state)) = 32 \<and> length (tr_riscv_fp (xs_trap_restore state)) = 32"

definition event_ready :: "poly_xsave_state \<Rightarrow> bool" where
  "event_ready state \<longleftrightarrow>
     (let record = xs_event_record state in
      er_reserved record = [0, 0] \<and>
      (if er_reason record = 0
       then er_flags record = 0 \<and> xs_event_args state = replicate POLY_V2_EVENT_ARG_COUNT 0
       else er_flags record AND NOT POLY_EVENT_RECORD_REQUIRED_FLAGS = 0 \<and>
            hdr_reserved0 (xs_header state) = 0 \<and>
            (er_flags record AND POLY_EVENT_RECORD_FLAG_VECTOR_DELIVERY \<noteq> 0 \<longrightarrow>
               hdr_trap_vector_pc (xs_header state) \<noteq> 0) \<and>
            (er_flags record AND POLY_EVENT_RECORD_FLAG_TRAP_RETURN_RESTORE \<noteq> 0 \<longrightarrow>
               tr_flags (xs_trap_restore state) AND POLY_TRAP_RESTORE_FLAG_VALID \<noteq> 0)))"

definition status_ready :: "poly_xsave_state \<Rightarrow> bool" where
  "status_ready state \<longleftrightarrow>
     list_all (\<lambda>b. b = 0) (xs_pre_trap_restore_reserved state) \<and> list_all (\<lambda>b. b = 0) (xs_reserved state) \<and>
     list_all (\<lambda>w. w = 0) (sk_reserved (xs_state_key state)) \<and>
     a64_nzcv (xs_aarch64_status state) \<le> POLY_AARCH64_NZCV_MASK \<and>
     a64_fpcr (xs_aarch64_status state) AND NOT POLY_AARCH64_FPCR_RMODE_MASK = 0 \<and>
     a64_fpsr (xs_aarch64_status state) AND NOT POLY_AARCH64_FPSR_MASK = 0 \<and>
     a64_reservation_size (xs_aarch64_status state) = 0 \<and>
     rv_fcsr (xs_riscv_status state) \<le> POLY_RISCV_FCSR_MASK \<and>
     rv_reservation_size (xs_riscv_status state) = 0"

definition returns_ready :: "poly_xsave_state \<Rightarrow> bool" where
  "returns_ready state \<longleftrightarrow>
     (let ir = xs_import_return state; cr = xs_cross_return state; nr = xs_native_return state in
      ir_depth ir = 8 \<and> ir_top ir \<le> 8 \<and>
      (\<forall>n < 8. unat (ir_top ir) \<le> n \<longrightarrow> ir_frames ir ! n = zero_import_return_frame) \<and>
      cr_depth cr = 8 \<and> cr_top cr \<le> 8 \<and>
      (\<forall>n < 8. if n < unat (cr_top cr) then crf_reserved0 (cr_frames cr ! n) = 0
               else cr_frames cr ! n = zero_cross_return_frame) \<and>
      (nr_active_valid nr = 0 \<longrightarrow> nr_active nr = zero_native_return_frame) \<and>
      (nr_top nr \<le> 8 \<longrightarrow>
         (\<forall>n < 8. if n < unat (nr_top nr) then nrf_reserved (nr_frames nr ! n) = replicate 4 0
                  else nr_frames nr ! n = zero_native_return_frame)))"

definition restore_ready :: "poly_trap_restore_state \<Rightarrow> bool" where
  "restore_ready tr \<longleftrightarrow>
     (tr_flags tr = 0 \<longrightarrow> tr = zero_trap_restore) \<and>
     tr_reserved0 tr = 0 \<and> tr_aarch64_reserved tr = 0 \<and> tr_riscv_reserved tr = replicate 3 0 \<and>
     tr_reserved tr = replicate 32 0 \<and>
     (tr_mode tr = 1 \<longrightarrow> tr_aarch64_nzcv tr \<le> POLY_AARCH64_NZCV_MASK \<and> tr_riscv_gpr_valid_mask tr = 0 \<and>
        tr_riscv_gpr tr = replicate 32 0 \<and> tr_riscv_fp tr = replicate 32 zero_u128 \<and> tr_riscv_fcsr tr = 0) \<and>
     (tr_mode tr = 2 \<longrightarrow> tr_riscv_fcsr tr \<le> POLY_RISCV_FCSR_MASK \<and> tr_aarch64_gpr_valid_mask tr = 0 \<and>
        tr_aarch64_gpr tr = replicate 32 0 \<and> tr_aarch64_fp tr = replicate 32 zero_u128 \<and>
        tr_aarch64_nzcv tr = 0 \<and> tr_aarch64_fpcr tr = 0 \<and> tr_aarch64_fpsr tr = 0)"

definition import_ready :: "poly_xsave_state \<Rightarrow> bool" where
  "import_ready state \<longleftrightarrow>
     event_ready state \<and> status_ready state \<and> returns_ready state \<and> restore_ready (xs_trap_restore state)"

lemma sanitize_trap_restore_flags [simp]:
  "tr_flags (sanitize_trap_restore tr) = tr_flags tr"
  by (simp add: sanitize_trap_restore_def Let_def zero_trap_restore_def
      poly_sanitize_aarch64_trap_restore_payload_def poly_sanitize_riscv_trap_restore_payload_def)

lemma sanitize_event_flags_ready:
  "sanitize_event_flags pc rf f AND NOT POLY_EVENT_RECORD_REQUIRED_FLAGS = 0"
  "sanitize_event_flags pc rf f AND POLY_EVENT_RECORD_FLAG_VECTOR_DELIVERY \<noteq> 0 \<Longrightarrow> pc \<noteq> 0"
  "sanitize_event_flags pc rf f AND POLY_EVENT_RECORD_FLAG_TRAP_RETURN_RESTORE \<noteq> 0 \<Longrightarrow>
     rf AND POLY_TRAP_RESTORE_FLAG_VALID \<noteq> 0"
  "sanitize_event_flags pc rf (sanitize_event_flags pc rf f) = sanitize_event_flags pc rf f"
  by (simp_all add: sanitize_event_flags_def Let_def POLY_EVENT_RECORD_REQUIRED_FLAGS_def and.assoc split: if_splits)

lemma sanitize_event_ready: "event_ready (poly_sanitize_trap_state_for_import state)"
  unfolding event_ready_def poly_sanitize_trap_state_for_import_def
  by (auto simp: Let_def sanitize_event_def sanitize_status_def sanitize_event_flags_ready(1)
      dest: sanitize_event_flags_ready(2,3))

lemma sanitize_status_ready: "status_ready (poly_sanitize_trap_state_for_import state)"
  by (simp add: status_ready_def poly_sanitize_trap_state_for_import_def sanitize_status_def Let_def
      and.assoc word_and_le1 list_all_iff)

lemma sanitize_restore_ready: "restore_ready (sanitize_trap_restore tr)"
  by (simp add: restore_ready_def sanitize_trap_restore_def Let_def zero_trap_restore_def word_and_le1
      poly_sanitize_aarch64_trap_restore_payload_def poly_sanitize_riscv_trap_restore_payload_def)

lemma sanitize_import_return_ready:
  assumes "length (ir_frames ir) = 8"
  shows "ir_depth (sanitize_import_return ir) = 8 \<and> ir_top (sanitize_import_return ir) \<le> 8 \<and>
    (\<forall>n < 8. unat (ir_top (sanitize_import_return ir)) \<le> n \<longrightarrow>
       ir_frames (sanitize_import_return ir) ! n = zero_import_return_frame)"
  using assms by (auto simp: sanitize_import_return_def not_less)

lemma sanitize_cross_return_ready:
  assumes "length (cr_frames cr) = 8"
  shows "cr_depth (sanitize_cross_return cr) = 8 \<and> cr_top (sanitize_cross_return cr) \<le> 8 \<and>
    (\<forall>n < 8. if n < unat (cr_top (sanitize_cross_return cr))
       then crf_reserved0 (cr_frames (sanitize_cross_return cr) ! n) = 0
       else cr_frames (sanitize_cross_return cr) ! n = zero_cross_return_frame)"
  using assms by (auto simp: sanitize_cross_return_def not_less Let_def)

lemma sanitize_native_return_ready:
  assumes "length (nr_frames nr) = 8"
  shows "(nr_active_valid (sanitize_native_return nr) = 0 \<longrightarrow>
      nr_active (sanitize_native_return nr) = zero_native_return_frame) \<and>
    (nr_top (sanitize_native_return nr) \<le> 8 \<longrightarrow>
      (\<forall>n < 8. if n < unat (nr_top (sanitize_native_return nr))
         then nrf_reserved (nr_frames (sanitize_native_return nr) ! n) = replicate 4 0
         else nr_frames (sanitize_native_return nr) ! n = zero_native_return_frame))"
  using assms by (auto simp: sanitize_native_return_def not_less Let_def)

lemma sanitize_sections:
  "xs_import_return (poly_sanitize_trap_state_for_import st) = sanitize_import_return (xs_import_return st)"
  "xs_cross_return (poly_sanitize_trap_state_for_import st) = sanitize_cross_return (xs_cross_return st)"
  "xs_native_return (poly_sanitize_trap_state_for_import st) = sanitize_native_return (xs_native_return st)"
  "xs_trap_restore (poly_sanitize_trap_state_for_import st) = sanitize_trap_restore (xs_trap_restore st)"
  by (simp_all add: poly_sanitize_trap_state_for_import_def Let_def sanitize_status_def sanitize_event_def)

lemma sanitize_ready:
  assumes "xsave_sizes state"
  shows "import_ready (poly_sanitize_trap_state_for_import state)"
  unfolding import_ready_def returns_ready_def Let_def sanitize_sections
  using assms sanitize_event_ready sanitize_status_ready sanitize_restore_ready
    sanitize_import_return_ready[of "xs_import_return state"]
    sanitize_cross_return_ready[of "xs_cross_return state"]
    sanitize_native_return_ready[of "xs_native_return state"]
  by (simp add: xsave_sizes_def)

lemma update_range_empty [simp]: "update_range f n n xs = xs"
  by (simp add: update_range_def)

lemma update_range_replicate [simp]: "update_range (\<lambda>_. z) 0 n (replicate n z) = replicate n z"
  by (rule nth_equalityI) auto

lemma update_range_const_twice:
  "update_range (\<lambda>_. z) m n (update_range (\<lambda>_. z) m n xs) = update_range (\<lambda>_. z) m n xs"
  by (rule nth_equalityI) auto

lemma update_range_live_twice:
  assumes "\<And>x. f (f x) = f x"
  shows "update_range (\<lambda>_. z) m n (update_range f 0 m (update_range (\<lambda>_. z) m n (update_range f 0 m xs))) =
    update_range (\<lambda>_. z) m n (update_range f 0 m xs)"
  using assms by (auto intro!: nth_equalityI)

lemma sanitize_import_return_idem: "sanitize_import_return (sanitize_import_return ir) = sanitize_import_return ir"
  by (simp add: sanitize_import_return_def update_range_const_twice)

lemma sanitize_cross_return_idem: "sanitize_cross_return (sanitize_cross_return cr) = sanitize_cross_return cr"
  by (simp add: sanitize_cross_return_def Let_def update_range_live_twice)

lemma sanitize_native_return_idem: "sanitize_native_return (sanitize_native_return nr) = sanitize_native_return nr"
  by (simp add: sanitize_native_return_def Let_def update_range_live_twice)

lemma sanitize_trap_restore_idem: "sanitize_trap_restore (sanitize_trap_restore tr) = sanitize_trap_restore tr"
proof -
  consider "tr_flags tr = 0" | "tr_flags tr \<noteq> 0" "tr_mode tr = 1" | "tr_flags tr \<noteq> 0" "tr_mode tr = 2"
    | "tr_flags tr \<noteq> 0" "tr_mode tr \<noteq> 1" "tr_mode tr \<noteq> 2" by blast
  then show ?thesis
  proof cases
    case 1
    then show ?thesis by (simp add: sanitize_trap_restore_def zero_trap_restore_def)
  next
    case 2
    then show ?thesis
      by (simp add: sanitize_trap_restore_def Let_def poly_sanitize_aarch64_trap_restore_payload_def and.assoc)
  next
    case 3
    then show ?thesis
      by (simp add: sanitize_trap_restore_def Let_def poly_sanitize_riscv_trap_restore_payload_def and.assoc)
  next
    case 4
    then show ?thesis by (simp add: sanitize_trap_restore_def Let_def)
  qed
qed

lemma sanitize_event_idem: "sanitize_event (sanitize_event st) = sanitize_event st"
  by (simp add: sanitize_event_def Let_def sanitize_event_flags_ready(4))

lemma sanitize_event_commute:
  "sanitize_event (st\<lparr>xs_import_return := ir\<rparr>) = (sanitize_event st)\<lparr>xs_import_return := ir\<rparr>"
  "sanitize_event (st\<lparr>xs_cross_return := cr\<rparr>) = (sanitize_event st)\<lparr>xs_cross_return := cr\<rparr>"
  "sanitize_event (st\<lparr>xs_native_return := nr\<rparr>) = (sanitize_event st)\<lparr>xs_native_return := nr\<rparr>"
  "tr_flags tr = tr_flags (xs_trap_restore st) \<Longrightarrow>
     sanitize_event (st\<lparr>xs_trap_restore := tr\<rparr>) = (sanitize_event st)\<lparr>xs_trap_restore := tr\<rparr>"
  "sanitize_event (sanitize_status st) = sanitize_status (sanitize_event st)"
  by (simp_all add: sanitize_event_def sanitize_status_def Let_def)

lemma sanitize_status_commute:
  "sanitize_status (st\<lparr>xs_import_return := ir\<rparr>) = (sanitize_status st)\<lparr>xs_import_return := ir\<rparr>"
  "sanitize_status (st\<lparr>xs_cross_return := cr\<rparr>) = (sanitize_status st)\<lparr>xs_cross_return := cr\<rparr>"
  "sanitize_status (st\<lparr>xs_native_return := nr\<rparr>) = (sanitize_status st)\<lparr>xs_native_return := nr\<rparr>"
  "sanitize_status (st\<lparr>xs_trap_restore := tr\<rparr>) = (sanitize_status st)\<lparr>xs_trap_restore := tr\<rparr>"
  "sanitize_status (sanitize_status st) = sanitize_status st"
  by (simp_all add: sanitize_status_def and.assoc)

lemma sanitize_idem:
  "poly_sanitize_trap_state_for_import (poly_sanitize_trap_state_for_import st) =
   poly_sanitize_trap_state_for_import st"
  by (simp add: poly_sanitize_trap_state_for_import_def Let_def sanitize_event_commute sanitize_status_commute
      sanitize_event_idem sanitize_import_return_idem sanitize_cross_return_idem
      sanitize_native_return_idem sanitize_trap_restore_idem)

lemma sanitize_keeps:
  "xs_aarch64_gpr (poly_sanitize_trap_state_for_import st) = xs_aarch64_gpr st"
  "xs_aarch64_fp (poly_sanitize_trap_state_for_import st) = xs_aarch64_fp st"
  "xs_riscv_gpr (poly_sanitize_trap_state_for_import st) = xs_riscv_gpr st"
  "xs_riscv_fp (poly_sanitize_trap_state_for_import st) = xs_riscv_fp st"
  "hdr_foreign_pc (xs_header (poly_sanitize_trap_state_for_import st)) = hdr_foreign_pc (xs_header st)"
  "hdr_current_mode (xs_header (poly_sanitize_trap_state_for_import st)) = hdr_current_mode (xs_header st)"
  "xs_transition (poly_sanitize_trap_state_for_import st) = xs_transition st"
  "xs_frontend_tls (poly_sanitize_trap_state_for_import st) = xs_frontend_tls st"
  by (simp_all add: poly_sanitize_trap_state_for_import_def Let_def sanitize_status_def sanitize_event_def)

lemma sanitize_keeps_restore:
  assumes "tr_flags tr \<noteq> 0"
  shows "tr_mode tr = 1 \<Longrightarrow> tr_aarch64_gpr (sanitize_trap_restore tr) = tr_aarch64_gpr tr \<and>
      tr_aarch64_fp (sanitize_trap_restore tr) = tr_aarch64_fp tr"
    and "tr_mode tr = 2 \<Longrightarrow> tr_riscv_gpr (sanitize_trap_restore tr) = tr_riscv_gpr tr \<and>
      tr_riscv_fp (sanitize_trap_restore tr) = tr_riscv_fp tr"
    and "tr_x86_gpr (sanitize_trap_restore tr) = tr_x86_gpr tr"
  using assms by (simp_all add: sanitize_trap_restore_def Let_def
      poly_sanitize_aarch64_trap_restore_payload_def poly_sanitize_riscv_trap_restore_payload_def)

subsection \<open>Properties\<close>

definition zero_xsave_state :: poly_xsave_state where
  "zero_xsave_state =
     \<lparr>xs_header = \<lparr>hdr_magic = 0, hdr_layout_version = 0, hdr_header_bytes = 0, hdr_total_bytes = 0,
        hdr_current_mode = 0, hdr_flags = 0, hdr_foreign_pc = 0, hdr_foreign_tls_base = 0,
        hdr_trap_vector_pc = 0, hdr_trap_vector_mode = 0, hdr_spill_reason = 0, hdr_reserved0 = 0\<rparr>,
      xs_event_record = zero_event_record, xs_event_args = replicate 8 0, xs_transition = zero_transition_area,
      xs_aarch64_gpr = replicate 32 0, xs_aarch64_fp = replicate 32 zero_u128,
      xs_aarch64_status = \<lparr>a64_nzcv = 0, a64_fpcr = 0, a64_fpsr = 0, a64_reservation_addr = 0,
        a64_reservation_size = 0, a64_reserved = replicate 11 0\<rparr>,
      xs_riscv_gpr = replicate 32 0, xs_riscv_fp = replicate 32 zero_u128,
      xs_riscv_status = \<lparr>rv_fcsr = 0, rv_reservation_addr = 0, rv_reservation_size = 0,
        rv_reserved = replicate 13 0\<rparr>,
      xs_import_return = \<lparr>ir_top = 0, ir_depth = 0, ir_frames = replicate 8 zero_import_return_frame,
        ir_reserved = replicate 240 0\<rparr>,
      xs_abi_signature = \<lparr>sig_slot_count = 0, sig_flags = 0,
        sig_slots = replicate 8 \<lparr>slot_kind = 0, slot_register_map = 0\<rparr>, sig_reserved = replicate 48 0\<rparr>,
      xs_cross_return = \<lparr>cr_top = 0, cr_depth = 0, cr_frames = replicate 8 zero_cross_return_frame,
        cr_reserved = replicate 16 0\<rparr>,
      xs_frontend_tls = \<lparr>tls_flags = 0, tls_active_mode = 0, tls_aarch64_tls_base = 0, tls_riscv_tls_base = 0,
        tls_reserved = replicate 4 0\<rparr>,
      xs_landing_policy = \<lparr>lp_flags = 0, lp_supported_flags = 0, lp_reserved = replicate 6 0\<rparr>,
      xs_state_key = \<lparr>sk_flags = 0, sk_explicit_key = 0, sk_supported_flags = 0, sk_reserved = replicate 5 0\<rparr>,
      xs_pre_trap_restore_reserved = replicate 160 0, xs_trap_restore = zero_trap_restore,
      xs_native_return = \<lparr>nr_active_valid = 0, nr_top = 0, nr_depth = 0, nr_supported_flags = 0,
        nr_active = zero_native_return_frame, nr_frames = replicate 8 zero_native_return_frame,
        nr_reserved = replicate 32 0\<rparr>,
      xs_reserved = replicate 1408 0\<rparr>"

lemma zero_xsave_sizes: "xsave_sizes zero_xsave_state"
  by (simp add: xsave_sizes_def zero_xsave_state_def zero_event_record_def zero_trap_restore_def)



text \<open>
  Sanitizing is idempotent and leaves the interrupted program alone: the
  registers of both frontends, the foreign program counter, the mode, the
  transition frame and the thread pointers are those of the image before.
\<close>
lemma sanitize_idempotent_preserving:
  "poly_sanitize_trap_state_for_import (poly_sanitize_trap_state_for_import st) =
     poly_sanitize_trap_state_for_import st \<and>
   xs_aarch64_gpr (poly_sanitize_trap_state_for_import st) = xs_aarch64_gpr st \<and>
   xs_aarch64_fp (poly_sanitize_trap_state_for_import st) = xs_aarch64_fp st \<and>
   xs_riscv_gpr (poly_sanitize_trap_state_for_import st) = xs_riscv_gpr st \<and>
   xs_riscv_fp (poly_sanitize_trap_state_for_import st) = xs_riscv_fp st \<and>
   hdr_foreign_pc (xs_header (poly_sanitize_trap_state_for_import st)) = hdr_foreign_pc (xs_header st) \<and>
   hdr_current_mode (xs_header (poly_sanitize_trap_state_for_import st)) = hdr_current_mode (xs_header st) \<and>
   xs_transition (poly_sanitize_trap_state_for_import st) = xs_transition st \<and>
   xs_frontend_tls (poly_sanitize_trap_state_for_import st) = xs_frontend_tls st"
  by (simp only: sanitize_idem sanitize_keeps)

end
