(* ===== verification/Guest_Signals.thy ===== *)
theory Guest_Signals
  imports Guest_Memory Runtime_Base
begin

text \<open>
  Guest signals, \<open>tools/runtime/polyexec.c\<close>: the signal mask and the actions a guest
  sees are shadows that the monitor keeps; the host gets a sanitized mask and
  handlers of the monitor. The state is the group of variables
  \<open>poly_guest_sigmask_shadow\<close> to \<open>poly_riscv_guest_sigaltstack_flags\<close> and the two
  action tables. The host kernel is a parameter, a record of its answers; the
  handlers the monitor has installed on the host are part of the state. Trace
  output is left out.
\<close>

subsection \<open>Constants\<close>

abbreviation (input) SIGILL :: int where "SIGILL \<equiv> 4"
abbreviation (input) SIGABRT :: int where "SIGABRT \<equiv> 6"
abbreviation (input) SIGBUS :: int where "SIGBUS \<equiv> 7"
abbreviation (input) SIGKILL :: int where "SIGKILL \<equiv> 9"
abbreviation (input) SIGUSR1 :: int where "SIGUSR1 \<equiv> 10"
abbreviation (input) SIGSEGV :: int where "SIGSEGV \<equiv> 11"
abbreviation (input) SIGUSR2 :: int where "SIGUSR2 \<equiv> 12"
abbreviation (input) SIGALRM :: int where "SIGALRM \<equiv> 14"
abbreviation (input) SIGCHLD :: int where "SIGCHLD \<equiv> 17"
abbreviation (input) SIGSTOP :: int where "SIGSTOP \<equiv> 19"
abbreviation (input) SIGURG :: int where "SIGURG \<equiv> 23"
abbreviation (input) SIG_DFL :: u64 where "SIG_DFL \<equiv> 0"
abbreviation (input) SIG_IGN :: u64 where "SIG_IGN \<equiv> 1"
abbreviation (input) SIG_BLOCK :: u64 where "SIG_BLOCK \<equiv> 0"
abbreviation (input) SIG_UNBLOCK :: u64 where "SIG_UNBLOCK \<equiv> 1"
abbreviation (input) SIG_SETMASK :: u64 where "SIG_SETMASK \<equiv> 2"
abbreviation (input) SA_NOCLDSTOP :: u64 where "SA_NOCLDSTOP \<equiv> 1"
abbreviation (input) SA_NOCLDWAIT :: u64 where "SA_NOCLDWAIT \<equiv> 2"
abbreviation (input) POLY_LINUX_SS_ONSTACK :: u32 where "POLY_LINUX_SS_ONSTACK \<equiv> 1"
abbreviation (input) POLY_LINUX_SS_DISABLE :: u32 where "POLY_LINUX_SS_DISABLE \<equiv> 2"
abbreviation (input) POLY_AARCH64_MINSIGSTKSZ :: u64 where "POLY_AARCH64_MINSIGSTKSZ \<equiv> 2048"

subsection \<open>State\<close>

text \<open>What the monitor has installed for a signal on the host.\<close>

datatype host_disposition = Host_default | Host_ignore | Host_virtual u64 | Host_diagnostics | Host_watchdog

text \<open>
  The answers of the host: an error number (0 for success) for \<open>sigaction\<close> and
  \<open>sigaltstack\<close>, the status and the old mask for \<open>rt_sigprocmask\<close>, the status of
  \<open>rt_sigsuspend\<close>.
\<close>

record host_kernel =
  host_sigaction :: "int \<Rightarrow> host_disposition \<Rightarrow> u64"
  host_sigaltstack :: u64
  host_sigprocmask :: "u64 \<Rightarrow> u64 option \<Rightarrow> bool \<Rightarrow> u64 \<times> u64"
  host_sigsuspend :: "u64 \<Rightarrow> u64"

text \<open>Settings read once from the environment and the command line.\<close>

record signal_config =
  polyexec_watchdog_signal :: int
  polyexec_protect_runtime_signals :: bool
  polyexec_virtual_sigchld :: bool

record poly_linux_stack_t =
  ss_sp :: u64
  ss_flags :: u32
  ss_size :: u64

record signal_state =
  poly_guest_sigmask_shadow :: u64
  poly_guest_sigmask_shadow_valid :: bool
  poly_pending_virtual_signal_mask :: u32
  poly_guest_signal_action_shadow :: "poly_linux_ksigaction list"
  poly_guest_signal_action_shadow_valid :: "bool list"
  poly_aarch64_vdso_rt_sigreturn :: u64
  poly_aarch64_active_signal_frame :: u64
  poly_riscv_active_signal_frame :: u64
  poly_aarch64_guest_sigaltstack :: poly_linux_stack_t
  poly_riscv_guest_sigaltstack :: poly_linux_stack_t
  poly_runtime_signal_alt_stack_installed :: bool
  host_dispositions :: "int \<Rightarrow> host_disposition"

definition zero_ksigaction :: poly_linux_ksigaction where
  "zero_ksigaction = \<lparr>sa_handler = 0, sa_flags = 0, sa_restorer = 0, sa_mask = 0\<rparr>"

definition initial_signal_state :: signal_state where
  "initial_signal_state =
     \<lparr>poly_guest_sigmask_shadow = 0, poly_guest_sigmask_shadow_valid = False,
      poly_pending_virtual_signal_mask = 0,
      poly_guest_signal_action_shadow = replicate 65 zero_ksigaction,
      poly_guest_signal_action_shadow_valid = replicate 65 False,
      poly_aarch64_vdso_rt_sigreturn = 0,
      poly_aarch64_active_signal_frame = 0, poly_riscv_active_signal_frame = 0,
      poly_aarch64_guest_sigaltstack = \<lparr>ss_sp = 0, ss_flags = 2, ss_size = 0\<rparr>,
      poly_riscv_guest_sigaltstack = \<lparr>ss_sp = 0, ss_flags = 2, ss_size = 0\<rparr>,
      poly_runtime_signal_alt_stack_installed = False,
      host_dispositions = (\<lambda>_. Host_default)\<rparr>"

subsection \<open>Signal sets\<close>

definition poly_sigset_clear_signal :: "u64 \<Rightarrow> int \<Rightarrow> u64" where
  "poly_sigset_clear_signal sigmask signum =
     (if signum \<le> 0 \<or> signum > 64 then sigmask else sigmask AND NOT (push_bit (nat (signum - 1)) 1))"

definition poly_sigset_add_signal :: "u64 \<Rightarrow> int \<Rightarrow> u64" where
  "poly_sigset_add_signal sigmask signum =
     (if signum \<le> 0 \<or> signum > 64 then sigmask else sigmask OR push_bit (nat (signum - 1)) 1)"

definition poly_host_visible_virtual_signal_mask :: "signal_config \<Rightarrow> u64 \<Rightarrow> u64" where
  "poly_host_visible_virtual_signal_mask cfg m =
     (let m = (if polyexec_watchdog_signal cfg > 0
               then poly_sigset_clear_signal m (polyexec_watchdog_signal cfg) else m);
          m = poly_sigset_clear_signal m SIGURG;
          m = (if polyexec_protect_runtime_signals cfg
               then poly_sigset_clear_signal (poly_sigset_clear_signal
                      (poly_sigset_clear_signal m SIGALRM) SIGUSR1) SIGUSR2
               else m)
      in if polyexec_virtual_sigchld cfg then poly_sigset_clear_signal m SIGCHLD else m)"

definition poly_sanitize_host_runtime_sigset :: "signal_config \<Rightarrow> u64 \<Rightarrow> u64" where
  "poly_sanitize_host_runtime_sigset cfg m =
     poly_host_visible_virtual_signal_mask cfg
       (poly_sigset_clear_signal (poly_sigset_clear_signal (poly_sigset_clear_signal m SIGSEGV) SIGBUS) SIGILL)"

definition poly_guest_initial_sigmask_from_host :: "signal_config \<Rightarrow> u64 \<Rightarrow> u64" where
  "poly_guest_initial_sigmask_from_host cfg host_mask = poly_host_visible_virtual_signal_mask cfg host_mask"

definition poly_update_guest_sigmask :: "u64 \<Rightarrow> u64 \<Rightarrow> u64 \<Rightarrow> u64" where
  "poly_update_guest_sigmask current how sigset =
     (if how = SIG_BLOCK then current OR sigset
      else if how = SIG_UNBLOCK then current AND NOT sigset
      else if how = SIG_SETMASK then sigset
      else current)"

definition poly_is_protected_runtime_signal :: "signal_config \<Rightarrow> int \<Rightarrow> bool" where
  "poly_is_protected_runtime_signal cfg signum =
     (if signum = SIGURG then True
      else if \<not> polyexec_protect_runtime_signals cfg then False
      else signum = SIGALRM \<or> signum = SIGUSR1 \<or> signum = SIGUSR2)"

subsection \<open>Host handlers\<close>

definition poly_virtual_signal_host_handler :: "int \<Rightarrow> signal_state \<Rightarrow> signal_state" where
  "poly_virtual_signal_host_handler signum st =
     (if signum > 0 \<and> signum < 32
      then st\<lparr>poly_pending_virtual_signal_mask :=
             poly_pending_virtual_signal_mask st OR push_bit (nat (signum - 1)) 1\<rparr>
      else st)"

text \<open>The second component is the error number, 0 for success.\<close>

definition host_install :: "host_kernel \<Rightarrow> int \<Rightarrow> host_disposition \<Rightarrow> signal_state \<Rightarrow> signal_state \<times> u64" where
  "host_install host signum disposition st =
     (if host_sigaction host signum disposition = 0
      then (st\<lparr>host_dispositions := (host_dispositions st)(signum := disposition)\<rparr>, 0)
      else (st, host_sigaction host signum disposition))"

definition poly_set_host_signal_handler :: "host_kernel \<Rightarrow> int \<Rightarrow> host_disposition \<Rightarrow> signal_state \<Rightarrow> signal_state \<times> u64" where
  "poly_set_host_signal_handler host signum handler st = host_install host signum handler st"

definition poly_set_host_virtual_signal_handler ::
    "host_kernel \<Rightarrow> int \<Rightarrow> poly_linux_ksigaction \<Rightarrow> signal_state \<Rightarrow> signal_state \<times> u64" where
  "poly_set_host_virtual_signal_handler host signum guest_act st =
     (let flags = (if signum = SIGCHLD \<and> sa_flags guest_act AND SA_NOCLDSTOP \<noteq> 0 then SA_NOCLDSTOP else 0);
          flags = (if signum = SIGCHLD \<and> sa_flags guest_act AND SA_NOCLDWAIT \<noteq> 0
                   then flags OR SA_NOCLDWAIT else flags)
      in host_install host signum (Host_virtual flags) st)"

text \<open>Installs in order, stopping at the first failure.\<close>

fun host_install_all :: "host_kernel \<Rightarrow> int list \<Rightarrow> host_disposition \<Rightarrow> signal_state \<Rightarrow> signal_state \<times> u64" where
  "host_install_all host [] disposition st = (st, 0)"
| "host_install_all host (signum # signums) disposition st =
     (case host_install host signum disposition st of
        (st, e) \<Rightarrow> if e \<noteq> 0 then (st, e) else host_install_all host signums disposition st)"

definition poly_install_protected_runtime_signal_handlers ::
    "host_kernel \<Rightarrow> signal_config \<Rightarrow> signal_state \<Rightarrow> signal_state \<times> u64" where
  "poly_install_protected_runtime_signal_handlers host cfg st =
     (case poly_set_host_signal_handler host SIGURG (Host_virtual 0) st of
        (st, e) \<Rightarrow>
          if e \<noteq> 0 then (st, e)
          else if \<not> polyexec_protect_runtime_signals cfg then (st, 0)
          else host_install_all host [SIGALRM, SIGUSR1, SIGUSR2] (Host_virtual 0) st)"

definition install_poly_signal_diagnostics :: "host_kernel \<Rightarrow> signal_state \<Rightarrow> signal_state \<times> u64" where
  "install_poly_signal_diagnostics host st =
     (if \<not> poly_runtime_signal_alt_stack_installed st \<and> host_sigaltstack host \<noteq> 0 then (st, host_sigaltstack host)
      else host_install_all host [SIGSEGV, SIGBUS, SIGILL, SIGABRT] Host_diagnostics
             (st\<lparr>poly_runtime_signal_alt_stack_installed := True\<rparr>))"

subsection \<open>Signal actions\<close>

text \<open>
  The operations below also change guest memory and return what the guest sees
  in its result register.
\<close>

definition poly_store_guest_signal_action :: "nat \<Rightarrow> u64 \<Rightarrow> signal_state \<Rightarrow> guest_memory \<Rightarrow> guest_memory" where
  "poly_store_guest_signal_action signum oldact st gm =
     (if oldact = 0 then gm
      else
        (let guest_oldact =
               (if signum < 65 \<and> poly_guest_signal_action_shadow_valid st ! signum
                then poly_guest_signal_action_shadow st ! signum
                else zero_ksigaction\<lparr>sa_handler := SIG_DFL\<rparr>)
         in case poly_guest_write_ksigaction gm oldact guest_oldact of
              Some gm' \<Rightarrow> gm'
            | None \<Rightarrow> gm))"

definition set_guest_action :: "nat \<Rightarrow> poly_linux_ksigaction \<Rightarrow> signal_state \<Rightarrow> signal_state" where
  "set_guest_action signum guest_act st =
     st\<lparr>poly_guest_signal_action_shadow := (poly_guest_signal_action_shadow st)[signum := guest_act],
        poly_guest_signal_action_shadow_valid := (poly_guest_signal_action_shadow_valid st)[signum := True]\<rparr>"

definition host_handler_of :: "poly_linux_ksigaction \<Rightarrow> host_disposition" where
  "host_handler_of guest_act = (if sa_handler guest_act = SIG_IGN then Host_ignore else Host_default)"

definition poly_dispatch_virtual_sigchld_action ::
    "host_kernel \<Rightarrow> u64 \<Rightarrow> u64 \<Rightarrow> signal_state \<times> guest_memory \<Rightarrow> (signal_state \<times> guest_memory) \<times> u64" where
  "poly_dispatch_virtual_sigchld_action host act oldact = (\<lambda>(st, gm).
     if act \<noteq> 0 \<and> poly_guest_read_ksigaction gm act = None then ((st, gm), - EFAULT)
     else
       (let gm' = poly_store_guest_signal_action (nat SIGCHLD) oldact st gm in
        case (if act \<noteq> 0 then poly_guest_read_ksigaction gm act else None) of
          None \<Rightarrow> ((st, gm'), 0)
        | Some guest_act \<Rightarrow>
            (case (if sa_handler guest_act = SIG_DFL \<or> sa_handler guest_act = SIG_IGN
                   then poly_set_host_signal_handler host SIGCHLD (host_handler_of guest_act) st
                   else poly_set_host_virtual_signal_handler host SIGCHLD guest_act st) of
               (st, e) \<Rightarrow> if e \<noteq> 0 then ((st, gm'), - e)
                         else ((set_guest_action (nat SIGCHLD) guest_act st, gm'), 0))))"

text \<open>The branch for the signals the monitor needs itself.\<close>

definition virtual_sigaction ::
    "host_kernel \<Rightarrow> signal_config \<Rightarrow> int \<Rightarrow> poly_linux_ksigaction option \<Rightarrow> signal_state \<Rightarrow> signal_state \<times> u64" where
  "virtual_sigaction host cfg signum guest_act st =
     (let (st, e) =
        (case guest_act of
           None \<Rightarrow> (st, 0)
         | Some guest_act \<Rightarrow>
             (case (if poly_is_protected_runtime_signal cfg signum
                    then poly_set_host_virtual_signal_handler host signum guest_act st else (st, 0)) of
                (st, e) \<Rightarrow> if e \<noteq> 0 then (st, e) else (set_guest_action (nat signum) guest_act st, 0)))
      in if e \<noteq> 0 then (st, - e)
         else if signum = SIGSEGV \<or> signum = SIGBUS \<or> signum = SIGILL then
           (case install_poly_signal_diagnostics host st of (st, e) \<Rightarrow> (st, - e))
         else (st, 0))"

text \<open>The branch for all other signals, with an action to install.\<close>

definition plain_sigaction ::
    "host_kernel \<Rightarrow> int \<Rightarrow> poly_linux_ksigaction \<Rightarrow> signal_state \<Rightarrow> signal_state \<times> u64" where
  "plain_sigaction host signum guest_act st =
     (let st = set_guest_action (nat signum) guest_act st in
      if sa_handler guest_act = SIG_DFL \<or> sa_handler guest_act = SIG_IGN then
        (case poly_set_host_signal_handler host signum (host_handler_of guest_act) st of (st, e) \<Rightarrow> (st, - e))
      else if signum < 32 then
        (case poly_set_host_virtual_signal_handler host signum guest_act st of (st, e) \<Rightarrow> (st, - e))
      else (st, 0))"

definition poly_dispatch_rt_sigaction ::
    "host_kernel \<Rightarrow> signal_config \<Rightarrow> u64 \<Rightarrow> u64 \<Rightarrow> u64 \<Rightarrow> u64 \<Rightarrow> u64 \<Rightarrow>
       signal_state \<times> guest_memory \<Rightarrow> (signal_state \<times> guest_memory) \<times> u64" where
  "poly_dispatch_rt_sigaction host cfg mode signum act oldact sigsetsize = (\<lambda>(st, gm).
     let sig = uint signum in
     if \<not> poly_is_raw_foreign_mode mode then ((st, gm), - ENOSYS)
     else if sigsetsize \<noteq> 8 then ((st, gm), - EINVAL)
     else if sig = 0 \<or> sig \<ge> 65 then ((st, gm), - EINVAL)
     else if act \<noteq> 0 \<and> (sig = SIGKILL \<or> sig = SIGSTOP) then ((st, gm), - EINVAL)
     else if act \<noteq> 0 \<and> poly_guest_read_ksigaction gm act = None then ((st, gm), - EFAULT)
     else if sig = SIGCHLD \<and> polyexec_virtual_sigchld cfg then
       poly_dispatch_virtual_sigchld_action host act oldact (st, gm)
     else
       (let guest_act = (if act \<noteq> 0 then poly_guest_read_ksigaction gm act else None);
            gm = poly_store_guest_signal_action (nat sig) oldact st gm
        in if sig = SIGSEGV \<or> sig = SIGBUS \<or> sig = SIGILL \<or> poly_is_protected_runtime_signal cfg sig then
             (case virtual_sigaction host cfg sig guest_act st of (st, r) \<Rightarrow> ((st, gm), r))
           else
             (case guest_act of
                None \<Rightarrow> ((st, gm), 0)
              | Some guest_act \<Rightarrow>
                  (case plain_sigaction host sig guest_act st of (st, r) \<Rightarrow> ((st, gm), r)))))"

subsection \<open>The signal mask\<close>

definition poly_dispatch_rt_sigprocmask ::
    "host_kernel \<Rightarrow> signal_config \<Rightarrow> u64 \<Rightarrow> u64 \<Rightarrow> u64 \<Rightarrow> u64 \<Rightarrow>
       signal_state \<times> guest_memory \<Rightarrow> (signal_state \<times> guest_memory) \<times> u64" where
  "poly_dispatch_rt_sigprocmask host cfg how sigset oldset sigsetsize = (\<lambda>(st, gm).
     if sigsetsize \<noteq> 8 then ((st, gm), - EINVAL)
     else if how \<noteq> SIG_BLOCK \<and> how \<noteq> SIG_UNBLOCK \<and> how \<noteq> SIG_SETMASK then ((st, gm), - EINVAL)
     else if sigset \<noteq> 0 \<and> poly_guest_read_u64 gm sigset = None then ((st, gm), - EFAULT)
     else
       (let want_oldset = (oldset \<noteq> 0 \<or> sigset \<noteq> 0 \<and> \<not> poly_guest_sigmask_shadow_valid st);
            guest_set = (if sigset \<noteq> 0 then the (poly_guest_read_u64 gm sigset) else 0);
            host_set = (if sigset \<noteq> 0 then Some (poly_sanitize_host_runtime_sigset cfg guest_set) else None);
            (status, host_oldset) = host_sigprocmask host how host_set want_oldset
        in if status \<noteq> 0 then ((st, gm), status)
           else
             (let st = (if \<not> poly_guest_sigmask_shadow_valid st
                        then st\<lparr>poly_guest_sigmask_shadow :=
                               (if want_oldset then poly_guest_initial_sigmask_from_host cfg host_oldset else 0),
                               poly_guest_sigmask_shadow_valid := True\<rparr>
                        else st);
                  guest_oldset = poly_guest_sigmask_shadow st;
                  st = (if sigset \<noteq> 0
                        then st\<lparr>poly_guest_sigmask_shadow :=
                               poly_update_guest_sigmask (poly_guest_sigmask_shadow st) how guest_set\<rparr>
                        else st)
              in if oldset = 0 then ((st, gm), status)
                 else
                   (case poly_guest_write_u64 gm oldset guest_oldset of
                      None \<Rightarrow> ((st, gm), - EFAULT)
                    | Some gm \<Rightarrow> ((st, gm), status)))))"

definition poly_dispatch_rt_sigsuspend :: "host_kernel \<Rightarrow> signal_config \<Rightarrow> u64 \<Rightarrow> u64 \<Rightarrow> guest_memory \<Rightarrow> u64" where
  "poly_dispatch_rt_sigsuspend host cfg sigset sigsetsize gm =
     (if sigsetsize \<noteq> 8 then - EINVAL
      else if sigset = 0 then - EFAULT
      else
        (case poly_guest_read_u64 gm sigset of
           None \<Rightarrow> - EFAULT
         | Some host_set \<Rightarrow> host_sigsuspend host (poly_sanitize_host_runtime_sigset cfg host_set)))"

subsection \<open>The alternate stack\<close>

definition stack_bytes :: "poly_linux_stack_t \<Rightarrow> u8 list" where
  "stack_bytes stack = le_bytes 8 (ss_sp stack) @ le_bytes 4 (ss_flags stack) @ le_bytes 4 (0 :: u32) @
     le_bytes 8 (ss_size stack)"

definition read_stack :: "u8 list \<Rightarrow> poly_linux_stack_t" where
  "read_stack bytes =
     \<lparr>ss_sp = read_u64_le bytes, ss_flags = read_u32_le (drop 8 bytes), ss_size = read_u64_le (drop 16 bytes)\<rparr>"

definition guest_altstack :: "u64 \<Rightarrow> signal_state \<Rightarrow> poly_linux_stack_t" where
  "guest_altstack mode st =
     (if mode = POLY_MODE_RAW_RISCV then poly_riscv_guest_sigaltstack st else poly_aarch64_guest_sigaltstack st)"

definition set_guest_altstack :: "u64 \<Rightarrow> poly_linux_stack_t \<Rightarrow> signal_state \<Rightarrow> signal_state" where
  "set_guest_altstack mode stack st =
     (if mode = POLY_MODE_RAW_RISCV then st\<lparr>poly_riscv_guest_sigaltstack := stack\<rparr>
      else st\<lparr>poly_aarch64_guest_sigaltstack := stack\<rparr>)"

definition on_signal_stack :: "u64 \<Rightarrow> signal_state \<Rightarrow> bool" where
  "on_signal_stack mode st \<longleftrightarrow>
     mode = POLY_MODE_RAW_AARCH64 \<and> poly_aarch64_active_signal_frame st \<noteq> 0 \<or>
     mode = POLY_MODE_RAW_RISCV \<and> poly_riscv_active_signal_frame st \<noteq> 0"

definition poly_dispatch_guest_sigaltstack ::
    "u64 \<Rightarrow> u64 \<Rightarrow> u64 \<Rightarrow> signal_state \<times> guest_memory \<Rightarrow> (signal_state \<times> guest_memory) \<times> u64" where
  "poly_dispatch_guest_sigaltstack mode new_stack_addr old_stack_addr = (\<lambda>(st, gm).
     if old_stack_addr \<noteq> 0 \<and> \<not> poly_guest_range_is_mapped gm old_stack_addr 24 True then ((st, gm), - EFAULT)
     else
       (let old_stack = guest_altstack mode st;
            old_stack = (if on_signal_stack mode st \<and> ss_flags old_stack AND POLY_LINUX_SS_DISABLE = 0
                         then old_stack\<lparr>ss_flags := ss_flags old_stack OR POLY_LINUX_SS_ONSTACK\<rparr>
                         else old_stack);
            gm = (if old_stack_addr \<noteq> 0 then guest_store gm old_stack_addr (stack_bytes old_stack) else gm)
        in if new_stack_addr = 0 then ((st, gm), 0)
           else if on_signal_stack mode st then ((st, gm), - EPERM)
           else if \<not> poly_guest_range_is_mapped gm new_stack_addr 24 False then ((st, gm), - EFAULT)
           else
             (let new_stack = read_stack (guest_bytes gm new_stack_addr 24) in
              if ss_flags new_stack AND NOT POLY_LINUX_SS_DISABLE \<noteq> 0 then ((st, gm), - EINVAL)
              else if ss_flags new_stack AND POLY_LINUX_SS_DISABLE \<noteq> 0 then
                ((set_guest_altstack mode \<lparr>ss_sp = 0, ss_flags = POLY_LINUX_SS_DISABLE, ss_size = 0\<rparr> st, gm), 0)
              else if ss_size new_stack < POLY_AARCH64_MINSIGSTKSZ then ((st, gm), - ENOMEM)
              else if \<not> poly_guest_range_is_mapped gm (ss_sp new_stack) (ss_size new_stack) True then
                ((st, gm), - EFAULT)
              else ((set_guest_altstack mode (new_stack\<lparr>ss_flags := 0\<rparr>) st, gm), 0))))"

subsection \<open>Choosing the signal to deliver\<close>

record signal_delivery =
  dl_handler :: u64
  dl_restorer :: u64
  dl_flags :: u64
  dl_mask :: u64

definition poly_guest_signal_action_deliverable :: "u64 \<Rightarrow> nat \<Rightarrow> signal_state \<Rightarrow> signal_delivery option" where
  "poly_guest_signal_action_deliverable mode signum st =
     (if signum \<ge> 65 \<or> \<not> poly_guest_signal_action_shadow_valid st ! signum then None
      else
        (let action = poly_guest_signal_action_shadow st ! signum; handler = sa_handler action in
         if handler = SIG_DFL \<or> handler = SIG_IGN \<or> handler = 0 then None
         else if mode \<noteq> POLY_MODE_RAW_AARCH64 \<and> mode \<noteq> POLY_MODE_RAW_RISCV then None
         else
           (let restorer = (if mode = POLY_MODE_RAW_AARCH64 then poly_aarch64_vdso_rt_sigreturn st
                            else sa_restorer action)
            in if restorer = 0 then None
               else Some \<lparr>dl_handler = handler, dl_restorer = restorer, dl_flags = sa_flags action,
                          dl_mask = sa_mask action\<rparr>)))"

definition poly_guest_signal_mask_blocks :: "nat \<Rightarrow> signal_state \<Rightarrow> bool" where
  "poly_guest_signal_mask_blocks signum st \<longleftrightarrow>
     poly_guest_sigmask_shadow_valid st \<and> poly_guest_sigmask_shadow st AND push_bit (signum - 1) 1 \<noteq> 0"

text \<open>
  The loop over the candidates 1 to 31 in the delivery functions. A candidate
  that is pending and not blocked but has no deliverable action loses its
  pending bit.
\<close>

fun pick_signal :: "u64 \<Rightarrow> nat list \<Rightarrow> signal_state \<Rightarrow> signal_state \<times> (nat \<times> signal_delivery) option" where
  "pick_signal mode [] st = (st, None)"
| "pick_signal mode (candidate # candidates) st =
     (if poly_pending_virtual_signal_mask st AND push_bit (candidate - 1) 1 = 0 then pick_signal mode candidates st
      else if poly_guest_signal_mask_blocks candidate st then pick_signal mode candidates st
      else
        (case poly_guest_signal_action_deliverable mode candidate st of
           Some action \<Rightarrow> (st, Some (candidate, action))
         | None \<Rightarrow>
             pick_signal mode candidates
               (st\<lparr>poly_pending_virtual_signal_mask :=
                  poly_pending_virtual_signal_mask st AND NOT (push_bit (candidate - 1) 1)\<rparr>)))"

end
