(* ===== verification/Signal_Virtualization.thy ===== *)
theory Signal_Virtualization
  imports Guest_Signals
begin

text \<open>
  Facts about the signal virtualization: the bits of the masks, the specification
  of \<open>rt_sigprocmask\<close>, the effect of every branch of \<open>rt_sigaction\<close>, sequences of
  requests with the invariants they keep, and the loop that picks the signal to
  deliver.
\<close>

subsection \<open>Signal sets\<close>

lemma bit_clear_signal: "bit (poly_sigset_clear_signal m s) n \<longleftrightarrow> bit m n \<and> int n + 1 \<noteq> s"
proof (cases "s \<le> 0 \<or> s > 64")
  case True
  moreover have "bit m n \<Longrightarrow> n < 64" by (rule ccontr) (use bit_imp_le_length[of m n] in simp)
  ultimately show ?thesis by (auto simp: poly_sigset_clear_signal_def)
next
  case False
  then have "int n + 1 = s \<longleftrightarrow> n = nat (s - 1)" by auto
  with False show ?thesis
    by (auto simp: poly_sigset_clear_signal_def bit_simps dest: bit_imp_le_length)
qed

lemma bit_add_signal: "bit (poly_sigset_add_signal m s) n \<longleftrightarrow> bit m n \<or> n < 64 \<and> int n + 1 = s"
  by (auto simp: poly_sigset_add_signal_def bit_simps dest: bit_imp_le_length)

definition reserved_signals :: "signal_config \<Rightarrow> int list" where
  "reserved_signals cfg =
     [SIGSEGV, SIGBUS, SIGILL, SIGURG] @
     (if polyexec_watchdog_signal cfg > 0 then [polyexec_watchdog_signal cfg] else []) @
     (if polyexec_protect_runtime_signals cfg then [SIGALRM, SIGUSR1, SIGUSR2] else []) @
     (if polyexec_virtual_sigchld cfg then [SIGCHLD] else [])"

text \<open>
  The mask the monitor passes to the host is the guest's mask without the
  signals the monitor needs: faults, the urgent signal, the watchdog and, as
  configured, the timer, user and child signals. Every other signal is passed on.
\<close>

lemma bit_sanitize:
  "bit (poly_sanitize_host_runtime_sigset cfg m) n \<longleftrightarrow> bit m n \<and> int n + 1 \<notin> set (reserved_signals cfg)"
  by (simp add: poly_sanitize_host_runtime_sigset_def poly_host_visible_virtual_signal_mask_def Let_def
      reserved_signals_def bit_clear_signal) blast

subsection \<open>The signal mask\<close>

text \<open>What \<open>rt_sigprocmask\<close> promises, on the mask the guest sees.\<close>

definition procmask_spec :: "u64 \<Rightarrow> u64 \<Rightarrow> u64 \<Rightarrow> u64 \<Rightarrow> u64 \<times> guest_memory \<Rightarrow> (u64 \<times> guest_memory) \<times> u64" where
  "procmask_spec how sigset oldset sigsetsize = (\<lambda>(current, gm).
     if sigsetsize \<noteq> 8 \<or> how \<notin> {SIG_BLOCK, SIG_UNBLOCK, SIG_SETMASK} then ((current, gm), - EINVAL)
     else
       (case (if sigset = 0 then Some current
              else map_option (poly_update_guest_sigmask current how) (poly_guest_read_u64 gm sigset)) of
          None \<Rightarrow> ((current, gm), - EFAULT)
        | Some new \<Rightarrow>
            if oldset = 0 then ((new, gm), 0)
            else (case poly_guest_write_u64 gm oldset current of
                    None \<Rightarrow> ((new, gm), - EFAULT)
                  | Some gm \<Rightarrow> ((new, gm), 0))))"

text \<open>
  Once the guest's mask is known and as long as the host accepts the calls,
  \<open>rt_sigprocmask\<close> refines its specification on the guest's mask alone: the result,
  the old mask written to memory and the new mask do not depend on the host.
\<close>

lemma sigprocmask_spec:
  assumes "poly_guest_sigmask_shadow_valid st"
    and "\<And>how m want. fst (host_sigprocmask host how m want) = 0"
  shows "poly_dispatch_rt_sigprocmask host cfg how sigset oldset sigsetsize (st, gm) =
    (case procmask_spec how sigset oldset sigsetsize (poly_guest_sigmask_shadow st, gm) of
       ((new, gm'), r) \<Rightarrow> ((st\<lparr>poly_guest_sigmask_shadow := new\<rparr>, gm'), r))"
proof -
  define old where "old h w want = snd (host_sigprocmask host h w want)" for h w want
  have host: "host_sigprocmask host h w want = (0, old h w want)" for h w want
    using assms(2)[of h w want] by (simp add: old_def prod_eq_iff)
  show ?thesis
    using assms(1)
    by (simp add: poly_dispatch_rt_sigprocmask_def procmask_spec_def host Let_def
        split: option.split)
qed

text \<open>
  A first \<open>rt_sigprocmask\<close> call that passes neither a new mask nor a place for
  the old one forgets the inherited mask: the guest's mask becomes known and
  empty, although the host's mask was never asked for.
\<close>

lemma sigprocmask_first:
  assumes "\<not> poly_guest_sigmask_shadow_valid st" and "fst (host_sigprocmask host how None False) = 0"
    and "how \<in> {SIG_BLOCK, SIG_UNBLOCK, SIG_SETMASK}"
  shows "poly_dispatch_rt_sigprocmask host cfg how 0 0 8 (st, gm) =
    ((st\<lparr>poly_guest_sigmask_shadow := 0, poly_guest_sigmask_shadow_valid := True\<rparr>, gm), 0)"
  using assms by (auto simp: poly_dispatch_rt_sigprocmask_def Let_def split: prod.split)

subsection \<open>Signal actions\<close>

definition action_to_set :: "guest_memory \<Rightarrow> u64 \<Rightarrow> poly_linux_ksigaction option" where
  "action_to_set gm act = (if act \<noteq> 0 then poly_guest_read_ksigaction gm act else None)"

lemma rt_sigaction_cases:
  assumes "poly_dispatch_rt_sigaction host cfg mode signum act oldact sigsetsize (st, gm) = ((st', gm'), r)"
  obtains (reject) "st' = st" "gm' = gm" "r \<noteq> 0"
  | (chld) "uint signum = SIGCHLD" "polyexec_virtual_sigchld cfg"
      "act \<noteq> 0 \<Longrightarrow> poly_guest_read_ksigaction gm act \<noteq> None"
      "poly_dispatch_virtual_sigchld_action host act oldact (st, gm) = ((st', gm'), r)"
  | (virtual) "uint signum \<in> {SIGSEGV, SIGBUS, SIGILL} \<or> poly_is_protected_runtime_signal cfg (uint signum)"
      "uint signum \<in> {1..<65}" "act \<noteq> 0 \<Longrightarrow> poly_guest_read_ksigaction gm act \<noteq> None"
      "virtual_sigaction host cfg (uint signum) (action_to_set gm act) st = (st', r)"
      "gm' = poly_store_guest_signal_action (nat (uint signum)) oldact st gm"
  | (query) "act = 0" "st' = st" "uint signum \<in> {1..<65}"
      "gm' = poly_store_guest_signal_action (nat (uint signum)) oldact st gm"
  | (plain) a where "uint signum \<notin> {SIGSEGV, SIGBUS, SIGILL}"
      "\<not> poly_is_protected_runtime_signal cfg (uint signum)" "uint signum \<in> {1..<65}"
      "action_to_set gm act = Some a" "plain_sigaction host (uint signum) a st = (st', r)"
      "gm' = poly_store_guest_signal_action (nat (uint signum)) oldact st gm"
proof -
  let ?sig = "uint signum"
  define g where "g = poly_store_guest_signal_action (nat ?sig) oldact st gm"
  consider "\<not> poly_is_raw_foreign_mode mode \<or> sigsetsize \<noteq> 8 \<or> ?sig = 0 \<or> ?sig \<ge> 65 \<or>
      act \<noteq> 0 \<and> (?sig = SIGKILL \<or> ?sig = SIGSTOP) \<or> act \<noteq> 0 \<and> poly_guest_read_ksigaction gm act = None"
    | (ok) "poly_is_raw_foreign_mode mode" "sigsetsize = 8" "?sig \<noteq> 0" "?sig < 65"
      "\<not> (act \<noteq> 0 \<and> (?sig = SIGKILL \<or> ?sig = SIGSTOP))"
      "\<not> (act \<noteq> 0 \<and> poly_guest_read_ksigaction gm act = None)" by linarith
  then show thesis
  proof cases
    case 1
    then show thesis using assms reject
      by (fastforce simp: poly_dispatch_rt_sigaction_def Let_def split: if_splits)
  next
    case ok
    have "0 \<le> ?sig" by simp
    then have "1 \<le> ?sig" using ok(3) by linarith
    then have range: "?sig \<in> {1..<65}" using ok(4) by simp
    have eq: "poly_dispatch_rt_sigaction host cfg mode signum act oldact sigsetsize (st, gm) =
      (if ?sig = SIGCHLD \<and> polyexec_virtual_sigchld cfg
       then poly_dispatch_virtual_sigchld_action host act oldact (st, gm)
       else if ?sig \<in> {SIGSEGV, SIGBUS, SIGILL} \<or> poly_is_protected_runtime_signal cfg ?sig then
         (case virtual_sigaction host cfg ?sig (action_to_set gm act) st of (st, r) \<Rightarrow> ((st, g), r))
       else (case action_to_set gm act of None \<Rightarrow> ((st, g), 0)
             | Some a \<Rightarrow> (case plain_sigaction host ?sig a st of (st, r) \<Rightarrow> ((st, g), r))))"
      using ok unfolding poly_dispatch_rt_sigaction_def Let_def g_def action_to_set_def
      by (cases "act = 0"; cases "poly_guest_read_ksigaction gm act") (simp_all add: not_le del: nat_uint_eq)
    show thesis
    proof (cases "?sig = SIGCHLD \<and> polyexec_virtual_sigchld cfg")
      case True
      then show thesis using chld eq assms ok(6) by auto
    next
      case not_chld: False
      show thesis
      proof (cases "?sig \<in> {SIGSEGV, SIGBUS, SIGILL} \<or> poly_is_protected_runtime_signal cfg ?sig")
        case True
        obtain st1 r1 where v: "virtual_sigaction host cfg ?sig (action_to_set gm act) st = (st1, r1)" by fastforce
        have "st' = st1 \<and> gm' = g \<and> r = r1"
          using assms v unfolding eq if_not_P[OF not_chld] if_P[OF True] by simp
        then show thesis
          by (intro virtual[OF True range]) (use ok(6) v in \<open>simp_all add: g_def\<close>)
      next
        case False
        show thesis
        proof (cases "action_to_set gm act")
          case None
          then have "act = 0" using ok(6) by (auto simp: action_to_set_def split: if_splits)
          moreover have "st' = st \<and> gm' = g"
            using assms None unfolding eq if_not_P[OF not_chld] if_not_P[OF False] by simp
          ultimately show thesis using query range unfolding g_def by blast
        next
          case (Some a)
          obtain st1 r1 where v: "plain_sigaction host ?sig a st = (st1, r1)" by fastforce
          have "st' = st1 \<and> gm' = g \<and> r = r1"
            using assms v Some unfolding eq if_not_P[OF not_chld] if_not_P[OF False] by simp
          then show thesis using plain[OF _ _ range Some] False v unfolding g_def by blast
        qed
      qed
    qed
  qed
qed


lemma host_install_state:
  assumes "host_install host s d st = (st', e)"
  obtains "e \<noteq> 0" "st' = st" | "e = 0" "st' = st\<lparr>host_dispositions := (host_dispositions st)(s := d)\<rparr>"
  using assms by (auto simp: host_install_def split: if_splits)

text \<open>What the guest sees of the state.\<close>

definition guest_view :: "signal_state \<Rightarrow> signal_state" where
  "guest_view st = st\<lparr>host_dispositions := (\<lambda>_. Host_default), poly_runtime_signal_alt_stack_installed := False\<rparr>"

text \<open>
  A change of the installed handlers only: each of the given signals now has
  handler \<open>d\<close> or the one it had.
\<close>

definition host_change :: "int set \<Rightarrow> host_disposition \<Rightarrow> signal_state \<Rightarrow> signal_state \<Rightarrow> bool" where
  "host_change signals d st st' \<longleftrightarrow> guest_view st' = guest_view st \<and>
     (\<forall>s. host_dispositions st' s = host_dispositions st s \<or> s \<in> signals \<and> host_dispositions st' s = d)"

lemma host_change_refl: "host_change S d st st"
  by (simp add: host_change_def)

lemma host_change_trans: "host_change S d st st1 \<Longrightarrow> host_change S d st1 st2 \<Longrightarrow> host_change S d st st2"
  unfolding host_change_def by metis

lemma host_install_change: "host_install host s d st = (st', e) \<Longrightarrow> s \<in> S \<Longrightarrow> host_change S d st st'"
  by (auto simp: host_install_def host_change_def guest_view_def split: if_splits)

lemma host_install_all_change:
  "host_install_all host ss d st = (st', e) \<Longrightarrow> set ss \<subseteq> S \<Longrightarrow> host_change S d st st'"
proof (induction ss arbitrary: st)
  case Nil
  then show ?case by (simp add: host_change_refl)
next
  case (Cons s ss)
  obtain st1 e1 where 1: "host_install host s d st = (st1, e1)" by fastforce
  have c1: "host_change S d st st1" using host_install_change[OF 1] Cons.prems by simp
  show ?case
  proof (cases "e1 = 0")
    case True
    then have "host_install_all host ss d st1 = (st', e)" using Cons.prems(1) 1 by simp
    then show ?thesis using Cons.IH Cons.prems(2) c1 host_change_trans by force
  qed (use 1 Cons.prems c1 in simp)
qed

lemma diagnostics_change:
  assumes "install_poly_signal_diagnostics host st = (st', e)"
  shows "host_change {SIGSEGV, SIGBUS, SIGILL, SIGABRT} Host_diagnostics st st'"
proof (cases "\<not> poly_runtime_signal_alt_stack_installed st \<and> host_sigaltstack host \<noteq> 0")
  case True
  then show ?thesis using assms by (simp add: install_poly_signal_diagnostics_def host_change_refl)
next
  case False
  let ?st = "st\<lparr>poly_runtime_signal_alt_stack_installed := True\<rparr>"
  have "host_install_all host [SIGSEGV, SIGBUS, SIGILL, SIGABRT] Host_diagnostics ?st = (st', e)"
    using assms False unfolding install_poly_signal_diagnostics_def by simp
  then have "host_change {SIGSEGV, SIGBUS, SIGILL, SIGABRT} Host_diagnostics ?st st'"
    by (rule host_install_all_change) simp
  moreover have "host_change {SIGSEGV, SIGBUS, SIGILL, SIGABRT} Host_diagnostics st ?st"
    by (simp add: host_change_def guest_view_def)
  ultimately show ?thesis using host_change_trans by blast
qed

primrec is_virtual :: "host_disposition \<Rightarrow> bool" where
  "is_virtual (Host_virtual f) = True"
| "is_virtual Host_default = False"
| "is_virtual Host_ignore = False"
| "is_virtual Host_diagnostics = False"
| "is_virtual Host_watchdog = False"

lemma guest_view_set_action:
  "guest_view st' = guest_view st \<Longrightarrow> guest_view (set_guest_action n a st') = guest_view (set_guest_action n a st)"
  by (cases st, cases st') (simp add: guest_view_def set_guest_action_def)

lemma set_action_dispositions [simp]: "host_dispositions (set_guest_action n a st) = host_dispositions st"
  by (simp add: set_guest_action_def)

lemma virtual_handler_effect:
  assumes "poly_set_host_virtual_signal_handler host s a st = (st', e)"
  shows "guest_view st' = guest_view st \<and> (\<forall>t. t \<noteq> s \<longrightarrow> host_dispositions st' t = host_dispositions st t) \<and>
    (is_virtual (host_dispositions st' s) \<or> e \<noteq> 0 \<and> host_dispositions st' s = host_dispositions st s)"
  using assms
  by (auto simp: poly_set_host_virtual_signal_handler_def Let_def host_install_def guest_view_def split: if_splits)

lemma plain_handler_effect:
  assumes "poly_set_host_signal_handler host s d st = (st', e)"
  shows "guest_view st' = guest_view st \<and> (\<forall>t. t \<noteq> s \<longrightarrow> host_dispositions st' t = host_dispositions st t)"
  using assms
  by (auto simp: poly_set_host_signal_handler_def host_install_def guest_view_def split: if_splits)

lemma diagnostics_effect:
  assumes "install_poly_signal_diagnostics host st = (st', e)"
  shows "guest_view st' = guest_view st \<and>
    (\<forall>t. host_dispositions st' t = host_dispositions st t \<or>
         t \<in> {SIGSEGV, SIGBUS, SIGILL, SIGABRT} \<and> host_dispositions st' t = Host_diagnostics)"
  using diagnostics_change[OF assms] by (simp add: host_change_def)

text \<open>
  What an action request may do: \<open>Some a\<close> is an action that was recorded for the
  guest.
\<close>

definition action_effect ::
    "signal_config \<Rightarrow> int \<Rightarrow> poly_linux_ksigaction option \<Rightarrow> signal_state \<Rightarrow> signal_state \<Rightarrow> bool" where
  "action_effect cfg s a st st' \<longleftrightarrow>
     guest_view st' = guest_view (case a of None \<Rightarrow> st | Some a \<Rightarrow> set_guest_action (nat s) a st) \<and>
     (\<forall>t. host_dispositions st' t = host_dispositions st t \<or>
        t = s \<and> poly_is_protected_runtime_signal cfg s \<and> is_virtual (host_dispositions st' t) \<or>
        t = s \<and> t \<notin> {SIGSEGV, SIGBUS, SIGILL} \<and> \<not> poly_is_protected_runtime_signal cfg s \<or>
        t \<in> {SIGSEGV, SIGBUS, SIGILL, SIGABRT} \<and> host_dispositions st' t = Host_diagnostics)"

lemma not_protected: "\<not> poly_is_protected_runtime_signal cfg SIGCHLD"
  "\<not> poly_is_protected_runtime_signal cfg SIGSEGV" "\<not> poly_is_protected_runtime_signal cfg SIGBUS"
  "\<not> poly_is_protected_runtime_signal cfg SIGILL" "\<not> poly_is_protected_runtime_signal cfg SIGABRT"
  by (simp_all add: poly_is_protected_runtime_signal_def)

lemma plain_sigaction_effect:
  assumes "plain_sigaction host s a st = (st', r)" and "s \<notin> {SIGSEGV, SIGBUS, SIGILL}"
    and "\<not> poly_is_protected_runtime_signal cfg s"
  shows "action_effect cfg s (Some a) st st'"
proof -
  have "guest_view st' = guest_view (set_guest_action (nat s) a st) \<and>
      (\<forall>t. t \<noteq> s \<longrightarrow> host_dispositions st' t = host_dispositions st t)"
    using assms(1) plain_handler_effect virtual_handler_effect
    by (fastforce simp: plain_sigaction_def Let_def split: if_splits prod.splits)
  then show ?thesis using assms(2,3) by (auto simp: action_effect_def)
qed

lemma sigchld_state:
  assumes "poly_dispatch_virtual_sigchld_action host act oldact (st, gm) = ((st', gm'), r)"
    and "action_to_set gm act = Some a"
    and "(if sa_handler a = SIG_DFL \<or> sa_handler a = SIG_IGN
      then poly_set_host_signal_handler host SIGCHLD (host_handler_of a) st
      else poly_set_host_virtual_signal_handler host SIGCHLD a st) = (st1, e)"
  shows "st' = (if e \<noteq> 0 then st1 else set_guest_action (nat SIGCHLD) a st1)" "r = 0 \<longleftrightarrow> e = 0"
proof -
  have read: "act \<noteq> 0" "poly_guest_read_ksigaction gm act = Some a"
    using assms(2) by (auto simp: action_to_set_def split: if_splits)
  show "st' = (if e \<noteq> 0 then st1 else set_guest_action (nat SIGCHLD) a st1)" "r = 0 \<longleftrightarrow> e = 0"
    using assms(1,3) read by (auto simp: poly_dispatch_virtual_sigchld_action_def Let_def split: if_splits)
qed

lemma sigchld_effect:
  assumes "poly_dispatch_virtual_sigchld_action host act oldact (st, gm) = ((st', gm'), r)"
  shows "\<exists>a. action_effect cfg SIGCHLD a st st' \<and> (a = None \<or> a = action_to_set gm act) \<and>
    (r = 0 \<longrightarrow> a = action_to_set gm act)"
proof (cases "action_to_set gm act")
  case None
  then have "st' = st" using assms
    by (auto simp: poly_dispatch_virtual_sigchld_action_def action_to_set_def Let_def split: if_splits)
  then show ?thesis using None by (auto simp: action_effect_def)
next
  case (Some a)
  obtain st1 e where h: "(if sa_handler a = SIG_DFL \<or> sa_handler a = SIG_IGN
      then poly_set_host_signal_handler host SIGCHLD (host_handler_of a) st
      else poly_set_host_virtual_signal_handler host SIGCHLD a st) = (st1, e)" by fastforce
  note st' = sigchld_state[OF assms Some h]
  have eff: "guest_view st1 = guest_view st \<and> (\<forall>t. t \<noteq> SIGCHLD \<longrightarrow> host_dispositions st1 t = host_dispositions st t)"
    using h plain_handler_effect virtual_handler_effect by (metis (mono_tags))
  then have "action_effect cfg SIGCHLD (if e \<noteq> 0 then None else Some a) st st'"
    using st' guest_view_set_action[of st1 st "nat SIGCHLD" a] not_protected
    by (auto simp: action_effect_def)
  then show ?thesis using Some st' by (intro exI[of _ "if e \<noteq> 0 then None else Some a"]) auto
qed

lemma virtual_sigaction_effect:
  assumes "virtual_sigaction host cfg s ga st = (st', r)"
  shows "\<exists>a. action_effect cfg s a st st' \<and> (a = None \<or> a = ga) \<and> (r = 0 \<longrightarrow> a = ga)"
proof -
  define p where "p = (case ga of None \<Rightarrow> (st, 0)
    | Some a \<Rightarrow> (case (if poly_is_protected_runtime_signal cfg s
                     then poly_set_host_virtual_signal_handler host s a st else (st, 0)) of
                  (st, e) \<Rightarrow> if e \<noteq> 0 then (st, e) else (set_guest_action (nat s) a st, 0)))"
  obtain st1 e where p: "p = (st1, e)" by fastforce
  have first: "\<exists>a. (a = None \<or> a = ga) \<and> (e = 0 \<longrightarrow> a = ga) \<and>
      guest_view st1 = guest_view (case a of None \<Rightarrow> st | Some a \<Rightarrow> set_guest_action (nat s) a st) \<and>
      (\<forall>t. host_dispositions st1 t = host_dispositions st t \<or> t = s \<and> poly_is_protected_runtime_signal cfg s \<and> is_virtual (host_dispositions st1 t))"
  proof (cases ga)
    case None
    then show ?thesis using p by (auto simp: p_def)
  next
    case (Some a)
    obtain st2 e2 where h: "(if poly_is_protected_runtime_signal cfg s
        then poly_set_host_virtual_signal_handler host s a st else (st, 0)) = (st2, e2)" by fastforce
    have eff: "guest_view st2 = guest_view st"
      "\<forall>t. host_dispositions st2 t = host_dispositions st t \<or> t = s \<and> poly_is_protected_runtime_signal cfg s \<and> is_virtual (host_dispositions st2 t)"
      using h virtual_handler_effect[of host s a st st2 e2] by (auto split: if_splits)
    have st1: "st1 = (if e2 \<noteq> 0 then st2 else set_guest_action (nat s) a st2)" "e = e2"
      using p Some h by (auto simp: p_def split: if_splits)
    show ?thesis
      using st1 eff Some guest_view_set_action[OF eff(1), of "nat s" a]
      by (intro exI[of _ "if e2 \<noteq> 0 then None else Some a"]) auto
  qed
  then obtain a where a: "a = None \<or> a = ga" "e = 0 \<longrightarrow> a = ga"
    "guest_view st1 = guest_view (case a of None \<Rightarrow> st | Some a \<Rightarrow> set_guest_action (nat s) a st)"
    "\<forall>t. host_dispositions st1 t = host_dispositions st t \<or> t = s \<and> poly_is_protected_runtime_signal cfg s \<and> is_virtual (host_dispositions st1 t)"
    by blast
  have vs: "virtual_sigaction host cfg s ga st =
      (if e \<noteq> 0 then (st1, - e)
       else if s \<in> {SIGSEGV, SIGBUS, SIGILL} then
         (case install_poly_signal_diagnostics host st1 of (st, e) \<Rightarrow> (st, - e))
       else (st1, 0))"
    using p unfolding virtual_sigaction_def p_def by simp
  obtain st3 e3 where d: "install_poly_signal_diagnostics host st1 = (st3, e3)" by fastforce
  have "(st' = st1 \<or> st' = st3) \<and> (r = 0 \<longrightarrow> e = 0)"
    using assms unfolding vs d by (auto split: if_splits)
  moreover have "action_effect cfg s a st st1" using a(3,4) unfolding action_effect_def by blast
  moreover have "action_effect cfg s a st st3"
    using a(3,4) diagnostics_effect[OF d] unfolding action_effect_def by metis
  ultimately show ?thesis using a(1,2) by blast
qed

lemma rt_sigaction_effect:
  assumes "poly_dispatch_rt_sigaction host cfg mode signum act oldact sigsetsize (st, gm) = ((st', gm'), r)"
  shows "\<exists>a. action_effect cfg (uint signum) a st st' \<and>
    (a = None \<or> a = action_to_set gm act \<and> uint signum \<in> {1..<65}) \<and> (r = 0 \<longrightarrow> a = action_to_set gm act)"
proof -
  have none: "action_effect cfg s None st st" for s by (simp add: action_effect_def)
  show ?thesis using assms
  proof (cases rule: rt_sigaction_cases)
    case reject
    then show ?thesis using none by auto
  next
    case chld
    then show ?thesis using sigchld_effect[OF chld(4), of cfg] by force
  next
    case virtual
    then show ?thesis using virtual_sigaction_effect[OF virtual(4)] by blast
  next
    case query
    then show ?thesis using none by (auto simp: action_to_set_def)
  next
    case (plain a)
    then show ?thesis using plain_sigaction_effect[OF plain(5,1,2)] by metis
  qed
qed

definition signal_sizes :: "signal_state \<Rightarrow> bool" where
  "signal_sizes st \<longleftrightarrow> length (poly_guest_signal_action_shadow st) = 65 \<and>
     length (poly_guest_signal_action_shadow_valid st) = 65"

lemma guest_view_tables:
  "guest_view st' = guest_view st \<Longrightarrow> poly_guest_signal_action_shadow st' = poly_guest_signal_action_shadow st"
  "guest_view st' = guest_view st \<Longrightarrow>
     poly_guest_signal_action_shadow_valid st' = poly_guest_signal_action_shadow_valid st"
  "guest_view st' = guest_view st \<Longrightarrow>
     poly_pending_virtual_signal_mask st' = poly_pending_virtual_signal_mask st"
  by (cases st; cases st'; simp add: guest_view_def)+

lemma action_effect_tables:
  assumes "action_effect cfg s a st st'"
  shows "poly_guest_signal_action_shadow st' =
      (case a of None \<Rightarrow> poly_guest_signal_action_shadow st
       | Some a \<Rightarrow> (poly_guest_signal_action_shadow st)[nat s := a])"
    "poly_guest_signal_action_shadow_valid st' =
      (case a of None \<Rightarrow> poly_guest_signal_action_shadow_valid st
       | Some a \<Rightarrow> (poly_guest_signal_action_shadow_valid st)[nat s := True])"
    "poly_pending_virtual_signal_mask st' = poly_pending_virtual_signal_mask st"
proof -
  have "guest_view st' = guest_view (case a of None \<Rightarrow> st | Some a \<Rightarrow> set_guest_action (nat s) a st)"
    using assms by (simp add: action_effect_def)
  from guest_view_tables[OF this] show
    "poly_guest_signal_action_shadow st' =
      (case a of None \<Rightarrow> poly_guest_signal_action_shadow st
       | Some a \<Rightarrow> (poly_guest_signal_action_shadow st)[nat s := a])"
    "poly_guest_signal_action_shadow_valid st' =
      (case a of None \<Rightarrow> poly_guest_signal_action_shadow_valid st
       | Some a \<Rightarrow> (poly_guest_signal_action_shadow_valid st)[nat s := True])"
    "poly_pending_virtual_signal_mask st' = poly_pending_virtual_signal_mask st"
    by (auto simp: set_guest_action_def split: option.splits)
qed


subsection \<open>Sequences of guest requests\<close>

text \<open>
  The requests that change the signal state, the arrival of a host signal whose
  handler is the monitor's, and stores of the guest into its own memory.
\<close>

datatype signal_request =
  Sigaction (rq_mode: u64) (rq_signum: u64) (rq_act: u64) (rq_oldact: u64) (rq_size: u64)
| Sigprocmask (rq_how: u64) (rq_set: u64) (rq_oldset: u64) (rq_size: u64)
| Sigaltstack (rq_mode: u64) (rq_new: u64) (rq_old: u64)
| Host_signal int
| Guest_store u64 "u8 list"

fun signal_step ::
    "host_kernel \<Rightarrow> signal_config \<Rightarrow> signal_request \<Rightarrow> signal_state \<times> guest_memory \<Rightarrow> signal_state \<times> guest_memory" where
  "signal_step host cfg (Sigaction mode signum act oldact sigsetsize) s =
     fst (poly_dispatch_rt_sigaction host cfg mode signum act oldact sigsetsize s)"
| "signal_step host cfg (Sigprocmask how sigset oldset sigsetsize) s =
     fst (poly_dispatch_rt_sigprocmask host cfg how sigset oldset sigsetsize s)"
| "signal_step host cfg (Sigaltstack mode new_stack old_stack) s =
     fst (poly_dispatch_guest_sigaltstack mode new_stack old_stack s)"
| "signal_step host cfg (Host_signal signum) (st, gm) =
     (if is_virtual (host_dispositions st signum) then (poly_virtual_signal_host_handler signum st, gm) else (st, gm))"
| "signal_step host cfg (Guest_store address bytes) (st, gm) = (st, guest_store gm address bytes)"

text \<open>The part of the state that only action requests and signals change.\<close>

definition action_part where
  "action_part st = (host_dispositions st, poly_guest_signal_action_shadow st,
     poly_guest_signal_action_shadow_valid st, poly_pending_virtual_signal_mask st)"

lemma sigprocmask_keeps:
  assumes "poly_dispatch_rt_sigprocmask host cfg how sigset oldset sigsetsize (st, gm) = ((st', gm'), r)"
  shows "action_part st' = action_part st"
proof -
  have upd: "action_part (st\<lparr>poly_guest_sigmask_shadow := m\<rparr>) = action_part st"
    "action_part (st\<lparr>poly_guest_sigmask_shadow_valid := v\<rparr>) = action_part st" for st m v
    by (simp_all add: action_part_def)
  show ?thesis using assms
    unfolding poly_dispatch_rt_sigprocmask_def Let_def
    by (auto simp: upd split: if_splits option.splits prod.splits)
qed

lemma sigaltstack_keeps:
  assumes "poly_dispatch_guest_sigaltstack mode new_stack old_stack (st, gm) = ((st', gm'), r)"
  shows "action_part st' = action_part st"
  using assms unfolding poly_dispatch_guest_sigaltstack_def Let_def
  by (auto simp: set_guest_altstack_def action_part_def split: if_splits)

definition runtime_handlers_inv :: "signal_config \<Rightarrow> signal_state \<Rightarrow> bool" where
  "runtime_handlers_inv cfg st \<longleftrightarrow>
     signal_sizes st \<and>
     (\<forall>s \<in> {SIGSEGV, SIGBUS, SIGILL}. host_dispositions st s = Host_diagnostics) \<and>
     (\<forall>s. poly_is_protected_runtime_signal cfg s \<longrightarrow> is_virtual (host_dispositions st s)) \<and>
     \<not> bit (poly_pending_virtual_signal_mask st) 31"

lemma runtime_handlers_inv_action_part:
  "action_part st' = action_part st \<Longrightarrow> runtime_handlers_inv cfg st' = runtime_handlers_inv cfg st"
  by (simp add: action_part_def runtime_handlers_inv_def signal_sizes_def)

lemma runtime_handlers_inv_action:
  assumes "runtime_handlers_inv cfg st" and eff: "action_effect cfg s a st st'"
  shows "runtime_handlers_inv cfg st'"
proof -
  have sizes: "signal_sizes st'"
    using assms(1) action_effect_tables[OF eff]
    by (auto simp: runtime_handlers_inv_def signal_sizes_def split: option.splits)
  have disp: "host_dispositions st' t = host_dispositions st t \<or>
        t = s \<and> poly_is_protected_runtime_signal cfg s \<and> is_virtual (host_dispositions st' t) \<or>
        t = s \<and> t \<notin> {SIGSEGV, SIGBUS, SIGILL} \<and> \<not> poly_is_protected_runtime_signal cfg s \<or>
        t \<in> {SIGSEGV, SIGBUS, SIGILL, SIGABRT} \<and> host_dispositions st' t = Host_diagnostics" for t
    using eff unfolding action_effect_def by blast
  have fault: "host_dispositions st' t = Host_diagnostics" if "t \<in> {SIGSEGV, SIGBUS, SIGILL}" for t
    using disp[of t] that assms(1) not_protected by (auto simp: runtime_handlers_inv_def)
  have prot: "is_virtual (host_dispositions st' t)" if "poly_is_protected_runtime_signal cfg t" for t
    using disp[of t] that assms(1) not_protected by (auto simp: runtime_handlers_inv_def)
  show ?thesis
    using sizes fault prot assms(1) action_effect_tables(3)[OF eff] by (simp add: runtime_handlers_inv_def)
qed

lemma runtime_handlers_inv_step:
  assumes "runtime_handlers_inv cfg (fst s)"
  shows "runtime_handlers_inv cfg (fst (signal_step host cfg rq s))"
proof -
  obtain st gm where s: "s = (st, gm)" by fastforce
  have inv: "runtime_handlers_inv cfg st" using assms s by simp
  show ?thesis
  proof (cases rq)
    case (Sigaction mode signum act oldact sigsetsize)
    obtain st' gm' r where d: "poly_dispatch_rt_sigaction host cfg mode signum act oldact sigsetsize (st, gm) = ((st', gm'), r)"
      by (metis surj_pair)
    show ?thesis using rt_sigaction_effect[OF d] runtime_handlers_inv_action[OF inv] Sigaction s d by auto
  next
    case (Sigprocmask how sigset oldset sigsetsize)
    obtain st' gm' r where d: "poly_dispatch_rt_sigprocmask host cfg how sigset oldset sigsetsize (st, gm) = ((st', gm'), r)"
      by (metis surj_pair)
    show ?thesis using runtime_handlers_inv_action_part[OF sigprocmask_keeps[OF d]] Sigprocmask s d inv by simp
  next
    case (Sigaltstack mode new_stack old_stack)
    obtain st' gm' r where d: "poly_dispatch_guest_sigaltstack mode new_stack old_stack (st, gm) = ((st', gm'), r)"
      by (metis surj_pair)
    show ?thesis using runtime_handlers_inv_action_part[OF sigaltstack_keeps[OF d]] Sigaltstack s d inv by simp
  next
    case (Host_signal signum)
    then show ?thesis using inv s
      by (auto simp: poly_virtual_signal_host_handler_def runtime_handlers_inv_def signal_sizes_def bit_simps)
  next
    case (Guest_store address bytes)
    then show ?thesis using inv s by simp
  qed
qed

subsection \<open>Guest handlers have a host handler behind them\<close>

definition backed_at :: "int \<Rightarrow> signal_state \<Rightarrow> bool" where
  "backed_at s st \<longleftrightarrow>
     (poly_guest_signal_action_shadow_valid st ! nat s \<longrightarrow>
      sa_handler (poly_guest_signal_action_shadow st ! nat s) \<notin> {SIG_DFL, SIG_IGN} \<longrightarrow>
      is_virtual (host_dispositions st s))"

definition handlers_backed :: "signal_state \<Rightarrow> bool" where
  "handlers_backed st \<longleftrightarrow> signal_sizes st \<and>
     (\<forall>s \<in> {1..<32}. s \<notin> {SIGSEGV, SIGBUS, SIGILL, SIGABRT} \<longrightarrow> backed_at s st)"

lemma virtual_handler_ok:
  assumes "\<And>s d. host_sigaction host s d = 0" and "poly_set_host_virtual_signal_handler host s a st = (st', e)"
  shows "e = 0" "is_virtual (host_dispositions st' s)"
  using assms(2) by (auto simp: poly_set_host_virtual_signal_handler_def Let_def host_install_def assms(1) split: if_splits)

lemma backed_set_action:
  assumes "is_virtual (host_dispositions st s) \<or> sa_handler a \<in> {SIG_DFL, SIG_IGN}"
    and "nat s < length (poly_guest_signal_action_shadow st)"
  shows "backed_at s (set_guest_action (nat s) a st)"
  using assms by (auto simp: backed_at_def set_guest_action_def)

lemma backed_guest_view:
  assumes "guest_view st' = guest_view st" and "is_virtual (host_dispositions st' s) \<or> host_dispositions st' s = host_dispositions st s"
    and "backed_at s st"
  shows "backed_at s st'"
  using assms(2,3) guest_view_tables[OF assms(1)] by (auto simp: backed_at_def)

lemma plain_backed:
  assumes ok: "\<And>s d. host_sigaction host s d = 0" and "plain_sigaction host s a st = (st', r)"
    and "signal_sizes st" and "s \<in> {1..<32}"
  shows "backed_at s st'"
proof -
  let ?st = "set_guest_action (nat s) a st"
  have len: "nat s < length (poly_guest_signal_action_shadow st)" using assms(3,4) by (auto simp: signal_sizes_def)
  show ?thesis
  proof (cases "sa_handler a = SIG_DFL \<or> sa_handler a = SIG_IGN")
    case True
    then have "st' = ?st\<lparr>host_dispositions := (host_dispositions ?st)(s := host_handler_of a)\<rparr>"
      using assms(2) by (simp add: plain_sigaction_def Let_def poly_set_host_signal_handler_def host_install_def ok)
    then show ?thesis using True len by (auto simp: backed_at_def set_guest_action_def)
  next
    case False
    obtain st1 e where h: "poly_set_host_virtual_signal_handler host s a ?st = (st1, e)" by fastforce
    then have "st' = st1" using assms(2,4) False by (simp add: plain_sigaction_def Let_def)
    then show ?thesis using virtual_handler_ok(2)[OF ok h] by (simp add: backed_at_def)
  qed
qed

lemma virtual_backed:
  assumes ok: "\<And>s d. host_sigaction host s d = 0" and "virtual_sigaction host cfg s ga st = (st', r)"
    and "signal_sizes st" and "s \<in> {1..<32}" and "s \<notin> {SIGSEGV, SIGBUS, SIGILL}"
    and "poly_is_protected_runtime_signal cfg s" and "backed_at s st"
  shows "backed_at s st'"
proof (cases ga)
  case None
  then show ?thesis using assms by (simp add: virtual_sigaction_def)
next
  case (Some a)
  obtain st1 e where h: "poly_set_host_virtual_signal_handler host s a st = (st1, e)" by fastforce
  have "st' = set_guest_action (nat s) a st1"
    using assms(2,5,6) Some h virtual_handler_ok(1)[OF ok h] by (simp add: virtual_sigaction_def)
  then show ?thesis
    using virtual_handler_ok(2)[OF ok h] by (simp add: backed_at_def)
qed

lemma sigchld_handler_ok:
  assumes ok: "\<And>s d. host_sigaction host s d = 0"
    and h: "(if sa_handler a = SIG_DFL \<or> sa_handler a = SIG_IGN
      then poly_set_host_signal_handler host SIGCHLD (host_handler_of a) st
      else poly_set_host_virtual_signal_handler host SIGCHLD a st) = (st1, e)"
  shows "e = 0" "guest_view st1 = guest_view st"
    "is_virtual (host_dispositions st1 SIGCHLD) \<or> sa_handler a \<in> {SIG_DFL, SIG_IGN}"
proof -
  consider "poly_set_host_signal_handler host SIGCHLD (host_handler_of a) st = (st1, e)"
      "sa_handler a \<in> {SIG_DFL, SIG_IGN}"
    | "poly_set_host_virtual_signal_handler host SIGCHLD a st = (st1, e)"
    using h by (simp split: if_splits)
  then have "e = 0 \<and> guest_view st1 = guest_view st \<and>
      (is_virtual (host_dispositions st1 SIGCHLD) \<or> sa_handler a \<in> {SIG_DFL, SIG_IGN})"
  proof cases
    case 1
    then show ?thesis using plain_handler_effect[OF 1(1)]
      by (simp add: poly_set_host_signal_handler_def host_install_def ok)
  next
    case 2
    then show ?thesis using virtual_handler_effect[OF 2] virtual_handler_ok[OF ok 2] by simp
  qed
  then show "e = 0" "guest_view st1 = guest_view st"
    "is_virtual (host_dispositions st1 SIGCHLD) \<or> sa_handler a \<in> {SIG_DFL, SIG_IGN}" by simp_all
qed

lemma sigchld_backed:
  assumes ok: "\<And>s d. host_sigaction host s d = 0"
    and d: "poly_dispatch_virtual_sigchld_action host act oldact (st, gm) = ((st', gm'), r)"
    and sizes: "signal_sizes st" and at: "backed_at SIGCHLD st"
  shows "backed_at SIGCHLD st'"
proof (cases "action_to_set gm act")
  case None
  then have "st' = st" using d
    by (auto simp: poly_dispatch_virtual_sigchld_action_def action_to_set_def Let_def split: if_splits)
  then show ?thesis using at by simp
next
  case (Some a)
  obtain st1 e where h: "(if sa_handler a = SIG_DFL \<or> sa_handler a = SIG_IGN
      then poly_set_host_signal_handler host SIGCHLD (host_handler_of a) st
      else poly_set_host_virtual_signal_handler host SIGCHLD a st) = (st1, e)" by (metis surj_pair)
  note inst = sigchld_handler_ok[OF ok h]
  have "nat SIGCHLD < length (poly_guest_signal_action_shadow st1)"
    using guest_view_tables(1)[OF inst(2)] sizes by (simp add: signal_sizes_def)
  then have "backed_at SIGCHLD (set_guest_action (nat SIGCHLD) a st1)"
    using inst(3) backed_set_action by blast
  then show ?thesis using sigchld_state(1)[OF d Some h] inst(1) by simp
qed

lemma handlers_backed_action:
  assumes ok: "\<And>s d. host_sigaction host s d = 0"
    and d: "poly_dispatch_rt_sigaction host cfg mode signum act oldact sigsetsize (st, gm) = ((st', gm'), r)"
    and backed: "handlers_backed st"
  shows "handlers_backed st'"
proof -
  let ?s = "uint signum"
  have sizes: "signal_sizes st" using backed by (simp add: handlers_backed_def)
  obtain a where eff: "action_effect cfg ?s a st st'" using rt_sigaction_effect[OF d] by blast
  note tables = action_effect_tables[OF eff]
  have "backed_at t st'" if t: "t \<in> {1..<32}" "t \<notin> {SIGSEGV, SIGBUS, SIGILL, SIGABRT}" for t
  proof (cases "t = ?s")
    case False
    then have "nat t \<noteq> nat ?s" using t by (simp add: nat_eq_iff)
    moreover have "host_dispositions st' t = host_dispositions st t"
      using conjunct2[OF eff[unfolded action_effect_def], THEN spec, of t] False t(2) by simp
    ultimately show ?thesis using backed t tables
      by (auto simp: handlers_backed_def backed_at_def split: option.splits)
  next
    case True
    have at: "backed_at ?s st" using backed t True by (simp add: handlers_backed_def)
    show ?thesis using d
    proof (cases rule: rt_sigaction_cases)
      case chld
      then show ?thesis using sigchld_backed[OF ok chld(4) sizes] at True by simp
    next
      case virtual
      then show ?thesis using virtual_backed[OF ok virtual(4) sizes _ _ _ at] t True by blast
    next
      case (plain a)
      then show ?thesis using plain_backed[OF ok plain(5) sizes] t True by blast
    qed (use at True in simp_all)
  qed
  moreover have "signal_sizes st'" using sizes tables by (auto simp: signal_sizes_def split: option.splits)
  ultimately show ?thesis by (simp add: handlers_backed_def)
qed

lemma handlers_backed_step:
  assumes ok: "\<And>s d. host_sigaction host s d = 0" and "handlers_backed (fst s)"
  shows "handlers_backed (fst (signal_step host cfg rq s))"
proof -
  obtain st gm where s: "s = (st, gm)" by fastforce
  have inv: "handlers_backed st" using assms s by simp
  have part: "handlers_backed st'" if "action_part st' = action_part st" for st'
    using that inv by (simp add: handlers_backed_def backed_at_def signal_sizes_def action_part_def)
  show ?thesis
  proof (cases rq)
    case (Sigaction mode signum act oldact sigsetsize)
    obtain st' gm' r where d: "poly_dispatch_rt_sigaction host cfg mode signum act oldact sigsetsize (st, gm) = ((st', gm'), r)"
      by (metis surj_pair)
    show ?thesis using handlers_backed_action[OF ok d inv] Sigaction s d by simp
  next
    case (Sigprocmask how sigset oldset sigsetsize)
    obtain st' gm' r where d: "poly_dispatch_rt_sigprocmask host cfg how sigset oldset sigsetsize (st, gm) = ((st', gm'), r)"
      by (metis surj_pair)
    show ?thesis using part[OF sigprocmask_keeps[OF d]] Sigprocmask s d by simp
  next
    case (Sigaltstack mode new_stack old_stack)
    obtain st' gm' r where d: "poly_dispatch_guest_sigaltstack mode new_stack old_stack (st, gm) = ((st', gm'), r)"
      by (metis surj_pair)
    show ?thesis using part[OF sigaltstack_keeps[OF d]] Sigaltstack s d by simp
  next
    case (Host_signal signum)
    then show ?thesis using inv s
      by (auto simp: poly_virtual_signal_host_handler_def handlers_backed_def signal_sizes_def backed_at_def)
  next
    case (Guest_store address bytes)
    then show ?thesis using inv s by simp
  qed
qed

subsection \<open>The signal that is delivered\<close>

definition ready_signal :: "u64 \<Rightarrow> signal_state \<Rightarrow> nat \<Rightarrow> signal_delivery option" where
  "ready_signal mode st s =
     (if bit (poly_pending_virtual_signal_mask st) (s - 1) \<and> \<not> poly_guest_signal_mask_blocks s st
      then poly_guest_signal_action_deliverable mode s st else None)"

lemma pending_update [simp]:
  "poly_guest_signal_mask_blocks s (st\<lparr>poly_pending_virtual_signal_mask := m\<rparr>) = poly_guest_signal_mask_blocks s st"
  "poly_guest_signal_action_deliverable mode s (st\<lparr>poly_pending_virtual_signal_mask := m\<rparr>) =
   poly_guest_signal_action_deliverable mode s st"
  by (simp_all add: poly_guest_signal_mask_blocks_def poly_guest_signal_action_deliverable_def Let_def)

lemma pending_test: "(w :: u32) AND 2 ^ n = 0 \<longleftrightarrow> \<not> bit w n"
  by (simp add: bit_iff_and_push_bit_not_eq_0 push_bit_of_1)

lemma ready_after_drop:
  assumes "1 \<le> c" "1 \<le> t" "c \<noteq> t"
  shows "ready_signal mode (st\<lparr>poly_pending_virtual_signal_mask :=
      poly_pending_virtual_signal_mask st AND NOT (push_bit (c - 1) 1)\<rparr>) t = ready_signal mode st t"
proof -
  have "bit (poly_pending_virtual_signal_mask st AND NOT (push_bit (c - 1) 1)) (t - 1) =
      bit (poly_pending_virtual_signal_mask st) (t - 1)"
    using assms by (auto simp: bit_simps dest: bit_imp_le_length)
  then show ?thesis by (simp add: ready_signal_def)
qed

text \<open>Only pending bits of unblocked signals without a deliverable action are lost.\<close>

definition dropped_from :: "u64 \<Rightarrow> signal_state \<Rightarrow> u32 \<Rightarrow> bool" where
  "dropped_from mode st m \<longleftrightarrow>
     (\<forall>n. bit m n \<longrightarrow> bit (poly_pending_virtual_signal_mask st) n) \<and>
     (\<forall>n. bit (poly_pending_virtual_signal_mask st) n \<and> \<not> bit m n \<longrightarrow>
        \<not> poly_guest_signal_mask_blocks (n + 1) st \<and>
        poly_guest_signal_action_deliverable mode (n + 1) st = None)"

lemma pick_signal_spec:
  assumes "pick_signal mode cs st = (st', res)" and "distinct cs" and "\<forall>c \<in> set cs. 1 \<le> c"
  shows "(\<exists>m. st' = st\<lparr>poly_pending_virtual_signal_mask := m\<rparr> \<and> dropped_from mode st m) \<and>
    (case res of None \<Rightarrow> \<forall>c \<in> set cs. ready_signal mode st c = None
     | Some (s, a) \<Rightarrow> \<exists>pre post. cs = pre @ s # post \<and> ready_signal mode st s = Some a \<and>
         (\<forall>c \<in> set pre. ready_signal mode st c = None))"
  using assms
proof (induction cs arbitrary: st)
  case Nil
  have "st = st\<lparr>poly_pending_virtual_signal_mask := poly_pending_virtual_signal_mask st\<rparr>" by simp
  moreover have "dropped_from mode st (poly_pending_virtual_signal_mask st)" by (simp add: dropped_from_def)
  ultimately have "\<exists>m. st = st\<lparr>poly_pending_virtual_signal_mask := m\<rparr> \<and> dropped_from mode st m" by blast
  then show ?case using Nil by simp
next
  case (Cons c cs)
  have dist: "distinct cs" "\<forall>c \<in> set cs. 1 \<le> c" "c \<notin> set cs" "1 \<le> c" using Cons.prems by auto
  consider (skip) "ready_signal mode st c = None" "pick_signal mode (c # cs) st = pick_signal mode cs st"
    | (hit) a where "ready_signal mode st c = Some a" "pick_signal mode (c # cs) st = (st, Some (c, a))"
    | (drop) "ready_signal mode st c = None" "bit (poly_pending_virtual_signal_mask st) (c - 1)"
        "\<not> poly_guest_signal_mask_blocks c st" "poly_guest_signal_action_deliverable mode c st = None"
        "pick_signal mode (c # cs) st = pick_signal mode cs (st\<lparr>poly_pending_virtual_signal_mask :=
           poly_pending_virtual_signal_mask st AND NOT (push_bit (c - 1) 1)\<rparr>)"
  proof (cases "bit (poly_pending_virtual_signal_mask st) (c - 1) \<and> \<not> poly_guest_signal_mask_blocks c st")
    case False
    then show thesis using skip by (auto simp: pending_test ready_signal_def)
  next
    case True
    then show thesis using hit drop
      by (cases "poly_guest_signal_action_deliverable mode c st") (simp_all add: pending_test ready_signal_def)
  qed
  then show ?case
  proof cases
    case skip
    then have p: "pick_signal mode cs st = (st', res)" using Cons.prems(1) by simp
    show ?thesis
      using Cons.IH[OF p dist(1,2)] skip(1)
      by (fastforce split: option.splits intro: exI[of _ "c # _"])
  next
    case (hit a)
    have "dropped_from mode st (poly_pending_virtual_signal_mask st)" by (simp add: dropped_from_def)
    then have "\<exists>m. st = st\<lparr>poly_pending_virtual_signal_mask := m\<rparr> \<and> dropped_from mode st m"
      by (intro exI[of _ "poly_pending_virtual_signal_mask st"]) simp
    moreover have "st' = st" "res = Some (c, a)" using hit(2) Cons.prems(1) by simp_all
    moreover have "c # cs = [] @ c # cs" by simp
    ultimately show ?thesis using hit(1) by (simp del: pick_signal.simps) (rule exI[of _ "[]"], simp)
  next
    case drop
    let ?m = "poly_pending_virtual_signal_mask st AND NOT (push_bit (c - 1) 1)"
    let ?st = "st\<lparr>poly_pending_virtual_signal_mask := ?m\<rparr>"
    have p: "pick_signal mode cs ?st = (st', res)" using drop(5) Cons.prems(1) by simp
    have same: "ready_signal mode ?st t = ready_signal mode st t" if "t \<in> set cs" for t
      using ready_after_drop[of c t mode st] dist that by auto
    have "dropped_from mode st m" if m: "dropped_from mode ?st m" for m
      unfolding dropped_from_def
    proof (intro conjI allI impI)
      fix n assume "bit m n"
      then have "bit ?m n" using m unfolding dropped_from_def by simp
      then show "bit (poly_pending_virtual_signal_mask st) n" by (simp add: bit_simps)
    next
      fix n assume n: "bit (poly_pending_virtual_signal_mask st) n \<and> \<not> bit m n"
      have "\<not> poly_guest_signal_mask_blocks (n + 1) st \<and> poly_guest_signal_action_deliverable mode (n + 1) st = None"
      proof (cases "n = c - 1")
        case True
        then show ?thesis using drop(3,4) dist(4) by simp
      next
        case False
        then have "bit ?m n" using n by (auto simp: bit_simps dest: bit_imp_le_length)
        then show ?thesis using m n unfolding dropped_from_def by simp
      qed
      then show "\<not> poly_guest_signal_mask_blocks (n + 1) st"
        "poly_guest_signal_action_deliverable mode (n + 1) st = None" by simp_all
    qed
    then have first: "\<exists>m. st' = st\<lparr>poly_pending_virtual_signal_mask := m\<rparr> \<and> dropped_from mode st m"
      using Cons.IH[OF p dist(1,2)] by auto
    show ?thesis
      using first Cons.IH[OF p dist(1,2)] drop(1) same
      by (fastforce split: option.splits intro: exI[of _ "c # _"])
  qed
qed


lemma upt_split_less: "[m..<n] = pre @ s # post \<Longrightarrow> set pre = {m..<s} \<and> m \<le> s \<and> s < n"
proof -
  assume eq: "[m..<n] = pre @ s # post"
  have sorted: "sorted_wrt (<) (pre @ s # post)" unfolding eq[symmetric] by simp
  have set: "{m..<n} = set pre \<union> {s} \<union> set post" using arg_cong[OF eq, of set] by auto
  have less: "\<forall>x \<in> set pre. x < s" "\<forall>x \<in> set post. s < x" using sorted by (auto simp: sorted_wrt_append)
  then have "set pre = {m..<s}" using set by auto (metis Un_iff atLeastLessThan_iff insert_iff less_trans not_less_iff_gr_or_eq)+
  then show ?thesis using set by auto
qed

lemma pick_signal_least:
  assumes "pick_signal mode [1..<32] st = (st', res)"
  shows "(\<exists>m. st' = st\<lparr>poly_pending_virtual_signal_mask := m\<rparr> \<and> dropped_from mode st m) \<and>
    (case res of None \<Rightarrow> \<forall>s \<in> {1..<32}. ready_signal mode st s = None
     | Some (s, a) \<Rightarrow> s \<in> {1..<32} \<and> ready_signal mode st s = Some a \<and>
         (\<forall>t \<in> {1..<s}. ready_signal mode st t = None))"
  using pick_signal_spec[OF assms] upt_split_less[of 1 32]
  by (fastforce split: option.splits)

end
