(* ===== verification/Signal_Policy.thy ===== *)
theory Signal_Policy
  imports Signal_Virtualization
begin

text \<open>
  The guarantees of the signal virtualization for sequences of guest requests:
  round trips of masks and actions, the handlers the monitor keeps, the guest
  handlers that are backed by the host, and the choice of the delivered signal.
\<close>

lemma rt_sigaction_query:
  assumes "poly_is_raw_foreign_mode mode" and "uint signum \<in> {1..<65}"
  shows "snd (fst (poly_dispatch_rt_sigaction host cfg mode signum 0 oldact 8 (st, gm))) =
    poly_store_guest_signal_action (nat (uint signum)) oldact st gm"
  using assms
  by (auto simp: poly_dispatch_rt_sigaction_def poly_dispatch_virtual_sigchld_action_def Let_def
      simp del: nat_uint_eq split: prod.split)

lemma rt_sigaction_accepted:
  assumes "poly_dispatch_rt_sigaction host cfg mode signum act oldact sigsetsize (st, gm) = ((st', gm'), 0)"
  shows "poly_is_raw_foreign_mode mode" "uint signum \<in> {1..<65}"
proof -
  have "poly_is_raw_foreign_mode mode \<and> uint signum \<noteq> 0 \<and> \<not> uint signum \<ge> 65"
    using assms unfolding poly_dispatch_rt_sigaction_def Let_def by (simp split: if_splits)
  moreover have "0 \<le> uint signum" by simp
  ultimately have "poly_is_raw_foreign_mode mode" "1 \<le> uint signum" "uint signum < 65" by linarith+
  then show "poly_is_raw_foreign_mode mode" "uint signum \<in> {1..<65}" by simp_all
qed

lemma sigaction_recorded:
  assumes "poly_dispatch_rt_sigaction host cfg mode signum act oldact sigsetsize (st, gm) = ((st', gm'), 0)"
    and "action_to_set gm act = Some a" and "signal_sizes st"
  shows "poly_guest_signal_action_shadow st' ! unat signum = a" "poly_guest_signal_action_shadow_valid st' ! unat signum"
proof -
  obtain b where eff: "action_effect cfg (uint signum) b st st'" and "b = action_to_set gm act"
    using rt_sigaction_effect[OF assms(1)] by blast
  then have b: "b = Some a" using assms(2) by simp
  have "uint signum < 65" using rt_sigaction_accepted(2)[OF assms(1)] by simp
  then have "nat (uint signum) < 65" by linarith
  then have "unat signum < 65" by simp
  then show "poly_guest_signal_action_shadow st' ! unat signum = a" "poly_guest_signal_action_shadow_valid st' ! unat signum"
    using action_effect_tables(1,2)[OF eff] b assms(3) by (simp_all add: signal_sizes_def)
qed

lemma host_install_all_ok:
  "host_install_all host ss d st = (st', 0) \<Longrightarrow>
     host_dispositions st' s = (if s \<in> set ss then d else host_dispositions st s) \<and> guest_view st' = guest_view st"
proof (induction ss arbitrary: st)
  case (Cons t ss)
  have ok: "host_sigaction host t d = 0" using Cons.prems by (auto simp: host_install_def split: if_splits)
  let ?st = "st\<lparr>host_dispositions := (host_dispositions st)(t := d)\<rparr>"
  have "host_install_all host ss d ?st = (st', 0)" using Cons.prems ok by (simp add: host_install_def)
  from Cons.IH[OF this] show ?case by (auto simp: guest_view_def)
qed simp

lemma signals_started:
  assumes d: "install_poly_signal_diagnostics host initial_signal_state = (st1, 0)"
    and p: "poly_install_protected_runtime_signal_handlers host cfg st1 = (st2, 0)"
  shows "runtime_handlers_inv cfg st2" "poly_guest_signal_action_shadow_valid st2 = replicate 65 False"
proof -
  have alt: "host_sigaltstack host = 0"
    using d by (auto simp: install_poly_signal_diagnostics_def initial_signal_state_def split: if_splits)
  let ?st = "initial_signal_state\<lparr>poly_runtime_signal_alt_stack_installed := True\<rparr>"
  have "host_install_all host [SIGSEGV, SIGBUS, SIGILL, SIGABRT] Host_diagnostics ?st = (st1, 0)"
    using d alt by (simp add: install_poly_signal_diagnostics_def)
  note st1 = host_install_all_ok[OF this]
  obtain st3 where urg: "host_install_all host [SIGURG] (Host_virtual 0) st1 = (st3, 0)"
    and rest: "if polyexec_protect_runtime_signals cfg
      then host_install_all host [SIGALRM, SIGUSR1, SIGUSR2] (Host_virtual 0) st3 = (st2, 0) else st2 = st3"
    using p unfolding poly_install_protected_runtime_signal_handlers_def poly_set_host_signal_handler_def
    by (auto split: prod.splits if_splits)
  note st3 = host_install_all_ok[OF urg]
  have view: "guest_view st2 = guest_view initial_signal_state"
    using rest st3 st1 host_install_all_ok[of host "[SIGALRM, SIGUSR1, SIGUSR2]" "Host_virtual 0" st3 st2]
    by (auto simp: guest_view_def split: if_splits)
  have disp: "host_dispositions st2 s =
      (if polyexec_protect_runtime_signals cfg \<and> s \<in> {SIGALRM, SIGUSR1, SIGUSR2} then Host_virtual 0
       else if s = SIGURG then Host_virtual 0
       else if s \<in> {SIGSEGV, SIGBUS, SIGILL, SIGABRT} then Host_diagnostics else Host_default)" for s
    using rest st3[of s] st1[of s] host_install_all_ok[of host "[SIGALRM, SIGUSR1, SIGUSR2]" "Host_virtual 0" st3 st2 s]
    by (auto simp: initial_signal_state_def split: if_splits)
  note tables = guest_view_tables[OF view]
  show "poly_guest_signal_action_shadow_valid st2 = replicate 65 False"
    using tables(2) by (simp add: initial_signal_state_def)
  show "runtime_handlers_inv cfg st2"
    using tables unfolding runtime_handlers_inv_def signal_sizes_def disp
    by (auto simp: initial_signal_state_def poly_is_protected_runtime_signal_def)
qed

interpretation runtime_handlers: stable_predicate "signal_step host cfg" "\<lambda>s. runtime_handlers_inv cfg (fst s)"
  for host cfg
  by unfold_locales (rule runtime_handlers_inv_step)

lemma handlers_backed_run:
  assumes "\<And>s d. host_sigaction host s d = 0"
  shows "handlers_backed (fst s) \<Longrightarrow> handlers_backed (fst (run_steps (signal_step host cfg) requests s))"
proof -
  have "stable_predicate (signal_step host cfg) (\<lambda>s. handlers_backed (fst s))"
    by unfold_locales (rule handlers_backed_step[OF assms])
  then show "handlers_backed (fst s) \<Longrightarrow> handlers_backed (fst (run_steps (signal_step host cfg) requests s))"
    by (rule stable_predicate.run_stable)
qed

lemma diagnostics_ok:
  assumes "\<And>s d. host_sigaction host s d = 0" and "host_sigaltstack host = 0"
  shows "install_poly_signal_diagnostics host st =
    (st\<lparr>poly_runtime_signal_alt_stack_installed := True,
       host_dispositions := (host_dispositions st)(SIGSEGV := Host_diagnostics, SIGBUS := Host_diagnostics,
         SIGILL := Host_diagnostics, SIGABRT := Host_diagnostics)\<rparr>, 0)"
  by (simp add: install_poly_signal_diagnostics_def host_install_def assms)

lemma initial_backed: "handlers_backed initial_signal_state"
proof -
  have "backed_at s initial_signal_state" if "s \<in> {1..<32}" for s
  proof -
    have "nat s < 65" using that by auto
    then show ?thesis by (simp add: backed_at_def initial_signal_state_def)
  qed
  then show ?thesis by (simp add: handlers_backed_def signal_sizes_def initial_signal_state_def)
qed

subsection \<open>Properties\<close>

definition quiet_host :: host_kernel where
  "quiet_host = \<lparr>host_sigaction = (\<lambda>_ _. 0), host_sigaltstack = 0, host_sigprocmask = (\<lambda>_ _ _. (0, 0)),
     host_sigsuspend = (\<lambda>_. 0)\<rparr>"

definition plain_config :: signal_config where
  "plain_config = \<lparr>polyexec_watchdog_signal = 34, polyexec_protect_runtime_signals = True,
     polyexec_virtual_sigchld = False\<rparr>"

text \<open>A memory whose bytes from \<open>4096\<close> on are an action with handler \<open>0x1000\<close>.\<close>

definition action_memory :: guest_memory where
  "action_memory = flat_memory 4096 (le_bytes 8 (0x1000 :: u64) @ le_bytes 8 (0 :: u64) @ le_bytes 8 (0x2000 :: u64))"

lemma action_memory_action:
  "poly_guest_read_ksigaction action_memory 4096 =
     Some \<lparr>sa_handler = 0x1000, sa_flags = 0, sa_restorer = 0x2000, sa_mask = 0\<rparr>"
  by code_simp

text \<open>
  C26. The action a guest installs is the action it reads back, for every signal:
  after an accepted \<open>rt_sigaction\<close>, a query for the same signal writes exactly that
  action to the address given.
\<close>
theorem sigaction_roundtrip:
  assumes "poly_dispatch_rt_sigaction host cfg mode signum act oldact 8 (st, gm) = ((st', gm'), 0)"
    and "act \<noteq> 0" and "poly_guest_read_ksigaction gm act = Some a" and "signal_sizes st"
    and "oldact' \<noteq> 0" and "poly_guest_range_is_mapped gm2 oldact' 32 True"
    and "poly_guest_range_is_mapped gm2 oldact' 32 False"
  shows "poly_guest_read_ksigaction
    (snd (fst (poly_dispatch_rt_sigaction host cfg mode signum 0 oldact' 8 (st', gm2)))) oldact' = Some a"
proof -
  have set: "action_to_set gm act = Some a" using assms(2,3) by (simp add: action_to_set_def)
  note accepted = rt_sigaction_accepted[OF assms(1)] and recorded = sigaction_recorded[OF assms(1) set assms(4)]
  have "uint signum < 65" using accepted(2) by simp
  then have "nat (uint signum) < 65" by linarith
  then have lt: "unat signum < 65" by simp
  obtain gm3 where w: "poly_guest_write_ksigaction gm2 oldact' a = Some gm3"
    using assms(6) by (simp add: poly_guest_write_ksigaction_def)
  have "poly_store_guest_signal_action (unat signum) oldact' st' gm2 = gm3"
    using recorded lt assms(5) w by (simp add: poly_store_guest_signal_action_def)
  then show ?thesis
    using rt_sigaction_query[OF accepted, of host cfg oldact' st' gm2] read_write_ksigaction[OF w assms(7)] by simp
qed

theorem sigaction_roundtrip_witness:
  "poly_guest_read_ksigaction
    (snd (fst (poly_dispatch_rt_sigaction quiet_host plain_config 1 10 0 8192 8
       (fst (fst (poly_dispatch_rt_sigaction quiet_host plain_config 1 10 4096 0 8 (initial_signal_state, action_memory))),
        action_memory)))) 8192
   = Some \<lparr>sa_handler = 0x1000, sa_flags = 0, sa_restorer = 0x2000, sa_mask = 0\<rparr>"
proof -
  obtain st' gm' r where d: "poly_dispatch_rt_sigaction quiet_host plain_config 1 10 4096 0 8
      (initial_signal_state, action_memory) = ((st', gm'), r)" by (metis surj_pair)
  have "snd (poly_dispatch_rt_sigaction quiet_host plain_config 1 10 4096 0 8
      (initial_signal_state, action_memory)) = 0" by code_simp
  then have r: "r = 0" using d by simp
  have "poly_guest_range_is_mapped action_memory 8192 32 True" "poly_guest_range_is_mapped action_memory 8192 32 False"
    by code_simp+
  then show ?thesis
    using sigaction_roundtrip[OF d[unfolded r] _ action_memory_action _ _, of 8192 action_memory] d
    by (simp add: signal_sizes_def initial_signal_state_def)
qed



text \<open>
  C19. As long as the host accepts the handlers, every guest handler of a signal
  below 32 has a virtual handler behind it on the host, so that the signal
  becomes pending for the guest when it arrives. The fault signals, which the
  monitor forwards by other means, and \<open>SIGABRT\<close> are excepted.
\<close>
theorem guest_handlers_backed:
  assumes "\<And>s d. host_sigaction host s d = 0"
  shows "handlers_backed (fst (run_steps (signal_step host cfg) requests (initial_signal_state, gm)))"
  by (rule handlers_backed_run[OF assms]) (simp add: initial_backed)

theorem guest_handlers_backed_witness:
  "handlers_backed (fst (run_steps (signal_step quiet_host plain_config)
     [Sigaction 1 15 4096 0 8, Sigaction 2 17 4096 0 8, Host_signal 15] (initial_signal_state, action_memory)))"
  by (rule guest_handlers_backed) (simp add: quiet_host_def)



text \<open>
  C27. The delivery loop picks the lowest signal that is pending, not blocked and
  has a handler to run; when it picks none, there is none. The only other
  effect is on pending bits, and only unblocked signals without a handler to
  run lose theirs.
\<close>
theorem delivered_signal_least:
  "case pick_signal mode [1..<32] st of (st', res) \<Rightarrow>
     (\<exists>m. st' = st\<lparr>poly_pending_virtual_signal_mask := m\<rparr> \<and> dropped_from mode st m) \<and>
     (case res of None \<Rightarrow> list_all (\<lambda>s. ready_signal mode st s = None) [1..<32]
      | Some (s, a) \<Rightarrow> s \<in> {1..<32} \<and> ready_signal mode st s = Some a \<and>
          list_all (\<lambda>t. ready_signal mode st t = None) [1..<s])"
proof -
  obtain st' res where p: "pick_signal mode [1..<32] st = (st', res)" by fastforce
  show ?thesis using pick_signal_least[OF p] unfolding p prod.case
    by (cases res) (auto simp: list_all_iff)
qed

end
