(* ===== verification/Byte_Codec.thy ===== *)
theory Byte_Codec
  imports Guest_Memory
begin

text \<open>
  The object representation of C structures: an encoder writes the bytes of a
  value, a decoder takes them off the front of a byte list and hands back the
  rest. The locale is the contract a copy through memory relies on; arrays and
  structures are built from the words up.
\<close>

type_synonym 'a decoder = "u8 list \<Rightarrow> 'a \<times> u8 list"

primrec dec_array :: "'a decoder \<Rightarrow> nat \<Rightarrow> 'a list decoder" where
  "dec_array dec 0 bs = ([], bs)"
| "dec_array dec (Suc n) bs =
     (let (x, bs) = dec bs; (xs, bs) = dec_array dec n bs in (x # xs, bs))"

definition enc_array :: "('a \<Rightarrow> u8 list) \<Rightarrow> 'a list \<Rightarrow> u8 list" where
  "enc_array enc xs = concat (map enc xs)"

named_theorems codec_simps \<open>decoding after encoding, and the widths of encodings\<close>

locale codec =
  fixes enc :: "'a \<Rightarrow> u8 list" and dec :: "'a decoder" and ok :: "'a \<Rightarrow> bool" and width :: nat
  assumes dec_enc: "ok x \<Longrightarrow> dec (enc x @ rest) = (x, rest)"
    and enc_width: "ok x \<Longrightarrow> length (enc x) = width"
begin

lemma dec_enc_array:
  "list_all ok xs \<Longrightarrow> length xs = n \<Longrightarrow> dec_array dec n (enc_array enc xs @ rest) = (xs, rest)"
proof (induction xs arbitrary: n)
  case (Cons x xs)
  then show ?case by (cases n) (simp_all add: enc_array_def dec_enc)
qed (simp add: enc_array_def)

lemma enc_array_width: "list_all ok xs \<Longrightarrow> length (enc_array enc xs) = length xs * width"
  by (induction xs) (simp_all add: enc_array_def enc_width)

lemma dec_enc_exact: "ok x \<Longrightarrow> dec (enc x) = (x, [])"
  using dec_enc[of x "[]"] by simp

end

subsection \<open>Machine words\<close>

definition dec_u8 :: "u8 decoder" where "dec_u8 bs = (hd bs, tl bs)"
definition dec_u16 :: "u16 decoder" where "dec_u16 bs = (read_u16_le bs, drop 2 bs)"
definition dec_u32 :: "u32 decoder" where "dec_u32 bs = (read_u32_le bs, drop 4 bs)"
definition dec_u64 :: "u64 decoder" where "dec_u64 bs = (read_u64_le bs, drop 8 bs)"
definition enc_u8 :: "u8 \<Rightarrow> u8 list" where "enc_u8 b = [b]"
definition enc_u16 :: "u16 \<Rightarrow> u8 list" where "enc_u16 w = le_bytes 2 w"
definition enc_u32 :: "u32 \<Rightarrow> u8 list" where "enc_u32 w = le_bytes 4 w"
definition enc_u64 :: "u64 \<Rightarrow> u8 list" where "enc_u64 w = le_bytes 8 w"

interpretation u8c: codec enc_u8 dec_u8 "\<lambda>_. True" 1
  by unfold_locales (simp_all add: enc_u8_def dec_u8_def)

interpretation u16c: codec enc_u16 dec_u16 "\<lambda>_. True" 2
  by unfold_locales (simp_all add: enc_u16_def dec_u16_def read_u16_le_bytes)

interpretation u32c: codec enc_u32 dec_u32 "\<lambda>_. True" 4
  by unfold_locales (simp_all add: enc_u32_def dec_u32_def read_u32_le_bytes)

interpretation u64c: codec enc_u64 dec_u64 "\<lambda>_. True" 8
  by unfold_locales (simp_all add: enc_u64_def dec_u64_def read_u64_le_bytes)

lemma all_true [simp]: "list_all (\<lambda>_. True) xs"
  by (simp add: list_all_iff)

lemmas word_codec_simps [codec_simps] =
  u8c.dec_enc u8c.enc_width u8c.dec_enc_array u8c.enc_array_width
  u16c.dec_enc u16c.enc_width u16c.dec_enc_array u16c.enc_array_width
  u32c.dec_enc u32c.enc_width u32c.dec_enc_array u32c.enc_array_width
  u64c.dec_enc u64c.enc_width u64c.dec_enc_array u64c.enc_array_width

subsection \<open>A structure in guest memory\<close>

lemma guest_bytes_store_exact:
  assumes "length bytes = n" and "n < 2 ^ 64"
  shows "guest_bytes (guest_store gm address bytes) address n = bytes"
  using guest_bytes_store[of bytes n gm address] assms by (simp add: guest_bytes_def)

end
