(* ===== verification/Linux_Abi.thy ===== *)
theory Linux_Abi
  imports Byte_Codec Syscall_Map Runtime_Base
begin

text \<open>
  Conversions between the host's and the guests' view of Linux data,
  \<open>tools/runtime/polyexec.c\<close>: file status, file system status, epoll events,
  open flags, the RISC-V hardware probe and the emulated program break. Signed
  members are the words with the same bits. What the host kernel answers is a
  parameter.
\<close>

abbreviation (input) EINTR :: u64 where "EINTR \<equiv> 4"
abbreviation (input) ENOTTY :: u64 where "ENOTTY \<equiv> 25"
abbreviation (input) E2BIG :: u64 where "E2BIG \<equiv> 7"

subsection \<open>The host kernel\<close>

text \<open>
  Every call the monitor makes is appended to a log, and an answer may depend on
  the whole log. A call that is passed guest pointers may change guest memory.
\<close>

type_synonym host_log = "(x86_syscall \<times> u64 list) list"

record host_stat =
  st_dev :: u64
  st_ino :: u64
  st_nlink :: u64
  st_mode :: u32
  st_uid :: u32
  st_gid :: u32
  st_rdev :: u64
  st_size :: u64
  st_blksize :: u64
  st_blocks :: u64
  st_atim_sec :: u64
  st_atim_nsec :: u64
  st_mtim_sec :: u64
  st_mtim_nsec :: u64
  st_ctim_sec :: u64
  st_ctim_nsec :: u64

record host_statfs =
  f_type :: u64
  f_bsize :: u64
  f_blocks :: u64
  f_bfree :: u64
  f_bavail :: u64
  f_files :: u64
  f_ffree :: u64
  f_fsid :: "u32 list"
  f_namelen :: u64
  f_frsize :: u64
  f_flags :: u64

subsection \<open>File status\<close>

record poly_linux_generic_stat =
  gs_dev :: u64
  gs_ino :: u64
  gs_mode :: u32
  gs_nlink :: u32
  gs_uid :: u32
  gs_gid :: u32
  gs_rdev :: u64
  gs_pad1 :: u64
  gs_size :: u64
  gs_blksize :: u32
  gs_pad2 :: u32
  gs_blocks :: u64
  gs_atime_sec :: u64
  gs_atime_nsec :: u64
  gs_mtime_sec :: u64
  gs_mtime_nsec :: u64
  gs_ctime_sec :: u64
  gs_ctime_nsec :: u64
  gs_unused4 :: u32
  gs_unused5 :: u32

definition generic_stat :: "host_stat \<Rightarrow> poly_linux_generic_stat" where
  "generic_stat source =
     \<lparr>gs_dev = st_dev source, gs_ino = st_ino source, gs_mode = st_mode source, gs_nlink = ucast (st_nlink source),
      gs_uid = st_uid source, gs_gid = st_gid source, gs_rdev = st_rdev source, gs_pad1 = 0,
      gs_size = st_size source, gs_blksize = ucast (st_blksize source), gs_pad2 = 0, gs_blocks = st_blocks source,
      gs_atime_sec = st_atim_sec source, gs_atime_nsec = st_atim_nsec source, gs_mtime_sec = st_mtim_sec source,
      gs_mtime_nsec = st_mtim_nsec source, gs_ctime_sec = st_ctim_sec source, gs_ctime_nsec = st_ctim_nsec source,
      gs_unused4 = 0, gs_unused5 = 0\<rparr>"

definition enc_generic_stat :: "poly_linux_generic_stat \<Rightarrow> u8 list" where
  "enc_generic_stat s =
     enc_u64 (gs_dev s) @ enc_u64 (gs_ino s) @ enc_u32 (gs_mode s) @ enc_u32 (gs_nlink s) @ enc_u32 (gs_uid s) @
     enc_u32 (gs_gid s) @ enc_u64 (gs_rdev s) @ enc_u64 (gs_pad1 s) @ enc_u64 (gs_size s) @ enc_u32 (gs_blksize s) @
     enc_u32 (gs_pad2 s) @ enc_u64 (gs_blocks s) @ enc_u64 (gs_atime_sec s) @ enc_u64 (gs_atime_nsec s) @
     enc_u64 (gs_mtime_sec s) @ enc_u64 (gs_mtime_nsec s) @ enc_u64 (gs_ctime_sec s) @ enc_u64 (gs_ctime_nsec s) @
     enc_u32 (gs_unused4 s) @ enc_u32 (gs_unused5 s)"

definition dec_generic_stat :: "poly_linux_generic_stat decoder" where
  "dec_generic_stat bs =
     (let (v0, bs) = dec_u64 bs; (v1, bs) = dec_u64 bs; (v2, bs) = dec_u32 bs; (v3, bs) = dec_u32 bs;
          (v4, bs) = dec_u32 bs; (v5, bs) = dec_u32 bs; (v6, bs) = dec_u64 bs; (v7, bs) = dec_u64 bs;
          (v8, bs) = dec_u64 bs; (v9, bs) = dec_u32 bs; (v10, bs) = dec_u32 bs; (v11, bs) = dec_u64 bs;
          (v12, bs) = dec_u64 bs; (v13, bs) = dec_u64 bs; (v14, bs) = dec_u64 bs; (v15, bs) = dec_u64 bs;
          (v16, bs) = dec_u64 bs; (v17, bs) = dec_u64 bs; (v18, bs) = dec_u32 bs; (v19, bs) = dec_u32 bs
      in (\<lparr>gs_dev = v0, gs_ino = v1, gs_mode = v2, gs_nlink = v3, gs_uid = v4, gs_gid = v5, gs_rdev = v6,
           gs_pad1 = v7, gs_size = v8, gs_blksize = v9, gs_pad2 = v10, gs_blocks = v11, gs_atime_sec = v12,
           gs_atime_nsec = v13, gs_mtime_sec = v14, gs_mtime_nsec = v15, gs_ctime_sec = v16, gs_ctime_nsec = v17,
           gs_unused4 = v18, gs_unused5 = v19\<rparr>, bs))"

definition poly_store_linux_generic_stat :: "u64 \<Rightarrow> host_stat \<Rightarrow> guest_memory \<Rightarrow> guest_memory" where
  "poly_store_linux_generic_stat destination source gm =
     guest_store gm destination (enc_generic_stat (generic_stat source))"

record poly_linux_generic_statfs =
  gf_type :: u64
  gf_bsize :: u64
  gf_blocks :: u64
  gf_bfree :: u64
  gf_bavail :: u64
  gf_files :: u64
  gf_ffree :: u64
  gf_fsid :: "u32 list"
  gf_namelen :: u64
  gf_frsize :: u64
  gf_flags :: u64
  gf_spare :: "u64 list"

definition generic_statfs :: "host_statfs \<Rightarrow> poly_linux_generic_statfs" where
  "generic_statfs source =
     \<lparr>gf_type = f_type source, gf_bsize = f_bsize source, gf_blocks = f_blocks source, gf_bfree = f_bfree source,
      gf_bavail = f_bavail source, gf_files = f_files source, gf_ffree = f_ffree source, gf_fsid = f_fsid source,
      gf_namelen = f_namelen source, gf_frsize = f_frsize source, gf_flags = f_flags source,
      gf_spare = replicate 4 0\<rparr>"

definition ok_generic_statfs :: "poly_linux_generic_statfs \<Rightarrow> bool" where
  "ok_generic_statfs s \<longleftrightarrow> length (gf_fsid s) = 2 \<and> length (gf_spare s) = 4"

definition enc_generic_statfs :: "poly_linux_generic_statfs \<Rightarrow> u8 list" where
  "enc_generic_statfs s =
     enc_u64 (gf_type s) @ enc_u64 (gf_bsize s) @ enc_u64 (gf_blocks s) @ enc_u64 (gf_bfree s) @
     enc_u64 (gf_bavail s) @ enc_u64 (gf_files s) @ enc_u64 (gf_ffree s) @ enc_array enc_u32 (gf_fsid s) @
     enc_u64 (gf_namelen s) @ enc_u64 (gf_frsize s) @ enc_u64 (gf_flags s) @ enc_array enc_u64 (gf_spare s)"

definition dec_generic_statfs :: "poly_linux_generic_statfs decoder" where
  "dec_generic_statfs bs =
     (let (v0, bs) = dec_u64 bs; (v1, bs) = dec_u64 bs; (v2, bs) = dec_u64 bs; (v3, bs) = dec_u64 bs;
          (v4, bs) = dec_u64 bs; (v5, bs) = dec_u64 bs; (v6, bs) = dec_u64 bs; (v7, bs) = dec_array dec_u32 2 bs;
          (v8, bs) = dec_u64 bs; (v9, bs) = dec_u64 bs; (v10, bs) = dec_u64 bs; (v11, bs) = dec_array dec_u64 4 bs
      in (\<lparr>gf_type = v0, gf_bsize = v1, gf_blocks = v2, gf_bfree = v3, gf_bavail = v4, gf_files = v5, gf_ffree = v6,
           gf_fsid = v7, gf_namelen = v8, gf_frsize = v9, gf_flags = v10, gf_spare = v11\<rparr>, bs))"

definition poly_store_linux_generic_statfs :: "u64 \<Rightarrow> host_statfs \<Rightarrow> guest_memory \<Rightarrow> guest_memory" where
  "poly_store_linux_generic_statfs destination source gm =
     guest_store gm destination (enc_generic_statfs (generic_statfs source))"

interpretation gstatc: codec enc_generic_stat dec_generic_stat "\<lambda>_. True" 128
  by unfold_locales (simp_all add: enc_generic_stat_def dec_generic_stat_def codec_simps)

interpretation gstatfsc: codec enc_generic_statfs dec_generic_statfs ok_generic_statfs 120
  by unfold_locales (simp_all add: enc_generic_statfs_def dec_generic_statfs_def ok_generic_statfs_def codec_simps)

subsection \<open>Strings of fixed size\<close>

definition poly_store_fixed_string :: "nat \<Rightarrow> u8 list \<Rightarrow> u8 list" where
  "poly_store_fixed_string capacity value =
     (if capacity = 0 then []
      else
        (let value_len = (if length value \<ge> capacity then capacity - 1 else length value)
         in take value_len value @ replicate (capacity - value_len) 0))"

subsection \<open>Epoll events\<close>

text \<open>The packed event of the host and the padded event of the guests.\<close>

record poly_x86_epoll_event =
  xe_events :: u32
  xe_data :: u64

record poly_linux_generic_epoll_event =
  ge_events :: u32
  ge_pad :: u32
  ge_data :: u64

definition enc_generic_epoll_event :: "poly_linux_generic_epoll_event \<Rightarrow> u8 list" where
  "enc_generic_epoll_event e = enc_u32 (ge_events e) @ enc_u32 (ge_pad e) @ enc_u64 (ge_data e)"

definition dec_generic_epoll_event :: "poly_linux_generic_epoll_event decoder" where
  "dec_generic_epoll_event bs =
     (let (v0, bs) = dec_u32 bs; (v1, bs) = dec_u32 bs; (v2, bs) = dec_u64 bs
      in (\<lparr>ge_events = v0, ge_pad = v1, ge_data = v2\<rparr>, bs))"

interpretation gepollc: codec enc_generic_epoll_event dec_generic_epoll_event "\<lambda>_. True" 16
  by unfold_locales (simp_all add: enc_generic_epoll_event_def dec_generic_epoll_event_def codec_simps)

definition poly_load_x86_epoll_event :: "guest_memory \<Rightarrow> u64 \<Rightarrow> poly_x86_epoll_event" where
  "poly_load_x86_epoll_event gm source =
     (let event = fst (dec_generic_epoll_event (guest_bytes gm source 16))
      in \<lparr>xe_events = ge_events event, xe_data = ge_data event\<rparr>)"

definition poly_store_linux_generic_epoll_event :: "u64 \<Rightarrow> poly_x86_epoll_event \<Rightarrow> guest_memory \<Rightarrow> guest_memory" where
  "poly_store_linux_generic_epoll_event destination source gm =
     guest_store gm destination (enc_generic_epoll_event
       \<lparr>ge_events = xe_events source, ge_pad = 0, ge_data = xe_data source\<rparr>)"

subsection \<open>The answers of the host\<close>

text \<open>
  \<open>host_call\<close> answers a call without a buffer in the monitor; the others answer the
  calls that fill one. \<open>host_malloc\<close> tells whether an allocation succeeds,
  \<open>host_mmap\<close> gives the error number or the address of an anonymous mapping and the
  memory with it, \<open>host_pread\<close> the error number or the bytes read, and
  \<open>host_O_LARGEFILE\<close> is the C library's constant, which differs between libraries.
\<close>

record host_os =
  host_call :: "host_log \<Rightarrow> x86_syscall \<Rightarrow> u64 list \<Rightarrow> guest_memory \<Rightarrow> u64 \<times> guest_memory"
  host_stat_call :: "host_log \<Rightarrow> x86_syscall \<Rightarrow> u64 list \<Rightarrow> guest_memory \<Rightarrow> u64 \<times> host_stat"
  host_statfs_call :: "host_log \<Rightarrow> x86_syscall \<Rightarrow> u64 list \<Rightarrow> guest_memory \<Rightarrow> u64 \<times> host_statfs"
  host_epoll_wait :: "host_log \<Rightarrow> x86_syscall \<Rightarrow> u64 list \<Rightarrow> guest_memory \<Rightarrow> u64 \<times> poly_x86_epoll_event list"
  host_epoll_ctl :: "host_log \<Rightarrow> u64 list \<Rightarrow> poly_x86_epoll_event option \<Rightarrow> u64"
  host_getdents :: "host_log \<Rightarrow> u64 list \<Rightarrow> u64 \<times> u8 list"
  host_openat2 :: "host_log \<Rightarrow> u64 list \<Rightarrow> u8 list \<Rightarrow> guest_memory \<Rightarrow> u64"
  host_shm_size :: "host_log \<Rightarrow> u64 \<Rightarrow> u64 option"
  host_malloc :: "host_log \<Rightarrow> u64 \<Rightarrow> bool"
  host_mmap :: "host_log \<Rightarrow> u64 list \<Rightarrow> guest_memory \<Rightarrow> u64 + u64 \<times> guest_memory"
  host_pread :: "host_log \<Rightarrow> u64 \<Rightarrow> u64 \<Rightarrow> u64 \<Rightarrow> u64 + u8 list"
  host_O_LARGEFILE :: u64

text \<open>The part of the monitor's state that the structured calls change.\<close>

record linux_state =
  ls_memory :: guest_memory
  ls_log :: host_log
  process_brk_mapping :: "u64 option"
  process_brk_mapping_size :: u64
  process_brk_current :: u64
  poly_tiocgwinsz_stdin_enotty_cached :: bool
  poly_tiocgwinsz_stdin_cache_hits :: u64
  poly_tiocgwinsz_stdin_cache_misses :: u64

definition log_call :: "x86_syscall \<Rightarrow> u64 list \<Rightarrow> linux_state \<Rightarrow> linux_state" where
  "log_call name args s = s\<lparr>ls_log := ls_log s @ [(name, args)]\<rparr>"

definition poly_x86_syscall6 :: "host_os \<Rightarrow> x86_syscall \<Rightarrow> u64 list \<Rightarrow> linux_state \<Rightarrow> linux_state \<times> u64" where
  "poly_x86_syscall6 os name args s =
     (let (status, gm) = host_call os (ls_log s) name args (ls_memory s)
      in (log_call name args (s\<lparr>ls_memory := gm\<rparr>), status))"

subsection \<open>Waiting for events\<close>

definition store_epoll_events :: "u64 \<Rightarrow> poly_x86_epoll_event list \<Rightarrow> nat \<Rightarrow> guest_memory \<Rightarrow> guest_memory" where
  "store_epoll_events events x86_events count gm =
     fold (\<lambda>i gm. poly_store_linux_generic_epoll_event (events + of_nat i * 16) (x86_events ! i) gm) [0..<count] gm"

definition poly_dispatch_epoll_wait_events ::
    "host_os \<Rightarrow> x86_syscall \<Rightarrow> u64 \<Rightarrow> u64 \<Rightarrow> u64 \<Rightarrow> u64 \<Rightarrow> u64 \<Rightarrow> u64 \<Rightarrow> linux_state \<Rightarrow> linux_state \<times> u64" where
  "poly_dispatch_epoll_wait_events os name epoll_fd events maxevents timeout sigmask sigsetsize s =
     (if maxevents = 0 then (s, - EINVAL)
      else if events = 0 then (s, - EFAULT)
      else if maxevents > - 1 div 12 then (s, - EINVAL)
      else if \<not> host_malloc os (ls_log s) (maxevents * 12) then (s, - ENOMEM)
      else
        (let args = [epoll_fd, maxevents, timeout, sigmask, sigsetsize];
             (status, x86_events) = host_epoll_wait os (ls_log s) name args (ls_memory s);
             s = log_call name args s
         in if 0 <s status
            then (s\<lparr>ls_memory := store_epoll_events events x86_events (unat status) (ls_memory s)\<rparr>, status)
            else (s, status)))"

subsection \<open>The RISC-V hardware probe\<close>

definition poly_riscv_hwprobe_value :: "u64 \<Rightarrow> u64 option" where
  "poly_riscv_hwprobe_value key =
     (if key = 0 \<or> key = 1 \<or> key = 2 then Some 0
      else if key = 3 then Some 1
      else if key = 4 then Some (1 OR 2 OR 8 OR 16 OR 32 OR 0x800000000 OR 0x4000000000000)
      else if key = 5 \<or> key = 6 \<or> key = 7 \<or> key = 8 \<or> key = 9 \<or> key = 10 \<or> key = 11 \<or> key = 12 \<or> key = 13
      then Some 0 else None)"

text \<open>One turn of the loop over the pairs of a key and a value.\<close>

definition probe_pair :: "u64 \<Rightarrow> guest_memory \<Rightarrow> guest_memory" where
  "probe_pair pair gm =
     (case poly_riscv_hwprobe_value (read_u64_le (guest_bytes gm pair 8)) of
        None \<Rightarrow> guest_store (guest_store gm pair (enc_u64 (- 1))) (pair + 8) (enc_u64 0)
      | Some v \<Rightarrow> guest_store gm (pair + 8) (enc_u64 v))"

definition poly_dispatch_riscv_hwprobe ::
    "u64 \<Rightarrow> u64 \<Rightarrow> u64 \<Rightarrow> u64 \<Rightarrow> u64 \<Rightarrow> guest_memory \<Rightarrow> guest_memory \<times> u64" where
  "poly_dispatch_riscv_hwprobe pairs_address pair_count cpu_count cpus flags gm =
     (if flags \<noteq> 0 \<or> cpu_count \<noteq> 0 \<or> cpus \<noteq> 0 then (gm, - EINVAL)
      else if pair_count \<noteq> 0 \<and> pairs_address = 0 then (gm, - EFAULT)
      else if pair_count > 4096 then (gm, - EINVAL)
      else (fold (\<lambda>n gm. probe_pair (pairs_address + of_nat n * 16) gm) [0..<unat pair_count] gm, 0))"

subsection \<open>The program break\<close>

abbreviation (input) brk_arena_size :: u64 where "brk_arena_size \<equiv> 1048576"

definition zero_bytes :: "u64 \<Rightarrow> u8 list" where
  "zero_bytes n = replicate (unat n) 0"

definition reset_process_brk_arena :: "linux_state \<Rightarrow> linux_state" where
  "reset_process_brk_arena s =
     (case process_brk_mapping s of
        None \<Rightarrow> s
      | Some base \<Rightarrow> log_call ''munmap'' [base, process_brk_mapping_size s] s)
        \<lparr>process_brk_mapping := None, process_brk_mapping_size := 0, process_brk_current := 0\<rparr>"

definition set_process_break :: "u64 \<Rightarrow> u64 \<Rightarrow> linux_state \<Rightarrow> linux_state \<times> u64" where
  "set_process_break base requested_break s =
     (if requested_break = 0 then (s, process_brk_current s)
      else if requested_break < base \<or> requested_break > base + process_brk_mapping_size s
      then (s, process_brk_current s)
      else (s\<lparr>process_brk_current := requested_break\<rparr>, requested_break))"

definition poly_dispatch_process_brk :: "host_os \<Rightarrow> u64 \<Rightarrow> linux_state \<Rightarrow> linux_state \<times> u64" where
  "poly_dispatch_process_brk os requested_break s =
     (case process_brk_mapping s of
        Some base \<Rightarrow> set_process_break base requested_break s
      | None \<Rightarrow>
          (let args = [0, brk_arena_size, 3, 0x22, - 1, 0];
               mapping = host_mmap os (ls_log s) args (ls_memory s);
               s = log_call ''mmap'' args s
           in case mapping of
                Inl e \<Rightarrow> (s, 0)
              | Inr (base, gm) \<Rightarrow>
                  set_process_break base requested_break
                    (s\<lparr>process_brk_mapping := Some base, process_brk_mapping_size := brk_arena_size,
                       ls_memory := guest_store gm base (zero_bytes brk_arena_size),
                       process_brk_current := base\<rparr>)))"

subsection \<open>Open flags\<close>

definition poly_open_target_is_directory :: "host_os \<Rightarrow> u64 \<Rightarrow> u64 \<Rightarrow> linux_state \<Rightarrow> linux_state \<times> bool" where
  "poly_open_target_is_directory os dirfd path s =
     (if path = 0 then (s, False)
      else
        (let args = [dirfd, path, 0x100];
             (status, st) = host_stat_call os (ls_log s) ''newfstatat'' args (ls_memory s)
         in (log_call ''newfstatat'' args s, status = 0 \<and> st_mode st AND 0xf000 = 0x4000)))"

abbreviation (input) aarch64_open_mask :: u64 where "aarch64_open_mask \<equiv> 0x7fd000"

definition set_open_flag :: "u64 \<Rightarrow> u64 \<Rightarrow> u64 \<Rightarrow> u64 \<Rightarrow> u64" where
  "set_open_flag flags guest host translated = (if flags AND guest \<noteq> 0 then translated OR host else translated)"

definition poly_translate_open_flags ::
    "host_os \<Rightarrow> u64 \<Rightarrow> u64 \<Rightarrow> u64 \<Rightarrow> u64 \<Rightarrow> linux_state \<Rightarrow> linux_state \<times> u64" where
  "poly_translate_open_flags os flags mode dirfd path s =
     (if mode \<noteq> POLY_MODE_RAW_AARCH64 then (s, flags)
      else
        (let translated = flags AND NOT aarch64_open_mask;
             translated = set_open_flag flags 0x1000 0x1000 translated;
             translated = set_open_flag flags 0x4000 0x10000 translated;
             (s, is_directory) = (if flags AND 0x10000 \<noteq> 0 then poly_open_target_is_directory os dirfd path s
                                  else (s, False));
             translated = set_open_flag flags 0x10000 (if is_directory then 0x10000 else 0x4000) translated;
             translated = set_open_flag flags 0x20000 (host_O_LARGEFILE os) translated;
             translated = set_open_flag flags 0x8000 0x20000 translated;
             translated = set_open_flag flags 0x40000 0x40000 translated;
             translated = set_open_flag flags 0x80000 0x80000 translated;
             translated = set_open_flag flags 0x100000 0x101000 translated;
             translated = set_open_flag flags 0x200000 0x200000 translated;
             translated = set_open_flag flags 0x400000 0x410000 translated
         in (s, translated)))"

subsection \<open>Private executable mappings of files\<close>

text \<open>
  The loop that copies a file into an anonymous mapping. It retries reads that a
  signal interrupted, and \<open>None\<close> is a loop that never ends; otherwise the result
  has the error number, if any.
\<close>

partial_function (option) copy_mapped_file ::
    "host_os \<Rightarrow> u64 \<Rightarrow> u64 \<Rightarrow> u64 \<Rightarrow> u64 \<Rightarrow> u64 \<Rightarrow> linux_state \<Rightarrow> (linux_state \<times> u64 option) option" where
  "copy_mapped_file os fd dest offset available copied s =
     (if copied < available then
        (let args = [fd, available - copied, offset + copied];
             got = host_pread os (ls_log s) fd (available - copied) (offset + copied);
             s = log_call ''pread64'' args s
         in case got of
              Inl e \<Rightarrow> if e = EINTR then copy_mapped_file os fd dest offset available copied s else Some (s, Some e)
            | Inr bytes \<Rightarrow>
                if bytes = [] then Some (s, None)
                else copy_mapped_file os fd dest offset available (copied + of_nat (length bytes))
                       (s\<lparr>ls_memory := guest_store (ls_memory s) (dest + copied) bytes\<rparr>))
      else Some (s, None))"

definition poly_dispatch_private_exec_file_mmap ::
    "host_os \<Rightarrow> u64 \<Rightarrow> u64 \<Rightarrow> u64 \<Rightarrow> u64 \<Rightarrow> u64 \<Rightarrow> u64 \<Rightarrow> linux_state \<Rightarrow> (linux_state \<times> u64) option" where
  "poly_dispatch_private_exec_file_mmap os address length_arg prot flags fd_arg offset_arg s =
     (if length_arg = 0 \<or> offset_arg > 0x7fffffffffffffff then Some (s, - EINVAL)
      else
        (let fd = ucast (ucast fd_arg :: u32);
             (status, st) = host_stat_call os (ls_log s) ''fstat'' [fd] (ls_memory s);
             s = log_call ''fstat'' [fd] s
         in if status \<noteq> 0 then Some (s, status)
            else if st_size st <s 0 then Some (s, - EINVAL)
            else
              (let mmap_flags = 0x22 OR (if flags AND 0x10 \<noteq> 0 then 0x10 else 0) OR
                     (if flags AND 0x100000 \<noteq> 0 then 0x100000 else 0);
                   args = [address, length_arg, 3 OR (prot AND 4), mmap_flags, - 1, 0];
                   mapping = host_mmap os (ls_log s) args (ls_memory s);
                   s = log_call ''mmap'' args s
               in case mapping of
                    Inl e \<Rightarrow> Some (s, - e)
                  | Inr (base, gm) \<Rightarrow>
                      (let available = (if offset_arg < st_size st then min (st_size st - offset_arg) length_arg else 0)
                       in case copy_mapped_file os fd base offset_arg available 0 (s\<lparr>ls_memory := gm\<rparr>) of
                            None \<Rightarrow> None
                          | Some (s, Some e) \<Rightarrow>
                              Some (fst (poly_x86_syscall6 os ''munmap'' [base, length_arg] s), - e)
                          | Some (s, None) \<Rightarrow>
                              (let (s, status) = poly_x86_syscall6 os ''mprotect'' [base, length_arg, prot] s
                               in if status \<noteq> 0
                                  then Some (fst (poly_x86_syscall6 os ''munmap'' [base, length_arg] s), status)
                                  else Some (s, base))))))"

end
