(* ===== verification/Signal_Frame.thy ===== *)
theory Signal_Frame
  imports Byte_Codec Xsave_Import
begin

text \<open>
  The signal frames that \<open>tools/runtime/polyexec.c\<close> writes to a guest stack, and the
  object representation of every structure in them. A structure has an encoder,
  a decoder and the lengths of its arrays, and the three satisfy the codec
  contract; the host layout has no padding between the members.
\<close>

subsection \<open>Structures saved in a frame\<close>

definition ok_u128 :: "poly_u128 \<Rightarrow> bool" where
  "ok_u128 s \<longleftrightarrow> True"

definition enc_u128 :: "poly_u128 \<Rightarrow> u8 list" where
  "enc_u128 s =
     enc_u64 (u128_lo s) @
     enc_u64 (u128_hi s)"

definition dec_u128 :: "poly_u128 decoder" where
  "dec_u128 bs =
     (let (v0, bs) = dec_u64 bs;
        (v1, bs) = dec_u64 bs
      in (\<lparr>u128_lo = v0, u128_hi = v1\<rparr>, bs))"

definition ok_event_record :: "poly_event_record \<Rightarrow> bool" where
  "ok_event_record s \<longleftrightarrow> length (er_reserved s) = 2"

definition enc_event_record :: "poly_event_record \<Rightarrow> u8 list" where
  "enc_event_record s =
     enc_u32 (er_reason s) @
     enc_u32 (er_source_mode s) @
     enc_u64 (er_number s) @
     enc_u64 (er_selector s) @
     enc_u64 (er_trap_pc s) @
     enc_u64 (er_resume_pc s) @
     enc_u64 (er_flags s) @
     enc_array enc_u64 (er_reserved s)"

definition dec_event_record :: "poly_event_record decoder" where
  "dec_event_record bs =
     (let (v0, bs) = dec_u32 bs;
        (v1, bs) = dec_u32 bs;
        (v2, bs) = dec_u64 bs;
        (v3, bs) = dec_u64 bs;
        (v4, bs) = dec_u64 bs;
        (v5, bs) = dec_u64 bs;
        (v6, bs) = dec_u64 bs;
        (v7, bs) = dec_array dec_u64 2 bs
      in (\<lparr>er_reason = v0, er_source_mode = v1, er_number = v2, er_selector = v3, er_trap_pc = v4, er_resume_pc = v5, er_flags = v6, er_reserved = v7\<rparr>, bs))"

definition ok_native_return_frame :: "poly_native_return_frame \<Rightarrow> bool" where
  "ok_native_return_frame s \<longleftrightarrow> length (nrf_reserved s) = 4"

definition enc_native_return_frame :: "poly_native_return_frame \<Rightarrow> u8 list" where
  "enc_native_return_frame s =
     enc_u64 (nrf_return_pc s) @
     enc_u64 (nrf_return_sp s) @
     enc_u64 (nrf_sret_ptr s) @
     enc_u32 (nrf_target_mode s) @
     enc_u16 (nrf_return_kind s) @
     enc_u16 (nrf_flags s) @
     enc_array enc_u64 (nrf_reserved s)"

definition dec_native_return_frame :: "poly_native_return_frame decoder" where
  "dec_native_return_frame bs =
     (let (v0, bs) = dec_u64 bs;
        (v1, bs) = dec_u64 bs;
        (v2, bs) = dec_u64 bs;
        (v3, bs) = dec_u32 bs;
        (v4, bs) = dec_u16 bs;
        (v5, bs) = dec_u16 bs;
        (v6, bs) = dec_array dec_u64 4 bs
      in (\<lparr>nrf_return_pc = v0, nrf_return_sp = v1, nrf_sret_ptr = v2, nrf_target_mode = v3, nrf_return_kind = v4, nrf_flags = v5, nrf_reserved = v6\<rparr>, bs))"

definition ok_native_return_state :: "poly_native_return_state \<Rightarrow> bool" where
  "ok_native_return_state s \<longleftrightarrow> ok_native_return_frame (nr_active s) \<and>
     length (nr_frames s) = 8 \<and>
     list_all ok_native_return_frame (nr_frames s) \<and>
     length (nr_reserved s) = 32"

definition enc_native_return_state :: "poly_native_return_state \<Rightarrow> u8 list" where
  "enc_native_return_state s =
     enc_u64 (nr_active_valid s) @
     enc_u64 (nr_top s) @
     enc_u64 (nr_depth s) @
     enc_u64 (nr_supported_flags s) @
     enc_native_return_frame (nr_active s) @
     enc_array enc_native_return_frame (nr_frames s) @
     enc_array enc_u8 (nr_reserved s)"

definition dec_native_return_state :: "poly_native_return_state decoder" where
  "dec_native_return_state bs =
     (let (v0, bs) = dec_u64 bs;
        (v1, bs) = dec_u64 bs;
        (v2, bs) = dec_u64 bs;
        (v3, bs) = dec_u64 bs;
        (v4, bs) = dec_native_return_frame bs;
        (v5, bs) = dec_array dec_native_return_frame 8 bs;
        (v6, bs) = dec_array dec_u8 32 bs
      in (\<lparr>nr_active_valid = v0, nr_top = v1, nr_depth = v2, nr_supported_flags = v3, nr_active = v4, nr_frames = v5, nr_reserved = v6\<rparr>, bs))"

definition ok_trap_restore_state :: "poly_trap_restore_state \<Rightarrow> bool" where
  "ok_trap_restore_state s \<longleftrightarrow> length (tr_x86_gpr s) = 16 \<and>
     length (tr_x86_xmm s) = 16 \<and>
     list_all ok_u128 (tr_x86_xmm s) \<and>
     length (tr_aarch64_gpr s) = 32 \<and>
     length (tr_aarch64_fp s) = 32 \<and>
     list_all ok_u128 (tr_aarch64_fp s) \<and>
     length (tr_riscv_gpr s) = 32 \<and>
     length (tr_riscv_fp s) = 32 \<and>
     list_all ok_u128 (tr_riscv_fp s) \<and>
     length (tr_riscv_reserved s) = 3 \<and>
     length (tr_reserved s) = 32"

definition enc_trap_restore_state :: "poly_trap_restore_state \<Rightarrow> u8 list" where
  "enc_trap_restore_state s =
     enc_u64 (tr_flags s) @
     enc_u32 (tr_mode s) @
     enc_u32 (tr_reserved0 s) @
     enc_array enc_u64 (tr_x86_gpr s) @
     enc_array enc_u128 (tr_x86_xmm s) @
     enc_u64 (tr_aarch64_gpr_valid_mask s) @
     enc_array enc_u64 (tr_aarch64_gpr s) @
     enc_array enc_u128 (tr_aarch64_fp s) @
     enc_u64 (tr_aarch64_nzcv s) @
     enc_u64 (tr_aarch64_fpcr s) @
     enc_u64 (tr_aarch64_fpsr s) @
     enc_u64 (tr_aarch64_reserved s) @
     enc_u64 (tr_riscv_gpr_valid_mask s) @
     enc_array enc_u64 (tr_riscv_gpr s) @
     enc_array enc_u128 (tr_riscv_fp s) @
     enc_u64 (tr_riscv_fcsr s) @
     enc_array enc_u64 (tr_riscv_reserved s) @
     enc_array enc_u8 (tr_reserved s)"

definition dec_trap_restore_state :: "poly_trap_restore_state decoder" where
  "dec_trap_restore_state bs =
     (let (v0, bs) = dec_u64 bs;
        (v1, bs) = dec_u32 bs;
        (v2, bs) = dec_u32 bs;
        (v3, bs) = dec_array dec_u64 16 bs;
        (v4, bs) = dec_array dec_u128 16 bs;
        (v5, bs) = dec_u64 bs;
        (v6, bs) = dec_array dec_u64 32 bs;
        (v7, bs) = dec_array dec_u128 32 bs;
        (v8, bs) = dec_u64 bs;
        (v9, bs) = dec_u64 bs;
        (v10, bs) = dec_u64 bs;
        (v11, bs) = dec_u64 bs;
        (v12, bs) = dec_u64 bs;
        (v13, bs) = dec_array dec_u64 32 bs;
        (v14, bs) = dec_array dec_u128 32 bs;
        (v15, bs) = dec_u64 bs;
        (v16, bs) = dec_array dec_u64 3 bs;
        (v17, bs) = dec_array dec_u8 32 bs
      in (\<lparr>tr_flags = v0, tr_mode = v1, tr_reserved0 = v2, tr_x86_gpr = v3, tr_x86_xmm = v4, tr_aarch64_gpr_valid_mask = v5, tr_aarch64_gpr = v6, tr_aarch64_fp = v7, tr_aarch64_nzcv = v8, tr_aarch64_fpcr = v9, tr_aarch64_fpsr = v10, tr_aarch64_reserved = v11, tr_riscv_gpr_valid_mask = v12, tr_riscv_gpr = v13, tr_riscv_fp = v14, tr_riscv_fcsr = v15, tr_riscv_reserved = v16, tr_reserved = v17\<rparr>, bs))"

subsection \<open>Signal information and contexts\<close>

text \<open>\<open>poly_aarch64_siginfo\<close> and \<open>poly_riscv_siginfo\<close> have the same members.\<close>

record poly_siginfo =
  sgi_signo :: u32
  sgi_errno :: u32
  sgi_code :: u32
  sgi_reserved0 :: u32
  sgi_fault_addr :: u64
  sgi_reserved :: "u8 list"

definition ok_siginfo :: "poly_siginfo \<Rightarrow> bool" where
  "ok_siginfo s \<longleftrightarrow> length (sgi_reserved s) = 104"

definition enc_siginfo :: "poly_siginfo \<Rightarrow> u8 list" where
  "enc_siginfo s =
     enc_u32 (sgi_signo s) @
     enc_u32 (sgi_errno s) @
     enc_u32 (sgi_code s) @
     enc_u32 (sgi_reserved0 s) @
     enc_u64 (sgi_fault_addr s) @
     enc_array enc_u8 (sgi_reserved s)"

definition dec_siginfo :: "poly_siginfo decoder" where
  "dec_siginfo bs =
     (let (v0, bs) = dec_u32 bs;
        (v1, bs) = dec_u32 bs;
        (v2, bs) = dec_u32 bs;
        (v3, bs) = dec_u32 bs;
        (v4, bs) = dec_u64 bs;
        (v5, bs) = dec_array dec_u8 104 bs
      in (\<lparr>sgi_signo = v0, sgi_errno = v1, sgi_code = v2, sgi_reserved0 = v3, sgi_fault_addr = v4, sgi_reserved = v5\<rparr>, bs))"

record poly_aarch64_sigcontext =
  a64c_fault_address :: u64
  a64c_regs :: "u64 list"
  a64c_sp :: u64
  a64c_pc :: u64
  a64c_pstate :: u64
  a64c_reserved_align :: u64
  a64c_reserved :: "u8 list"

definition ok_aarch64_sigcontext :: "poly_aarch64_sigcontext \<Rightarrow> bool" where
  "ok_aarch64_sigcontext s \<longleftrightarrow> length (a64c_regs s) = 31 \<and>
     length (a64c_reserved s) = 4096"

definition enc_aarch64_sigcontext :: "poly_aarch64_sigcontext \<Rightarrow> u8 list" where
  "enc_aarch64_sigcontext s =
     enc_u64 (a64c_fault_address s) @
     enc_array enc_u64 (a64c_regs s) @
     enc_u64 (a64c_sp s) @
     enc_u64 (a64c_pc s) @
     enc_u64 (a64c_pstate s) @
     enc_u64 (a64c_reserved_align s) @
     enc_array enc_u8 (a64c_reserved s)"

definition dec_aarch64_sigcontext :: "poly_aarch64_sigcontext decoder" where
  "dec_aarch64_sigcontext bs =
     (let (v0, bs) = dec_u64 bs;
        (v1, bs) = dec_array dec_u64 31 bs;
        (v2, bs) = dec_u64 bs;
        (v3, bs) = dec_u64 bs;
        (v4, bs) = dec_u64 bs;
        (v5, bs) = dec_u64 bs;
        (v6, bs) = dec_array dec_u8 4096 bs
      in (\<lparr>a64c_fault_address = v0, a64c_regs = v1, a64c_sp = v2, a64c_pc = v3, a64c_pstate = v4, a64c_reserved_align = v5, a64c_reserved = v6\<rparr>, bs))"

record poly_aarch64_ucontext =
  a64u_uc_flags :: u64
  a64u_uc_link :: u64
  a64u_stack_sp :: u64
  a64u_stack_flags :: u32
  a64u_stack_pad :: u32
  a64u_stack_size :: u64
  a64u_sigmask :: u64
  a64u_pad :: "u8 list"
  a64u_pad2 :: "u8 list"
  a64u_mcontext :: poly_aarch64_sigcontext

definition ok_aarch64_ucontext :: "poly_aarch64_ucontext \<Rightarrow> bool" where
  "ok_aarch64_ucontext s \<longleftrightarrow> length (a64u_pad s) = 120 \<and>
     length (a64u_pad2 s) = 8 \<and>
     ok_aarch64_sigcontext (a64u_mcontext s)"

definition enc_aarch64_ucontext :: "poly_aarch64_ucontext \<Rightarrow> u8 list" where
  "enc_aarch64_ucontext s =
     enc_u64 (a64u_uc_flags s) @
     enc_u64 (a64u_uc_link s) @
     enc_u64 (a64u_stack_sp s) @
     enc_u32 (a64u_stack_flags s) @
     enc_u32 (a64u_stack_pad s) @
     enc_u64 (a64u_stack_size s) @
     enc_u64 (a64u_sigmask s) @
     enc_array enc_u8 (a64u_pad s) @
     enc_array enc_u8 (a64u_pad2 s) @
     enc_aarch64_sigcontext (a64u_mcontext s)"

definition dec_aarch64_ucontext :: "poly_aarch64_ucontext decoder" where
  "dec_aarch64_ucontext bs =
     (let (v0, bs) = dec_u64 bs;
        (v1, bs) = dec_u64 bs;
        (v2, bs) = dec_u64 bs;
        (v3, bs) = dec_u32 bs;
        (v4, bs) = dec_u32 bs;
        (v5, bs) = dec_u64 bs;
        (v6, bs) = dec_u64 bs;
        (v7, bs) = dec_array dec_u8 120 bs;
        (v8, bs) = dec_array dec_u8 8 bs;
        (v9, bs) = dec_aarch64_sigcontext bs
      in (\<lparr>a64u_uc_flags = v0, a64u_uc_link = v1, a64u_stack_sp = v2, a64u_stack_flags = v3, a64u_stack_pad = v4, a64u_stack_size = v5, a64u_sigmask = v6, a64u_pad = v7, a64u_pad2 = v8, a64u_mcontext = v9\<rparr>, bs))"

record poly_riscv_sigcontext =
  rvc_pc :: u64
  rvc_regs :: "u64 list"
  rvc_fcsr :: u64
  rvc_reserved :: "u8 list"

definition ok_riscv_sigcontext :: "poly_riscv_sigcontext \<Rightarrow> bool" where
  "ok_riscv_sigcontext s \<longleftrightarrow> length (rvc_regs s) = 32 \<and>
     length (rvc_reserved s) = 512"

definition enc_riscv_sigcontext :: "poly_riscv_sigcontext \<Rightarrow> u8 list" where
  "enc_riscv_sigcontext s =
     enc_u64 (rvc_pc s) @
     enc_array enc_u64 (rvc_regs s) @
     enc_u64 (rvc_fcsr s) @
     enc_array enc_u8 (rvc_reserved s)"

definition dec_riscv_sigcontext :: "poly_riscv_sigcontext decoder" where
  "dec_riscv_sigcontext bs =
     (let (v0, bs) = dec_u64 bs;
        (v1, bs) = dec_array dec_u64 32 bs;
        (v2, bs) = dec_u64 bs;
        (v3, bs) = dec_array dec_u8 512 bs
      in (\<lparr>rvc_pc = v0, rvc_regs = v1, rvc_fcsr = v2, rvc_reserved = v3\<rparr>, bs))"

record poly_riscv_ucontext =
  rvu_uc_flags :: u64
  rvu_uc_link :: u64
  rvu_stack_sp :: u64
  rvu_stack_flags :: u32
  rvu_stack_pad :: u32
  rvu_stack_size :: u64
  rvu_sigmask :: u64
  rvu_reserved :: "u8 list"
  rvu_mcontext :: poly_riscv_sigcontext

definition ok_riscv_ucontext :: "poly_riscv_ucontext \<Rightarrow> bool" where
  "ok_riscv_ucontext s \<longleftrightarrow> length (rvu_reserved s) = 128 \<and>
     ok_riscv_sigcontext (rvu_mcontext s)"

definition enc_riscv_ucontext :: "poly_riscv_ucontext \<Rightarrow> u8 list" where
  "enc_riscv_ucontext s =
     enc_u64 (rvu_uc_flags s) @
     enc_u64 (rvu_uc_link s) @
     enc_u64 (rvu_stack_sp s) @
     enc_u32 (rvu_stack_flags s) @
     enc_u32 (rvu_stack_pad s) @
     enc_u64 (rvu_stack_size s) @
     enc_u64 (rvu_sigmask s) @
     enc_array enc_u8 (rvu_reserved s) @
     enc_riscv_sigcontext (rvu_mcontext s)"

definition dec_riscv_ucontext :: "poly_riscv_ucontext decoder" where
  "dec_riscv_ucontext bs =
     (let (v0, bs) = dec_u64 bs;
        (v1, bs) = dec_u64 bs;
        (v2, bs) = dec_u64 bs;
        (v3, bs) = dec_u32 bs;
        (v4, bs) = dec_u32 bs;
        (v5, bs) = dec_u64 bs;
        (v6, bs) = dec_u64 bs;
        (v7, bs) = dec_array dec_u8 128 bs;
        (v8, bs) = dec_riscv_sigcontext bs
      in (\<lparr>rvu_uc_flags = v0, rvu_uc_link = v1, rvu_stack_sp = v2, rvu_stack_flags = v3, rvu_stack_pad = v4, rvu_stack_size = v5, rvu_sigmask = v6, rvu_reserved = v7, rvu_mcontext = v8\<rparr>, bs))"

subsection \<open>The frames\<close>

record poly_aarch64_virtual_signal_frame =
  a64f_magic :: u64
  a64f_size :: u64
  a64f_signum :: u64
  a64f_handler_args :: "u64 list"
  a64f_siginfo :: poly_siginfo
  a64f_ucontext :: poly_aarch64_ucontext
  a64f_saved_event_record :: poly_event_record
  a64f_saved_event_args :: "u64 list"
  a64f_saved_trap_restore :: poly_trap_restore_state
  a64f_saved_native_return :: poly_native_return_state
  a64f_gpr :: "u64 list"
  a64f_fp :: "poly_u128 list"
  a64f_nzcv :: u64
  a64f_fpcr :: u64
  a64f_fpsr :: u64
  a64f_guest_sigmask :: u64
  a64f_interrupted_pc :: u64

definition ok_aarch64_virtual_signal_frame :: "poly_aarch64_virtual_signal_frame \<Rightarrow> bool" where
  "ok_aarch64_virtual_signal_frame s \<longleftrightarrow> length (a64f_handler_args s) = 4 \<and>
     ok_siginfo (a64f_siginfo s) \<and>
     ok_aarch64_ucontext (a64f_ucontext s) \<and>
     ok_event_record (a64f_saved_event_record s) \<and>
     length (a64f_saved_event_args s) = 8 \<and>
     ok_trap_restore_state (a64f_saved_trap_restore s) \<and>
     ok_native_return_state (a64f_saved_native_return s) \<and>
     length (a64f_gpr s) = 32 \<and>
     length (a64f_fp s) = 32 \<and>
     list_all ok_u128 (a64f_fp s)"

definition enc_aarch64_virtual_signal_frame :: "poly_aarch64_virtual_signal_frame \<Rightarrow> u8 list" where
  "enc_aarch64_virtual_signal_frame s =
     enc_u64 (a64f_magic s) @
     enc_u64 (a64f_size s) @
     enc_u64 (a64f_signum s) @
     enc_array enc_u64 (a64f_handler_args s) @
     enc_siginfo (a64f_siginfo s) @
     enc_aarch64_ucontext (a64f_ucontext s) @
     enc_event_record (a64f_saved_event_record s) @
     enc_array enc_u64 (a64f_saved_event_args s) @
     enc_trap_restore_state (a64f_saved_trap_restore s) @
     enc_native_return_state (a64f_saved_native_return s) @
     enc_array enc_u64 (a64f_gpr s) @
     enc_array enc_u128 (a64f_fp s) @
     enc_u64 (a64f_nzcv s) @
     enc_u64 (a64f_fpcr s) @
     enc_u64 (a64f_fpsr s) @
     enc_u64 (a64f_guest_sigmask s) @
     enc_u64 (a64f_interrupted_pc s)"

definition dec_aarch64_virtual_signal_frame :: "poly_aarch64_virtual_signal_frame decoder" where
  "dec_aarch64_virtual_signal_frame bs =
     (let (v0, bs) = dec_u64 bs;
        (v1, bs) = dec_u64 bs;
        (v2, bs) = dec_u64 bs;
        (v3, bs) = dec_array dec_u64 4 bs;
        (v4, bs) = dec_siginfo bs;
        (v5, bs) = dec_aarch64_ucontext bs;
        (v6, bs) = dec_event_record bs;
        (v7, bs) = dec_array dec_u64 8 bs;
        (v8, bs) = dec_trap_restore_state bs;
        (v9, bs) = dec_native_return_state bs;
        (v10, bs) = dec_array dec_u64 32 bs;
        (v11, bs) = dec_array dec_u128 32 bs;
        (v12, bs) = dec_u64 bs;
        (v13, bs) = dec_u64 bs;
        (v14, bs) = dec_u64 bs;
        (v15, bs) = dec_u64 bs;
        (v16, bs) = dec_u64 bs
      in (\<lparr>a64f_magic = v0, a64f_size = v1, a64f_signum = v2, a64f_handler_args = v3, a64f_siginfo = v4, a64f_ucontext = v5, a64f_saved_event_record = v6, a64f_saved_event_args = v7, a64f_saved_trap_restore = v8, a64f_saved_native_return = v9, a64f_gpr = v10, a64f_fp = v11, a64f_nzcv = v12, a64f_fpcr = v13, a64f_fpsr = v14, a64f_guest_sigmask = v15, a64f_interrupted_pc = v16\<rparr>, bs))"

record poly_riscv_virtual_signal_frame =
  rvf_magic :: u64
  rvf_size :: u64
  rvf_signum :: u64
  rvf_handler_args :: "u64 list"
  rvf_siginfo :: poly_siginfo
  rvf_ucontext :: poly_riscv_ucontext
  rvf_saved_event_record :: poly_event_record
  rvf_saved_event_args :: "u64 list"
  rvf_saved_trap_restore :: poly_trap_restore_state
  rvf_saved_native_return :: poly_native_return_state
  rvf_gpr :: "u64 list"
  rvf_fp :: "poly_u128 list"
  rvf_fcsr :: u64
  rvf_guest_sigmask :: u64
  rvf_interrupted_pc :: u64

definition ok_riscv_virtual_signal_frame :: "poly_riscv_virtual_signal_frame \<Rightarrow> bool" where
  "ok_riscv_virtual_signal_frame s \<longleftrightarrow> length (rvf_handler_args s) = 4 \<and>
     ok_siginfo (rvf_siginfo s) \<and>
     ok_riscv_ucontext (rvf_ucontext s) \<and>
     ok_event_record (rvf_saved_event_record s) \<and>
     length (rvf_saved_event_args s) = 8 \<and>
     ok_trap_restore_state (rvf_saved_trap_restore s) \<and>
     ok_native_return_state (rvf_saved_native_return s) \<and>
     length (rvf_gpr s) = 32 \<and>
     length (rvf_fp s) = 32 \<and>
     list_all ok_u128 (rvf_fp s)"

definition enc_riscv_virtual_signal_frame :: "poly_riscv_virtual_signal_frame \<Rightarrow> u8 list" where
  "enc_riscv_virtual_signal_frame s =
     enc_u64 (rvf_magic s) @
     enc_u64 (rvf_size s) @
     enc_u64 (rvf_signum s) @
     enc_array enc_u64 (rvf_handler_args s) @
     enc_siginfo (rvf_siginfo s) @
     enc_riscv_ucontext (rvf_ucontext s) @
     enc_event_record (rvf_saved_event_record s) @
     enc_array enc_u64 (rvf_saved_event_args s) @
     enc_trap_restore_state (rvf_saved_trap_restore s) @
     enc_native_return_state (rvf_saved_native_return s) @
     enc_array enc_u64 (rvf_gpr s) @
     enc_array enc_u128 (rvf_fp s) @
     enc_u64 (rvf_fcsr s) @
     enc_u64 (rvf_guest_sigmask s) @
     enc_u64 (rvf_interrupted_pc s)"

definition dec_riscv_virtual_signal_frame :: "poly_riscv_virtual_signal_frame decoder" where
  "dec_riscv_virtual_signal_frame bs =
     (let (v0, bs) = dec_u64 bs;
        (v1, bs) = dec_u64 bs;
        (v2, bs) = dec_u64 bs;
        (v3, bs) = dec_array dec_u64 4 bs;
        (v4, bs) = dec_siginfo bs;
        (v5, bs) = dec_riscv_ucontext bs;
        (v6, bs) = dec_event_record bs;
        (v7, bs) = dec_array dec_u64 8 bs;
        (v8, bs) = dec_trap_restore_state bs;
        (v9, bs) = dec_native_return_state bs;
        (v10, bs) = dec_array dec_u64 32 bs;
        (v11, bs) = dec_array dec_u128 32 bs;
        (v12, bs) = dec_u64 bs;
        (v13, bs) = dec_u64 bs;
        (v14, bs) = dec_u64 bs
      in (\<lparr>rvf_magic = v0, rvf_size = v1, rvf_signum = v2, rvf_handler_args = v3, rvf_siginfo = v4, rvf_ucontext = v5, rvf_saved_event_record = v6, rvf_saved_event_args = v7, rvf_saved_trap_restore = v8, rvf_saved_native_return = v9, rvf_gpr = v10, rvf_fp = v11, rvf_fcsr = v12, rvf_guest_sigmask = v13, rvf_interrupted_pc = v14\<rparr>, bs))"

subsection \<open>The codec laws\<close>

interpretation u128c: codec enc_u128 dec_u128 ok_u128 16
  by unfold_locales (simp_all add: enc_u128_def dec_u128_def ok_u128_def codec_simps)

lemmas u128c_simps [codec_simps] = u128c.dec_enc u128c.enc_width u128c.dec_enc_array u128c.enc_array_width

interpretation eventc: codec enc_event_record dec_event_record ok_event_record 64
  by unfold_locales (simp_all add: enc_event_record_def dec_event_record_def ok_event_record_def codec_simps)

lemmas eventc_simps [codec_simps] = eventc.dec_enc eventc.enc_width eventc.dec_enc_array eventc.enc_array_width

interpretation nframec: codec enc_native_return_frame dec_native_return_frame ok_native_return_frame 64
  by unfold_locales (simp_all add: enc_native_return_frame_def dec_native_return_frame_def ok_native_return_frame_def codec_simps)

lemmas nframec_simps [codec_simps] = nframec.dec_enc nframec.enc_width nframec.dec_enc_array nframec.enc_array_width

interpretation nstatec: codec enc_native_return_state dec_native_return_state ok_native_return_state 640
  by unfold_locales (simp_all add: enc_native_return_state_def dec_native_return_state_def ok_native_return_state_def codec_simps)

lemmas nstatec_simps [codec_simps] = nstatec.dec_enc nstatec.enc_width nstatec.dec_enc_array nstatec.enc_array_width

interpretation restorec: codec enc_trap_restore_state dec_trap_restore_state ok_trap_restore_state 2048
  by unfold_locales (simp_all add: enc_trap_restore_state_def dec_trap_restore_state_def ok_trap_restore_state_def codec_simps)

lemmas restorec_simps [codec_simps] = restorec.dec_enc restorec.enc_width restorec.dec_enc_array restorec.enc_array_width

interpretation siginfoc: codec enc_siginfo dec_siginfo ok_siginfo 128
  by unfold_locales (simp_all add: enc_siginfo_def dec_siginfo_def ok_siginfo_def codec_simps)

lemmas siginfoc_simps [codec_simps] = siginfoc.dec_enc siginfoc.enc_width siginfoc.dec_enc_array siginfoc.enc_array_width

interpretation a64sigc: codec enc_aarch64_sigcontext dec_aarch64_sigcontext ok_aarch64_sigcontext 4384
  by unfold_locales (simp_all add: enc_aarch64_sigcontext_def dec_aarch64_sigcontext_def ok_aarch64_sigcontext_def codec_simps)

lemmas a64sigc_simps [codec_simps] = a64sigc.dec_enc a64sigc.enc_width a64sigc.dec_enc_array a64sigc.enc_array_width

interpretation a64ucc: codec enc_aarch64_ucontext dec_aarch64_ucontext ok_aarch64_ucontext 4560
  by unfold_locales (simp_all add: enc_aarch64_ucontext_def dec_aarch64_ucontext_def ok_aarch64_ucontext_def codec_simps)

lemmas a64ucc_simps [codec_simps] = a64ucc.dec_enc a64ucc.enc_width a64ucc.dec_enc_array a64ucc.enc_array_width

interpretation rvsigc: codec enc_riscv_sigcontext dec_riscv_sigcontext ok_riscv_sigcontext 784
  by unfold_locales (simp_all add: enc_riscv_sigcontext_def dec_riscv_sigcontext_def ok_riscv_sigcontext_def codec_simps)

lemmas rvsigc_simps [codec_simps] = rvsigc.dec_enc rvsigc.enc_width rvsigc.dec_enc_array rvsigc.enc_array_width

interpretation rvucc: codec enc_riscv_ucontext dec_riscv_ucontext ok_riscv_ucontext 960
  by unfold_locales (simp_all add: enc_riscv_ucontext_def dec_riscv_ucontext_def ok_riscv_ucontext_def codec_simps)

lemmas rvucc_simps [codec_simps] = rvucc.dec_enc rvucc.enc_width rvucc.dec_enc_array rvucc.enc_array_width

interpretation a64framec: codec enc_aarch64_virtual_signal_frame dec_aarch64_virtual_signal_frame ok_aarch64_virtual_signal_frame 8368
  by unfold_locales (simp_all add: enc_aarch64_virtual_signal_frame_def dec_aarch64_virtual_signal_frame_def ok_aarch64_virtual_signal_frame_def codec_simps)

lemmas a64framec_simps [codec_simps] = a64framec.dec_enc a64framec.enc_width a64framec.dec_enc_array a64framec.enc_array_width

interpretation rvframec: codec enc_riscv_virtual_signal_frame dec_riscv_virtual_signal_frame ok_riscv_virtual_signal_frame 4752
  by unfold_locales (simp_all add: enc_riscv_virtual_signal_frame_def dec_riscv_virtual_signal_frame_def ok_riscv_virtual_signal_frame_def codec_simps)

lemmas rvframec_simps [codec_simps] = rvframec.dec_enc rvframec.enc_width rvframec.dec_enc_array rvframec.enc_array_width

end
