(* ===== verification/Signal_Delivery.thy ===== *)
theory Signal_Delivery
  imports Signal_Frame Guest_Signals
begin

text \<open>
  Delivering a signal to a guest and returning from its handler,
  \<open>tools/runtime/polyexec.c\<close>: the interrupted context is saved in a frame on the guest
  stack, the state image is pointed at the handler, and \<open>rt_sigreturn\<close> restores the
  image from the frame. The instruction that derives a state, the monitor's own
  stack pointer and the effect of touching unmapped stack pages on the range
  probe are parameters. Trace output is left out.
\<close>

subsection \<open>Constants and descriptors\<close>

abbreviation (input) POLY_AARCH64_VSIGFRAME_MAGIC :: u64 where "POLY_AARCH64_VSIGFRAME_MAGIC \<equiv> 0x50534c4147534631"
abbreviation (input) POLY_RISCV_VSIGFRAME_MAGIC :: u64 where "POLY_RISCV_VSIGFRAME_MAGIC \<equiv> 0x50534c5256534631"
abbreviation (input) POLY_VSIG_STACK_SIZE :: u64 where "POLY_VSIG_STACK_SIZE \<equiv> 65536"
abbreviation (input) POLY_LINUX_SA_ONSTACK :: u64 where "POLY_LINUX_SA_ONSTACK \<equiv> 0x08000000"
abbreviation (input) SA_NODEFER :: u64 where "SA_NODEFER \<equiv> 0x40000000"
abbreviation (input) POLY_V2_DERIVE_FLAG_CHILD_SP :: u64 where "POLY_V2_DERIVE_FLAG_CHILD_SP \<equiv> 1"
abbreviation (input) POLY_V2_DERIVE_FLAG_CHILD_RETURN :: u64 where "POLY_V2_DERIVE_FLAG_CHILD_RETURN \<equiv> 4"
abbreviation (input) POLY_V2_DERIVE_FLAG_CLEAR_EVENT_STATE :: u64 where "POLY_V2_DERIVE_FLAG_CLEAR_EVENT_STATE \<equiv> 16"
abbreviation (input) POLY_V2_DERIVE_FLAG_ACTIVATE_DST :: u64 where "POLY_V2_DERIVE_FLAG_ACTIVATE_DST \<equiv> 64"
abbreviation (input) POLY_V2_DERIVE_FLAG_CHILD_PC :: u64 where "POLY_V2_DERIVE_FLAG_CHILD_PC \<equiv> 128"
abbreviation (input) POLY_V2_DERIVE_FLAG_EVENT_RECORD :: u64 where "POLY_V2_DERIVE_FLAG_EVENT_RECORD \<equiv> 256"

text \<open>\<open>dd_event_args\<close> is the array that the member points to.\<close>

record poly_v2_derive_descriptor =
  dd_magic :: u64
  dd_bytes :: u32
  dd_version :: u16
  dd_header_bytes :: u16
  dd_flags :: u64
  dd_frontend :: u32
  dd_child_sp :: u64
  dd_child_tls :: u64
  dd_child_return_value :: u64
  dd_parent_return_value :: u64
  dd_state_key :: u64
  dd_child_pc :: u64
  dd_event_reason :: u64
  dd_event_number :: u64
  dd_event_selector :: u64
  dd_event_flags :: u64
  dd_event_args :: "u64 list"

definition poly_init_derive_descriptor :: "u64 \<Rightarrow> poly_v2_derive_descriptor" where
  "poly_init_derive_descriptor frontend =
     \<lparr>dd_magic = 0x32565244594c4f50, dd_bytes = 128, dd_version = 2, dd_header_bytes = 16, dd_flags = 0,
      dd_frontend = ucast frontend, dd_child_sp = 0, dd_child_tls = 0, dd_child_return_value = 0,
      dd_parent_return_value = 0, dd_state_key = 0, dd_child_pc = 0, dd_event_reason = 0, dd_event_number = 0,
      dd_event_selector = 0, dd_event_flags = 0, dd_event_args = []\<rparr>"

text \<open>
  The status and the new image that the derive instruction gives for an image
  and a descriptor, the monitor's stack pointer, and the range probe after
  the pages of a range have been touched.
\<close>

record signal_machine =
  poly_derive_state_value :: "poly_xsave_state \<Rightarrow> poly_v2_derive_descriptor \<Rightarrow> u64 \<times> poly_xsave_state"
  poly_current_x86_rsp :: u64
  touched_probe :: "guest_memory \<Rightarrow> u64 \<Rightarrow> u64 \<Rightarrow> u64 \<Rightarrow> u64 \<Rightarrow> u64 \<Rightarrow> u64 \<times> u64"

text \<open>Every page is read and written back, so the bytes stay as they are.\<close>

definition poly_prefault_range :: "signal_machine \<Rightarrow> u64 \<Rightarrow> u64 \<Rightarrow> guest_memory \<Rightarrow> guest_memory" where
  "poly_prefault_range m address len gm =
     (if address = 0 \<or> len = 0 then gm else gm\<lparr>gm_probe := touched_probe m gm address len\<rparr>)"

definition probed_memory :: "signal_machine \<Rightarrow> u64 \<Rightarrow> u64 \<Rightarrow> guest_memory \<Rightarrow> guest_memory" where
  "probed_memory m signal_sp total_size gm =
     (if \<not> poly_guest_range_is_mapped gm signal_sp total_size True
      then poly_prefault_range m signal_sp total_size gm else gm)"

subsection \<open>What both frontends share\<close>

text \<open>A forced signal, or the first deliverable pending one.\<close>

definition select_signal ::
    "u64 \<Rightarrow> u64 \<Rightarrow> poly_xsave_state \<Rightarrow> signal_state \<Rightarrow> signal_state \<times> (nat \<times> signal_delivery) option" where
  "select_signal mode forced_signum state st =
     (if forced_signum \<noteq> 0 then
        (if ucast (hdr_current_mode (xs_header state)) \<noteq> mode then (st, None)
         else (st, map_option (\<lambda>action. (unat forced_signum, action))
                     (poly_guest_signal_action_deliverable mode (unat forced_signum) st)))
      else if poly_pending_virtual_signal_mask st = 0 \<or> ucast (er_source_mode (xs_event_record state)) \<noteq> mode
      then (st, None)
      else pick_signal mode [1..<32] st)"

definition find_interrupted_pc :: "u64 \<Rightarrow> u64 \<Rightarrow> poly_xsave_state \<Rightarrow> u64 \<Rightarrow> guest_memory \<Rightarrow> u64" where
  "find_interrupted_pc mode forced_signum state link gm =
     (let record = xs_event_record state;
          pc = hdr_foreign_pc (xs_header state);
          pc = (if forced_signum = 0 \<and> ucast (er_source_mode record) = mode \<and> er_resume_pc record \<noteq> 0
                then er_resume_pc record else pc);
          pc = (if pc = 0 \<and> er_resume_pc record \<noteq> 0 then er_resume_pc record else pc);
          pc = (if pc = 0 \<and> er_trap_pc record \<noteq> 0 then er_trap_pc record else pc)
      in if pc = 0 \<and> link \<noteq> 0 \<and> poly_guest_range_is_mapped gm link 4 False then link else pc)"

definition use_altstack :: "poly_linux_stack_t \<Rightarrow> u64 \<Rightarrow> u64 \<Rightarrow> guest_memory \<Rightarrow> bool" where
  "use_altstack stack action_flags total_size gm \<longleftrightarrow>
     action_flags AND POLY_LINUX_SA_ONSTACK \<noteq> 0 \<and>
     ss_flags stack AND POLY_LINUX_SS_DISABLE = 0 \<and>
     ss_size stack \<ge> total_size \<and>
     poly_guest_range_is_mapped gm (ss_sp stack) (ss_size stack) True"

definition clear_pending :: "nat \<Rightarrow> signal_state \<Rightarrow> signal_state" where
  "clear_pending signum st =
     st\<lparr>poly_pending_virtual_signal_mask :=
        poly_pending_virtual_signal_mask st AND NOT (push_bit (signum - 1) 1)\<rparr>"

definition saved_sigmask :: "signal_state \<Rightarrow> u64" where
  "saved_sigmask st = (if poly_guest_sigmask_shadow_valid st then poly_guest_sigmask_shadow st else 0)"

definition enter_handler_mask :: "nat \<Rightarrow> signal_delivery \<Rightarrow> signal_state \<Rightarrow> signal_state" where
  "enter_handler_mask signum action st =
     (let handler_sigmask = saved_sigmask st OR dl_mask action;
          handler_sigmask = (if dl_flags action AND SA_NODEFER = 0
                             then poly_sigset_add_signal handler_sigmask (int signum) else handler_sigmask)
      in st\<lparr>poly_guest_sigmask_shadow := handler_sigmask, poly_guest_sigmask_shadow_valid := True\<rparr>)"

text \<open>
  Where the handler runs: the answer is \<open>Inl\<close> when the signal is given up, with
  its pending bit dropped when it is a child signal that wanted the alternate
  stack, and otherwise the stack pointer of the handler and whether the
  alternate stack is used.
\<close>

datatype stack_refusal = Suppressed | No_room

definition handler_stack ::
    "poly_linux_stack_t \<Rightarrow> nat \<Rightarrow> u64 \<Rightarrow> signal_delivery \<Rightarrow> u64 \<Rightarrow> u64 \<Rightarrow> guest_memory \<Rightarrow> stack_refusal + u64 \<times> bool" where
  "handler_stack stack signum forced_signum action sp total_size gm =
     (if total_size \<ge> POLY_VSIG_STACK_SIZE then Inl No_room
      else
        (let use_alt = use_altstack stack (dl_flags action) total_size gm in
         if signum = nat SIGCHLD \<and> forced_signum = 0 \<and> dl_flags action AND POLY_LINUX_SA_ONSTACK \<noteq> 0 \<and> \<not> use_alt
         then Inl Suppressed
         else if \<not> use_alt \<and> sp < total_size then Inl No_room
         else
           (let stack_top = (if use_alt then ss_sp stack + ss_size stack else sp)
            in Inr ((stack_top - total_size) AND NOT 0xf, use_alt))))"

definition handler_event_record :: "u64 \<Rightarrow> u64 \<Rightarrow> u64 \<Rightarrow> poly_event_record" where
  "handler_event_record mode pc handler =
     zero_event_record\<lparr>er_source_mode := ucast mode, er_reason := ucast POLY_TRAP_BREAK,
       er_trap_pc := (if pc \<noteq> 0 then pc else handler), er_resume_pc := handler,
       er_flags := POLY_EVENT_RECORD_REQUIRED_FLAGS OR POLY_EVENT_RECORD_FLAG_TRAP_RETURN_RESTORE\<rparr>"

definition handler_descriptor :: "u64 \<Rightarrow> u64 \<Rightarrow> u64 \<Rightarrow> nat \<Rightarrow> poly_v2_derive_descriptor" where
  "handler_descriptor mode handler signal_sp signum =
     (poly_init_derive_descriptor mode)
       \<lparr>dd_flags := POLY_V2_DERIVE_FLAG_CHILD_PC OR POLY_V2_DERIVE_FLAG_CHILD_SP OR
          POLY_V2_DERIVE_FLAG_CHILD_RETURN OR POLY_V2_DERIVE_FLAG_EVENT_RECORD,
        dd_child_pc := handler, dd_child_sp := signal_sp, dd_child_return_value := of_nat signum,
        dd_event_reason := POLY_TRAP_BREAK, dd_event_number := 0, dd_event_selector := 0,
        dd_event_flags := POLY_EVENT_RECORD_REQUIRED_FLAGS OR POLY_EVENT_RECORD_FLAG_TRAP_RETURN_RESTORE,
        dd_event_args := replicate POLY_V2_EVENT_ARG_COUNT 0\<rparr>"

text \<open>The event arguments and the restore payload that a frame keeps.\<close>

definition saved_args :: "poly_xsave_state \<Rightarrow> u64 list" where
  "saved_args state =
     (if er_reason (xs_event_record state) = 0 then replicate POLY_V2_EVENT_ARG_COUNT 0 else xs_event_args state)"

definition saved_restore :: "signal_machine \<Rightarrow> poly_xsave_state \<Rightarrow> poly_trap_restore_state" where
  "saved_restore m state =
     (let tr = xs_trap_restore state in
      if tr_x86_gpr tr ! 15 = 0 then tr\<lparr>tr_x86_gpr := (tr_x86_gpr tr)[15 := poly_current_x86_rsp m]\<rparr> else tr)"

definition signal_info :: "nat \<Rightarrow> u64 \<Rightarrow> u64 \<Rightarrow> poly_siginfo" where
  "signal_info signum fault_address fault_code =
     \<lparr>sgi_signo = of_nat signum, sgi_errno = 0, sgi_code = ucast fault_code, sgi_reserved0 = 0,
      sgi_fault_addr = fault_address, sgi_reserved = replicate 104 0\<rparr>"

text \<open>The three words after the first at the handler's stack pointer, then the frame.\<close>

definition store_signal_frame :: "u64 \<Rightarrow> nat \<Rightarrow> u64 \<Rightarrow> u64 \<Rightarrow> u8 list \<Rightarrow> guest_memory \<Rightarrow> guest_memory" where
  "store_signal_frame signal_sp signum info_addr context_addr frame_bytes gm =
     guest_store (guest_store gm (signal_sp + 8)
       (enc_u64 (of_nat signum) @ enc_u64 info_addr @ enc_u64 context_addr)) (signal_sp + 32) frame_bytes"

subsection \<open>Delivering to AArch64 code\<close>

record aarch64_saved =
  a64s_gpr :: "u64 list"
  a64s_fp :: "poly_u128 list"
  a64s_nzcv :: u64
  a64s_fpcr :: u64
  a64s_fpsr :: u64

definition aarch64_saved_context :: "poly_xsave_state \<Rightarrow> aarch64_saved" where
  "aarch64_saved_context state =
     (let tr = xs_trap_restore state;
          complete = POLY_TRAP_RESTORE_FLAG_VALID OR POLY_TRAP_RESTORE_FLAG_AARCH64_STATE_VALID in
      if tr_flags tr AND complete = complete \<and> tr_mode tr = ucast POLY_MODE_RAW_AARCH64 \<and>
         poly_aarch64_trap_restore_gpr_mask_usable (tr_aarch64_gpr_valid_mask tr)
      then \<lparr>a64s_gpr = tr_aarch64_gpr tr, a64s_fp = tr_aarch64_fp tr, a64s_nzcv = tr_aarch64_nzcv tr,
            a64s_fpcr = tr_aarch64_fpcr tr, a64s_fpsr = tr_aarch64_fpsr tr\<rparr>
      else \<lparr>a64s_gpr = xs_aarch64_gpr state, a64s_fp = xs_aarch64_fp state,
            a64s_nzcv = a64_nzcv (xs_aarch64_status state), a64s_fpcr = a64_fpcr (xs_aarch64_status state),
            a64s_fpsr = a64_fpsr (xs_aarch64_status state)\<rparr>)"

text \<open>The frame size is a multiple of 16 already; 32 bytes of call area come below it.\<close>

abbreviation (input) aarch64_frame_size :: u64 where "aarch64_frame_size \<equiv> 8368"
abbreviation (input) aarch64_total_size :: u64 where "aarch64_total_size \<equiv> 8400"
abbreviation (input) siginfo_offset :: u64 where "siginfo_offset \<equiv> 56"
abbreviation (input) ucontext_offset :: u64 where "ucontext_offset \<equiv> 184"

definition aarch64_signal_frame ::
    "signal_machine \<Rightarrow> poly_xsave_state \<Rightarrow> signal_state \<Rightarrow> nat \<Rightarrow> u64 \<Rightarrow> u64 \<Rightarrow> u64 \<Rightarrow> bool \<Rightarrow> u64 \<Rightarrow>
     poly_aarch64_virtual_signal_frame" where
  "aarch64_signal_frame m state st signum fault_address fault_code frame_sp use_alt interrupted_pc =
     (let saved = aarch64_saved_context state; stack = poly_aarch64_guest_sigaltstack st in
      \<lparr>a64f_magic = POLY_AARCH64_VSIGFRAME_MAGIC, a64f_size = aarch64_frame_size, a64f_signum = of_nat signum,
       a64f_handler_args = [0, of_nat signum, frame_sp + siginfo_offset, frame_sp + ucontext_offset],
       a64f_siginfo = signal_info signum fault_address fault_code,
       a64f_ucontext =
         \<lparr>a64u_uc_flags = 0, a64u_uc_link = 0, a64u_stack_sp = ss_sp stack,
          a64u_stack_flags = (if use_alt then ss_flags stack OR POLY_LINUX_SS_ONSTACK else ss_flags stack),
          a64u_stack_pad = 0, a64u_stack_size = ss_size stack, a64u_sigmask = 0, a64u_pad = replicate 120 0,
          a64u_pad2 = replicate 8 0,
          a64u_mcontext =
            \<lparr>a64c_fault_address = fault_address, a64c_regs = take 31 (a64s_gpr saved), a64c_sp = a64s_gpr saved ! 31,
             a64c_pc = interrupted_pc, a64c_pstate = a64s_nzcv saved, a64c_reserved_align = 0,
             a64c_reserved = replicate 4096 0\<rparr>\<rparr>,
       a64f_saved_event_record = xs_event_record state, a64f_saved_event_args = saved_args state,
       a64f_saved_trap_restore = saved_restore m state, a64f_saved_native_return = xs_native_return state,
       a64f_gpr = a64s_gpr saved, a64f_fp = a64s_fp saved, a64f_nzcv = a64s_nzcv saved,
       a64f_fpcr = a64s_fpcr saved, a64f_fpsr = a64s_fpsr saved, a64f_guest_sigmask = saved_sigmask st,
       a64f_interrupted_pc = interrupted_pc\<rparr>)"

definition aarch64_handler_gprs :: "nat \<Rightarrow> u64 \<Rightarrow> u64 \<Rightarrow> u64 list \<Rightarrow> u64 list" where
  "aarch64_handler_gprs signum restorer signal_sp gpr =
     gpr[0 := of_nat signum, 1 := signal_sp + 32 + siginfo_offset, 2 := signal_sp + 32 + ucontext_offset,
         30 := restorer, 31 := signal_sp]"

definition enter_aarch64_handler ::
    "poly_aarch64_virtual_signal_frame \<Rightarrow> nat \<Rightarrow> signal_delivery \<Rightarrow> u64 \<Rightarrow> poly_xsave_state \<Rightarrow> poly_xsave_state" where
  "enter_aarch64_handler frame signum action signal_sp state =
     (let state = poly_clear_native_return_state state;
          set_gprs = aarch64_handler_gprs signum (dl_restorer action) signal_sp
      in state\<lparr>xs_header := (xs_header state)
           \<lparr>hdr_current_mode := ucast POLY_MODE_RAW_AARCH64, hdr_foreign_pc := dl_handler action\<rparr>,
         xs_event_record :=
           handler_event_record POLY_MODE_RAW_AARCH64 (a64f_interrupted_pc frame) (dl_handler action),
         xs_aarch64_gpr := set_gprs (xs_aarch64_gpr state),
         xs_trap_restore := poly_sanitize_aarch64_trap_restore_payload ((xs_trap_restore state)
           \<lparr>tr_aarch64_gpr := set_gprs (a64f_gpr frame), tr_aarch64_fp := a64f_fp frame,
            tr_aarch64_nzcv := a64f_nzcv frame, tr_aarch64_fpcr := a64f_fpcr frame,
            tr_aarch64_fpsr := a64f_fpsr frame,
            tr_x86_gpr := (tr_x86_gpr (xs_trap_restore state))
              [15 := tr_x86_gpr (a64f_saved_trap_restore frame) ! 15],
            tr_flags := POLY_TRAP_RESTORE_FLAG_VALID OR POLY_TRAP_RESTORE_FLAG_AARCH64_STATE_VALID,
            tr_mode := ucast POLY_MODE_RAW_AARCH64,
            tr_aarch64_gpr_valid_mask := POLY_AARCH64_GPR_VALID_MASK\<rparr>)\<rparr>)"

type_synonym signal_world = "poly_xsave_state \<times> signal_state \<times> guest_memory"

definition poly_try_deliver_aarch64_signal ::
    "signal_machine \<Rightarrow> u64 \<Rightarrow> u64 \<Rightarrow> u64 \<Rightarrow> signal_world \<Rightarrow> signal_world \<times> bool" where
  "poly_try_deliver_aarch64_signal m forced_signum fault_address fault_code w =
     (let (state, st, gm) = w in
      if poly_aarch64_active_signal_frame st \<noteq> 0 then (w, False)
      else
        (case select_signal POLY_MODE_RAW_AARCH64 forced_signum state st of
           (st, None) \<Rightarrow> ((state, st, gm), False)
         | (st, Some (signum, action)) \<Rightarrow>
             (let sp = a64s_gpr (aarch64_saved_context state) ! 31;
                  pc = find_interrupted_pc POLY_MODE_RAW_AARCH64 forced_signum state (xs_aarch64_gpr state ! 30) gm in
              case handler_stack (poly_aarch64_guest_sigaltstack st) signum forced_signum action sp
                     aarch64_total_size gm of
                Inl Suppressed \<Rightarrow> ((state, clear_pending signum st, gm), False)
              | Inl No_room \<Rightarrow> ((state, st, gm), False)
              | Inr (signal_sp, use_alt) \<Rightarrow>
                  (let gm = probed_memory m signal_sp aarch64_total_size gm in
                   if \<not> poly_guest_range_is_mapped gm signal_sp aarch64_total_size True
                   then ((state, st, gm), False)
                   else
                     (let frame = aarch64_signal_frame m state st signum fault_address fault_code (signal_sp + 32)
                            use_alt pc;
                          gm = store_signal_frame signal_sp signum (a64f_handler_args frame ! 2)
                            (a64f_handler_args frame ! 3) (enc_aarch64_virtual_signal_frame frame) gm;
                          st = (if forced_signum = 0 then clear_pending signum st else st);
                          st = (enter_handler_mask signum action st)
                            \<lparr>poly_aarch64_active_signal_frame := signal_sp + 32\<rparr>;
                          (status, state) = poly_derive_state_value m
                            (enter_aarch64_handler frame signum action signal_sp state)
                            (handler_descriptor POLY_MODE_RAW_AARCH64 (dl_handler action) signal_sp signum)
                      in ((state, st, gm), status = 0))))))"

subsection \<open>Delivering to RISC-V code\<close>

record riscv_saved =
  rvs_gpr :: "u64 list"
  rvs_fp :: "poly_u128 list"
  rvs_fcsr :: u64

definition riscv_saved_context :: "poly_xsave_state \<Rightarrow> riscv_saved" where
  "riscv_saved_context state =
     (let tr = xs_trap_restore state;
          complete = POLY_TRAP_RESTORE_FLAG_VALID OR POLY_TRAP_RESTORE_FLAG_RISCV_STATE_VALID in
      if tr_flags tr AND complete = complete \<and> tr_mode tr = ucast POLY_MODE_RAW_RISCV \<and>
         tr_riscv_gpr_valid_mask tr \<noteq> 0
      then \<lparr>rvs_gpr = (tr_riscv_gpr tr)[0 := 0], rvs_fp = tr_riscv_fp tr, rvs_fcsr = tr_riscv_fcsr tr\<rparr>
      else \<lparr>rvs_gpr = (xs_riscv_gpr state)[0 := 0], rvs_fp = xs_riscv_fp state,
            rvs_fcsr = rv_fcsr (xs_riscv_status state)\<rparr>)"

abbreviation (input) riscv_frame_size :: u64 where "riscv_frame_size \<equiv> 4752"
abbreviation (input) riscv_total_size :: u64 where "riscv_total_size \<equiv> 4784"

definition riscv_signal_frame ::
    "signal_machine \<Rightarrow> poly_xsave_state \<Rightarrow> signal_state \<Rightarrow> nat \<Rightarrow> u64 \<Rightarrow> u64 \<Rightarrow> u64 \<Rightarrow> bool \<Rightarrow> u64 \<Rightarrow>
     poly_riscv_virtual_signal_frame" where
  "riscv_signal_frame m state st signum fault_address fault_code frame_sp use_alt interrupted_pc =
     (let saved = riscv_saved_context state; stack = poly_riscv_guest_sigaltstack st in
      \<lparr>rvf_magic = POLY_RISCV_VSIGFRAME_MAGIC, rvf_size = riscv_frame_size, rvf_signum = of_nat signum,
       rvf_handler_args = [0, of_nat signum, frame_sp + siginfo_offset, frame_sp + ucontext_offset],
       rvf_siginfo = signal_info signum fault_address fault_code,
       rvf_ucontext =
         \<lparr>rvu_uc_flags = 0, rvu_uc_link = 0, rvu_stack_sp = ss_sp stack,
          rvu_stack_flags = (if use_alt then ss_flags stack OR POLY_LINUX_SS_ONSTACK else ss_flags stack),
          rvu_stack_pad = 0, rvu_stack_size = ss_size stack, rvu_sigmask = 0, rvu_reserved = replicate 128 0,
          rvu_mcontext =
            \<lparr>rvc_pc = interrupted_pc, rvc_regs = (rvs_gpr saved)[0 := 0],
             rvc_fcsr = rvs_fcsr saved AND POLY_RISCV_FCSR_MASK, rvc_reserved = replicate 512 0\<rparr>\<rparr>,
       rvf_saved_event_record = xs_event_record state, rvf_saved_event_args = saved_args state,
       rvf_saved_trap_restore = saved_restore m state, rvf_saved_native_return = xs_native_return state,
       rvf_gpr = (rvs_gpr saved)[0 := 0], rvf_fp = rvs_fp saved,
       rvf_fcsr = rvs_fcsr saved AND POLY_RISCV_FCSR_MASK,
       rvf_guest_sigmask = saved_sigmask st, rvf_interrupted_pc = interrupted_pc\<rparr>)"

definition riscv_handler_gprs :: "nat \<Rightarrow> u64 \<Rightarrow> u64 \<Rightarrow> u64 list \<Rightarrow> u64 list" where
  "riscv_handler_gprs signum restorer signal_sp gpr =
     gpr[0 := 0, 1 := restorer, 2 := signal_sp, 10 := of_nat signum, 11 := signal_sp + 32 + siginfo_offset,
         12 := signal_sp + 32 + ucontext_offset]"

definition enter_riscv_handler ::
    "poly_riscv_virtual_signal_frame \<Rightarrow> nat \<Rightarrow> signal_delivery \<Rightarrow> u64 \<Rightarrow> poly_xsave_state \<Rightarrow> poly_xsave_state" where
  "enter_riscv_handler frame signum action signal_sp state =
     (let state = poly_clear_native_return_state state;
          set_gprs = riscv_handler_gprs signum (dl_restorer action) signal_sp
      in state\<lparr>xs_header := (xs_header state)
           \<lparr>hdr_current_mode := ucast POLY_MODE_RAW_RISCV, hdr_foreign_pc := dl_handler action\<rparr>,
         xs_event_record := handler_event_record POLY_MODE_RAW_RISCV (rvf_interrupted_pc frame) (dl_handler action),
         xs_riscv_gpr := set_gprs (xs_riscv_gpr state),
         xs_trap_restore := poly_sanitize_riscv_trap_restore_payload ((xs_trap_restore state)
           \<lparr>tr_riscv_gpr := set_gprs (rvf_gpr frame), tr_riscv_fp := rvf_fp frame, tr_riscv_fcsr := rvf_fcsr frame,
            tr_x86_gpr := (tr_x86_gpr (xs_trap_restore state))
              [15 := tr_x86_gpr (rvf_saved_trap_restore frame) ! 15],
            tr_flags := POLY_TRAP_RESTORE_FLAG_VALID OR POLY_TRAP_RESTORE_FLAG_RISCV_STATE_VALID,
            tr_mode := ucast POLY_MODE_RAW_RISCV,
            tr_riscv_gpr_valid_mask := POLY_RISCV_GPR_VALID_MASK_FULL\<rparr>)\<rparr>)"

definition poly_try_deliver_riscv_signal ::
    "signal_machine \<Rightarrow> u64 \<Rightarrow> u64 \<Rightarrow> u64 \<Rightarrow> signal_world \<Rightarrow> signal_world \<times> bool" where
  "poly_try_deliver_riscv_signal m forced_signum fault_address fault_code w =
     (let (state, st, gm) = w in
      if poly_riscv_active_signal_frame st \<noteq> 0 then (w, False)
      else
        (case select_signal POLY_MODE_RAW_RISCV forced_signum state st of
           (st, None) \<Rightarrow> ((state, st, gm), False)
         | (st, Some (signum, action)) \<Rightarrow>
             (let sp = rvs_gpr (riscv_saved_context state) ! 2;
                  pc = find_interrupted_pc POLY_MODE_RAW_RISCV forced_signum state (xs_riscv_gpr state ! 1) gm in
              case handler_stack (poly_riscv_guest_sigaltstack st) signum forced_signum action sp
                     riscv_total_size gm of
                Inl Suppressed \<Rightarrow> ((state, clear_pending signum st, gm), False)
              | Inl No_room \<Rightarrow> ((state, st, gm), False)
              | Inr (signal_sp, use_alt) \<Rightarrow>
                  (let gm = probed_memory m signal_sp riscv_total_size gm in
                   if \<not> poly_guest_range_is_mapped gm signal_sp riscv_total_size True
                   then ((state, st, gm), False)
                   else
                     (let frame = riscv_signal_frame m state st signum fault_address fault_code (signal_sp + 32)
                            use_alt pc;
                          gm = store_signal_frame signal_sp signum (rvf_handler_args frame ! 2)
                            (rvf_handler_args frame ! 3) (enc_riscv_virtual_signal_frame frame) gm;
                          st = (if forced_signum = 0 then clear_pending signum st else st);
                          st = (enter_handler_mask signum action st)
                            \<lparr>poly_riscv_active_signal_frame := signal_sp + 32\<rparr>;
                          (status, state) = poly_derive_state_value m
                            (enter_riscv_handler frame signum action signal_sp state)
                            (handler_descriptor POLY_MODE_RAW_RISCV (dl_handler action) signal_sp signum)
                      in ((state, st, gm), status = 0))))))"

subsection \<open>Returning from a handler\<close>

definition restored_pc_of :: "u64 \<Rightarrow> poly_event_record \<Rightarrow> u64" where
  "restored_pc_of pc saved_record =
     (if pc \<noteq> 0 then pc
      else if er_resume_pc saved_record \<noteq> 0 then er_resume_pc saved_record
      else er_trap_pc saved_record)"

definition restored_event_record :: "u64 \<Rightarrow> u64 \<Rightarrow> poly_event_record \<Rightarrow> poly_event_record" where
  "restored_event_record mode pc record =
     (if er_reason record \<noteq> 0
      then record\<lparr>er_resume_pc := pc,
             er_flags := er_flags record OR (POLY_EVENT_RECORD_REQUIRED_FLAGS OR
               POLY_EVENT_RECORD_FLAG_TRAP_RETURN_RESTORE)\<rparr>
      else zero_event_record\<lparr>er_source_mode := ucast mode, er_reason := ucast POLY_TRAP_BREAK, er_trap_pc := pc,
             er_resume_pc := pc,
             er_flags := POLY_EVENT_RECORD_REQUIRED_FLAGS OR POLY_EVENT_RECORD_FLAG_TRAP_RETURN_RESTORE\<rparr>)"

definition sigreturn_descriptor :: "u64 \<Rightarrow> u64 \<Rightarrow> u64 \<Rightarrow> u64 \<Rightarrow> poly_xsave_state \<Rightarrow> poly_v2_derive_descriptor" where
  "sigreturn_descriptor mode restored_pc restored_sp result state =
     (poly_init_derive_descriptor mode)
       \<lparr>dd_flags := POLY_V2_DERIVE_FLAG_CHILD_PC OR POLY_V2_DERIVE_FLAG_CHILD_SP OR
          POLY_V2_DERIVE_FLAG_CHILD_RETURN OR POLY_V2_DERIVE_FLAG_EVENT_RECORD,
        dd_child_pc := restored_pc, dd_child_sp := restored_sp, dd_child_return_value := result,
        dd_event_reason := ucast (er_reason (xs_event_record state)),
        dd_event_number := er_number (xs_event_record state),
        dd_event_selector := er_selector (xs_event_record state),
        dd_event_flags := er_flags (xs_event_record state), dd_event_args := xs_event_args state\<rparr>"

definition restore_aarch64_frame ::
    "signal_machine \<Rightarrow> poly_aarch64_virtual_signal_frame \<Rightarrow> poly_xsave_state \<Rightarrow> poly_xsave_state" where
  "restore_aarch64_frame m frame state =
     (let record = a64f_saved_event_record frame;
          restored_sp = a64c_sp (a64u_mcontext (a64f_ucontext frame));
          gprs = (a64c_regs (a64u_mcontext (a64f_ucontext frame)) @ [restored_sp])[31 := restored_sp];
          saved_rsp = tr_x86_gpr (a64f_saved_trap_restore frame) ! 15;
          monitor_sp = (if saved_rsp \<noteq> 0 then saved_rsp else poly_current_x86_rsp m);
          restored_pc = restored_pc_of (a64c_pc (a64u_mcontext (a64f_ucontext frame))) record;
          redirected = (a64f_interrupted_pc frame \<noteq> 0 \<and> restored_pc \<noteq> a64f_interrupted_pc frame \<or>
                        restored_sp \<noteq> a64f_gpr frame ! 31);
          state = state\<lparr>xs_native_return := a64f_saved_native_return frame, xs_aarch64_gpr := gprs\<rparr>;
          state = (if redirected then poly_clear_foreign_return_transition_state state else state);
          restore = poly_sanitize_aarch64_trap_restore_payload
            ((if er_reason record \<noteq> 0 then a64f_saved_trap_restore frame else zero_trap_restore)
              \<lparr>tr_flags := POLY_TRAP_RESTORE_FLAG_VALID OR POLY_TRAP_RESTORE_FLAG_AARCH64_STATE_VALID,
               tr_mode := ucast POLY_MODE_RAW_AARCH64, tr_aarch64_gpr_valid_mask := POLY_AARCH64_GPR_VALID_MASK,
               tr_aarch64_gpr := gprs, tr_aarch64_fp := a64f_fp frame, tr_aarch64_nzcv := a64f_nzcv frame,
               tr_aarch64_fpcr := a64f_fpcr frame, tr_aarch64_fpsr := a64f_fpsr frame\<rparr>)
      in state\<lparr>xs_header := (xs_header state)
           \<lparr>hdr_current_mode := ucast POLY_MODE_RAW_AARCH64, hdr_foreign_pc := restored_pc\<rparr>,
         xs_event_record := restored_event_record POLY_MODE_RAW_AARCH64 restored_pc record,
         xs_event_args := (if er_reason record \<noteq> 0 then a64f_saved_event_args frame
                           else replicate POLY_V2_EVENT_ARG_COUNT 0),
         xs_aarch64_fp := a64f_fp frame,
         xs_aarch64_status := (xs_aarch64_status state)
           \<lparr>a64_nzcv := a64f_nzcv frame, a64_fpcr := a64f_fpcr frame, a64_fpsr := a64f_fpsr frame\<rparr>,
         xs_trap_restore := restore\<lparr>tr_x86_gpr := (tr_x86_gpr restore)[15 := monitor_sp]\<rparr>\<rparr>)"

definition poly_handle_aarch64_rt_sigreturn ::
    "signal_machine \<Rightarrow> bool \<Rightarrow> signal_world \<Rightarrow> signal_world \<times> u64" where
  "poly_handle_aarch64_rt_sigreturn m has_trap_state w =
     (if \<not> has_trap_state then (w, - EINVAL)
      else
        (let (state, st, gm) = w;
             frame_addr = (if poly_aarch64_active_signal_frame st \<noteq> 0 then poly_aarch64_active_signal_frame st
                           else xs_aarch64_gpr state ! 31) in
         if \<not> poly_guest_range_is_mapped gm frame_addr aarch64_frame_size False then (w, - EFAULT)
         else
           (let frame = fst (dec_aarch64_virtual_signal_frame (guest_bytes gm frame_addr (unat aarch64_frame_size))) in
            if a64f_magic frame \<noteq> POLY_AARCH64_VSIGFRAME_MAGIC \<or> a64f_size frame \<noteq> aarch64_frame_size \<or>
               a64f_signum frame = 0 \<or> a64f_signum frame \<ge> 65
            then (w, - EINVAL)
            else
              (let mcontext = a64u_mcontext (a64f_ucontext frame);
                   state = restore_aarch64_frame m frame state;
                   st = st\<lparr>poly_guest_sigmask_shadow := a64f_guest_sigmask frame,
                     poly_guest_sigmask_shadow_valid := True, poly_aarch64_active_signal_frame := 0\<rparr>;
                   result = a64c_regs mcontext ! 0;
                   (status, state) = poly_derive_state_value m state
                     (sigreturn_descriptor POLY_MODE_RAW_AARCH64 (hdr_foreign_pc (xs_header state))
                        (a64c_sp mcontext) result state)
               in ((state, st, gm), if status \<noteq> 0 then - EINVAL else result)))))"

definition restore_riscv_frame ::
    "signal_machine \<Rightarrow> poly_riscv_virtual_signal_frame \<Rightarrow> poly_xsave_state \<Rightarrow> poly_xsave_state" where
  "restore_riscv_frame m frame state =
     (let record = rvf_saved_event_record frame;
          mcontext = rvu_mcontext (rvf_ucontext frame);
          restored_sp = rvc_regs mcontext ! 2;
          gprs = (rvc_regs mcontext)[0 := 0, 2 := restored_sp];
          fcsr = rvc_fcsr mcontext AND POLY_RISCV_FCSR_MASK;
          saved_rsp = tr_x86_gpr (rvf_saved_trap_restore frame) ! 15;
          monitor_sp = (if saved_rsp \<noteq> 0 then saved_rsp else poly_current_x86_rsp m);
          restored_pc = restored_pc_of (rvc_pc mcontext) record;
          redirected = (rvf_interrupted_pc frame \<noteq> 0 \<and> restored_pc \<noteq> rvf_interrupted_pc frame \<or>
                        restored_sp \<noteq> rvf_gpr frame ! 2);
          state = state\<lparr>xs_native_return := rvf_saved_native_return frame, xs_riscv_gpr := gprs\<rparr>;
          state = (if redirected then poly_clear_foreign_return_transition_state state else state);
          restore = poly_sanitize_riscv_trap_restore_payload
            ((if er_reason record \<noteq> 0 then rvf_saved_trap_restore frame else zero_trap_restore)
              \<lparr>tr_flags := POLY_TRAP_RESTORE_FLAG_VALID OR POLY_TRAP_RESTORE_FLAG_RISCV_STATE_VALID,
               tr_mode := ucast POLY_MODE_RAW_RISCV, tr_riscv_gpr_valid_mask := POLY_RISCV_GPR_VALID_MASK_FULL,
               tr_riscv_gpr := gprs, tr_riscv_fp := rvf_fp frame, tr_riscv_fcsr := fcsr\<rparr>)
      in state\<lparr>xs_header := (xs_header state)
           \<lparr>hdr_current_mode := ucast POLY_MODE_RAW_RISCV, hdr_foreign_pc := restored_pc\<rparr>,
         xs_event_record := restored_event_record POLY_MODE_RAW_RISCV restored_pc record,
         xs_event_args := (if er_reason record \<noteq> 0 then rvf_saved_event_args frame
                           else replicate POLY_V2_EVENT_ARG_COUNT 0),
         xs_riscv_fp := rvf_fp frame,
         xs_riscv_status := (xs_riscv_status state)\<lparr>rv_fcsr := fcsr\<rparr>,
         xs_trap_restore := restore\<lparr>tr_x86_gpr := (tr_x86_gpr restore)[15 := monitor_sp]\<rparr>\<rparr>)"

definition poly_handle_riscv_rt_sigreturn ::
    "signal_machine \<Rightarrow> bool \<Rightarrow> signal_world \<Rightarrow> signal_world \<times> u64" where
  "poly_handle_riscv_rt_sigreturn m has_trap_state w =
     (if \<not> has_trap_state then (w, - EINVAL)
      else
        (let (state, st, gm) = w;
             frame_addr = (if poly_riscv_active_signal_frame st = 0 \<and> xs_riscv_gpr state ! 2 \<noteq> 0
                           then xs_riscv_gpr state ! 2 + 32 else poly_riscv_active_signal_frame st) in
         if \<not> poly_guest_range_is_mapped gm frame_addr riscv_frame_size False then (w, - EFAULT)
         else
           (let frame = fst (dec_riscv_virtual_signal_frame (guest_bytes gm frame_addr (unat riscv_frame_size))) in
            if rvf_magic frame \<noteq> POLY_RISCV_VSIGFRAME_MAGIC \<or> rvf_size frame \<noteq> riscv_frame_size \<or>
               rvf_signum frame = 0 \<or> rvf_signum frame \<ge> 65
            then (w, - EINVAL)
            else
              (let mcontext = rvu_mcontext (rvf_ucontext frame);
                   state = restore_riscv_frame m frame state;
                   st = st\<lparr>poly_guest_sigmask_shadow := rvf_guest_sigmask frame,
                     poly_guest_sigmask_shadow_valid := True, poly_riscv_active_signal_frame := 0\<rparr>;
                   result = rvc_regs mcontext ! 10;
                   (status, state) = poly_derive_state_value m state
                     (sigreturn_descriptor POLY_MODE_RAW_RISCV (hdr_foreign_pc (xs_header state))
                        (rvc_regs mcontext ! 2) result state)
               in ((state, st, gm), if status \<noteq> 0 then - EINVAL else result)))))"

end
