(* ===== verification/Structured_Syscall.thy ===== *)
theory Structured_Syscall
  imports Linux_Abi Signal_Delivery
begin

text \<open>
  The system calls that the monitor does not pass on as they are,
  \<open>poly_handle_structured_foreign_syscall\<close> of \<open>tools/runtime/polyexec.c\<close>. The
  outer option is a call that never returns; the inner one is the return value 0
  of the handler, for a call it leaves to the generic path.
\<close>

text \<open>Switches read from the environment, and whether a process is running.\<close>

record call_config =
  cc_signals :: signal_config
  poly_process_exit_finalizers_active :: bool
  poly_prefault_guest_mmaps_enabled :: bool
  poly_disable_io_uring_enabled :: bool
  poly_disable_rseq_enabled :: bool

type_synonym call_world = "linux_state \<times> signal_state"
type_synonym call_answer = "(call_world \<times> u64 option) option"

text \<open>An answer from the file and memory calls, and one from the signal calls.\<close>

definition answer :: "signal_state \<Rightarrow> linux_state \<times> u64 \<Rightarrow> call_answer" where
  "answer st r = Some ((fst r, st), Some (snd r))"

definition not_handled :: "call_world \<Rightarrow> call_answer" where
  "not_handled w = Some (w, None)"

definition lift_signals ::
    "(signal_state \<times> guest_memory \<Rightarrow> (signal_state \<times> guest_memory) \<times> u64) \<Rightarrow> call_world \<Rightarrow> call_answer" where
  "lift_signals f w =
     (case f (snd w, ls_memory (fst w)) of
        ((st, gm), r) \<Rightarrow> Some (((fst w)\<lparr>ls_memory := gm\<rparr>, st), Some r))"

subsection \<open>Files\<close>

definition epoll_ctl_call :: "host_os \<Rightarrow> u64 list \<Rightarrow> linux_state \<Rightarrow> linux_state \<times> u64" where
  "epoll_ctl_call os args s =
     (let event = (if args ! 3 \<noteq> 0 then Some (poly_load_x86_epoll_event (ls_memory s) (args ! 3)) else None);
          status = host_epoll_ctl os (ls_log s) (take 3 args) event
      in (log_call ''epoll_ctl'' (take 3 args) s, status))"

definition stdin_winsize_call :: "host_os \<Rightarrow> u64 list \<Rightarrow> linux_state \<Rightarrow> linux_state \<times> u64" where
  "stdin_winsize_call os args s =
     (if poly_tiocgwinsz_stdin_enotty_cached s
      then (s\<lparr>poly_tiocgwinsz_stdin_cache_hits := poly_tiocgwinsz_stdin_cache_hits s + 1\<rparr>, - ENOTTY)
      else
        (let (s, status) = poly_x86_syscall6 os ''ioctl'' (take 3 args) s;
             s = (if status = - ENOTTY then s\<lparr>poly_tiocgwinsz_stdin_enotty_cached := True\<rparr> else s)
         in (s\<lparr>poly_tiocgwinsz_stdin_cache_misses := poly_tiocgwinsz_stdin_cache_misses s + 1\<rparr>, status)))"

definition statfs_call :: "host_os \<Rightarrow> x86_syscall \<Rightarrow> u64 \<Rightarrow> u64 \<Rightarrow> linux_state \<Rightarrow> linux_state \<times> u64" where
  "statfs_call os name target destination s =
     (let (status, source) = host_statfs_call os (ls_log s) name [target] (ls_memory s);
          s = log_call name [target] s
      in (if status = 0 then s\<lparr>ls_memory := poly_store_linux_generic_statfs destination source (ls_memory s)\<rparr> else s,
          status))"

definition stat_call :: "host_os \<Rightarrow> x86_syscall \<Rightarrow> u64 list \<Rightarrow> u64 \<Rightarrow> linux_state \<Rightarrow> linux_state \<times> u64" where
  "stat_call os name args destination s =
     (let (status, source) = host_stat_call os (ls_log s) name args (ls_memory s);
          s = log_call name args s
      in (if status = 0 then s\<lparr>ls_memory := poly_store_linux_generic_stat destination source (ls_memory s)\<rparr> else s,
          status))"

definition openat_call :: "host_os \<Rightarrow> u64 \<Rightarrow> u64 list \<Rightarrow> linux_state \<Rightarrow> linux_state \<times> u64" where
  "openat_call os mode args s =
     (let (s, flags) = poly_translate_open_flags os (args ! 2) mode (args ! 0) (args ! 1) s
      in poly_x86_syscall6 os ''openat'' [args ! 0, args ! 1, flags, args ! 3] s)"

definition openat2_call :: "host_os \<Rightarrow> u64 \<Rightarrow> u64 list \<Rightarrow> linux_state \<Rightarrow> linux_state \<times> u64" where
  "openat2_call os mode args s =
     (if args ! 2 = 0 then (s, - EFAULT)
      else if args ! 3 < 24 then (s, - EINVAL)
      else if args ! 3 > 4096 then (s, - E2BIG)
      else if \<not> poly_guest_range_is_mapped (ls_memory s) (args ! 2) (args ! 3) False then (s, - EFAULT)
      else if \<not> host_malloc os (ls_log s) (args ! 3) then (s, - ENOMEM)
      else
        (let how = guest_bytes (ls_memory s) (args ! 2) (unat (args ! 3));
             (s, flags) = poly_translate_open_flags os (read_u64_le how) mode (args ! 0) (args ! 1) s;
             call = [args ! 0, args ! 1, args ! 3];
             status = host_openat2 os (ls_log s) call (enc_u64 flags @ drop 8 how) (ls_memory s)
         in (log_call ''openat2'' call s, status)))"

definition getdents_call :: "host_os \<Rightarrow> u64 list \<Rightarrow> linux_state \<Rightarrow> linux_state \<times> u64" where
  "getdents_call os args s =
     (let buffer_size = args ! 2 in
      if \<not> host_malloc os (ls_log s) (if buffer_size = 0 then 1 else buffer_size) then (s, - ENOMEM)
      else
        (let call = [args ! 0, buffer_size];
             (status, entries) = host_getdents os (ls_log s) call;
             s = log_call ''getdents64'' call s
         in (if 0 <s status
             then s\<lparr>ls_memory := guest_store (ls_memory s) (args ! 1) (take (unat status) entries)\<rparr> else s,
             status)))"

definition machine_name :: "u64 \<Rightarrow> u8 list" where
  "machine_name mode = string_bytes (if mode = POLY_MODE_RAW_AARCH64 then ''aarch64'' else ''riscv64'')"

text \<open>The member \<open>machine\<close> has 65 characters at offset 260.\<close>

definition uname_call :: "host_os \<Rightarrow> u64 \<Rightarrow> u64 \<Rightarrow> linux_state \<Rightarrow> linux_state \<times> u64" where
  "uname_call os mode uts s =
     (let (s, status) = poly_x86_syscall6 os ''uname'' [uts] s
      in (if status = 0 \<and> uts \<noteq> 0
          then s\<lparr>ls_memory := guest_store (ls_memory s) (uts + 260) (poly_store_fixed_string 65 (machine_name mode))\<rparr>
          else s, status))"

subsection \<open>Interval timers\<close>

text \<open>The real timer belongs to the monitor: the guest reads a stopped timer.\<close>

definition itimer_call :: "u64 \<Rightarrow> linux_state \<Rightarrow> linux_state \<times> u64" where
  "itimer_call value_addr s =
     (if value_addr = 0 then (s, 0)
      else if \<not> poly_guest_range_is_mapped (ls_memory s) value_addr 32 True then (s, - EFAULT)
      else (s\<lparr>ls_memory := guest_store (ls_memory s) value_addr (replicate 32 0)\<rparr>, 0))"

subsection \<open>Memory\<close>

definition touch :: "signal_machine \<Rightarrow> u64 \<Rightarrow> u64 \<Rightarrow> linux_state \<Rightarrow> linux_state" where
  "touch m address len s = s\<lparr>ls_memory := poly_prefault_range m address len (ls_memory s)\<rparr>"

definition shmat_call :: "signal_machine \<Rightarrow> host_os \<Rightarrow> bool \<Rightarrow> u64 list \<Rightarrow> linux_state \<Rightarrow> linux_state \<times> u64" where
  "shmat_call m os active args s =
     (let (s, result) = poly_x86_syscall6 os ''shmat'' (take 3 args) s in
      if active \<and> \<not> result <s 0 then
        (let segment = host_shm_size os (ls_log s) (args ! 0);
             s = log_call ''shmctl'' [args ! 0, 2] s;
             prefault_length = (case segment of Some n \<Rightarrow> if n > 0 then n else 1 | None \<Rightarrow> 1)
         in (touch m result prefault_length s, result))
      else (s, result))"

definition mremap_call :: "signal_machine \<Rightarrow> host_os \<Rightarrow> u64 list \<Rightarrow> linux_state \<Rightarrow> linux_state \<times> u64" where
  "mremap_call m os args s =
     (let (s, result) = poly_x86_syscall6 os ''mremap'' args s
      in (if \<not> result <s 0 then touch m result (args ! 2) s else s, result))"

definition mprotect_call :: "signal_machine \<Rightarrow> host_os \<Rightarrow> u64 list \<Rightarrow> linux_state \<Rightarrow> linux_state \<times> u64" where
  "mprotect_call m os args s =
     (let (s, result) = poly_x86_syscall6 os ''mprotect'' (take 3 args) s
      in (if result = 0 \<and> args ! 2 AND 7 \<noteq> 0 then touch m (args ! 0) (args ! 1) s else s, result))"

definition mapped_file_length :: "host_os \<Rightarrow> u64 \<Rightarrow> u64 list \<Rightarrow> linux_state \<Rightarrow> linux_state \<times> u64" where
  "mapped_file_length os flags args s =
     (let prefault_length = args ! 1 in
      if flags AND 0x20 = 0 \<and> \<not> args ! 4 <s 0 then
        (let fd = ucast (ucast (args ! 4) :: u32);
             (status, st) = host_stat_call os (ls_log s) ''fstat'' [fd] (ls_memory s);
             s = log_call ''fstat'' [fd] s;
             file_size = st_size st; offset = args ! 5
         in if status = 0 \<and> \<not> file_size <s 0
            then (s, if offset \<ge> file_size then 0
                     else if file_size - offset < prefault_length then file_size - offset else prefault_length)
            else (s, prefault_length))
      else (s, prefault_length))"

definition mmap_call ::
    "signal_machine \<Rightarrow> host_os \<Rightarrow> call_config \<Rightarrow> u64 list \<Rightarrow> linux_state \<Rightarrow> (linux_state \<times> u64) option" where
  "mmap_call m os cfg args s =
     (let flags = args ! 3; prot = args ! 2; active = poly_process_exit_finalizers_active cfg in
      if active \<and> prot AND 4 \<noteq> 0 \<and> flags AND 2 \<noteq> 0 \<and> flags AND 0x20 = 0 \<and> \<not> args ! 4 <s 0 then
        poly_dispatch_private_exec_file_mmap os (args ! 0) (args ! 1) prot flags (args ! 4) (args ! 5) s
      else
        (let flags = (if poly_prefault_guest_mmaps_enabled cfg \<and> prot AND 2 \<noteq> 0 then flags OR 0x8000 else flags);
             (s, result) = poly_x86_syscall6 os ''mmap'' [args ! 0, args ! 1, prot, flags, args ! 4, args ! 5] s
         in if active \<and> poly_prefault_guest_mmaps_enabled cfg \<and> \<not> result <s 0 \<and> prot AND 7 \<noteq> 0 then
              (let (s, prefault_length) = mapped_file_length os flags args s
               in Some (touch m result prefault_length s, result))
            else Some (s, result)))"

subsection \<open>The handler\<close>

definition protected_send :: "call_config \<Rightarrow> u64 \<Rightarrow> u64 \<Rightarrow> bool" where
  "protected_send cfg mode signum \<longleftrightarrow>
     poly_is_raw_foreign_mode mode \<and> poly_is_protected_runtime_signal (cc_signals cfg) (uint signum)"

definition protects_signals :: "call_config \<Rightarrow> u64 \<Rightarrow> bool" where
  "protects_signals cfg mode \<longleftrightarrow>
     poly_is_raw_foreign_mode mode \<and> polyexec_protect_runtime_signals (cc_signals cfg)"

definition poly_handle_structured_foreign_syscall ::
    "signal_machine \<Rightarrow> host_os \<Rightarrow> host_kernel \<Rightarrow> call_config \<Rightarrow> u64 \<Rightarrow> u64 \<Rightarrow> u64 list \<Rightarrow> call_world \<Rightarrow> call_answer" where
  "poly_handle_structured_foreign_syscall m os host cfg number mode args w =
     (let (s, st) = w; active = poly_process_exit_finalizers_active cfg; sigs = cc_signals cfg in
      if number = 21 then answer st (epoll_ctl_call os args s)
      else if number = 22 then
        answer st (poly_dispatch_epoll_wait_events os ''epoll_pwait'' (args ! 0) (args ! 1) (args ! 2) (args ! 3)
          (args ! 4) (args ! 5) s)
      else if number = 29 then
        (if args ! 0 = 0 \<and> args ! 1 = 0x5413 then answer st (stdin_winsize_call os args s) else not_handled w)
      else if number = 441 then
        answer st (poly_dispatch_epoll_wait_events os ''epoll_pwait2'' (args ! 0) (args ! 1) (args ! 2) (args ! 3)
          (args ! 4) (args ! 5) s)
      else if number = 43 then answer st (statfs_call os ''statfs'' (args ! 0) (args ! 1) s)
      else if number = 44 then answer st (statfs_call os ''fstatfs'' (args ! 0) (args ! 1) s)
      else if number = 56 then answer st (openat_call os mode args s)
      else if number = 437 then answer st (openat2_call os mode args s)
      else if number = 61 then answer st (getdents_call os args s)
      else if number = 79 then answer st (stat_call os ''newfstatat'' [args ! 0, args ! 1, args ! 3] (args ! 2) s)
      else if number = 80 then answer st (stat_call os ''fstat'' [args ! 0] (args ! 1) s)
      else if number = 102 then
        (if protects_signals cfg mode \<and> args ! 0 = 0 then answer st (itimer_call (args ! 1) s) else not_handled w)
      else if number = 103 then
        (if protects_signals cfg mode \<and> args ! 0 = 0 then answer st (itimer_call (args ! 2) s) else not_handled w)
      else if number = 132 then
        (if poly_is_raw_foreign_mode mode
         then lift_signals (poly_dispatch_guest_sigaltstack mode (args ! 0) (args ! 1)) w else not_handled w)
      else if number = 133 then
        (if protects_signals cfg mode
         then answer st (s, poly_dispatch_rt_sigsuspend host sigs (args ! 0) (args ! 1) (ls_memory s))
         else not_handled w)
      else if number = 134 then
        lift_signals (poly_dispatch_rt_sigaction host sigs mode (args ! 0) (args ! 1) (args ! 2) (args ! 3)) w
      else if number = 135 then
        (if protects_signals cfg mode
         then lift_signals (poly_dispatch_rt_sigprocmask host sigs (args ! 0) (args ! 1) (args ! 2) (args ! 3)) w
         else not_handled w)
      else if number = 129 \<or> number = 130 then
        (if protected_send cfg mode (args ! 1) then answer st (s, 0) else not_handled w)
      else if number = 131 then
        (if protected_send cfg mode (args ! 2) then answer st (s, 0) else not_handled w)
      else if number = 160 then answer st (uname_call os mode (args ! 0) s)
      else if number = 258 then
        (if mode \<noteq> POLY_MODE_RAW_RISCV then not_handled w
         else
           (case poly_dispatch_riscv_hwprobe (args ! 0) (args ! 1) (args ! 2) (args ! 3) (args ! 4) (ls_memory s) of
              (gm, r) \<Rightarrow> answer st (s\<lparr>ls_memory := gm\<rparr>, r)))
      else if number = 214 then
        (if active then answer st (poly_dispatch_process_brk os (args ! 0) s) else not_handled w)
      else if number = 196 then answer st (shmat_call m os active args s)
      else if number = 216 then (if active then answer st (mremap_call m os args s) else not_handled w)
      else if number = 226 then (if active then answer st (mprotect_call m os args s) else not_handled w)
      else if number = 222 then
        (case mmap_call m os cfg args s of None \<Rightarrow> None | Some r \<Rightarrow> answer st r)
      else not_handled w)"

end
