(* ===== verification/Linux_Policy.thy ===== *)
theory Linux_Policy
  imports Structured_Syscall
begin

text \<open>
  What the conversions of Linux data guarantee: arrays of events and of probe
  answers are what the guest expects, the program break refines its
  specification, open flags lose nothing, and a private executable mapping holds
  the contents of its file.
\<close>


subsection \<open>Adjacent stores\<close>

lemma guest_store_append:
  assumes "length xs + length ys \<le> 2 ^ 64"
  shows "guest_store (guest_store gm base xs) (base + of_nat (length xs)) ys = guest_store gm base (xs @ ys)"
proof -
  have "gm_byte (guest_store (guest_store gm base xs) (base + of_nat (length xs)) ys) a =
      gm_byte (guest_store gm base (xs @ ys)) a" for a
  proof (cases "length xs < 2 ^ 64")
    case True
    define k where "k = unat (a - base)"
    have k: "k < 2 ^ 64" using unsigned_less[of "a - base", where 'a = nat] by (simp add: k_def)
    have len: "unat (of_nat (length xs) :: u64) = length xs" using True by (simp add: unat_of_nat take_bit_nat_eq_self)
    have shift: "a - (base + of_nat (length xs)) = (a - base) - of_nat (length xs)" by simp
    have "unat (a - (base + of_nat (length xs))) = (if length xs \<le> k then k - length xs else k + 2 ^ 64 - length xs)"
      unfolding shift using len by (simp add: unat_sub_if_size k_def word_size)
    then show ?thesis
      using k assms by (auto simp: guest_store_def nth_append k_def[symmetric])
  next
    case False
    then have "length ys = 0" using assms by linarith
    then have "ys = []" by simp
    then show ?thesis by (simp add: guest_store_def)
  qed
  then show ?thesis by (simp add: guest_store_def fun_eq_iff)
qed

lemma guest_store_nil [simp]: "guest_store gm base [] = gm"
  by (simp add: guest_store_def)

lemma guest_bytes_behind:
  assumes "length xs + n \<le> 2 ^ 64"
  shows "guest_bytes (guest_store gm base xs) (base + of_nat (length xs)) n = guest_bytes gm (base + of_nat (length xs)) n"
proof -
  have "\<not> unat (base + of_nat (length xs) + of_nat i - base) < length xs" if "i < n" for i
  proof -
    have "length xs + i < 2 ^ 64" using that assms by simp
    then have "unat (of_nat (length xs + i) :: u64) = length xs + i"
      by (simp add: unat_of_nat take_bit_nat_eq_self del: of_nat_add)
    moreover have "base + of_nat (length xs) + of_nat i - base = (of_nat (length xs + i) :: u64)" by simp
    ultimately show ?thesis by simp
  qed
  then show ?thesis by (simp add: guest_bytes_def guest_store_def)
qed

lemma guest_store_same: "guest_store gm a (guest_bytes gm a n) = gm"
proof -
  have "gm_byte (guest_store gm a (guest_bytes gm a n)) b = gm_byte gm b" for b
    by (simp add: guest_store_def guest_bytes_def)
  then show ?thesis by (simp add: guest_store_def fun_eq_iff)
qed

text \<open>A loop that stores one element after the other stores the array.\<close>

lemma fold_store_array:
  assumes "\<And>i. i < n \<Longrightarrow> length (f i) = w" and "w * n \<le> 2 ^ 64"
  shows "fold (\<lambda>i gm. guest_store gm (base + of_nat i * of_nat w) (f i)) [0..<n] gm =
    guest_store gm base (concat (map f [0..<n]))"
  using assms
proof (induction n)
  case (Suc n)
  have len: "length (concat (map f [0..<k])) = w * k" if "k \<le> n" for k
    using that Suc.prems(1) by (induction k) simp_all
  have "fold (\<lambda>i gm. guest_store gm (base + of_nat i * of_nat w) (f i)) [0..<Suc n] gm =
      guest_store (guest_store gm base (concat (map f [0..<n]))) (base + of_nat n * of_nat w) (f n)"
    using Suc by simp
  also have "\<dots> = guest_store gm base (concat (map f [0..<n]) @ f n)"
    using guest_store_append[of "concat (map f [0..<n])" "f n" gm base] len[of n] Suc.prems
    by (simp add: mult.commute)
  finally show ?case by simp
qed simp


subsection \<open>Epoll events\<close>

definition generic_epoll_event :: "poly_x86_epoll_event \<Rightarrow> poly_linux_generic_epoll_event" where
  "generic_epoll_event e = \<lparr>ge_events = xe_events e, ge_pad = 0, ge_data = xe_data e\<rparr>"

lemma store_epoll_events_array:
  assumes "count = length x86_events" and "16 * count \<le> 2 ^ 64"
  shows "store_epoll_events events x86_events count gm =
    guest_store gm events (enc_array enc_generic_epoll_event (map generic_epoll_event x86_events))"
proof -
  have "store_epoll_events events x86_events count gm =
      fold (\<lambda>i gm. guest_store gm (events + of_nat i * of_nat 16)
        (enc_generic_epoll_event (generic_epoll_event (x86_events ! i)))) [0..<count] gm"
    by (simp add: store_epoll_events_def poly_store_linux_generic_epoll_event_def generic_epoll_event_def)
  also have "\<dots> = guest_store gm events (concat (map (\<lambda>i. enc_generic_epoll_event (generic_epoll_event (x86_events ! i)))
      [0..<count]))"
    by (rule fold_store_array) (use assms(2) in \<open>simp_all add: gepollc.enc_width\<close>)
  also have "map (\<lambda>i. enc_generic_epoll_event (generic_epoll_event (x86_events ! i))) [0..<count] =
      map enc_generic_epoll_event (map generic_epoll_event x86_events)"
    using assms(1) by (intro nth_equalityI) simp_all
  finally show ?thesis by (simp add: enc_array_def)
qed

lemma epoll_events_read_back:
  assumes "count = length x86_events" and "16 * count < 2 ^ 64"
  shows "fst (dec_array dec_generic_epoll_event count
      (guest_bytes (store_epoll_events events x86_events count gm) events (16 * count))) =
    map generic_epoll_event x86_events"
proof -
  let ?bytes = "enc_array enc_generic_epoll_event (map generic_epoll_event x86_events)"
  have len: "length ?bytes = 16 * count"
    using assms(1) gepollc.enc_array_width[of "map generic_epoll_event x86_events"] by simp
  have "guest_bytes (store_epoll_events events x86_events count gm) events (16 * count) = ?bytes"
    using store_epoll_events_array[OF assms(1)] guest_bytes_store_exact[OF len assms(2)] assms(2) by simp
  then show ?thesis
    using gepollc.dec_enc_array[of "map generic_epoll_event x86_events" count "[]"] assms(1) by simp
qed

subsection \<open>The hardware probe\<close>

definition probe_answer :: "u64 \<Rightarrow> u64 \<times> u64" where
  "probe_answer key = (case poly_riscv_hwprobe_value key of None \<Rightarrow> (- 1, 0) | Some v \<Rightarrow> (key, v))"

definition pair_bytes :: "u64 \<times> u64 \<Rightarrow> u8 list" where
  "pair_bytes p = enc_u64 (fst p) @ enc_u64 (snd p)"

definition key_at :: "guest_memory \<Rightarrow> u64 \<Rightarrow> nat \<Rightarrow> u64" where
  "key_at gm base n = read_u64_le (guest_bytes gm (base + of_nat n * 16) 8)"

lemma enc_read_u64:
  assumes "length bs = 8"
  shows "enc_u64 (read_u64_le bs) = bs"
proof (rule nth_equalityI)
  show "length (enc_u64 (read_u64_le bs)) = length bs" using assms by (simp add: enc_u64_def)
  fix i assume "i < length (enc_u64 (read_u64_le bs))"
  then have i: "i < 8" by (simp add: enc_u64_def)
  have "bit (ucast (drop_bit (i * 8) (read_u64_le bs)) :: u8) j = bit (bs ! i) j" if "j < 8" for j
    using i that by (simp add: bit_drop_byte read_u64_le_def bit_or_fold)
  then have "ucast (drop_bit (i * 8) (read_u64_le bs)) = bs ! i" by (intro bit_word_eqI) simp
  then show "enc_u64 (read_u64_le bs) ! i = bs ! i" using i by (simp add: enc_u64_def le_bytes_def)
qed

lemma probe_pair_store:
  "probe_pair pair gm = guest_store gm pair (pair_bytes (probe_answer (read_u64_le (guest_bytes gm pair 8))))"
proof -
  let ?key = "read_u64_le (guest_bytes gm pair 8)"
  have eight: "length (enc_u64 v) = 8" for v by (simp add: codec_simps)
  have two: "guest_store gm pair (enc_u64 k @ enc_u64 v) = guest_store (guest_store gm pair (enc_u64 k)) (pair + 8) (enc_u64 v)"
    for k v using guest_store_append[of "enc_u64 k" "enc_u64 v" gm pair] by (simp add: eight)
  have key: "guest_store gm pair (enc_u64 ?key) = gm"
    by (subst enc_read_u64) (simp_all add: guest_bytes_def guest_store_same[unfolded guest_bytes_def])
  show ?thesis
    by (cases "poly_riscv_hwprobe_value ?key") (simp_all add: probe_pair_def probe_answer_def pair_bytes_def two key)
qed

lemma pair_bytes_length [simp]: "length (pair_bytes p) = 16"
  by (simp add: pair_bytes_def codec_simps)

lemma hwprobe_loop:
  assumes "16 * n \<le> 2 ^ 64"
  shows "fold (\<lambda>i gm. probe_pair (base + of_nat i * 16) gm) [0..<n] gm =
    guest_store gm base (concat (map (\<lambda>i. pair_bytes (probe_answer (key_at gm base i))) [0..<n]))"
  using assms
proof (induction n)
  case (Suc n)
  let ?bs = "concat (map (\<lambda>i. pair_bytes (probe_answer (key_at gm base i))) [0..<n])"
  have len: "length ?bs = 16 * n" by (induction n) simp_all
  have addr: "base + of_nat n * 16 = base + of_nat (length ?bs)" by (simp add: len)
  have behind: "guest_bytes (guest_store gm base ?bs) (base + of_nat (length ?bs)) 8 =
      guest_bytes gm (base + of_nat (length ?bs)) 8"
    by (rule guest_bytes_behind) (use len Suc.prems in simp)
  have key: "read_u64_le (guest_bytes (guest_store gm base ?bs) (base + of_nat n * 16) 8) = key_at gm base n"
    unfolding addr behind unfolding key_at_def[of gm base n] addr ..
  have "fold (\<lambda>i gm. probe_pair (base + of_nat i * 16) gm) [0..<Suc n] gm =
      probe_pair (base + of_nat n * 16) (guest_store gm base ?bs)" using Suc by simp
  also have "\<dots> = guest_store (guest_store gm base ?bs) (base + of_nat (length ?bs)) (pair_bytes (probe_answer (key_at gm base n)))"
    unfolding probe_pair_store key by (simp add: addr)
  also have "\<dots> = guest_store gm base (?bs @ pair_bytes (probe_answer (key_at gm base n)))"
    by (rule guest_store_append) (use len Suc.prems in simp)
  finally show ?case by simp
qed simp

text \<open>
  The hardware probe answers every pair of an array in place: known keys get
  their value, unknown keys become \<open>- 1\<close> with value zero, and no other byte of
  memory changes.
\<close>

lemma hwprobe_answers:
  assumes "pair_count \<le> 4096" and "pairs_address \<noteq> 0"
  shows "poly_dispatch_riscv_hwprobe pairs_address pair_count 0 0 0 gm =
    (guest_store gm pairs_address
       (concat (map (\<lambda>i. pair_bytes (probe_answer (key_at gm pairs_address i))) [0..<unat pair_count])), 0)"
proof -
  have "unat pair_count \<le> 4096" using assms(1) by (simp add: word_le_nat_alt)
  then have "16 * unat pair_count \<le> 2 ^ 64" by simp
  from hwprobe_loop[OF this, of pairs_address gm] show ?thesis
    using assms by (simp add: poly_dispatch_riscv_hwprobe_def not_less)
qed

subsection \<open>The program break\<close>

text \<open>What a process sees of the break: requests inside the arena move it.\<close>

definition brk_spec :: "u64 \<Rightarrow> u64 \<Rightarrow> u64 \<Rightarrow> u64" where
  "brk_spec base requested current =
     (if base \<le> requested \<and> requested \<le> base + brk_arena_size then requested else current)"

definition brk_ready :: "u64 \<Rightarrow> linux_state \<Rightarrow> bool" where
  "brk_ready base s \<longleftrightarrow>
     process_brk_mapping s = Some base \<and> process_brk_mapping_size s = brk_arena_size \<and>
     base \<le> process_brk_current s \<and> process_brk_current s \<le> base + brk_arena_size"

lemma brk_step:
  assumes "brk_ready base s" and "base \<noteq> 0"
  shows "poly_dispatch_process_brk os requested s =
      (s\<lparr>process_brk_current := brk_spec base requested (process_brk_current s)\<rparr>,
       brk_spec base requested (process_brk_current s))"
    and "brk_ready base (fst (poly_dispatch_process_brk os requested s))"
  using assms by (auto simp: poly_dispatch_process_brk_def set_process_break_def brk_spec_def brk_ready_def)

primrec brk_calls :: "host_os \<Rightarrow> u64 list \<Rightarrow> linux_state \<Rightarrow> linux_state \<times> u64 list" where
  "brk_calls os [] s = (s, [])"
| "brk_calls os (r # rs) s =
     (case poly_dispatch_process_brk os r s of (s, v) \<Rightarrow> case brk_calls os rs s of (s, vs) \<Rightarrow> (s, v # vs))"

primrec brk_values :: "u64 \<Rightarrow> u64 list \<Rightarrow> u64 \<Rightarrow> u64 list" where
  "brk_values base [] current = []"
| "brk_values base (r # rs) current =
     brk_spec base r current # brk_values base rs (brk_spec base r current)"

lemma brk_calls_ready:
  assumes "brk_ready base s" and "base \<noteq> 0"
  shows "snd (brk_calls os rs s) = brk_values base rs (process_brk_current s) \<and>
    brk_ready base (fst (brk_calls os rs s)) \<and> ls_memory (fst (brk_calls os rs s)) = ls_memory s"
  using assms
proof (induction rs arbitrary: s)
  case (Cons r rs)
  note st = brk_step[OF Cons.prems, of os r]
  show ?case using Cons.IH[of "fst (poly_dispatch_process_brk os r s)"] st Cons.prems(2)
    by (simp add: case_prod_beta)
qed simp

lemma brk_fresh:
  assumes "process_brk_mapping s = None"
    and "host_mmap os (ls_log s) [0, brk_arena_size, 3, 0x22, - 1, 0] (ls_memory s) = Inr (base, gm)"
    and "base \<noteq> 0" and "base \<le> base + brk_arena_size"
  shows "snd (poly_dispatch_process_brk os requested s) = brk_spec base requested base"
    and "brk_ready base (fst (poly_dispatch_process_brk os requested s))"
    and "process_brk_current (fst (poly_dispatch_process_brk os requested s)) = brk_spec base requested base"
  using assms by (auto simp: poly_dispatch_process_brk_def set_process_break_def brk_spec_def brk_ready_def Let_def)


subsection \<open>Open flags\<close>

text \<open>The guest's flags recovered from the host's, apart from the large-file flag.\<close>

definition guest_open_flags :: "u64 \<Rightarrow> u64" where
  "guest_open_flags flags =
     (flags AND NOT 0x3c000) OR
     (if flags AND 0x10000 \<noteq> 0 then 0x4000 else 0) OR
     (if flags AND 0x4000 \<noteq> 0 then 0x10000 else 0) OR
     (if flags AND 0x20000 \<noteq> 0 then 0x8000 else 0)"

definition canonical_open_flags :: "u64 \<Rightarrow> bool" where
  "canonical_open_flags flags \<longleftrightarrow>
     (flags AND 0x100000 \<noteq> 0 \<longrightarrow> flags AND 0x1000 \<noteq> 0) \<and>
     (flags AND 0x400000 \<noteq> 0 \<longrightarrow> flags AND 0x4000 \<noteq> 0)"

lemma and_power_bit: "((w :: u64) AND 2 ^ n = 0) \<longleftrightarrow> \<not> bit w n"
  by (simp add: bit_iff_and_push_bit_not_eq_0)

lemma flag_bits:
  "(w AND 0x1000 = 0) \<longleftrightarrow> \<not> bit w 12" "(w AND 0x4000 = 0) \<longleftrightarrow> \<not> bit w 14" "(w AND 0x8000 = 0) \<longleftrightarrow> \<not> bit w 15"
  "(w AND 0x10000 = 0) \<longleftrightarrow> \<not> bit w 16" "(w AND 0x20000 = 0) \<longleftrightarrow> \<not> bit w 17" "(w AND 0x40000 = 0) \<longleftrightarrow> \<not> bit w 18"
  "(w AND 0x80000 = 0) \<longleftrightarrow> \<not> bit w 19" "(w AND 0x100000 = 0) \<longleftrightarrow> \<not> bit w 20" "(w AND 0x200000 = 0) \<longleftrightarrow> \<not> bit w 21"
  "(w AND 0x400000 = 0) \<longleftrightarrow> \<not> bit w 22" for w :: u64
  using and_power_bit[of w 12] and_power_bit[of w 14] and_power_bit[of w 15] and_power_bit[of w 16]
    and_power_bit[of w 17] and_power_bit[of w 18] and_power_bit[of w 19] and_power_bit[of w 20]
    and_power_bit[of w 21] and_power_bit[of w 22] by simp_all

lemma bit_power_word: "bit (2 ^ n :: u64) i \<longleftrightarrow> i = n \<and> n < 64"
  by (auto simp: bit_simps)

lemma bit_flags:
  "bit (0x1000 :: u64) i \<longleftrightarrow> i = 12" "bit (0x4000 :: u64) i \<longleftrightarrow> i = 14" "bit (0x8000 :: u64) i \<longleftrightarrow> i = 15"
  "bit (0x10000 :: u64) i \<longleftrightarrow> i = 16" "bit (0x20000 :: u64) i \<longleftrightarrow> i = 17" "bit (0x40000 :: u64) i \<longleftrightarrow> i = 18"
  "bit (0x80000 :: u64) i \<longleftrightarrow> i = 19" "bit (0x200000 :: u64) i \<longleftrightarrow> i = 21"
  using bit_power_word[of 12 i] bit_power_word[of 14 i] bit_power_word[of 15 i] bit_power_word[of 16 i]
    bit_power_word[of 17 i] bit_power_word[of 18 i] bit_power_word[of 19 i] bit_power_word[of 21 i] by simp_all

lemma bit_flag_pairs:
  "bit (0x101000 :: u64) i \<longleftrightarrow> i = 12 \<or> i = 20" "bit (0x410000 :: u64) i \<longleftrightarrow> i = 16 \<or> i = 22"
  "bit (0x3c000 :: u64) i \<longleftrightarrow> i = 14 \<or> i = 15 \<or> i = 16 \<or> i = 17"
  "bit (0x7fd000 :: u64) i \<longleftrightarrow> i = 12 \<or> i = 14 \<or> i = 15 \<or> i = 16 \<or> i = 17 \<or> i = 18 \<or> i = 19 \<or> i = 20 \<or> i = 21 \<or> i = 22"
proof -
  have "(0x101000 :: u64) = 2 ^ 12 OR 2 ^ 20" "(0x410000 :: u64) = 2 ^ 16 OR 2 ^ 22"
    "(0x3c000 :: u64) = 2 ^ 14 OR 2 ^ 15 OR 2 ^ 16 OR 2 ^ 17"
    "(0x7fd000 :: u64) = 2 ^ 12 OR 2 ^ 14 OR 2 ^ 15 OR 2 ^ 16 OR 2 ^ 17 OR 2 ^ 18 OR 2 ^ 19 OR 2 ^ 20 OR 2 ^ 21 OR 2 ^ 22"
    by simp_all
  then show "bit (0x101000 :: u64) i \<longleftrightarrow> i = 12 \<or> i = 20" "bit (0x410000 :: u64) i \<longleftrightarrow> i = 16 \<or> i = 22"
    "bit (0x3c000 :: u64) i \<longleftrightarrow> i = 14 \<or> i = 15 \<or> i = 16 \<or> i = 17"
    "bit (0x7fd000 :: u64) i \<longleftrightarrow> i = 12 \<or> i = 14 \<or> i = 15 \<or> i = 16 \<or> i = 17 \<or> i = 18 \<or> i = 19 \<or> i = 20 \<or> i = 21 \<or> i = 22"
    by (simp_all only: bit_or_iff bit_power_word) auto
qed

lemma bit_not_word: "i < 64 \<Longrightarrow> bit (NOT w) i \<longleftrightarrow> \<not> bit w i" for w :: u64
  by (simp add: bit_not_iff)

lemma bit_if_zero: "bit (if c then h else 0) i \<longleftrightarrow> c \<and> bit h i" for h :: u64
  by simp

lemma bit_set_open_flag: "bit (set_open_flag flags g h t) i \<longleftrightarrow> bit t i \<or> flags AND g \<noteq> 0 \<and> bit h i"
  by (simp add: set_open_flag_def bit_or_iff)

lemma bit_translated:
  assumes "\<not> snd (poly_open_target_is_directory os dirfd path s)" and "i < 64"
  shows "bit (snd (poly_translate_open_flags os flags POLY_MODE_RAW_AARCH64 dirfd path s)) i \<longleftrightarrow>
    bit flags i \<and> \<not> (i = 12 \<or> i = 14 \<or> i = 15 \<or> i = 16 \<or> i = 17 \<or> i = 18 \<or> i = 19 \<or> i = 20 \<or> i = 21 \<or> i = 22) \<or>
    bit flags 12 \<and> i = 12 \<or> bit flags 14 \<and> i = 16 \<or> bit flags 16 \<and> i = 14 \<or>
    bit flags 17 \<and> bit (host_O_LARGEFILE os) i \<or> bit flags 15 \<and> i = 17 \<or> bit flags 18 \<and> i = 18 \<or>
    bit flags 19 \<and> i = 19 \<or> bit flags 20 \<and> (i = 12 \<or> i = 20) \<or> bit flags 21 \<and> i = 21 \<or>
    bit flags 22 \<and> (i = 16 \<or> i = 22)"
proof -
  obtain s' d where d: "(if flags AND 0x10000 \<noteq> 0 then poly_open_target_is_directory os dirfd path s else (s, False)) =
      (s', d)" by (meson surj_pair)
  have nd: "\<not> d" using d assms(1) by (auto split: if_splits)
  show ?thesis
    unfolding poly_translate_open_flags_def Let_def d
    using nd
    by (simp only: prod.case snd_conv bit_set_open_flag bit_and_iff bit_not_word[OF assms(2)] bit_flags bit_flag_pairs
        flag_bits if_False not_True_eq_False not_False_eq_True simp_thms disj_assoc)
qed

text \<open>
  Translating AArch64 open flags loses nothing: from the flags the host sees the
  guest's flags can be recovered, apart from the large-file flag, provided the
  synchronous and temporary-file flags come with the flags they include and the
  target of a direct open is not a directory.
\<close>

lemma open_flags_back:
  assumes "canonical_open_flags flags" and "\<not> snd (poly_open_target_is_directory os dirfd path s)"
    and "host_O_LARGEFILE os = 0 \<or> host_O_LARGEFILE os = 0x8000"
  shows "guest_open_flags (snd (poly_translate_open_flags os flags POLY_MODE_RAW_AARCH64 dirfd path s)) =
    flags AND NOT 0x20000"
proof -
  define t where "t = snd (poly_translate_open_flags os flags POLY_MODE_RAW_AARCH64 dirfd path s)"
  have lf: "bit (host_O_LARGEFILE os) k \<Longrightarrow> k = 15" for k using assms(3) bit_flags(3)[of k] by auto
  note T = bit_translated[OF assms(2), of _ flags, folded t_def]
  have c: "bit flags 20 \<Longrightarrow> bit flags 12" "bit flags 22 \<Longrightarrow> bit flags 14"
    using assms(1) by (simp_all add: canonical_open_flags_def flag_bits)
  have no: "\<not> bit (host_O_LARGEFILE os) k" if "k \<noteq> 15" for k using lf that by blast
  have t14: "bit t 14 \<longleftrightarrow> bit flags 16" using T[of 14] no[of 14] by simp
  have t16: "bit t 16 \<longleftrightarrow> bit flags 14" using T[of 16] no[of 16] c by simp blast
  have t17: "bit t 17 \<longleftrightarrow> bit flags 15" using T[of 17] no[of 17] by simp
  have other: "bit t i \<longleftrightarrow> bit flags i" if "i \<noteq> 14" "i \<noteq> 15" "i \<noteq> 16" "i \<noteq> 17" "i < 64" for i
  proof (cases "i \<in> {12, 18, 19, 20, 21, 22}")
    case True
    then show ?thesis using T[OF that(5)] no[OF that(2)] c(1) by (elim insertE emptyE) (simp_all, blast)
  next
    case False
    then show ?thesis using T[OF that(5)] no[OF that(2)] that(1-4) by simp
  qed
  have "guest_open_flags t = flags AND NOT 0x20000"
  proof (rule bit_word_eqI)
    fix i :: nat assume "i < LENGTH(64)"
    then have i: "i < 64" by simp
    have "bit (guest_open_flags t) i \<longleftrightarrow>
        bit t i \<and> \<not> (i = 14 \<or> i = 15 \<or> i = 16 \<or> i = 17) \<or> bit t 16 \<and> i = 14 \<or> bit t 14 \<and> i = 16 \<or>
        bit t 17 \<and> i = 15"
      unfolding guest_open_flags_def
      by (simp only: bit_or_iff bit_and_iff bit_not_word[OF i] bit_if_zero bit_flags bit_flag_pairs flag_bits
          not_not disj_assoc)
    moreover have "bit (flags AND NOT 0x20000) i \<longleftrightarrow> bit flags i \<and> i \<noteq> 17"
      by (simp only: bit_and_iff bit_not_word[OF i] bit_flags)
    ultimately show "bit (guest_open_flags t) i \<longleftrightarrow> bit (flags AND NOT 0x20000) i"
      using t14 t16 t17 other[OF _ _ _ _ i] by auto
  qed
  then show ?thesis unfolding t_def .
qed

subsection \<open>Copying a file\<close>

text \<open>
  Reads of the file return at least one and at most the requested number of its
  bytes, except that a signal may interrupt them early on, in the first
  \<open>patience\<close> calls of the log.
\<close>

definition honest_pread :: "host_os \<Rightarrow> u64 \<Rightarrow> (nat \<Rightarrow> u8) \<Rightarrow> nat \<Rightarrow> bool" where
  "honest_pread os fd contents patience \<longleftrightarrow>
     (\<forall>log remaining offset. remaining \<noteq> 0 \<longrightarrow>
        (case host_pread os log fd remaining offset of
           Inl e \<Rightarrow> e = EINTR \<and> length log < patience
         | Inr bytes \<Rightarrow> bytes \<noteq> [] \<and> length bytes \<le> unat remaining \<and>
             bytes = map (\<lambda>i. contents (unat offset + i)) [0..<length bytes]))"

definition file_bytes :: "(nat \<Rightarrow> u8) \<Rightarrow> u64 \<Rightarrow> nat \<Rightarrow> u8 list" where
  "file_bytes contents offset n = map (\<lambda>i. contents (unat offset + i)) [0..<n]"

lemma file_bytes_append:
  assumes "unat (offset + of_nat n) = unat offset + n"
  shows "file_bytes contents offset n @ map (\<lambda>i. contents (unat (offset + of_nat n) + i)) [0..<k] =
    file_bytes contents offset (n + k)"
  using assms by (intro nth_equalityI) (auto simp: file_bytes_def nth_append)

lemma copy_mapped_file_complete:
  assumes "honest_pread os fd contents patience" and "unat offset + unat available < 2 ^ 64"
    and "ls_memory s = guest_store gm dest (file_bytes contents offset (unat copied))" and "copied \<le> available"
  shows "\<exists>s'. copy_mapped_file os fd dest offset available copied s = Some (s', None) \<and>
    ls_memory s' = guest_store gm dest (file_bytes contents offset (unat available))"
  using assms(3,4)
proof (induction "unat (available - copied) + (patience - length (ls_log s))" arbitrary: copied s rule: less_induct)
  case less
  show ?case
  proof (cases "copied < available")
    case False
    then have "copied = available" using less.prems(2) by simp
    then show ?thesis using less.prems(1) by (simp add: copy_mapped_file.simps)
  next
    case True
    let ?args = "[fd, available - copied, offset + copied]"
    let ?s = "log_call ''pread64'' ?args s"
    have rem: "available - copied \<noteq> 0" using True by auto
    have room: "unat (available - copied) = unat available - unat copied"
      using less.prems(2) by (simp add: unat_sub)
    show ?thesis
    proof (cases "host_pread os (ls_log s) fd (available - copied) (offset + copied)")
      case (Inl e)
      have e: "e = EINTR" "length (ls_log s) < patience"
        using assms(1)[unfolded honest_pread_def, rule_format, OF rem, of "ls_log s" "offset + copied"] Inl by auto
      have "\<exists>s'. copy_mapped_file os fd dest offset available copied ?s = Some (s', None) \<and>
          ls_memory s' = guest_store gm dest (file_bytes contents offset (unat available))"
        by (rule less.hyps) (use e(2) less.prems in \<open>auto simp: log_call_def\<close>)
      then show ?thesis using True Inl e by (simp add: copy_mapped_file.simps[of _ _ _ _ _ copied s])
    next
      case (Inr bytes)
      have b: "bytes \<noteq> []" "length bytes \<le> unat (available - copied)"
        "bytes = map (\<lambda>i. contents (unat (offset + copied) + i)) [0..<length bytes]"
        using assms(1)[unfolded honest_pread_def, rule_format, OF rem, of "ls_log s" "offset + copied"] Inr by auto
      have small: "unat copied + length bytes \<le> unat available" using b(2) room True by (simp add: word_less_nat_alt)
      have bound: "unat available < 2 ^ 64" using assms(2) by simp
      have uc: "unat (copied + of_nat (length bytes)) = unat copied + length bytes"
        using small bound by (simp add: unat_word_ariths unat_of_nat take_bit_nat_eq_self)
      have uo: "unat (offset + of_nat (unat copied)) = unat offset + unat copied"
        using small assms(2) by (simp add: unat_word_ariths)
      let ?s' = "?s\<lparr>ls_memory := guest_store (ls_memory ?s) (dest + copied) bytes\<rparr>"
      have len: "length (file_bytes contents offset (unat copied)) = unat copied" by (simp add: file_bytes_def)
      have "ls_memory ?s' = guest_store (guest_store gm dest (file_bytes contents offset (unat copied)))
          (dest + of_nat (length (file_bytes contents offset (unat copied)))) bytes"
        using less.prems(1) by (simp add: log_call_def len)
      also have "\<dots> = guest_store gm dest (file_bytes contents offset (unat copied) @ bytes)"
        by (rule guest_store_append) (use small bound len in simp)
      also have "file_bytes contents offset (unat copied) @ bytes =
          file_bytes contents offset (unat (copied + of_nat (length bytes)))"
        unfolding uc using file_bytes_append[OF uo, of contents "length bytes"] b(3) by simp
      finally have mem: "ls_memory ?s' = guest_store gm dest
          (file_bytes contents offset (unat (copied + of_nat (length bytes))))" .
      have le: "copied + of_nat (length bytes) \<le> available" using uc small by (simp add: word_le_nat_alt)
      have "unat (available - (copied + of_nat (length bytes))) < unat (available - copied)"
        using unat_sub[OF le] unat_sub[OF less.prems(2)] uc b(1) small by (cases bytes) simp_all
      then have "\<exists>s'. copy_mapped_file os fd dest offset available (copied + of_nat (length bytes)) ?s' = Some (s', None) \<and>
          ls_memory s' = guest_store gm dest (file_bytes contents offset (unat available))"
        by (intro less.hyps) (use mem le in \<open>auto simp: log_call_def\<close>)
      then show ?thesis using True Inr b(1) by (simp add: copy_mapped_file.simps[of _ _ _ _ _ copied s] Let_def)
    qed
  qed
qed

subsection \<open>Properties\<close>

text \<open>
  A host that gives every mapping the address \<open>0x40000\<close>, reads a file of bytes
  \<open>0x90\<close> one byte at a time and reports two ready events.
\<close>

definition small_host :: host_os where
  "small_host =
     \<lparr>host_call = (\<lambda>_ _ _ gm. (0, gm)),
      host_stat_call = (\<lambda>_ _ _ _. (0, \<lparr>st_dev = 0, st_ino = 0, st_nlink = 1, st_mode = 0x8000, st_uid = 0,
        st_gid = 0, st_rdev = 0, st_size = 3, st_blksize = 512, st_blocks = 1, st_atim_sec = 0, st_atim_nsec = 0,
        st_mtim_sec = 0, st_mtim_nsec = 0, st_ctim_sec = 0, st_ctim_nsec = 0\<rparr>)),
      host_statfs_call = (\<lambda>_ _ _ _. (0, \<lparr>f_type = 0, f_bsize = 0, f_blocks = 0, f_bfree = 0, f_bavail = 0,
        f_files = 0, f_ffree = 0, f_fsid = [0, 0], f_namelen = 0, f_frsize = 0, f_flags = 0\<rparr>)),
      host_epoll_wait = (\<lambda>_ _ _ _. (2, [\<lparr>xe_events = 1, xe_data = 5\<rparr>, \<lparr>xe_events = 4, xe_data = 6\<rparr>])),
      host_epoll_ctl = (\<lambda>_ _ _. 0), host_getdents = (\<lambda>_ _. (0, [])), host_openat2 = (\<lambda>_ _ _ _. 3),
      host_shm_size = (\<lambda>_ _. None), host_malloc = (\<lambda>_ _. True), host_mmap = (\<lambda>_ _ gm. Inr (0x40000, gm)),
      host_pread = (\<lambda>_ _ _ _. Inr [0x90]), host_O_LARGEFILE = 0\<rparr>"

definition linux_start :: linux_state where
  "linux_start =
     \<lparr>ls_memory = flat_memory 0 [], ls_log = [], process_brk_mapping = None, process_brk_mapping_size = 0,
      process_brk_current = 0, poly_tiocgwinsz_stdin_enotty_cached = False, poly_tiocgwinsz_stdin_cache_hits = 0,
      poly_tiocgwinsz_stdin_cache_misses = 0\<rparr>"

text \<open>
  C29. Program breaks refine their specification: once the arena is mapped, every
  sequence of requests is answered by the last request inside the arena of one
  megabyte, starting at its base; the break stays inside and memory is not
  touched again.
\<close>
theorem brk_refines:
  assumes "process_brk_mapping s = None"
    and "host_mmap os (ls_log s) [0, 1048576, 3, 0x22, - 1, 0] (ls_memory s) = Inr (base, gm)"
    and "base \<noteq> 0" and "base \<le> base + 1048576"
  shows "snd (brk_calls os (r # rs) s) = brk_values base (r # rs) base \<and>
    brk_ready base (fst (brk_calls os (r # rs) s)) \<and>
    ls_memory (fst (brk_calls os (r # rs) s)) = guest_store gm base (zero_bytes 1048576)"
proof -
  note f = brk_fresh[OF assms, of r]
  note c = brk_calls_ready[OF f(2) assms(3), of os rs]
  have "ls_memory (fst (poly_dispatch_process_brk os r s)) = guest_store gm base (zero_bytes 1048576)"
    using assms(1,2) by (simp add: poly_dispatch_process_brk_def set_process_break_def Let_def)
  then show ?thesis using f(1,3) c by (simp add: case_prod_beta)
qed

theorem brk_refines_witness:
  "snd (brk_calls small_host [0, 0x40010, 0x999999999, 0x140000, 0] linux_start) =
     [0x40000, 0x40010, 0x40010, 0x140000, 0x140000]"
proof -
  have "snd (brk_calls small_host (0 # [0x40010, 0x999999999, 0x140000, 0]) linux_start) =
      brk_values 0x40000 (0 # [0x40010, 0x999999999, 0x140000, 0]) 0x40000"
    using brk_refines[of linux_start small_host "0x40000" "ls_memory linux_start" 0 "[0x40010, 0x999999999, 0x140000, 0]"]
    by (simp add: linux_start_def small_host_def)
  then show ?thesis by (simp add: brk_spec_def)
qed

text \<open>
  The events a guest reads after a wait are the events the host reported, with
  the padding of the guest's layout, in order, from the given address on.
\<close>
lemma epoll_wait_delivers:
  assumes "host_epoll_wait os (ls_log s) name [fd, maxevents, timeout, mask', sz] (ls_memory s) = (status, evs)"
    and "length evs = unat status" and "0 <s status" and "status \<le> maxevents"
    and "events \<noteq> 0" and "maxevents \<le> - 1 div 12" and "host_malloc os (ls_log s) (maxevents * 12)"
    and "16 * unat status < 2 ^ 64"
  shows "snd (poly_dispatch_epoll_wait_events os name fd events maxevents timeout mask' sz s) = status \<and>
    fst (dec_array dec_generic_epoll_event (unat status)
      (guest_bytes (ls_memory (fst (poly_dispatch_epoll_wait_events os name fd events maxevents timeout mask' sz s)))
        events (16 * unat status))) = map generic_epoll_event evs"
proof -
  have "maxevents \<noteq> 0" using assms(3,4) by auto
  moreover have "\<not> - 1 div 12 < maxevents" using assms(6) by (rule leD)
  ultimately have "poly_dispatch_epoll_wait_events os name fd events maxevents timeout mask' sz s =
      ((log_call name [fd, maxevents, timeout, mask', sz] s)
         \<lparr>ls_memory := store_epoll_events events evs (unat status) (ls_memory s)\<rparr>, status)"
    using assms(1-5,7) by (simp add: poly_dispatch_epoll_wait_events_def log_call_def)
  then show ?thesis
    using epoll_events_read_back[of "unat status" evs events "ls_memory s"] assms(2,8) by simp
qed



end
