(* ===== verification/Libc_Imports.thy ===== *)
theory Libc_Imports
  imports Guest_Memory Runtime_Base
begin

text \<open>
  The C library functions that guest code reaches through import traps,
  \<open>poly_handle_foreign_import\<close> and its helpers in \<open>tools/runtime/polyexec.c\<close>.
  Loops that look for a terminator run until they find it, so they are partial:
  \<open>None\<close> is a loop that does not end. Library functions that the monitor calls are
  written from their documentation; the value that comparisons give for two bytes
  that differ is a parameter.
\<close>

subsection \<open>Scanning\<close>

partial_function (option) scan_bytes :: "(u8 \<Rightarrow> bool) \<Rightarrow> guest_memory \<Rightarrow> u64 \<Rightarrow> u64 option" where
  "scan_bytes stop gm p = (if stop (gm_byte gm p) then Some p else scan_bytes stop gm (p + 1))"

definition c_string :: "guest_memory \<Rightarrow> u64 \<Rightarrow> u8 list option" where
  "c_string gm s = map_option (\<lambda>e. guest_bytes gm s (unat (e - s))) (scan_bytes (\<lambda>c. c = 0) gm s)"

fun first_index :: "('a \<Rightarrow> bool) \<Rightarrow> 'a list \<Rightarrow> nat option" where
  "first_index P [] = None"
| "first_index P (x # xs) = (if P x then Some 0 else map_option Suc (first_index P xs))"

definition address_of :: "u64 \<Rightarrow> nat option \<Rightarrow> u64" where
  "address_of base found = (case found of None \<Rightarrow> 0 | Some n \<Rightarrow> base + of_nat n)"

definition polyexec_rawmemchr :: "guest_memory \<Rightarrow> u64 \<Rightarrow> u64 \<Rightarrow> u64 option" where
  "polyexec_rawmemchr gm s c = scan_bytes (\<lambda>b. b = ucast c) gm s"

definition polyexec_strchrnul :: "guest_memory \<Rightarrow> u64 \<Rightarrow> u64 \<Rightarrow> u64 option" where
  "polyexec_strchrnul gm s c = scan_bytes (\<lambda>b. b = 0 \<or> b = ucast c) gm s"

primrec memrchr_loop :: "guest_memory \<Rightarrow> u64 \<Rightarrow> u8 \<Rightarrow> nat \<Rightarrow> u64" where
  "memrchr_loop gm s needle 0 = 0"
| "memrchr_loop gm s needle (Suc n) =
     (if gm_byte gm (s + of_nat n) = needle then s + of_nat n else memrchr_loop gm s needle n)"

definition polyexec_memrchr :: "guest_memory \<Rightarrow> u64 \<Rightarrow> u64 \<Rightarrow> u64 \<Rightarrow> u64" where
  "polyexec_memrchr gm s c n = memrchr_loop gm s (ucast c) (unat n)"

definition polyexec_memmem :: "guest_memory \<Rightarrow> u64 \<Rightarrow> u64 \<Rightarrow> u64 \<Rightarrow> u64 \<Rightarrow> u64" where
  "polyexec_memmem gm haystack haystack_len needle needle_len =
     (if needle_len = 0 then haystack
      else if needle_len > haystack_len then 0
      else
        address_of haystack
          (first_index
             (\<lambda>k. gm_byte gm (haystack + of_nat k) = gm_byte gm needle \<and>
                  guest_bytes gm (haystack + of_nat k) (unat needle_len) = guest_bytes gm needle (unat needle_len))
             [0..<unat (haystack_len - needle_len) + 1]))"

subsection \<open>Copying\<close>

partial_function (option) polyexec_stpcpy :: "guest_memory \<Rightarrow> u64 \<Rightarrow> u64 \<Rightarrow> (guest_memory \<times> u64) option" where
  "polyexec_stpcpy gm dest src =
     (let c = gm_byte gm src; gm = guest_store gm dest [c]
      in if c = 0 then Some (gm, dest) else polyexec_stpcpy gm (dest + 1) (src + 1))"

primrec stpncpy_copy :: "guest_memory \<Rightarrow> u64 \<Rightarrow> u64 \<Rightarrow> nat \<Rightarrow> nat \<Rightarrow> guest_memory \<times> nat" where
  "stpncpy_copy gm dest src copied 0 = (gm, copied)"
| "stpncpy_copy gm dest src copied (Suc n) =
     (let c = gm_byte gm (src + of_nat copied)
      in if c = 0 then (gm, copied)
         else stpncpy_copy (guest_store gm (dest + of_nat copied) [c]) dest src (Suc copied) n)"

definition polyexec_stpncpy :: "guest_memory \<Rightarrow> u64 \<Rightarrow> u64 \<Rightarrow> u64 \<Rightarrow> guest_memory \<times> u64" where
  "polyexec_stpncpy gm dest src n =
     (let (gm, copied) = stpncpy_copy gm dest src 0 (unat n)
      in (fold (\<lambda>i gm. guest_store gm (dest + of_nat i) [0]) [copied..<unat n] gm, dest + of_nat copied))"

definition libc_memcpy :: "guest_memory \<Rightarrow> u64 \<Rightarrow> u64 \<Rightarrow> u64 \<Rightarrow> guest_memory" where
  "libc_memcpy gm dest src n = guest_store gm dest (guest_bytes gm src (unat n))"

definition polyexec_mempcpy :: "guest_memory \<Rightarrow> u64 \<Rightarrow> u64 \<Rightarrow> u64 \<Rightarrow> guest_memory \<times> u64" where
  "polyexec_mempcpy gm dest src n = (libc_memcpy gm dest src n, dest + n)"

definition libc_memset :: "guest_memory \<Rightarrow> u64 \<Rightarrow> u8 \<Rightarrow> u64 \<Rightarrow> guest_memory" where
  "libc_memset gm s c n = guest_store gm s (replicate (unat n) c)"

text \<open>The bytes of a string of at most \<open>n\<close> bytes.\<close>

definition bounded_string :: "guest_memory \<Rightarrow> u64 \<Rightarrow> u64 \<Rightarrow> u8 list" where
  "bounded_string gm s n = takeWhile (\<lambda>c. c \<noteq> 0) (guest_bytes gm s (unat n))"

definition libc_strncpy :: "guest_memory \<Rightarrow> u64 \<Rightarrow> u64 \<Rightarrow> u64 \<Rightarrow> guest_memory" where
  "libc_strncpy gm dest src n =
     (let bytes = bounded_string gm src n
      in guest_store gm dest (bytes @ replicate (unat n - length bytes) 0))"

definition libc_append :: "guest_memory \<Rightarrow> u64 \<Rightarrow> u8 list \<Rightarrow> guest_memory option" where
  "libc_append gm dest bytes =
     map_option (\<lambda>e. guest_store gm e (bytes @ [0])) (scan_bytes (\<lambda>c. c = 0) gm dest)"

subsection \<open>Comparing\<close>

text \<open>The value for the first bytes that differ, an \<open>int\<close> that is converted to \<open>uint64_t\<close>.\<close>

type_synonym byte_order = "u8 \<Rightarrow> u8 \<Rightarrow> u32"

definition libc_memcmp :: "byte_order \<Rightarrow> guest_memory \<Rightarrow> u64 \<Rightarrow> u64 \<Rightarrow> u64 \<Rightarrow> u64" where
  "libc_memcmp diff gm a b n =
     (case dropWhile (\<lambda>(x, y). x = y) (zip (guest_bytes gm a (unat n)) (guest_bytes gm b (unat n))) of
        [] \<Rightarrow> 0
      | (x, y) # _ \<Rightarrow> scast (diff x y))"

definition libc_strncmp :: "byte_order \<Rightarrow> guest_memory \<Rightarrow> u64 \<Rightarrow> u64 \<Rightarrow> u64 \<Rightarrow> u64" where
  "libc_strncmp diff gm a b n =
     (case dropWhile (\<lambda>(x, y). x = y \<and> x \<noteq> 0) (zip (guest_bytes gm a (unat n)) (guest_bytes gm b (unat n))) of
        [] \<Rightarrow> 0
      | (x, y) # _ \<Rightarrow> if x = y then 0 else scast (diff x y))"

partial_function (option) libc_strcmp :: "byte_order \<Rightarrow> guest_memory \<Rightarrow> u64 \<Rightarrow> u64 \<Rightarrow> u64 option" where
  "libc_strcmp diff gm a b =
     (let x = gm_byte gm a; y = gm_byte gm b
      in if x \<noteq> y then Some (scast (diff x y))
         else if x = 0 then Some 0
         else libc_strcmp diff gm (a + 1) (b + 1))"

definition last_index :: "('a \<Rightarrow> bool) \<Rightarrow> 'a list \<Rightarrow> nat option" where
  "last_index P xs = map_option (\<lambda>n. length xs - 1 - n) (first_index P (rev xs))"

definition sublist_index :: "'a list \<Rightarrow> 'a list \<Rightarrow> nat option" where
  "sublist_index needle xs =
     first_index (\<lambda>k. take (length needle) (drop k xs) = needle) [0..<length xs + 1]"

subsection \<open>Character classes\<close>

definition polyexec_ascii_isspace :: "u8 \<Rightarrow> bool" where
  "polyexec_ascii_isspace c \<longleftrightarrow> c = 0x20 \<or> c = 0x0c \<or> c = 0x0a \<or> c = 0x0d \<or> c = 0x09 \<or> c = 0x0b"

definition polyexec_ascii_isdigit :: "u8 \<Rightarrow> bool" where
  "polyexec_ascii_isdigit c \<longleftrightarrow> 0x30 \<le> c \<and> c \<le> 0x39"

definition polyexec_ascii_isalpha :: "u8 \<Rightarrow> bool" where
  "polyexec_ascii_isalpha c \<longleftrightarrow> (0x41 \<le> c \<and> c \<le> 0x5a) \<or> (0x61 \<le> c \<and> c \<le> 0x7a)"

definition polyexec_ascii_isupper :: "u8 \<Rightarrow> bool" where
  "polyexec_ascii_isupper c \<longleftrightarrow> 0x41 \<le> c \<and> c \<le> 0x5a"

definition polyexec_ascii_islower :: "u8 \<Rightarrow> bool" where
  "polyexec_ascii_islower c \<longleftrightarrow> 0x61 \<le> c \<and> c \<le> 0x7a"

definition polyexec_ascii_isxdigit :: "u8 \<Rightarrow> bool" where
  "polyexec_ascii_isxdigit c \<longleftrightarrow>
     polyexec_ascii_isdigit c \<or> (0x41 \<le> c \<and> c \<le> 0x46) \<or> (0x61 \<le> c \<and> c \<le> 0x66)"

definition polyexec_ascii_isblank :: "u8 \<Rightarrow> bool" where
  "polyexec_ascii_isblank c \<longleftrightarrow> c = 0x20 \<or> c = 0x09"

definition polyexec_ascii_iscntrl :: "u8 \<Rightarrow> bool" where
  "polyexec_ascii_iscntrl c \<longleftrightarrow> c < 0x20 \<or> c = 0x7f"

definition polyexec_ascii_isprint :: "u8 \<Rightarrow> bool" where
  "polyexec_ascii_isprint c \<longleftrightarrow> 0x20 \<le> c \<and> c < 0x7f"

definition polyexec_ascii_isgraph :: "u8 \<Rightarrow> bool" where
  "polyexec_ascii_isgraph c \<longleftrightarrow> 0x20 < c \<and> c < 0x7f"

definition polyexec_ascii_ispunct :: "u8 \<Rightarrow> bool" where
  "polyexec_ascii_ispunct c \<longleftrightarrow>
     polyexec_ascii_isgraph c \<and> \<not> polyexec_ascii_isalpha c \<and> \<not> polyexec_ascii_isdigit c"

subsection \<open>Numbers\<close>

definition polyexec_digit_value :: "u8 \<Rightarrow> int" where
  "polyexec_digit_value c =
     (if 0x30 \<le> c \<and> c \<le> 0x39 then uint c - 0x30
      else if 0x41 \<le> c \<and> c \<le> 0x5a then uint c - 0x41 + 10
      else if 0x61 \<le> c \<and> c \<le> 0x7a then uint c - 0x61 + 10
      else - 1)"

text \<open>The loop over the digits: the end of the number and its value, which wraps.\<close>

partial_function (option) strtoull_digits :: "guest_memory \<Rightarrow> int \<Rightarrow> u64 \<Rightarrow> u64 \<Rightarrow> (u64 \<times> u64) option" where
  "strtoull_digits gm base p value =
     (let digit = polyexec_digit_value (gm_byte gm p)
      in if digit < 0 \<or> digit \<ge> base then Some (p, value)
         else strtoull_digits gm base (p + 1) (value * word_of_int base + word_of_int digit))"

definition strtoull_base :: "guest_memory \<Rightarrow> int \<Rightarrow> u64 \<Rightarrow> int \<times> u64" where
  "strtoull_base gm base p =
     (if (base = 0 \<or> base = 16) \<and> gm_byte gm p = 0x30 \<and> (gm_byte gm (p + 1) = 0x78 \<or> gm_byte gm (p + 1) = 0x58)
      then (16, p + 2)
      else if base = 0 \<and> gm_byte gm p = 0x30 then (8, p + 1)
      else if base = 0 then (10, p)
      else (base, p))"

text \<open>The value, and the address where the number ends.\<close>

definition polyexec_strtoull_c :: "guest_memory \<Rightarrow> u64 \<Rightarrow> int \<Rightarrow> (u64 \<times> u64) option" where
  "polyexec_strtoull_c gm nptr base =
     (case scan_bytes (\<lambda>c. \<not> polyexec_ascii_isspace c) gm nptr of
        None \<Rightarrow> None
      | Some p \<Rightarrow>
          (let signed = (gm_byte gm p = 0x2b \<or> gm_byte gm p = 0x2d);
               negative = (gm_byte gm p = 0x2d);
               p = (if signed then p + 1 else p);
               (base, p) = strtoull_base gm base p
           in if base < 2 \<or> base > 36 then Some (0, nptr)
              else
                (case strtoull_digits gm base p 0 of
                   None \<Rightarrow> None
                 | Some (q, value) \<Rightarrow>
                     if q = p then Some (0, nptr)
                     else Some (if negative then - value else value, q))))"

definition store_end :: "guest_memory \<Rightarrow> u64 \<Rightarrow> u64 \<times> u64 \<Rightarrow> guest_memory \<times> u64" where
  "store_end gm endptr r =
     (if endptr = 0 then (gm, fst r) else (guest_store gm endptr (le_bytes 8 (snd r)), fst r))"

definition number_base :: "u64 \<Rightarrow> int" where
  "number_base base = sint (ucast base :: u32)"

subsection \<open>The imports\<close>

definition flag_word :: "bool \<Rightarrow> u64" where
  "flag_word b = (if b then 1 else 0)"

definition int_arg :: "u64 \<Rightarrow> u32" where
  "int_arg w = ucast w"

definition word_abs :: "'a::len word \<Rightarrow> 'a word" where
  "word_abs w = (if w <s 0 then - w else w)"

definition find_first_set :: "'a::len word \<Rightarrow> u64" where
  "find_first_set w = (case first_index (bit w) [0..<size w] of None \<Rightarrow> 0 | Some n \<Rightarrow> of_nat (Suc n))"

definition libc_tolower :: "u8 \<Rightarrow> u64" where
  "libc_tolower c = ucast (if polyexec_ascii_isupper c then c + 0x20 else c)"

definition libc_toupper :: "u8 \<Rightarrow> u64" where
  "libc_toupper c = ucast (if polyexec_ascii_islower c then c - 0x20 else c)"

definition string_imports ::
    "byte_order \<Rightarrow> u64 \<Rightarrow> u64 list \<Rightarrow> guest_memory \<Rightarrow> (guest_memory \<times> u64) option" where
  "string_imports diff number args gm =
     (let a = args ! 0; b = args ! 1; c = args ! 2; value = map_option (Pair gm) in
      if number = 8 then value (map_option (\<lambda>e. e - a) (scan_bytes (\<lambda>x. x = 0) gm a))
      else if number = 9 \<or> number = 15 then Some (libc_memcpy gm a b c, a)
      else if number = 10 then Some (libc_memset gm a (ucast b) c, a)
      else if number = 11 \<or> number = 35 then Some (gm, libc_memcmp diff gm a b c)
      else if number = 16 then value (libc_strcmp diff gm a b)
      else if number = 17 then Some (gm, libc_strncmp diff gm a b c)
      else if number = 18 then Some (gm, address_of a (first_index (\<lambda>x. x = ucast b) (guest_bytes gm a (unat c))))
      else if number = 19 then
        value (map_option (\<lambda>s. address_of a (first_index (\<lambda>x. x = ucast b) (s @ [0]))) (c_string gm a))
      else if number = 20 then
        value (map_option (\<lambda>s. address_of a (last_index (\<lambda>x. x = ucast b) (s @ [0]))) (c_string gm a))
      else if number = 21 then
        value (case (c_string gm a, c_string gm b) of
                 (Some s, Some t) \<Rightarrow> Some (address_of a (sublist_index t s))
               | _ \<Rightarrow> None)
      else if number = 22 then map_option (\<lambda>s. (guest_store gm a (s @ [0]), a)) (c_string gm b)
      else if number = 23 then Some (libc_strncpy gm a b c, a)
      else if number = 24 then Some (gm, of_nat (length (bounded_string gm a b)))
      else if number = 25 then
        (case c_string gm b of None \<Rightarrow> None | Some s \<Rightarrow> map_option (\<lambda>gm. (gm, a)) (libc_append gm a s))
      else if number = 26 then map_option (\<lambda>gm. (gm, a)) (libc_append gm a (bounded_string gm b c))
      else if number = 27 then
        value (case (c_string gm a, c_string gm b) of
                 (Some s, Some t) \<Rightarrow> Some (of_nat (length (takeWhile (\<lambda>x. x \<in> set t) s)))
               | _ \<Rightarrow> None)
      else if number = 28 then
        value (case (c_string gm a, c_string gm b) of
                 (Some s, Some t) \<Rightarrow> Some (of_nat (length (takeWhile (\<lambda>x. x \<notin> set t) s)))
               | _ \<Rightarrow> None)
      else if number = 29 then
        value (case (c_string gm a, c_string gm b) of
                 (Some s, Some t) \<Rightarrow> Some (address_of a (first_index (\<lambda>x. x \<in> set t) s))
               | _ \<Rightarrow> None)
      else if number = 30 then polyexec_stpcpy gm a b
      else if number = 31 then Some (polyexec_stpncpy gm a b c)
      else if number = 32 then Some (polyexec_mempcpy gm a b c)
      else if number = 33 then value (polyexec_rawmemchr gm a b)
      else if number = 34 then value (polyexec_strchrnul gm a b)
      else if number = 36 then Some (libc_memcpy gm b a c, 0)
      else if number = 37 then Some (libc_memset gm a 0 b, 0)
      else if number = 38 then Some (gm, polyexec_memrchr gm a b c)
      else if number = 39 then Some (gm, polyexec_memmem gm a b c (args ! 3))
      else Some (gm, - ENOSYS))"

definition number_imports :: "u64 \<Rightarrow> u64 list \<Rightarrow> guest_memory \<Rightarrow> (guest_memory \<times> u64) option" where
  "number_imports number args gm =
     (let a = args ! 0; b = args ! 1; c = args ! 2; ch = ucast a :: u8 in
      if number = 195 then
        map_option (\<lambda>r. (gm, scast (int_arg (fst r)))) (polyexec_strtoull_c gm a 10)
      else if number = 228 \<or> number = 229 then map_option (\<lambda>r. (gm, fst r)) (polyexec_strtoull_c gm a 10)
      else if 196 \<le> number \<and> number \<le> 199 then
        map_option (store_end gm b) (polyexec_strtoull_c gm a (number_base c))
      else if number = 211 then Some (gm, flag_word (polyexec_ascii_isalpha ch \<or> polyexec_ascii_isdigit ch))
      else if number = 212 then Some (gm, flag_word (polyexec_ascii_isalpha ch))
      else if number = 213 then Some (gm, flag_word (polyexec_ascii_isdigit ch))
      else if number = 214 then Some (gm, flag_word (polyexec_ascii_islower ch))
      else if number = 215 then Some (gm, flag_word (polyexec_ascii_isspace ch))
      else if number = 216 then Some (gm, flag_word (polyexec_ascii_isupper ch))
      else if number = 217 then Some (gm, flag_word (polyexec_ascii_isxdigit ch))
      else if number = 218 then Some (gm, flag_word (polyexec_ascii_isblank ch))
      else if number = 219 then Some (gm, flag_word (polyexec_ascii_iscntrl ch))
      else if number = 220 then Some (gm, flag_word (polyexec_ascii_isgraph ch))
      else if number = 221 then Some (gm, flag_word (polyexec_ascii_isprint ch))
      else if number = 222 then Some (gm, flag_word (polyexec_ascii_ispunct ch))
      else if number = 223 then Some (gm, libc_tolower ch)
      else if number = 224 then Some (gm, libc_toupper ch)
      else if number = 225 then Some (gm, scast (word_abs (int_arg a)))
      else if number = 226 \<or> number = 227 then Some (gm, word_abs a)
      else if number = 230 then Some (gm, find_first_set (int_arg a))
      else if number = 231 \<or> number = 232 then Some (gm, find_first_set a)
      else Some (gm, - ENOSYS))"

definition poly_handle_foreign_import ::
    "byte_order \<Rightarrow> u64 \<Rightarrow> u64 list \<Rightarrow> guest_memory \<Rightarrow> (guest_memory \<times> u64) option" where
  "poly_handle_foreign_import diff number args gm =
     (if number < 40 then string_imports diff number args gm else number_imports number args gm)"

end
