(* ===== verification/Libc_Policy.thy ===== *)
theory Libc_Policy
  imports Libc_Imports
begin

text \<open>
  What the imported C library functions promise: numbers are read as their digits
  say, searches find the first occurrence, and copies that do not overlap store
  the string.
\<close>

subsection \<open>Loops\<close>

lemma scan_bytes_ends:
  assumes "\<And>i. i < n \<Longrightarrow> \<not> stop (gm_byte gm (p + of_nat i))" and "stop (gm_byte gm (p + of_nat n))"
  shows "scan_bytes stop gm p = Some (p + of_nat n)"
  using assms
proof (induction n arbitrary: p)
  case 0
  then show ?case by (subst scan_bytes.simps) simp
next
  case (Suc n)
  have "\<not> stop (gm_byte gm p)" using Suc.prems(1)[of 0] by simp
  moreover have "scan_bytes stop gm (p + 1) = Some (p + 1 + of_nat n)"
    using Suc.prems(1)[of "Suc i" for i] Suc.prems(2) by (intro Suc.IH) (simp_all add: algebra_simps)
  ultimately show ?case by (subst scan_bytes.simps) (simp add: algebra_simps)
qed

lemma length_guest_bytes [simp]: "length (guest_bytes gm p n) = n"
  by (simp add: guest_bytes_def)

lemma guest_bytes_Cons:
  "guest_bytes gm p (Suc n) = gm_byte gm p # guest_bytes gm (p + 1) n"
  unfolding guest_bytes_def upt_conv_Cons[OF zero_less_Suc] list.map
  by (simp add: map_Suc_upt[symmetric] algebra_simps del: upt_Suc)

lemma guest_bytes_split:
  "guest_bytes gm p (m + n) = guest_bytes gm p m @ guest_bytes gm (p + of_nat m) n"
  by (induction m arbitrary: p) (simp_all add: guest_bytes_Cons guest_bytes_def[of _ _ 0] algebra_simps)

lemma guest_bytes_append:
  "guest_bytes gm p (length (xs @ ys)) = xs @ ys \<longleftrightarrow>
     guest_bytes gm p (length xs) = xs \<and> guest_bytes gm (p + of_nat (length xs)) (length ys) = ys"
  by (simp only: length_append guest_bytes_split) (simp add: length_guest_bytes)

lemma guest_bytes_nth_of:
  assumes "guest_bytes gm p (length xs) = xs" "i < length xs"
  shows "gm_byte gm (p + of_nat i) = xs ! i"
  using arg_cong[OF assms(1), of "\<lambda>l. l ! i"] assms(2) by (simp add: guest_bytes_def)

subsection \<open>Numbers\<close>

definition digits_value :: "int \<Rightarrow> u8 list \<Rightarrow> int" where
  "digits_value base ds = foldl (\<lambda>v d. v * base + polyexec_digit_value d) 0 ds"

definition digit_in :: "int \<Rightarrow> u8 \<Rightarrow> bool" where
  "digit_in base c \<longleftrightarrow> 0 \<le> polyexec_digit_value c \<and> polyexec_digit_value c < base"

lemma strtoull_digits_reads:
  assumes "guest_bytes gm p (length (ds @ [t])) = ds @ [t]" and "list_all (digit_in base) ds" and "\<not> digit_in base t"
  shows "strtoull_digits gm base p (word_of_int v) =
     Some (p + of_nat (length ds), word_of_int (foldl (\<lambda>v d. v * base + polyexec_digit_value d) v ds))"
  using assms
proof (induction ds arbitrary: p v)
  case Nil
  then have "\<not> digit_in base (gm_byte gm p)" by (simp add: guest_bytes_def)
  then show ?case by (subst strtoull_digits.simps) (auto simp: digit_in_def Let_def)
next
  case (Cons d ds)
  have d: "gm_byte gm p = d" "guest_bytes gm (p + 1) (length (ds @ [t])) = ds @ [t]"
    using Cons.prems(1) by (simp_all add: guest_bytes_Cons)
  have "strtoull_digits gm base (p + 1) (word_of_int (v * base + polyexec_digit_value d)) =
     Some (p + 1 + of_nat (length ds), word_of_int (foldl (\<lambda>v d. v * base + polyexec_digit_value d)
       (v * base + polyexec_digit_value d) ds))"
    using Cons.prems by (intro Cons.IH d) simp_all
  then show ?case using Cons.prems(2) d(1)
    by (subst strtoull_digits.simps) (simp add: digit_in_def Let_def algebra_simps)
qed

text \<open>A number as the functions accept it: blanks, a sign, digits, and a byte that ends it.\<close>

definition number_text :: "u8 list \<Rightarrow> u8 list \<Rightarrow> u8 list \<Rightarrow> bool" where
  "number_text ws sign rest \<longleftrightarrow>
     list_all polyexec_ascii_isspace ws \<and> (sign = [] \<or> sign = [0x2b] \<or> sign = [0x2d]) \<and> rest \<noteq> [] \<and>
     (sign = [] \<longrightarrow> \<not> polyexec_ascii_isspace (hd rest) \<and> hd rest \<noteq> 0x2b \<and> hd rest \<noteq> 0x2d)"

lemma strtoull_after_sign:
  assumes mem: "guest_bytes gm nptr (length (ws @ sign @ rest)) = ws @ sign @ rest" and t: "number_text ws sign rest"
  shows "polyexec_strtoull_c gm nptr base =
     (let p = nptr + of_nat (length (ws @ sign)); (b, p) = strtoull_base gm base p
      in if b < 2 \<or> b > 36 then Some (0, nptr)
         else (case strtoull_digits gm b p 0 of
                 None \<Rightarrow> None
               | Some (q, value) \<Rightarrow>
                   if q = p then Some (0, nptr) else Some (if sign = [0x2d] then - value else value, q)))"
proof -
  let ?p = "nptr + of_nat (length ws)"
  have ws: "guest_bytes gm nptr (length ws) = ws" and sr: "guest_bytes gm ?p (length (sign @ rest)) = sign @ rest"
    using mem by (simp_all only: guest_bytes_append)
  obtain r rs where r: "rest = r # rs" using t by (auto simp: number_text_def neq_Nil_conv)
  have first: "gm_byte gm ?p = hd (sign @ rest)"
    using guest_bytes_nth_of[OF sr, of 0] by (simp add: r hd_conv_nth)
  have "scan_bytes (\<lambda>c. \<not> polyexec_ascii_isspace c) gm nptr = Some ?p"
  proof (rule scan_bytes_ends)
    show "\<not> \<not> polyexec_ascii_isspace (gm_byte gm (nptr + of_nat i))" if "i < length ws" for i
      using guest_bytes_nth_of[OF ws that] t that by (simp add: number_text_def list_all_length)
    show "\<not> polyexec_ascii_isspace (gm_byte gm ?p)"
      using t unfolding first by (auto simp: number_text_def polyexec_ascii_isspace_def)
  qed
  moreover have "(if gm_byte gm ?p = 0x2b \<or> gm_byte gm ?p = 0x2d then ?p + 1 else ?p) = nptr + of_nat (length (ws @ sign))"
    using t unfolding first by (auto simp: number_text_def)
  moreover have "(gm_byte gm ?p = 0x2d) = (sign = [0x2d])"
    using t unfolding first by (auto simp: number_text_def)
  ultimately show ?thesis unfolding polyexec_strtoull_c_def Let_def by (simp only: option.case)
qed

definition plain_base :: "int \<Rightarrow> u8 list \<Rightarrow> bool" where
  "plain_base base rest \<longleftrightarrow> 2 \<le> base \<and> base \<le> 36 \<and>
     (base = 16 \<longrightarrow> \<not> (length rest > 1 \<and> rest ! 0 = 0x30 \<and> (rest ! 1 = 0x78 \<or> rest ! 1 = 0x58)))"

lemma strtoull_base_plain:
  assumes "guest_bytes gm p (length rest) = rest" "length rest > 1" "plain_base base rest"
  shows "strtoull_base gm base p = (base, p)"
proof -
  have "gm_byte gm p = rest ! 0" "gm_byte gm (p + 1) = rest ! 1"
    using guest_bytes_nth_of[OF assms(1), of 0] guest_bytes_nth_of[OF assms(1), of 1] assms(2) by force+
  then show ?thesis using assms(2,3) by (auto simp: strtoull_base_def plain_base_def)
qed

subsection \<open>Searching\<close>

lemma first_index_None: "first_index P xs = None \<longleftrightarrow> (\<forall>x \<in> set xs. \<not> P x)"
  by (induction xs) auto

lemma first_index_Some:
  "first_index P xs = Some n \<longleftrightarrow> n < length xs \<and> P (xs ! n) \<and> (\<forall>i < n. \<not> P (xs ! i))"
proof (induction xs arbitrary: n)
  case Nil
  then show ?case by simp
next
  case (Cons x xs)
  show ?case by (cases n) (auto simp: Cons.IH All_less_Suc2)
qed

definition occurs_at :: "guest_memory \<Rightarrow> u64 \<Rightarrow> u64 \<Rightarrow> u64 \<Rightarrow> u64 \<Rightarrow> nat \<Rightarrow> bool" where
  "occurs_at gm haystack haystack_len needle needle_len k \<longleftrightarrow>
     k + unat needle_len \<le> unat haystack_len \<and>
     guest_bytes gm (haystack + of_nat k) (unat needle_len) = guest_bytes gm needle (unat needle_len)"

lemma memmem_candidates:
  assumes "needle_len \<noteq> 0" "needle_len \<le> haystack_len"
  shows "(k < unat (haystack_len - needle_len) + 1 \<and> gm_byte gm (haystack + of_nat k) = gm_byte gm needle \<and>
       guest_bytes gm (haystack + of_nat k) (unat needle_len) = guest_bytes gm needle (unat needle_len)) \<longleftrightarrow>
     occurs_at gm haystack haystack_len needle needle_len k"
proof -
  obtain m where m: "unat needle_len = Suc m" using assms(1) by (cases "unat needle_len") (auto simp: unat_eq_0)
  have "unat (haystack_len - needle_len) = unat haystack_len - unat needle_len"
    using assms(2) by (simp add: unat_sub word_le_nat_alt)
  moreover have "unat needle_len \<le> unat haystack_len" using assms(2) by (simp add: word_le_nat_alt)
  ultimately show ?thesis unfolding occurs_at_def m guest_bytes_Cons by auto
qed

subsection \<open>Copying\<close>

text \<open>The bytes from \<open>a\<close> and the bytes from \<open>b\<close> do not share an address.\<close>

definition apart :: "u64 \<Rightarrow> nat \<Rightarrow> u64 \<Rightarrow> nat \<Rightarrow> bool" where
  "apart a m b n \<longleftrightarrow> (\<forall>i < m. \<forall>j < n. a + of_nat i \<noteq> b + of_nat j)"

lemma guest_store_Cons:
  assumes "length cs < 2 ^ 64 - 1"
  shows "guest_store (guest_store gm p [c]) (p + 1) cs = guest_store gm p (c # cs)"
proof (intro guest_memory.equality ext)
  fix a
  show "gm_byte (guest_store (guest_store gm p [c]) (p + 1) cs) a = gm_byte (guest_store gm p (c # cs)) a"
  proof (cases "a = p")
    case True
    then show ?thesis using assms by (simp add: guest_store_def unsigned_minus_1_eq_mask mask_eq_exp_minus_1)
  next
    case False
    then have "a - p \<noteq> 0" by simp
    then have u: "unat (a - (p + 1)) = unat (a - p) - 1" "unat (a - p) \<noteq> 0"
      using unat_minus_one[of "a - p"] by (simp_all add: diff_diff_eq unat_eq_0)
    then show ?thesis by (cases "unat (a - p)") (simp_all add: guest_store_def)
  qed
qed (simp_all add: guest_store_def)

lemma stpcpy_stores:
  assumes "guest_bytes gm src (length (s @ [0])) = s @ [0]" and "0 \<notin> set s" and "length s < 2 ^ 64 - 1"
    and "apart dest (Suc (length s)) src (Suc (length s))"
  shows "polyexec_stpcpy gm dest src = Some (guest_store gm dest (s @ [0]), dest + of_nat (length s))"
  using assms
proof (induction s arbitrary: gm dest src)
  case Nil
  then have "gm_byte gm src = 0" by (simp add: guest_bytes_def)
  then show ?case by (subst polyexec_stpcpy.simps) (simp add: Let_def)
next
  case (Cons c s)
  let ?gm = "guest_store gm dest [c]"
  have c: "gm_byte gm src = c" "guest_bytes gm (src + 1) (length (s @ [0])) = s @ [0]" "c \<noteq> 0"
    using Cons.prems(1,2) by (simp_all add: guest_bytes_Cons)
  have off: "dest \<noteq> src + 1 + of_nat j" if "j < Suc (length s)" for j
    using Cons.prems(4)[unfolded apart_def, rule_format, of 0 "Suc j"] that by (simp add: algebra_simps)
  have "guest_bytes ?gm (src + 1) (length (s @ [0])) = guest_bytes gm (src + 1) (length (s @ [0]))"
    unfolding guest_bytes_def 
  proof (intro map_cong refl)
    fix j assume "j \<in> set [0..<length (s @ [0])]"
    then have "dest \<noteq> src + 1 + of_nat j" by (intro off) auto
    then show "gm_byte ?gm (src + 1 + of_nat j) = gm_byte gm (src + 1 + of_nat j)"
      by (simp add: guest_store_def unat_eq_0)
  qed
  moreover have "apart (dest + 1) (Suc (length s)) (src + 1) (Suc (length s))"
    unfolding apart_def
  proof (intro allI impI)
    fix i j assume "i < Suc (length s)" "j < Suc (length s)"
    then show "dest + 1 + of_nat i \<noteq> src + 1 + of_nat j"
      using Cons.prems(4)[unfolded apart_def, rule_format, of "Suc i" "Suc j"] by (simp add: algebra_simps)
  qed
  ultimately have "polyexec_stpcpy ?gm (dest + 1) (src + 1) =
      Some (guest_store ?gm (dest + 1) (s @ [0]), dest + 1 + of_nat (length s))"
    using Cons.prems(2,3) c(2) by (intro Cons.IH) simp_all
  moreover have "guest_store ?gm (dest + 1) (s @ [0]) = guest_store gm dest ((c # s) @ [0])"
    using Cons.prems(3) by (simp add: guest_store_Cons)
  ultimately show ?case using c(1,3) by (subst polyexec_stpcpy.simps) (simp add: Let_def algebra_simps)
qed

subsection \<open>Properties\<close>



text \<open>
  With base 0, a lone zero is not converted: the value is 0 but the end is
  reported at the start of the text, as if there were no number.
\<close>

lemma strtoull_zero_unconverted:
  assumes "guest_bytes gm nptr (length (ws @ sign @ [0x30, t])) = ws @ sign @ [0x30, t]"
    and "number_text ws sign [0x30, t]" and "t \<noteq> 0x78" and "t \<noteq> 0x58" and "\<not> digit_in 8 t"
  shows "polyexec_strtoull_c gm nptr 0 = Some (0, nptr)"
proof -
  let ?p = "nptr + of_nat (length (ws @ sign))"
  have mem: "guest_bytes gm ?p (length [0x30, t]) = [0x30, t]"
    using assms(1) guest_bytes_append[of gm nptr "ws @ sign" "[0x30, t]"] by simp
  have b: "gm_byte gm ?p = 0x30" "gm_byte gm (?p + 1) = t"
    using guest_bytes_nth_of[OF mem, of 0] guest_bytes_nth_of[OF mem, of 1] by simp_all
  have "strtoull_digits gm 8 (?p + 1) 0 = Some (?p + 1, 0)"
    using b(2) assms(5) by (subst strtoull_digits.simps) (auto simp: digit_in_def Let_def)
  then show ?thesis
    using strtoull_after_sign[OF assms(1,2), of 0] b assms(3,4) by (simp add: Let_def strtoull_base_def)
qed

text \<open>
  Searching memory for a byte sequence finds the first occurrence, and null
  exactly when there is none.
\<close>

lemma memmem_finds_first:
  "(\<forall>k. occurs_at gm h hl n nl k \<and> (\<forall>j < k. \<not> occurs_at gm h hl n nl j) \<longrightarrow>
        polyexec_memmem gm h hl n nl = h + of_nat k) \<and>
   ((\<forall>k. \<not> occurs_at gm h hl n nl k) \<longrightarrow> polyexec_memmem gm h hl n nl = 0)"
proof (cases "nl = 0 \<or> nl > hl")
  case True
  then show ?thesis
    by (auto simp: polyexec_memmem_def occurs_at_def guest_bytes_def word_less_nat_alt dest!: spec[of _ 0])
next
  case False
  then have c: "nl \<noteq> 0" "nl \<le> hl" by auto
  show ?thesis
  proof (intro conjI allI impI)
    fix k assume "occurs_at gm h hl n nl k \<and> (\<forall>j < k. \<not> occurs_at gm h hl n nl j)"
    then have "first_index (\<lambda>k. gm_byte gm (h + of_nat k) = gm_byte gm n \<and>
        guest_bytes gm (h + of_nat k) (unat nl) = guest_bytes gm n (unat nl)) [0..<unat (hl - nl) + 1] = Some k"
      unfolding first_index_Some memmem_candidates[OF c, symmetric]
      by (auto simp del: upt_Suc)
    then show "polyexec_memmem gm h hl n nl = h + of_nat k"
      using False by (simp add: polyexec_memmem_def address_of_def)
  next
    assume "\<forall>k. \<not> occurs_at gm h hl n nl k"
    then have "first_index (\<lambda>k. gm_byte gm (h + of_nat k) = gm_byte gm n \<and>
        guest_bytes gm (h + of_nat k) (unat nl) = guest_bytes gm n (unat nl)) [0..<unat (hl - nl) + 1] = None"
      unfolding first_index_None memmem_candidates[OF c, symmetric] by (auto simp del: upt_Suc)
    then show "polyexec_memmem gm h hl n nl = 0"
      using False by (simp add: polyexec_memmem_def address_of_def)
  qed
qed

end
