(* ===== verification/Signal_Roundtrip.thy ===== *)
theory Signal_Roundtrip
  imports Signal_Delivery Signal_Virtualization
begin

text \<open>
  What delivery and return from a handler guarantee together: the frame a
  delivery writes decodes to the context that was saved, so that the return
  gives the interrupted code its registers, its program counter and its signal
  mask back.
\<close>

subsection \<open>Sizes\<close>

definition signal_sizes :: "poly_xsave_state \<Rightarrow> bool" where
  "signal_sizes state \<longleftrightarrow>
     length (xs_event_args state) = 8 \<and> ok_event_record (xs_event_record state) \<and>
     length (xs_aarch64_gpr state) = 32 \<and> length (xs_aarch64_fp state) = 32 \<and>
     length (xs_riscv_gpr state) = 32 \<and> length (xs_riscv_fp state) = 32 \<and>
     ok_trap_restore_state (xs_trap_restore state) \<and> ok_native_return_state (xs_native_return state)"

lemma ok_u128_all [simp]: "list_all ok_u128 xs"
  by (simp add: list_all_iff ok_u128_def)

lemma saved_restore_ok:
  "signal_sizes state \<Longrightarrow> ok_trap_restore_state (saved_restore m state)"
  by (auto simp: signal_sizes_def saved_restore_def Let_def ok_trap_restore_state_def)

lemma saved_args_length: "signal_sizes state \<Longrightarrow> length (saved_args state) = 8"
  by (simp add: signal_sizes_def saved_args_def)

lemma aarch64_saved_lengths:
  assumes "signal_sizes state"
  shows "length (a64s_gpr (aarch64_saved_context state)) = 32"
    and "length (a64s_fp (aarch64_saved_context state)) = 32"
  using assms by (simp_all add: aarch64_saved_context_def Let_def signal_sizes_def ok_trap_restore_state_def)

lemma riscv_saved_lengths:
  assumes "signal_sizes state"
  shows "length (rvs_gpr (riscv_saved_context state)) = 32"
    and "length (rvs_fp (riscv_saved_context state)) = 32"
  using assms by (simp_all add: riscv_saved_context_def Let_def signal_sizes_def ok_trap_restore_state_def)

lemma signal_info_ok: "ok_siginfo (signal_info signum fa fc)"
  by (simp add: ok_siginfo_def signal_info_def)

lemma aarch64_frame_ok:
  assumes "signal_sizes state"
  shows "ok_aarch64_virtual_signal_frame (aarch64_signal_frame m state st signum fa fc fsp alt pc)"
  using assms saved_restore_ok[OF assms, of m] saved_args_length[OF assms] aarch64_saved_lengths[OF assms]
  by (simp add: aarch64_signal_frame_def Let_def ok_aarch64_virtual_signal_frame_def signal_info_ok
      ok_aarch64_ucontext_def ok_aarch64_sigcontext_def signal_sizes_def)

lemma riscv_frame_ok:
  assumes "signal_sizes state"
  shows "ok_riscv_virtual_signal_frame (riscv_signal_frame m state st signum fa fc fsp alt pc)"
  using assms saved_restore_ok[OF assms, of m] saved_args_length[OF assms] riscv_saved_lengths[OF assms]
  by (simp add: riscv_signal_frame_def Let_def ok_riscv_virtual_signal_frame_def signal_info_ok
      ok_riscv_ucontext_def ok_riscv_sigcontext_def signal_sizes_def)

subsection \<open>Choosing a signal\<close>

lemma deliverable_bounds:
  "poly_guest_signal_action_deliverable mode signum st = Some action \<Longrightarrow> signum < 65"
  by (simp add: poly_guest_signal_action_deliverable_def split: if_splits)

lemma select_signal_spec:
  assumes "select_signal mode forced state st = (st', Some (signum, action))"
  shows "\<exists>p. st' = st\<lparr>poly_pending_virtual_signal_mask := p\<rparr>"
    and "signum < 65" and "signum \<noteq> 0" and "forced \<noteq> 0 \<Longrightarrow> signum = unat forced"
    and "poly_guest_signal_action_deliverable mode signum st = Some action"
proof -
  have "(\<exists>p. st' = st\<lparr>poly_pending_virtual_signal_mask := p\<rparr>) \<and> signum < 65 \<and> signum \<noteq> 0 \<and>
      (forced \<noteq> 0 \<longrightarrow> signum = unat forced) \<and> poly_guest_signal_action_deliverable mode signum st = Some action"
  proof (cases "forced = 0")
    case True
    then have p: "pick_signal mode [1..<32] st = (st', Some (signum, action))"
      using assms by (simp add: select_signal_def split: if_splits)
    show ?thesis using pick_signal_least[OF p] True by (auto simp: ready_signal_def split: if_splits)
  next
    case False
    then have s: "st' = st" "signum = unat forced" "poly_guest_signal_action_deliverable mode signum st = Some action"
      using assms by (auto simp: select_signal_def split: if_splits)
    have "\<exists>p. st = st\<lparr>poly_pending_virtual_signal_mask := p\<rparr>"
      by (rule exI[of _ "poly_pending_virtual_signal_mask st"]) simp
    then show ?thesis using s deliverable_bounds[OF s(3)] False by (auto simp: unat_eq_0)
  qed
  then show "\<exists>p. st' = st\<lparr>poly_pending_virtual_signal_mask := p\<rparr>"
    "signum < 65" "signum \<noteq> 0" "forced \<noteq> 0 \<Longrightarrow> signum = unat forced"
    "poly_guest_signal_action_deliverable mode signum st = Some action" by blast+
qed

lemma find_interrupted_pc_zero:
  assumes "find_interrupted_pc mode forced state link gm = 0"
  shows "er_resume_pc (xs_event_record state) = 0" "er_trap_pc (xs_event_record state) = 0"
  using assms by (auto simp: find_interrupted_pc_def Let_def split: if_splits)

lemma restored_pc_of_interrupted:
  "restored_pc_of (find_interrupted_pc mode forced state link gm) (xs_event_record state) =
     find_interrupted_pc mode forced state link gm"
  using find_interrupted_pc_zero[of mode forced state link gm] by (simp add: restored_pc_of_def)

subsection \<open>A successful delivery\<close>

lemma prefault_bytes [simp]: "gm_byte (poly_prefault_range m a n gm) = gm_byte gm"
  by (simp add: poly_prefault_range_def)

lemma probed_memory_byte [simp]: "gm_byte (probed_memory m signal_sp total_size gm) = gm_byte gm"
  by (simp add: probed_memory_def)

lemma aarch64_deliveredE:
  assumes "poly_try_deliver_aarch64_signal m forced fa fc (state, st, gm) = ((state', st', gm'), True)"
  obtains st1 signum action signal_sp use_alt frame where
    "poly_aarch64_active_signal_frame st = 0"
    "select_signal POLY_MODE_RAW_AARCH64 forced state st = (st1, Some (signum, action))"
    "handler_stack (poly_aarch64_guest_sigaltstack st1) signum forced action
       (a64s_gpr (aarch64_saved_context state) ! 31) aarch64_total_size gm = Inr (signal_sp, use_alt)"
    "poly_guest_range_is_mapped (probed_memory m signal_sp aarch64_total_size gm) signal_sp aarch64_total_size True"
    "frame = aarch64_signal_frame m state st1 signum fa fc (signal_sp + 32) use_alt
       (find_interrupted_pc POLY_MODE_RAW_AARCH64 forced state (xs_aarch64_gpr state ! 30) gm)"
    "gm' = store_signal_frame signal_sp signum (a64f_handler_args frame ! 2) (a64f_handler_args frame ! 3)
       (enc_aarch64_virtual_signal_frame frame) (probed_memory m signal_sp aarch64_total_size gm)"
    "st' = (enter_handler_mask signum action (if forced = 0 then clear_pending signum st1 else st1))
       \<lparr>poly_aarch64_active_signal_frame := signal_sp + 32\<rparr>"
    "poly_derive_state_value m (enter_aarch64_handler frame signum action signal_sp state)
       (handler_descriptor POLY_MODE_RAW_AARCH64 (dl_handler action) signal_sp signum) = (0, state')"
proof -
  obtain st1 sel where sel: "select_signal POLY_MODE_RAW_AARCH64 forced state st = (st1, sel)" by fastforce
  note D = assms[unfolded poly_try_deliver_aarch64_signal_def Let_def prod.case sel]
  have active: "poly_aarch64_active_signal_frame st = 0"
    using D by (simp split: if_splits)
  obtain signum action where sel': "sel = Some (signum, action)"
    using D active by (cases sel) auto
  obtain signal_sp use_alt where hs: "handler_stack (poly_aarch64_guest_sigaltstack st1) signum forced action
       (a64s_gpr (aarch64_saved_context state) ! 31) aarch64_total_size gm = Inr (signal_sp, use_alt)"
    using D active sel' by (auto split: sum.splits stack_refusal.splits)
  note D = D[unfolded sel' option.case prod.case hs sum.case]
  have mapped: "poly_guest_range_is_mapped (probed_memory m signal_sp aarch64_total_size gm) signal_sp
      aarch64_total_size True"
    using D active by (simp split: if_splits)
  show thesis
    by (rule that[OF active _ hs mapped refl]) (use D active mapped sel sel' in \<open>auto split: prod.splits\<close>)
qed

lemma riscv_deliveredE:
  assumes "poly_try_deliver_riscv_signal m forced fa fc (state, st, gm) = ((state', st', gm'), True)"
  obtains st1 signum action signal_sp use_alt frame where
    "poly_riscv_active_signal_frame st = 0"
    "select_signal POLY_MODE_RAW_RISCV forced state st = (st1, Some (signum, action))"
    "handler_stack (poly_riscv_guest_sigaltstack st1) signum forced action
       (rvs_gpr (riscv_saved_context state) ! 2) riscv_total_size gm = Inr (signal_sp, use_alt)"
    "poly_guest_range_is_mapped (probed_memory m signal_sp riscv_total_size gm) signal_sp riscv_total_size True"
    "frame = riscv_signal_frame m state st1 signum fa fc (signal_sp + 32) use_alt
       (find_interrupted_pc POLY_MODE_RAW_RISCV forced state (xs_riscv_gpr state ! 1) gm)"
    "gm' = store_signal_frame signal_sp signum (rvf_handler_args frame ! 2) (rvf_handler_args frame ! 3)
       (enc_riscv_virtual_signal_frame frame) (probed_memory m signal_sp riscv_total_size gm)"
    "st' = (enter_handler_mask signum action (if forced = 0 then clear_pending signum st1 else st1))
       \<lparr>poly_riscv_active_signal_frame := signal_sp + 32\<rparr>"
    "poly_derive_state_value m (enter_riscv_handler frame signum action signal_sp state)
       (handler_descriptor POLY_MODE_RAW_RISCV (dl_handler action) signal_sp signum) = (0, state')"
proof -
  obtain st1 sel where sel: "select_signal POLY_MODE_RAW_RISCV forced state st = (st1, sel)" by fastforce
  note D = assms[unfolded poly_try_deliver_riscv_signal_def Let_def prod.case sel]
  have active: "poly_riscv_active_signal_frame st = 0"
    using D by (simp split: if_splits)
  obtain signum action where sel': "sel = Some (signum, action)"
    using D active by (cases sel) auto
  obtain signal_sp use_alt where hs: "handler_stack (poly_riscv_guest_sigaltstack st1) signum forced action
       (rvs_gpr (riscv_saved_context state) ! 2) riscv_total_size gm = Inr (signal_sp, use_alt)"
    using D active sel' by (auto split: sum.splits stack_refusal.splits)
  note D = D[unfolded sel' option.case prod.case hs sum.case]
  have mapped: "poly_guest_range_is_mapped (probed_memory m signal_sp riscv_total_size gm) signal_sp
      riscv_total_size True"
    using D active by (simp split: if_splits)
  show thesis
    by (rule that[OF active _ hs mapped refl]) (use D active mapped sel sel' in \<open>auto split: prod.splits\<close>)
qed

subsection \<open>Reading the frame back\<close>

lemma frame_address_nonzero:
  assumes "poly_guest_range_is_mapped gm signal_sp n w" and "n \<ge> 32" 
  shows "signal_sp + 32 \<noteq> 0"
proof
  assume "signal_sp + 32 = 0"
  then have "signal_sp = - 32" by (simp add: add_eq_0_iff2)
  moreover have "signal_sp \<le> - 1 - n" using assms by (auto simp: poly_guest_range_is_mapped_def split: if_splits)
  ultimately show False using assms(2) unsigned_less[of n, where 'a = nat]
    by (simp add: word_le_nat_alt unat_sub_if_size unsigned_minus_1_eq_mask mask_eq_exp_minus_1 word_size split: if_splits)
qed

lemma store_signal_frame_bytes:
  assumes "length frame_bytes = n" and "n < 2 ^ 64"
  shows "guest_bytes (store_signal_frame signal_sp signum info uc frame_bytes gm) (signal_sp + 32) n = frame_bytes"
  using assms by (simp add: store_signal_frame_def guest_bytes_store_exact)

lemma aarch64_frame_stored:
  assumes "ok_aarch64_virtual_signal_frame frame"
  shows "fst (dec_aarch64_virtual_signal_frame (guest_bytes
     (store_signal_frame signal_sp signum info uc (enc_aarch64_virtual_signal_frame frame) gm)
     (signal_sp + 32) (unat aarch64_frame_size))) = frame"
  using assms by (simp add: store_signal_frame_bytes a64framec.enc_width a64framec.dec_enc_exact)

lemma riscv_frame_stored:
  assumes "ok_riscv_virtual_signal_frame frame"
  shows "fst (dec_riscv_virtual_signal_frame (guest_bytes
     (store_signal_frame signal_sp signum info uc (enc_riscv_virtual_signal_frame frame) gm)
     (signal_sp + 32) (unat riscv_frame_size))) = frame"
  using assms by (simp add: store_signal_frame_bytes rvframec.enc_width rvframec.dec_enc_exact)


subsection \<open>Restoring the saved context\<close>

definition aarch64_live_context :: "poly_xsave_state \<Rightarrow> aarch64_saved" where
  "aarch64_live_context state =
     \<lparr>a64s_gpr = xs_aarch64_gpr state, a64s_fp = xs_aarch64_fp state,
      a64s_nzcv = a64_nzcv (xs_aarch64_status state), a64s_fpcr = a64_fpcr (xs_aarch64_status state),
      a64s_fpsr = a64_fpsr (xs_aarch64_status state)\<rparr>"

definition riscv_live_context :: "poly_xsave_state \<Rightarrow> riscv_saved" where
  "riscv_live_context state =
     \<lparr>rvs_gpr = xs_riscv_gpr state, rvs_fp = xs_riscv_fp state, rvs_fcsr = rv_fcsr (xs_riscv_status state)\<rparr>"

lemma take_31_append: "length xs = 32 \<Longrightarrow> take 31 xs @ [xs ! 31] = xs"
  using take_Suc_conv_app_nth[of 31 xs] by simp

lemma restore_aarch64_frame_facts:
  assumes "signal_sizes state"
    and "pc = find_interrupted_pc mode forced state link gm"
    and "frame = aarch64_signal_frame m state st signum fa fc fsp alt pc"
    and "restored = restore_aarch64_frame m frame state''"
  shows "aarch64_live_context restored = aarch64_saved_context state"
    and "hdr_foreign_pc (xs_header restored) = pc"
    and "hdr_current_mode (xs_header restored) = ucast POLY_MODE_RAW_AARCH64"
    and "xs_native_return restored = xs_native_return state"
    and "xs_event_args restored = saved_args state"
    and "xs_event_record restored = restored_event_record POLY_MODE_RAW_AARCH64 pc (xs_event_record state)"
    and "xs_transition restored = xs_transition state''"
    and "xs_import_return restored = xs_import_return state''"
    and "xs_cross_return restored = xs_cross_return state''"
    and "tr_aarch64_gpr (xs_trap_restore restored) = a64s_gpr (aarch64_saved_context state)"
  using take_31_append[OF aarch64_saved_lengths(1)[OF assms(1)]]
    restored_pc_of_interrupted[of mode forced state link gm]
  by (simp_all add: assms(2-4) restore_aarch64_frame_def aarch64_signal_frame_def Let_def
      aarch64_live_context_def saved_args_def poly_sanitize_aarch64_trap_restore_payload_def)

lemma restore_riscv_frame_facts:
  assumes "signal_sizes state"
    and "pc = find_interrupted_pc mode forced state link gm"
    and "frame = riscv_signal_frame m state st signum fa fc fsp alt pc"
    and "restored = restore_riscv_frame m frame state''"
  shows "riscv_live_context restored = (riscv_saved_context state)
      \<lparr>rvs_fcsr := rvs_fcsr (riscv_saved_context state) AND POLY_RISCV_FCSR_MASK\<rparr>"
    and "hdr_foreign_pc (xs_header restored) = pc"
    and "hdr_current_mode (xs_header restored) = ucast POLY_MODE_RAW_RISCV"
    and "xs_native_return restored = xs_native_return state"
    and "xs_event_args restored = saved_args state"
    and "xs_event_record restored = restored_event_record POLY_MODE_RAW_RISCV pc (xs_event_record state)"
    and "xs_transition restored = xs_transition state''"
    and "xs_import_return restored = xs_import_return state''"
    and "xs_cross_return restored = xs_cross_return state''"
    and "tr_riscv_gpr (xs_trap_restore restored) = rvs_gpr (riscv_saved_context state)"
proof -
  have zero: "(rvs_gpr (riscv_saved_context state))[0 := 0] = rvs_gpr (riscv_saved_context state)"
    by (simp add: riscv_saved_context_def Let_def)
  show "riscv_live_context restored = (riscv_saved_context state)
      \<lparr>rvs_fcsr := rvs_fcsr (riscv_saved_context state) AND POLY_RISCV_FCSR_MASK\<rparr>"
    "hdr_foreign_pc (xs_header restored) = pc"
    "hdr_current_mode (xs_header restored) = ucast POLY_MODE_RAW_RISCV"
    "xs_native_return restored = xs_native_return state"
    "xs_event_args restored = saved_args state"
    "xs_event_record restored = restored_event_record POLY_MODE_RAW_RISCV pc (xs_event_record state)"
    "xs_transition restored = xs_transition state''"
    "xs_import_return restored = xs_import_return state''"
    "xs_cross_return restored = xs_cross_return state''"
    "tr_riscv_gpr (xs_trap_restore restored) = rvs_gpr (riscv_saved_context state)"
    using restored_pc_of_interrupted[of mode forced state link gm]
    by (simp_all add: assms(2-4) restore_riscv_frame_def riscv_signal_frame_def Let_def zero and.assoc
      riscv_live_context_def saved_args_def poly_sanitize_riscv_trap_restore_payload_def)
qed

subsection \<open>The return of a stored frame\<close>

lemma signum_word:
  assumes "signum \<noteq> 0" and "signum < 65"
  shows "unat (of_nat signum :: u64) = signum" and "of_nat signum \<noteq> (0 :: u64)" and "\<not> (of_nat signum :: u64) \<ge> 65"
proof -
  show u: "unat (of_nat signum :: u64) = signum" using assms by (simp add: unat_of_nat take_bit_nat_eq_self)
  then show "of_nat signum \<noteq> (0 :: u64)" using assms(1) by (metis unat_0)
  show "\<not> (of_nat signum :: u64) \<ge> 65" using u assms(2) by (simp add: word_le_nat_alt)
qed

lemma aarch64_sigreturn_of_frame:
  assumes "poly_aarch64_active_signal_frame st \<noteq> 0"
    and "poly_guest_range_is_mapped gm (poly_aarch64_active_signal_frame st) aarch64_frame_size False"
    and "fst (dec_aarch64_virtual_signal_frame
      (guest_bytes gm (poly_aarch64_active_signal_frame st) (unat aarch64_frame_size))) = frame"
    and "frame = aarch64_signal_frame m state0 st0 signum fa fc fsp alt pc"
    and "signum \<noteq> 0" and "signum < 65" and "restored = restore_aarch64_frame m frame state"
    and "signal_sizes state0"
  shows "poly_handle_aarch64_rt_sigreturn m True (state, st, gm) =
    (case poly_derive_state_value m restored
       (sigreturn_descriptor POLY_MODE_RAW_AARCH64 (hdr_foreign_pc (xs_header restored))
          (a64s_gpr (aarch64_saved_context state0) ! 31) (a64s_gpr (aarch64_saved_context state0) ! 0) restored) of
       (status, final) \<Rightarrow>
         ((final, st\<lparr>poly_guest_sigmask_shadow := saved_sigmask st0, poly_guest_sigmask_shadow_valid := True,
             poly_aarch64_active_signal_frame := 0\<rparr>, gm),
          if status \<noteq> 0 then - EINVAL else a64s_gpr (aarch64_saved_context state0) ! 0))"
proof -
  have dec: "fst (dec_aarch64_virtual_signal_frame (guest_bytes gm (poly_aarch64_active_signal_frame st) 8368)) = frame"
    using assms(3) by simp
  have fields: "a64f_magic frame = POLY_AARCH64_VSIGFRAME_MAGIC" "a64f_size frame = aarch64_frame_size"
    "a64f_signum frame = of_nat signum" "a64f_guest_sigmask frame = saved_sigmask st0"
    "a64c_sp (a64u_mcontext (a64f_ucontext frame)) = a64s_gpr (aarch64_saved_context state0) ! 31"
    "a64c_regs (a64u_mcontext (a64f_ucontext frame)) ! 0 = a64s_gpr (aarch64_saved_context state0) ! 0"
    using aarch64_saved_lengths[OF assms(8)] by (simp_all add: assms(4) aarch64_signal_frame_def Let_def)
  show ?thesis
    using assms(1,2) signum_word[OF assms(5,6)]
    by (simp add: poly_handle_aarch64_rt_sigreturn_def Let_def dec fields assms(7)[symmetric]
        split: prod.split)
qed

lemma riscv_sigreturn_of_frame:
  assumes "poly_riscv_active_signal_frame st \<noteq> 0"
    and "poly_guest_range_is_mapped gm (poly_riscv_active_signal_frame st) riscv_frame_size False"
    and "fst (dec_riscv_virtual_signal_frame
      (guest_bytes gm (poly_riscv_active_signal_frame st) (unat riscv_frame_size))) = frame"
    and "frame = riscv_signal_frame m state0 st0 signum fa fc fsp alt pc"
    and "signum \<noteq> 0" and "signum < 65" and "restored = restore_riscv_frame m frame state"
    and "signal_sizes state0"
  shows "poly_handle_riscv_rt_sigreturn m True (state, st, gm) =
    (case poly_derive_state_value m restored
       (sigreturn_descriptor POLY_MODE_RAW_RISCV (hdr_foreign_pc (xs_header restored))
          (rvs_gpr (riscv_saved_context state0) ! 2) (rvs_gpr (riscv_saved_context state0) ! 10) restored) of
       (status, final) \<Rightarrow>
         ((final, st\<lparr>poly_guest_sigmask_shadow := saved_sigmask st0, poly_guest_sigmask_shadow_valid := True,
             poly_riscv_active_signal_frame := 0\<rparr>, gm),
          if status \<noteq> 0 then - EINVAL else rvs_gpr (riscv_saved_context state0) ! 10))"
proof -
  have dec: "fst (dec_riscv_virtual_signal_frame (guest_bytes gm (poly_riscv_active_signal_frame st) 4752)) = frame"
    using assms(3) by simp
  have fields: "rvf_magic frame = POLY_RISCV_VSIGFRAME_MAGIC" "rvf_size frame = riscv_frame_size"
    "rvf_signum frame = of_nat signum" "rvf_guest_sigmask frame = saved_sigmask st0"
    "rvc_regs (rvu_mcontext (rvf_ucontext frame)) ! 2 = rvs_gpr (riscv_saved_context state0) ! 2"
    "rvc_regs (rvu_mcontext (rvf_ucontext frame)) ! 10 = rvs_gpr (riscv_saved_context state0) ! 10"
    using riscv_saved_lengths[OF assms(8)] by (simp_all add: assms(4) riscv_signal_frame_def Let_def)
  show ?thesis
    using assms(1,2) signum_word[OF assms(5,6)]
    by (simp add: poly_handle_riscv_rt_sigreturn_def Let_def dec fields assms(7)[symmetric]
        split: prod.split)
qed


subsection \<open>Placement of the frame\<close>

lemma unat_align16:
  fixes x :: u64
  shows "unat (x AND NOT 0xf) = unat x - unat x mod 16"
proof -
  have "(0xf :: u64) = mask 4" by (simp add: mask_eq_exp_minus_1)
  then show ?thesis using unat_and_not_mask[of x 4] by (simp add: minus_mod_eq_div_mult)
qed

lemma mapped_bound:
  assumes "poly_guest_range_is_mapped gm a n w" and "n \<noteq> 0"
  shows "unat a + unat n < 2 ^ 64" and "a \<noteq> 0"
proof -
  have m: "a \<noteq> 0" "a \<le> - 1 - n"
    using assms by (auto simp: poly_guest_range_is_mapped_def split: if_splits)
  show "a \<noteq> 0" using m by simp
  have "unat n \<le> unat (- 1 :: u64)" using unsigned_less[of n, where 'a = nat]
    by (simp add: unsigned_minus_1_eq_mask mask_eq_exp_minus_1)
  then have "unat (- 1 - n) = 2 ^ 64 - 1 - unat n"
    by (simp add: unat_sub word_le_nat_alt unsigned_minus_1_eq_mask mask_eq_exp_minus_1)
  moreover have "unat a \<le> unat (- 1 - n)" using m(2) by (simp add: word_le_nat_alt)
  ultimately show "unat a + unat n < 2 ^ 64" using unsigned_less[of n, where 'a = nat] by simp
qed

text \<open>
  A handler's stack pointer is aligned and its frame lies below the chosen top.
  On the alternate stack the alignment may go below the base by up to 15 bytes,
  and does not when the base is aligned.
\<close>

lemma handler_stack_bounds:
  assumes "handler_stack stack signum forced action sp total_size gm = Inr (signal_sp, use_alt)"
    and "total_size \<noteq> 0"
  shows "unat signal_sp mod 16 = 0"
    and "\<not> use_alt \<Longrightarrow> unat signal_sp + unat total_size \<le> unat sp \<and> unat sp < unat signal_sp + unat total_size + 16"
    and "use_alt \<Longrightarrow> unat signal_sp + unat total_size \<le> unat (ss_sp stack) + unat (ss_size stack)"
    and "use_alt \<Longrightarrow> unat (ss_sp stack) < unat signal_sp + 16"
    and "use_alt \<Longrightarrow> unat (ss_sp stack) mod 16 = 0 \<Longrightarrow> unat (ss_sp stack) \<le> unat signal_sp"
proof -
  define upper where "upper = (if use_alt then ss_sp stack + ss_size stack else sp)"
  have sp: "signal_sp = (upper - total_size) AND NOT 0xf"
    and alt: "use_alt = use_altstack stack (dl_flags action) total_size gm"
    and room: "use_alt \<or> \<not> sp < total_size"
    using assms(1) by (auto simp: handler_stack_def Let_def upper_def split: if_splits)
  have altb: "unat total_size \<le> unat (ss_size stack) \<and> unat (ss_sp stack) + unat (ss_size stack) < 2 ^ 64" if use_alt
  proof -
    have "total_size \<le> ss_size stack" and mapped: "poly_guest_range_is_mapped gm (ss_sp stack) (ss_size stack) True"
      using that alt by (auto simp: use_altstack_def)
    moreover have "ss_size stack \<noteq> 0" using calculation(1) assms(2) by (auto simp: word_le_0_iff)
    ultimately show ?thesis using mapped_bound(1)[OF mapped] by (simp add: word_le_nat_alt)
  qed
  have le: "unat total_size \<le> unat upper"
  proof (cases use_alt)
    case True
    then show ?thesis using altb unat_add_lem[of "ss_sp stack" "ss_size stack"] by (simp add: upper_def)
  next
    case False
    then show ?thesis using room by (simp add: upper_def word_less_nat_alt)
  qed
  have u: "unat signal_sp = (unat upper - unat total_size) - (unat upper - unat total_size) mod 16"
    unfolding sp unat_align16 using le by (simp add: unat_sub word_le_nat_alt)
  have toplen: "unat upper = unat (ss_sp stack) + unat (ss_size stack)" if use_alt
    using that altb unat_add_lem[of "ss_sp stack" "ss_size stack"] by (simp add: upper_def)
  show "unat signal_sp mod 16 = 0" unfolding u by (simp add: minus_mod_eq_mult_div)
  have m16: "(unat upper - unat total_size) mod 16 < 16" by simp
  show "\<not> use_alt \<Longrightarrow> unat signal_sp + unat total_size \<le> unat sp \<and> unat sp < unat signal_sp + unat total_size + 16"
    using u le m16 by (simp add: upper_def)
  show "use_alt \<Longrightarrow> unat signal_sp + unat total_size \<le> unat (ss_sp stack) + unat (ss_size stack)"
    using u le toplen by simp
  show below: "use_alt \<Longrightarrow> unat (ss_sp stack) < unat signal_sp + 16"
    using u toplen altb m16 by linarith
  show "use_alt \<Longrightarrow> unat (ss_sp stack) mod 16 = 0 \<Longrightarrow> unat (ss_sp stack) \<le> unat signal_sp"
  proof -
    assume a: use_alt "unat (ss_sp stack) mod 16 = 0"
    then have "unat (ss_sp stack) div 16 * 16 = unat (ss_sp stack)" by (simp add: mod_0_imp_dvd)
    moreover have "unat signal_sp = (unat upper - unat total_size) div 16 * 16"
      unfolding u by (simp add: minus_mod_eq_div_mult)
    moreover have "unat (ss_sp stack) \<le> unat upper - unat total_size" using toplen[OF a(1)] altb[OF a(1)] by linarith
    ultimately show ?thesis by (metis div_le_mono mult_le_mono1)
  qed
qed

lemma store_signal_frame_outside:
  assumes "length frame_bytes = n" and "n + 32 < 2 ^ 64" and "unat signal_sp + n + 32 < 2 ^ 64"
    and "gm_byte (store_signal_frame signal_sp signum info uc frame_bytes gm) a \<noteq> gm_byte gm a"
  shows "unat signal_sp + 8 \<le> unat a \<and> unat a < unat signal_sp + n + 32"
proof -
  have w: "length (enc_u64 v) = 8" for v by (simp add: codec_simps)
  have "unat (a - (signal_sp + 32)) < n \<or> unat (a - (signal_sp + 8)) < 24"
    using assms(1,4) by (auto simp: store_signal_frame_def guest_store_def w split: if_splits)
  moreover have "unat (signal_sp + 32) = unat signal_sp + 32" "unat (signal_sp + 8) = unat signal_sp + 8"
    using assms(3) unat_add_lem[of signal_sp 32] unat_add_lem[of signal_sp 8] by simp_all
  moreover have near: "unat (a - b) < k \<Longrightarrow> unat b + k < 2 ^ 64 \<Longrightarrow> unat b \<le> unat a \<and> unat a < unat b + k" for b k
    using unsigned_less[of a, where 'a = nat] unsigned_less[of b, where 'a = nat]
    by (simp add: unat_sub_if_size word_size split: if_splits)
  ultimately show ?thesis using assms(2,3) near[of "signal_sp + 32" n] near[of "signal_sp + 8" 24] by auto
qed

text \<open>
  A frame of \<open>total\<close> bytes, whose first 32 are the call area, is aligned, only its
  bytes are written, and it lies below the interrupted stack pointer or on the
  alternate stack up to the alignment of the base.
\<close>

definition frame_placed :: "u64 \<Rightarrow> poly_linux_stack_t \<Rightarrow> nat \<Rightarrow> u64 \<Rightarrow> guest_memory \<Rightarrow> guest_memory \<Rightarrow> bool" where
  "frame_placed sp stack total_size frame_addr gm gm' \<longleftrightarrow>
     (\<exists>low. unat frame_addr = low + 32 \<and> low mod 16 = 0 \<and>
       (\<forall>a. gm_byte gm' a \<noteq> gm_byte gm a \<longrightarrow> low + 8 \<le> unat a \<and> unat a < low + total_size) \<and>
       (low + total_size \<le> unat sp \<and> unat sp < low + total_size + 16 \<or>
        unat (ss_sp stack) < low + 16 \<and> low + total_size \<le> unat (ss_sp stack) + unat (ss_size stack) \<and>
        (unat (ss_sp stack) mod 16 = 0 \<longrightarrow> unat (ss_sp stack) \<le> low)))"

lemma frame_placedI:
  assumes "handler_stack stack signum forced action sp total_size gm = Inr (signal_sp, use_alt)"
    and "poly_guest_range_is_mapped (probed_memory m signal_sp total_size gm) signal_sp total_size True"
    and "gm' = store_signal_frame signal_sp signum info uc frame_bytes (probed_memory m signal_sp total_size gm)"
    and "unat total_size = length frame_bytes + 32"
  shows "frame_placed sp stack (unat total_size) (signal_sp + 32) gm gm'"
proof -
  have nz: "total_size \<noteq> 0" using assms(4) by auto
  note b = handler_stack_bounds[OF assms(1) nz]
  have bound: "unat signal_sp + unat total_size < 2 ^ 64" by (rule mapped_bound(1)[OF assms(2) nz])
  have addr: "unat (signal_sp + 32) = unat signal_sp + 32"
    using bound assms(4) unat_add_lem[of signal_sp 32] by simp
  have outside: "unat signal_sp + 8 \<le> unat a \<and> unat a < unat signal_sp + unat total_size"
    if "gm_byte gm' a \<noteq> gm_byte gm a" for a
    using store_signal_frame_outside[of frame_bytes "length frame_bytes" signal_sp signum info uc
        "probed_memory m signal_sp total_size gm" a] that bound assms(3,4) by simp
  show ?thesis
    unfolding frame_placed_def
    by (rule exI[of _ "unat signal_sp"], cases use_alt) (use b addr outside in auto)
qed

lemma small_altstack_suppressed:
  assumes "ss_size stack < total_size" and "total_size < POLY_VSIG_STACK_SIZE"
    and "dl_flags action AND POLY_LINUX_SA_ONSTACK \<noteq> 0"
  shows "handler_stack stack (nat SIGCHLD) 0 action sp total_size gm = Inl Suppressed"
  using assms by (simp add: handler_stack_def use_altstack_def Let_def not_le)


lemma aarch64_placed:
  assumes "signal_sizes state"
    and "poly_try_deliver_aarch64_signal m forced fa fc (state, st, gm) = ((state', st', gm'), True)"
  shows "frame_placed (a64s_gpr (aarch64_saved_context state) ! 31) (poly_aarch64_guest_sigaltstack st)
    (unat aarch64_total_size) (poly_aarch64_active_signal_frame st') gm gm'"
proof (rule aarch64_deliveredE[OF assms(2)], goal_cases)
  case (1 st1 signum action sp alt frame)
  have stack: "poly_aarch64_guest_sigaltstack st1 = poly_aarch64_guest_sigaltstack st"
    using select_signal_spec(1)[OF 1(2)] by auto
  have len: "unat aarch64_total_size = length (enc_aarch64_virtual_signal_frame frame) + 32"
    using aarch64_frame_ok[OF assms(1)] by (simp add: 1(5) a64framec.enc_width)
  show ?case using frame_placedI[OF 1(3,4,6) len] 1(7) by (simp add: stack)
qed

lemma riscv_placed:
  assumes "signal_sizes state"
    and "poly_try_deliver_riscv_signal m forced fa fc (state, st, gm) = ((state', st', gm'), True)"
  shows "frame_placed (rvs_gpr (riscv_saved_context state) ! 2) (poly_riscv_guest_sigaltstack st)
    (unat riscv_total_size) (poly_riscv_active_signal_frame st') gm gm'"
proof (rule riscv_deliveredE[OF assms(2)], goal_cases)
  case (1 st1 signum action sp alt frame)
  have stack: "poly_riscv_guest_sigaltstack st1 = poly_riscv_guest_sigaltstack st"
    using select_signal_spec(1)[OF 1(2)] by auto
  have len: "unat riscv_total_size = length (enc_riscv_virtual_signal_frame frame) + 32"
    using riscv_frame_ok[OF assms(1)] by (simp add: 1(5) rvframec.enc_width)
  show ?case using frame_placedI[OF 1(3,4,6) len] 1(7) by (simp add: stack)
qed

subsection \<open>A concrete delivery\<close>

definition plain_machine :: signal_machine where
  "plain_machine = \<lparr>poly_derive_state_value = (\<lambda>state desc. (0, state)), poly_current_x86_rsp = 0x7000,
     touched_probe = (\<lambda>gm _ _. gm_probe gm)\<rparr>"

definition mapped_memory :: guest_memory where
  "mapped_memory = \<lparr>gm_byte = (\<lambda>_. 0), gm_probe = (\<lambda>_ _ _. (0, 0x1f))\<rparr>"

definition running_state :: "u64 \<Rightarrow> poly_xsave_state" where
  "running_state mode = zero_xsave_state
     \<lparr>xs_header := (xs_header zero_xsave_state)\<lparr>hdr_current_mode := ucast mode, hdr_foreign_pc := 0x4000\<rparr>,
      xs_aarch64_gpr := (replicate 32 7)[31 := 0x100000], xs_riscv_gpr := (replicate 32 7)[2 := 0x100000]\<rparr>"

definition fault_handler_state :: signal_state where
  "fault_handler_state = initial_signal_state
     \<lparr>poly_guest_signal_action_shadow := (poly_guest_signal_action_shadow initial_signal_state)
        [11 := \<lparr>sa_handler = 0x5000, sa_flags = 0, sa_restorer = 0x6000, sa_mask = 0\<rparr>],
      poly_guest_signal_action_shadow_valid := (poly_guest_signal_action_shadow_valid initial_signal_state)
        [11 := True],
      poly_aarch64_vdso_rt_sigreturn := 0x6000\<rparr>"

lemma plain_derive [simp]: "poly_derive_state_value plain_machine state desc = (0, state)"
  by (simp add: plain_machine_def)

lemma mapped_memory_range:
  "gm_probe gm = gm_probe mapped_memory \<Longrightarrow>
     poly_guest_range_is_mapped gm a n w \<longleftrightarrow> n = 0 \<or> (a \<noteq> 0 \<and> a \<le> - 1 - n)"
  by (auto simp: poly_guest_range_is_mapped_def mapped_memory_def POLY_V2_MEM_PROBE_RESULT_PRESENT_def
      POLY_V2_MEM_PROBE_RESULT_WRITABLE_def POLY_V2_MEM_PROBE_RESULT_READABLE_def)

lemma running_state_sizes [simp]: "signal_sizes (running_state mode)"
  by (simp add: signal_sizes_def running_state_def zero_xsave_state_def zero_defs ok_event_record_def
      ok_trap_restore_state_def ok_native_return_state_def ok_native_return_frame_def ok_u128_def list_all_iff)

lemma fault_action:
  "poly_guest_signal_action_deliverable mode 11 fault_handler_state =
     (if mode = POLY_MODE_RAW_AARCH64 \<or> mode = POLY_MODE_RAW_RISCV
      then Some \<lparr>dl_handler = 0x5000, dl_restorer = 0x6000, dl_flags = 0, dl_mask = 0\<rparr> else None)"
  by (simp add: poly_guest_signal_action_deliverable_def fault_handler_state_def initial_signal_state_def)


lemma aarch64_fault_delivered:
  "\<exists>state' st' gm'. poly_try_deliver_aarch64_signal plain_machine 11 0x1234 1
     (running_state POLY_MODE_RAW_AARCH64, fault_handler_state, mapped_memory) = ((state', st', gm'), True) \<and>
     poly_aarch64_active_signal_frame st' = 0xfdf50 \<and> gm_probe gm' = gm_probe mapped_memory"
proof -
  let ?state = "running_state POLY_MODE_RAW_AARCH64"
  let ?a = "\<lparr>dl_handler = 0x5000, dl_restorer = 0x6000, dl_flags = 0, dl_mask = 0\<rparr>"
  have sel: "select_signal POLY_MODE_RAW_AARCH64 11 ?state fault_handler_state = (fault_handler_state, Some (11, ?a))"
    by (simp add: select_signal_def fault_action running_state_def)
  have sp: "a64s_gpr (aarch64_saved_context ?state) ! 31 = 0x100000"
    by (simp add: aarch64_saved_context_def Let_def running_state_def zero_xsave_state_def zero_trap_restore_def)
  have hs: "handler_stack stack 11 11 ?a 0x100000 aarch64_total_size mapped_memory = Inr (0xfdf30, False)" for stack
    by (simp add: handler_stack_def use_altstack_def Let_def)
  have active: "poly_aarch64_active_signal_frame fault_handler_state = 0"
    by (simp add: fault_handler_state_def initial_signal_state_def)
  have pm: "probed_memory plain_machine 0xfdf30 aarch64_total_size mapped_memory = mapped_memory"
    by (simp add: probed_memory_def mapped_memory_range)
  show ?thesis
    by (simp add: poly_try_deliver_aarch64_signal_def Let_def sel sp hs pm active mapped_memory_range
        store_signal_frame_def guest_store_def)
qed

lemma riscv_fault_delivered:
  "\<exists>state' st' gm'. poly_try_deliver_riscv_signal plain_machine 11 0x1234 1
     (running_state POLY_MODE_RAW_RISCV, fault_handler_state, mapped_memory) = ((state', st', gm'), True) \<and>
     poly_riscv_active_signal_frame st' = 0xfed70 \<and> gm_probe gm' = gm_probe mapped_memory"
proof -
  let ?state = "running_state POLY_MODE_RAW_RISCV"
  let ?a = "\<lparr>dl_handler = 0x5000, dl_restorer = 0x6000, dl_flags = 0, dl_mask = 0\<rparr>"
  have sel: "select_signal POLY_MODE_RAW_RISCV 11 ?state fault_handler_state = (fault_handler_state, Some (11, ?a))"
    by (simp add: select_signal_def fault_action running_state_def)
  have sp: "rvs_gpr (riscv_saved_context ?state) ! 2 = 0x100000"
    by (simp add: riscv_saved_context_def Let_def running_state_def zero_xsave_state_def zero_trap_restore_def)
  have hs: "handler_stack stack 11 11 ?a 0x100000 riscv_total_size mapped_memory = Inr (0xfed50, False)" for stack
    by (simp add: handler_stack_def use_altstack_def Let_def)
  have active: "poly_riscv_active_signal_frame fault_handler_state = 0"
    by (simp add: fault_handler_state_def initial_signal_state_def)
  have pm: "probed_memory plain_machine 0xfed50 riscv_total_size mapped_memory = mapped_memory"
    by (simp add: probed_memory_def mapped_memory_range)
  show ?thesis
    by (simp add: poly_try_deliver_riscv_signal_def Let_def sel sp hs pm active mapped_memory_range
        store_signal_frame_def guest_store_def)
qed

text \<open>
  The size test leaves no room for the alignment: with a base that is not aligned
  and a size that just fits, the frame starts below the alternate stack and its
  call area overwrites bytes there.
\<close>

lemma unaligned_altstack_underflow:
  "handler_stack \<lparr>ss_sp = 0x1000f, ss_flags = 0, ss_size = 8400\<rparr> 10 0
     \<lparr>dl_handler = 0x5000, dl_restorer = 0x6000, dl_flags = POLY_LINUX_SA_ONSTACK, dl_mask = 0\<rparr> 0x100000
     aarch64_total_size mapped_memory = Inr (0x10000, True)"
  "length frame_bytes = 8368 \<Longrightarrow>
     gm_byte (store_signal_frame 0x10000 10 info uc frame_bytes mapped_memory) 0x10008 = 10"
  by (simp_all add: handler_stack_def use_altstack_def Let_def mapped_memory_range store_signal_frame_def
      guest_store_def enc_u64_def le_bytes_def nth_append)

subsection \<open>Properties\<close>

text \<open>
  C6. An AArch64 signal is transparent to the code it interrupts: when a delivery
  succeeded and the handler left the bytes of its frame alone, \<open>rt_sigreturn\<close> hands
  the derive instruction an image with the registers, vector registers and
  status words that were saved, at the interrupted program counter, with the
  native return stack and the event arguments of the interrupted state and the
  import and cross return stacks of the current one; the guest's signal mask is
  the one before the delivery, no frame is active, and the result is the saved
  first register.
\<close>
theorem aarch64_signal_roundtrip:
  assumes "signal_sizes state"
    and "poly_try_deliver_aarch64_signal m forced fa fc (state, st, gm) = ((state', st', gm'), True)"
    and "poly_aarch64_active_signal_frame st'' = poly_aarch64_active_signal_frame st'"
    and "poly_guest_range_is_mapped gm'' (poly_aarch64_active_signal_frame st') aarch64_frame_size False"
    and "guest_bytes gm'' (poly_aarch64_active_signal_frame st') 8368 =
      guest_bytes gm' (poly_aarch64_active_signal_frame st') 8368"
  shows "\<exists>restored desc.
     poly_handle_aarch64_rt_sigreturn m True (state'', st'', gm'') =
       (case poly_derive_state_value m restored desc of (status, final) \<Rightarrow>
          ((final, st''\<lparr>poly_guest_sigmask_shadow := saved_sigmask st, poly_guest_sigmask_shadow_valid := True,
              poly_aarch64_active_signal_frame := 0\<rparr>, gm''),
           if status \<noteq> 0 then - EINVAL else a64s_gpr (aarch64_saved_context state) ! 0)) \<and>
     aarch64_live_context restored = aarch64_saved_context state \<and>
     hdr_foreign_pc (xs_header restored) =
       find_interrupted_pc POLY_MODE_RAW_AARCH64 forced state (xs_aarch64_gpr state ! 30) gm \<and>
     dd_child_pc desc = hdr_foreign_pc (xs_header restored) \<and>
     dd_child_sp desc = a64s_gpr (aarch64_saved_context state) ! 31 \<and>
     dd_child_return_value desc = a64s_gpr (aarch64_saved_context state) ! 0 \<and>
     xs_native_return restored = xs_native_return state \<and> xs_event_args restored = saved_args state \<and>
     xs_import_return restored = xs_import_return state'' \<and> xs_cross_return restored = xs_cross_return state''"
proof (rule aarch64_deliveredE[OF assms(2)], goal_cases)
  case (1 st1 signum action sp alt frame)
  let ?pc = "find_interrupted_pc POLY_MODE_RAW_AARCH64 forced state (xs_aarch64_gpr state ! 30) gm"
  let ?restored = "restore_aarch64_frame m frame state''"
  note sel = select_signal_spec[OF 1(2)]
  have active: "poly_aarch64_active_signal_frame st'' = sp + 32" using 1(7) assms(3) by simp
  have ok: "ok_aarch64_virtual_signal_frame frame" unfolding 1(5) by (rule aarch64_frame_ok[OF assms(1)])
  have bytes: "guest_bytes gm'' (poly_aarch64_active_signal_frame st'') (unat aarch64_frame_size) =
      guest_bytes gm' (sp + 32) (unat aarch64_frame_size)" using assms(3,5) active by simp
  have dec: "fst (dec_aarch64_virtual_signal_frame (guest_bytes gm'' (poly_aarch64_active_signal_frame st'')
      (unat aarch64_frame_size))) = frame"
    unfolding bytes 1(6) by (rule aarch64_frame_stored[OF ok])
  have mask: "saved_sigmask st1 = saved_sigmask st" using sel(1) by (auto simp: saved_sigmask_def)
  have nonzero: "poly_aarch64_active_signal_frame st'' \<noteq> 0"
    unfolding active by (rule frame_address_nonzero[OF 1(4)]) simp
  note facts = restore_aarch64_frame_facts[OF assms(1) refl 1(5) refl, of state'']
  show ?case
    using aarch64_sigreturn_of_frame[OF nonzero _ dec 1(5) sel(3,2) refl assms(1)] assms(3,4) facts
    by (intro exI[of _ ?restored] exI[of _ "sigreturn_descriptor POLY_MODE_RAW_AARCH64 ?pc
      (a64s_gpr (aarch64_saved_context state) ! 31) (a64s_gpr (aarch64_saved_context state) ! 0) ?restored"])
      (simp add: sigreturn_descriptor_def mask)
qed

theorem aarch64_signal_roundtrip_witness:
  "\<exists>state' st' gm' final st2.
     poly_try_deliver_aarch64_signal plain_machine 11 0x1234 1
       (running_state POLY_MODE_RAW_AARCH64, fault_handler_state, mapped_memory) = ((state', st', gm'), True) \<and>
     poly_handle_aarch64_rt_sigreturn plain_machine True (state', st', gm') = ((final, st2, gm'), 7) \<and>
     xs_aarch64_gpr final = (replicate 32 7)[31 := 0x100000] \<and> hdr_foreign_pc (xs_header final) = 0x4000"
proof -
  obtain state' st' gm' where d: "poly_try_deliver_aarch64_signal plain_machine 11 0x1234 1
       (running_state POLY_MODE_RAW_AARCH64, fault_handler_state, mapped_memory) = ((state', st', gm'), True)"
    "poly_aarch64_active_signal_frame st' = 0xfdf50" "gm_probe gm' = gm_probe mapped_memory"
    using aarch64_fault_delivered by blast
  have ctxt: "a64s_gpr (aarch64_saved_context (running_state POLY_MODE_RAW_AARCH64)) = (replicate 32 7)[31 := 0x100000]"
    by (simp add: aarch64_saved_context_def Let_def running_state_def zero_xsave_state_def zero_trap_restore_def)
  have pc: "find_interrupted_pc POLY_MODE_RAW_AARCH64 11 (running_state POLY_MODE_RAW_AARCH64) link mapped_memory = 0x4000"
    for link by (simp add: find_interrupted_pc_def running_state_def Let_def)
  show ?thesis
    using aarch64_signal_roundtrip[OF running_state_sizes d(1) refl _ refl, of state'] d
    by (auto simp: mapped_memory_range pc ctxt aarch64_live_context_def dest: arg_cong[of _ _ a64s_gpr])
qed

text \<open>
  C7. A RISC-V signal is transparent to the code it interrupts, in the same sense;
  the zero register stays zero and the floating-point status keeps its eight
  architectural bits.
\<close>
theorem riscv_signal_roundtrip:
  assumes "signal_sizes state"
    and "poly_try_deliver_riscv_signal m forced fa fc (state, st, gm) = ((state', st', gm'), True)"
    and "poly_riscv_active_signal_frame st'' = poly_riscv_active_signal_frame st'"
    and "poly_guest_range_is_mapped gm'' (poly_riscv_active_signal_frame st') riscv_frame_size False"
    and "guest_bytes gm'' (poly_riscv_active_signal_frame st') 4752 =
      guest_bytes gm' (poly_riscv_active_signal_frame st') 4752"
  shows "\<exists>restored desc.
     poly_handle_riscv_rt_sigreturn m True (state'', st'', gm'') =
       (case poly_derive_state_value m restored desc of (status, final) \<Rightarrow>
          ((final, st''\<lparr>poly_guest_sigmask_shadow := saved_sigmask st, poly_guest_sigmask_shadow_valid := True,
              poly_riscv_active_signal_frame := 0\<rparr>, gm''),
           if status \<noteq> 0 then - EINVAL else rvs_gpr (riscv_saved_context state) ! 10)) \<and>
     riscv_live_context restored = (riscv_saved_context state)
       \<lparr>rvs_fcsr := rvs_fcsr (riscv_saved_context state) AND POLY_RISCV_FCSR_MASK\<rparr> \<and>
     hdr_foreign_pc (xs_header restored) =
       find_interrupted_pc POLY_MODE_RAW_RISCV forced state (xs_riscv_gpr state ! 1) gm \<and>
     dd_child_pc desc = hdr_foreign_pc (xs_header restored) \<and>
     dd_child_sp desc = rvs_gpr (riscv_saved_context state) ! 2 \<and>
     dd_child_return_value desc = rvs_gpr (riscv_saved_context state) ! 10 \<and>
     xs_native_return restored = xs_native_return state \<and> xs_event_args restored = saved_args state \<and>
     xs_import_return restored = xs_import_return state'' \<and> xs_cross_return restored = xs_cross_return state''"
proof (rule riscv_deliveredE[OF assms(2)], goal_cases)
  case (1 st1 signum action sp alt frame)
  let ?pc = "find_interrupted_pc POLY_MODE_RAW_RISCV forced state (xs_riscv_gpr state ! 1) gm"
  let ?restored = "restore_riscv_frame m frame state''"
  note sel = select_signal_spec[OF 1(2)]
  have active: "poly_riscv_active_signal_frame st'' = sp + 32" using 1(7) assms(3) by simp
  have ok: "ok_riscv_virtual_signal_frame frame" unfolding 1(5) by (rule riscv_frame_ok[OF assms(1)])
  have bytes: "guest_bytes gm'' (poly_riscv_active_signal_frame st'') (unat riscv_frame_size) =
      guest_bytes gm' (sp + 32) (unat riscv_frame_size)" using assms(3,5) active by simp
  have dec: "fst (dec_riscv_virtual_signal_frame (guest_bytes gm'' (poly_riscv_active_signal_frame st'')
      (unat riscv_frame_size))) = frame"
    unfolding bytes 1(6) by (rule riscv_frame_stored[OF ok])
  have mask: "saved_sigmask st1 = saved_sigmask st" using sel(1) by (auto simp: saved_sigmask_def)
  have nonzero: "poly_riscv_active_signal_frame st'' \<noteq> 0"
    unfolding active by (rule frame_address_nonzero[OF 1(4)]) simp
  note facts = restore_riscv_frame_facts[OF assms(1) refl 1(5) refl, of state'']
  show ?case
    using riscv_sigreturn_of_frame[OF nonzero _ dec 1(5) sel(3,2) refl assms(1)] assms(3,4) facts
    by (intro exI[of _ ?restored] exI[of _ "sigreturn_descriptor POLY_MODE_RAW_RISCV ?pc
      (rvs_gpr (riscv_saved_context state) ! 2) (rvs_gpr (riscv_saved_context state) ! 10) ?restored"])
      (simp add: sigreturn_descriptor_def mask)
qed


theorem riscv_signal_roundtrip_witness:
  "\<exists>state' st' gm' final st2.
     poly_try_deliver_riscv_signal plain_machine 11 0x1234 1
       (running_state POLY_MODE_RAW_RISCV, fault_handler_state, mapped_memory) = ((state', st', gm'), True) \<and>
     poly_handle_riscv_rt_sigreturn plain_machine True (state', st', gm') = ((final, st2, gm'), 7) \<and>
     xs_riscv_gpr final = (replicate 32 7)[2 := 0x100000, 0 := 0] \<and> hdr_foreign_pc (xs_header final) = 0x4000"
proof -
  obtain state' st' gm' where d: "poly_try_deliver_riscv_signal plain_machine 11 0x1234 1
       (running_state POLY_MODE_RAW_RISCV, fault_handler_state, mapped_memory) = ((state', st', gm'), True)"
    "poly_riscv_active_signal_frame st' = 0xfed70" "gm_probe gm' = gm_probe mapped_memory"
    using riscv_fault_delivered by blast
  have ctxt: "rvs_gpr (riscv_saved_context (running_state POLY_MODE_RAW_RISCV)) = (replicate 32 7)[2 := 0x100000, 0 := 0]"
    by (simp add: riscv_saved_context_def Let_def running_state_def zero_xsave_state_def zero_trap_restore_def)
  have pc: "find_interrupted_pc POLY_MODE_RAW_RISCV 11 (running_state POLY_MODE_RAW_RISCV) link mapped_memory = 0x4000"
    for link by (simp add: find_interrupted_pc_def running_state_def Let_def)
  show ?thesis
    using riscv_signal_roundtrip[OF running_state_sizes d(1) refl _ refl, of state'] d
    by (auto simp: mapped_memory_range pc ctxt riscv_live_context_def dest: arg_cong[of _ _ rvs_gpr])
qed


text \<open>
  C28. A delivery on either frontend puts its frame at an aligned address, writes no
  byte outside the frame and its call area, and places both right below the
  interrupted stack pointer or on the alternate stack; there the frame stays
  above the base when the base is aligned to 16 bytes.
\<close>
theorem signal_frame_placed:
  assumes "signal_sizes state"
  shows "(poly_try_deliver_aarch64_signal m forced fa fc (state, st, gm) = ((state', st', gm'), True) \<longrightarrow>
      frame_placed (a64s_gpr (aarch64_saved_context state) ! 31) (poly_aarch64_guest_sigaltstack st)
        8400 (poly_aarch64_active_signal_frame st') gm gm') \<and>
    (poly_try_deliver_riscv_signal m forced fa fc (state, st, gm) = ((state', st', gm'), True) \<longrightarrow>
      frame_placed (rvs_gpr (riscv_saved_context state) ! 2) (poly_riscv_guest_sigaltstack st)
        4784 (poly_riscv_active_signal_frame st') gm gm')"
  using aarch64_placed[OF assms] riscv_placed[OF assms] by simp

theorem signal_frame_placed_witness:
  "\<exists>state' st' gm'. poly_try_deliver_aarch64_signal plain_machine 11 0x1234 1
     (running_state POLY_MODE_RAW_AARCH64, fault_handler_state, mapped_memory) = ((state', st', gm'), True) \<and>
     frame_placed 0x100000 \<lparr>ss_sp = 0, ss_flags = 2, ss_size = 0\<rparr> 8400 0xfdf50 mapped_memory gm'"
proof -
  obtain state' st' gm' where d: "poly_try_deliver_aarch64_signal plain_machine 11 0x1234 1
       (running_state POLY_MODE_RAW_AARCH64, fault_handler_state, mapped_memory) = ((state', st', gm'), True)"
    "poly_aarch64_active_signal_frame st' = 0xfdf50"
    using aarch64_fault_delivered by blast
  have "a64s_gpr (aarch64_saved_context (running_state POLY_MODE_RAW_AARCH64)) ! 31 = 0x100000"
    by (simp add: aarch64_saved_context_def Let_def running_state_def zero_xsave_state_def zero_trap_restore_def)
  moreover have "poly_aarch64_guest_sigaltstack fault_handler_state = \<lparr>ss_sp = 0, ss_flags = 2, ss_size = 0\<rparr>"
    by (simp add: fault_handler_state_def initial_signal_state_def)
  ultimately show ?thesis
    using signal_frame_placed[OF running_state_sizes, THEN conjunct1, rule_format, OF d(1)] d by auto
qed

text \<open>
  C35. A pending child signal whose handler wants the alternate stack is dropped when
  that stack is smaller than a frame with its call area, 8400 bytes, although
  \<open>sigaltstack\<close> accepts stacks from 2048 bytes on: the pending bit is cleared,
  nothing is delivered and the state is unchanged.
\<close>
theorem child_signal_lost_on_small_altstack:
  assumes "poly_aarch64_active_signal_frame st = 0"
    and "select_signal POLY_MODE_RAW_AARCH64 0 state st = (st', Some (17, action))"
    and "dl_flags action AND POLY_LINUX_SA_ONSTACK \<noteq> 0"
    and "ss_size (poly_aarch64_guest_sigaltstack st) < 8400"
  shows "poly_try_deliver_aarch64_signal m 0 fa fc (state, st, gm) =
     ((state, clear_pending 17 st', gm), False)"
proof -
  have "ss_size (poly_aarch64_guest_sigaltstack st') < 8400"
    using select_signal_spec(1)[OF assms(2)] assms(4) by auto
  then show ?thesis
    using small_altstack_suppressed[of "poly_aarch64_guest_sigaltstack st'" 8400 action] assms(1-3)
    by (simp add: poly_try_deliver_aarch64_signal_def Let_def)
qed

text \<open>A pending child signal with a handler for the alternate stack, which has 4096 bytes.\<close>

definition child_signal_state :: signal_state where
  "child_signal_state = initial_signal_state
     \<lparr>poly_guest_signal_action_shadow := (poly_guest_signal_action_shadow initial_signal_state)
        [17 := \<lparr>sa_handler = 0x5000, sa_flags = POLY_LINUX_SA_ONSTACK, sa_restorer = 0x6000, sa_mask = 0\<rparr>],
      poly_guest_signal_action_shadow_valid := (poly_guest_signal_action_shadow_valid initial_signal_state)
        [17 := True],
      poly_pending_virtual_signal_mask := 0x10000,
      poly_aarch64_guest_sigaltstack := \<lparr>ss_sp = 0x20000, ss_flags = 0, ss_size = 4096\<rparr>,
      poly_aarch64_vdso_rt_sigreturn := 0x6000\<rparr>"

definition aarch64_event_state :: poly_xsave_state where
  "aarch64_event_state = (running_state POLY_MODE_RAW_AARCH64)
     \<lparr>xs_event_record := zero_event_record\<lparr>er_source_mode := 1, er_reason := 1\<rparr>\<rparr>"

theorem child_signal_lost_on_small_altstack_witness:
  "poly_try_deliver_aarch64_signal plain_machine 0 0 0 (aarch64_event_state, child_signal_state, mapped_memory) =
     ((aarch64_event_state, child_signal_state\<lparr>poly_pending_virtual_signal_mask := 0\<rparr>, mapped_memory), False)"
proof -
  have action: "poly_guest_signal_action_deliverable POLY_MODE_RAW_AARCH64 17 child_signal_state =
      Some \<lparr>dl_handler = 0x5000, dl_restorer = 0x6000, dl_flags = POLY_LINUX_SA_ONSTACK, dl_mask = 0\<rparr>"
    by (simp add: poly_guest_signal_action_deliverable_def child_signal_state_def initial_signal_state_def)
  have free: "\<not> poly_guest_signal_mask_blocks 17 child_signal_state"
    by (simp add: poly_guest_signal_mask_blocks_def child_signal_state_def initial_signal_state_def)
  have pending: "poly_pending_virtual_signal_mask child_signal_state = 0x10000"
    by (simp add: child_signal_state_def)
  have candidates: "[Suc 0..<32] = [1, 2, 3, 4, 5, 6, 7, 8, 9, 10, 11, 12, 13, 14, 15, 16, 17, 18, 19, 20, 21, 22, 23, 24, 25, 26, 27, 28, 29, 30, 31]"
    by code_simp
  have "select_signal POLY_MODE_RAW_AARCH64 0 aarch64_event_state child_signal_state = (child_signal_state, Some (17,
      \<lparr>dl_handler = 0x5000, dl_restorer = 0x6000, dl_flags = POLY_LINUX_SA_ONSTACK, dl_mask = 0\<rparr>))"
    by (simp add: select_signal_def aarch64_event_state_def pending candidates action free)
  from child_signal_lost_on_small_altstack[OF _ this, of plain_machine 0 0 mapped_memory]
  show ?thesis
    by (simp add: clear_pending_def child_signal_state_def initial_signal_state_def)
qed

end
