(* ===== verification/Trap_Return.thy ===== *)
theory Trap_Return
  imports Signal_Roundtrip
begin

text \<open>
  Traps, from the frames the hardware writes to the image the monitor hands
  back, \<open>tools/runtime/polyexec.c\<close>: event and monitor-entry frames become a
  trap record, and a trap result is completed, a signal delivered and the image
  sanitized before it is activated. The instructions that complete an event and
  derive a state are parameters.
\<close>

subsection \<open>Event frames\<close>

text \<open>The members of the event frame that the monitor reads.\<close>

record poly_v2_event_frame =
  vf_magic :: u64
  vf_bytes :: u32
  vf_version :: u16
  vf_header_bytes :: u16
  vf_sequence :: u64
  vf_frontend :: u32
  vf_event_kind :: u16
  vf_arg_count :: u16
  vf_insn_pc :: u64
  vf_resume_pc :: u64
  vf_selector :: u64
  vf_args :: "u64 list"
  vf_fault_status :: u64

record poly_monitor_entry_frame =
  mf_magic :: u64
  mf_bytes :: u64
  mf_sequence :: u64
  mf_old_rsp :: u64
  mf_old_r11 :: u64
  mf_reason_mode :: u64
  mf_number :: u64
  mf_pc :: u64
  mf_next_pc :: u64
  mf_selector :: u64
  mf_args :: "u64 list"
  mf_reserved :: "u64 list"

datatype event_read = No_event | Bad_event | Event poly_v2_event_frame

definition read_poly_v2_event_frame :: "poly_v2_event_frame \<Rightarrow> event_read" where
  "read_poly_v2_event_frame src =
     (if vf_magic src = 0 then No_event
      else if vf_magic src \<noteq> 0x32545645594c4f50 \<or> vf_bytes src \<noteq> 512 \<or> vf_version src \<noteq> 2 \<or>
              vf_header_bytes src \<noteq> 16 \<or> vf_arg_count src \<noteq> 8
      then Bad_event else Event src)"

definition poly_v2_event_reason :: "u16 \<Rightarrow> u64 option" where
  "poly_v2_event_reason event_kind =
     (if event_kind = 1 then Some POLY_TRAP_SYSCALL
      else if event_kind = 2 then Some POLY_TRAP_BREAK
      else if event_kind = 3 then Some POLY_TRAP_IMPORT
      else if event_kind = 4 then Some POLY_TRAP_ILLEGAL
      else None)"

abbreviation (input) packet_flags :: u64 where
  "packet_flags \<equiv> POLY_EVENT_RECORD_REQUIRED_FLAGS OR POLY_EVENT_RECORD_FLAG_TRAP_RETURN_RESTORE"

text \<open>The packet and the sequence number that a completion of the event must name.\<close>

definition poly_v2_event_to_runtime_packet ::
    "poly_v2_event_frame \<Rightarrow> (poly_runtime_event_record \<times> u64) option" where
  "poly_v2_event_to_runtime_packet event =
     (case poly_v2_event_reason (vf_event_kind event) of
        None \<Rightarrow> None
      | Some reason \<Rightarrow>
          if vf_sequence event = 0 \<or> vf_resume_pc event = 0 \<or> \<not> poly_is_raw_foreign_mode (ucast (vf_frontend event))
          then None
          else Some
            (\<lparr>ev_reason = reason, ev_mode = ucast (vf_frontend event), ev_number = vf_selector event,
              ev_selector = vf_fault_status event, ev_pc = vf_insn_pc event, ev_next_pc = vf_resume_pc event,
              ev_flags = packet_flags, ev_reserved = replicate 2 0, ev_args = take 8 (vf_args event)\<rparr>,
             vf_sequence event))"

definition poly_monitor_entry_frame_to_runtime_packet ::
    "poly_monitor_entry_frame \<Rightarrow> (poly_runtime_event_record \<times> u64) option" where
  "poly_monitor_entry_frame_to_runtime_packet frame =
     (let mode = ucast (ucast (drop_bit 32 (mf_reason_mode frame)) :: u32) in
      if mf_magic frame \<noteq> 0x324e4f4d594c4f50 \<or> mf_bytes frame < 160 \<or> mf_sequence frame = 0 \<or>
         mf_next_pc frame = 0 \<or> \<not> poly_is_raw_foreign_mode mode
      then None
      else Some
        (\<lparr>ev_reason = ucast (ucast (mf_reason_mode frame) :: u32), ev_mode = mode, ev_number = mf_number frame,
          ev_selector = mf_selector frame, ev_pc = mf_pc frame, ev_next_pc = mf_next_pc frame,
          ev_flags = packet_flags, ev_reserved = replicate 2 0, ev_args = take 8 (mf_args frame)\<rparr>,
         mf_sequence frame))"

text \<open>The start of \<open>poly_trap_vector_dispatch\<close>: the event frame first, the entry frame as a fallback.\<close>

definition trap_packet ::
    "poly_v2_event_frame \<Rightarrow> poly_monitor_entry_frame \<Rightarrow> (poly_runtime_event_record \<times> u64) option" where
  "trap_packet event_frame monitor_frame =
     (case read_poly_v2_event_frame event_frame of
        Event event \<Rightarrow>
          (case poly_v2_event_to_runtime_packet event of
             Some p \<Rightarrow> Some p
           | None \<Rightarrow> poly_monitor_entry_frame_to_runtime_packet monitor_frame)
      | _ \<Rightarrow> poly_monitor_entry_frame_to_runtime_packet monitor_frame)"

subsection \<open>Completing an event\<close>

record poly_v2_complete_descriptor =
  cd_magic :: u64
  cd_bytes :: u32
  cd_version :: u16
  cd_header_bytes :: u16
  cd_flags :: u64
  cd_frontend :: u32
  cd_reserved0 :: u32
  cd_resume_pc :: u64
  cd_result0 :: u64
  cd_result1 :: u64
  cd_event_sequence :: u64
  cd_clear_event_mask :: u64
  cd_reserved :: "u64 list"

text \<open>
  The status and the image that completing an event gives, the features of the
  processor, and whether the trap vector is active and can be set up again.
\<close>

record trap_machine =
  tm_signals :: signal_machine
  poly_complete_event_value :: "poly_xsave_state \<Rightarrow> poly_v2_complete_descriptor \<Rightarrow> u64 \<times> poly_xsave_state"
  poly_v2_runtime_features :: u64
  poly_trap_vector_active :: bool
  poly_monitor_entry_accepted :: bool

definition complete_descriptor :: "u64 \<Rightarrow> u64 \<Rightarrow> u64 \<Rightarrow> u64 \<Rightarrow> poly_v2_complete_descriptor" where
  "complete_descriptor mode result resume_pc sequence =
     \<lparr>cd_magic = 0x32504d43594c4f50, cd_bytes = 128, cd_version = 2, cd_header_bytes = 16, cd_flags = 1 OR 8,
      cd_frontend = ucast mode, cd_reserved0 = 0, cd_resume_pc = resume_pc, cd_result0 = result, cd_result1 = 0,
      cd_event_sequence = sequence, cd_clear_event_mask = 0, cd_reserved = replicate 7 0\<rparr>"

definition poly_complete_event_result_registers ::
    "trap_machine \<Rightarrow> u64 \<Rightarrow> poly_xsave_state \<Rightarrow> u64 \<Rightarrow> u64 \<Rightarrow> u64 \<Rightarrow> poly_xsave_state option" where
  "poly_complete_event_result_registers m sequence state mode result resume_pc =
     (if mode \<noteq> POLY_MODE_RAW_AARCH64 \<and> mode \<noteq> POLY_MODE_RAW_RISCV \<or> resume_pc = 0 then None
      else if poly_v2_runtime_features m AND 0x200 = 0 then None
      else
        (case poly_complete_event_value m state (complete_descriptor mode result resume_pc sequence) of
           (status, state) \<Rightarrow> if status = 0 then Some state else None))"

definition poly_clear_completed_event_state :: "trap_machine \<Rightarrow> poly_xsave_state \<Rightarrow> u64 \<Rightarrow> poly_xsave_state option" where
  "poly_clear_completed_event_state m state mode =
     (if mode \<noteq> POLY_MODE_RAW_AARCH64 \<and> mode \<noteq> POLY_MODE_RAW_RISCV then None
      else
        (case poly_derive_state_value (tm_signals m) state
                ((poly_init_derive_descriptor mode)\<lparr>dd_flags := POLY_V2_DERIVE_FLAG_CLEAR_EVENT_STATE\<rparr>) of
           (status, state) \<Rightarrow> if status = 0 then Some state else None))"

subsection \<open>Returning from a trap\<close>

definition poly_aarch64_signal_delivery_uses_packet_resume_pc :: "poly_runtime_event_record \<Rightarrow> bool" where
  "poly_aarch64_signal_delivery_uses_packet_resume_pc packet \<longleftrightarrow>
     ev_reason packet = POLY_TRAP_SYSCALL \<and> ev_mode packet = POLY_MODE_RAW_AARCH64 \<and>
     ev_number packet \<in> {22, 72, 73, 98, 101, 115, 260, 441}"

definition poly_aarch64_rt_sigreturn_packet :: "poly_runtime_event_record \<Rightarrow> bool" where
  "poly_aarch64_rt_sigreturn_packet packet \<longleftrightarrow>
     ev_reason packet = POLY_TRAP_SYSCALL \<and> ev_mode packet = POLY_MODE_RAW_AARCH64 \<and> ev_number packet = 139"

definition poly_riscv_rt_sigreturn_packet :: "poly_runtime_event_record \<Rightarrow> bool" where
  "poly_riscv_rt_sigreturn_packet packet \<longleftrightarrow>
     ev_reason packet = POLY_TRAP_SYSCALL \<and> ev_mode packet = POLY_MODE_RAW_RISCV \<and> ev_number packet = 139"

definition deliver_guest_illegal :: "poly_runtime_event_record \<Rightarrow> bool" where
  "deliver_guest_illegal packet \<longleftrightarrow> ev_reason packet = POLY_TRAP_ILLEGAL \<and> ev_mode packet = POLY_MODE_RAW_AARCH64"

definition set_foreign_pc :: "u64 \<Rightarrow> poly_xsave_state \<Rightarrow> poly_xsave_state" where
  "set_foreign_pc pc state = state\<lparr>xs_header := (xs_header state)\<lparr>hdr_foreign_pc := pc\<rparr>\<rparr>"

text \<open>The image to return to, before a result is applied.\<close>

definition prepare_return_state :: "poly_runtime_event_record \<Rightarrow> poly_xsave_state \<Rightarrow> poly_xsave_state" where
  "prepare_return_state packet trap_state =
     (let sigreturn = (poly_aarch64_rt_sigreturn_packet packet \<or> poly_riscv_rt_sigreturn_packet packet);
          resume_pc = (if \<not> sigreturn then 0
                       else if er_resume_pc (xs_event_record trap_state) \<noteq> 0
                       then er_resume_pc (xs_event_record trap_state)
                       else hdr_foreign_pc (xs_header trap_state));
          state = trap_state\<lparr>xs_header := (xs_header trap_state)
            \<lparr>hdr_current_mode := ucast (ev_mode packet), hdr_reserved0 := 0\<rparr>\<rparr>;
          state = poly_set_clone_child_event_record_state packet state;
          state = (if sigreturn \<and> resume_pc \<noteq> 0
                   then set_foreign_pc resume_pc (state\<lparr>xs_event_record := (xs_event_record state)
                          \<lparr>er_trap_pc := resume_pc, er_resume_pc := resume_pc\<rparr>\<rparr>)
                   else state)
      in if ev_mode packet = POLY_MODE_RAW_AARCH64 then
           (if deliver_guest_illegal packet then set_foreign_pc (ev_pc packet) state
            else if poly_aarch64_signal_delivery_uses_packet_resume_pc packet
            then set_foreign_pc (if ev_next_pc packet \<noteq> 0 then ev_next_pc packet else ev_pc packet) state
            else state)
         else state)"

text \<open>The attempts to deliver a signal, in their order, and the result register of the handler's image.\<close>

definition try_signals ::
    "signal_machine \<Rightarrow> poly_runtime_event_record \<Rightarrow> signal_world \<Rightarrow> signal_world \<times> u64 option" where
  "try_signals m packet w =
     (let aarch64_result = (\<lambda>w. tr_aarch64_gpr (xs_trap_restore (fst w)) ! 0);
          riscv_result = (\<lambda>w. tr_riscv_gpr (xs_trap_restore (fst w)) ! 10);
          (w, delivered) = (if deliver_guest_illegal packet
                            then poly_try_deliver_aarch64_signal m 4 (ev_pc packet) 1 w else (w, False))
      in if delivered then (w, Some (aarch64_result w))
         else if ev_mode packet = POLY_MODE_RAW_AARCH64 then
           (case poly_try_deliver_aarch64_signal m 0 0 0 w of
              (w, delivered) \<Rightarrow> (w, if delivered then Some (aarch64_result w) else None))
         else if ev_mode packet = POLY_MODE_RAW_RISCV then
           (case poly_try_deliver_riscv_signal m 0 0 0 w of
              (w, delivered) \<Rightarrow> (w, if delivered then Some (riscv_result w) else None))
         else (w, None))"

text \<open>
  How a trap ends: the handler returns a value to its caller, the hardware
  returns from the trap with the state it has, an image is activated, or the
  process is ended.
\<close>

datatype trap_outcome =
    Returned u64
  | Trap_returned
  | Activated poly_xsave_state
  | Exit_group u64

definition handler_on_monitor_stack ::
    "signal_machine \<Rightarrow> poly_runtime_event_record \<Rightarrow> poly_xsave_state \<Rightarrow> poly_xsave_state" where
  "handler_on_monitor_stack m packet state =
     (if ev_reason packet \<noteq> POLY_TRAP_SYSCALL then state
      else if ev_mode packet = POLY_MODE_RAW_AARCH64
      then poly_clear_native_return_state
             (state\<lparr>xs_aarch64_gpr := (xs_aarch64_gpr state)[31 := poly_current_x86_rsp m]\<rparr>)
      else if ev_mode packet = POLY_MODE_RAW_RISCV
      then poly_clear_native_return_state
             (state\<lparr>xs_riscv_gpr := (xs_riscv_gpr state)[2 := poly_current_x86_rsp m]\<rparr>)
      else state)"

definition poly_activate_state_with_pderive :: "signal_machine \<Rightarrow> poly_xsave_state \<Rightarrow> trap_outcome" where
  "poly_activate_state_with_pderive m state =
     (case poly_derive_state_value m state
             ((poly_init_derive_descriptor (ucast (hdr_current_mode (xs_header state))))
                \<lparr>dd_flags := POLY_V2_DERIVE_FLAG_ACTIVATE_DST\<rparr>) of
        (status, _) \<Rightarrow> if status = 0 then Activated state else Exit_group 125)"

text \<open>The part after the signals: the vector is set up again and the image activated.\<close>

definition leave_trap ::
    "trap_machine \<Rightarrow> poly_runtime_event_record \<Rightarrow> bool \<Rightarrow> bool \<Rightarrow> poly_xsave_state \<Rightarrow> trap_outcome" where
  "leave_trap m packet completed delivered state =
     (let sigreturn = (poly_aarch64_rt_sigreturn_packet packet \<or> poly_riscv_rt_sigreturn_packet packet) in
      if poly_trap_vector_active m \<and> \<not> poly_monitor_entry_accepted m then Exit_group 125
      else if \<not> (completed \<or> delivered \<or> sigreturn) then Trap_returned
      else
        (let state = (if delivered then handler_on_monitor_stack (tm_signals m) packet state else state);
             state = (if completed \<and> \<not> delivered then poly_clear_completed_event_state m state (ev_mode packet)
                      else Some state)
         in case state of
              None \<Rightarrow> Exit_group 125
            | Some state \<Rightarrow>
                poly_activate_state_with_pderive (tm_signals m) (poly_sanitize_trap_state_for_import state)))"

definition poly_trap_vector_return_result ::
    "trap_machine \<Rightarrow> u64 \<Rightarrow> u64 \<Rightarrow> poly_runtime_event_record \<Rightarrow> poly_xsave_state option \<Rightarrow> signal_state \<times> guest_memory \<Rightarrow>
     (signal_state \<times> guest_memory) \<times> trap_outcome" where
  "poly_trap_vector_return_result m sequence result packet trap_state w =
     (case trap_state of
        None \<Rightarrow>
          (w, if poly_trap_vector_active m \<and> \<not> poly_monitor_entry_accepted m then Exit_group 125 else Returned result)
      | Some trap_state \<Rightarrow>
          (let state = prepare_return_state packet trap_state;
               completes = (\<not> deliver_guest_illegal packet \<and> \<not> poly_aarch64_rt_sigreturn_packet packet \<and>
                            \<not> poly_riscv_rt_sigreturn_packet packet)
           in case (if completes
                    then poly_complete_event_result_registers m sequence state (ev_mode packet) result (ev_next_pc packet)
                    else Some state) of
                None \<Rightarrow> (w, Exit_group 125)
              | Some state \<Rightarrow>
                  (case try_signals (tm_signals m) packet (state, w) of
                     ((state, w), delivered) \<Rightarrow>
                       (w, leave_trap m packet completes (delivered \<noteq> None) state))))"

end
