(* ===== verification/Exec_Handoff.thy ===== *)
theory Exec_Handoff
  imports Libc_Imports
begin

text \<open>
  Executing another AArch64 program, \<open>poly_handle_raw_aarch64_execve\<close> of
  \<open>tools/runtime/polyexec.c\<close>: the monitor executes itself on the program, with the
  guest's arguments behind its own and with variables that tell the next monitor
  what to do; and the start of that monitor in process mode, which reads the
  request back.
\<close>

subsection \<open>Strings handed to the host\<close>

datatype exec_string = Text "u8 list" | Guest u64

primrec exec_byte :: "guest_memory \<Rightarrow> exec_string \<Rightarrow> nat \<Rightarrow> u8" where
  "exec_byte gm (Text bytes) n = (if n < length bytes then bytes ! n else 0)"
| "exec_byte gm (Guest p) n = gm_byte gm (p + of_nat n)"

text \<open>What the host's \<open>execve\<close> copies.\<close>

primrec exec_text :: "guest_memory \<Rightarrow> exec_string \<Rightarrow> u8 list option" where
  "exec_text gm (Text bytes) = Some bytes"
| "exec_text gm (Guest p) = c_string gm p"

definition poly_env_entry_has_key :: "guest_memory \<Rightarrow> exec_string \<Rightarrow> u8 list \<Rightarrow> bool" where
  "poly_env_entry_has_key gm env key \<longleftrightarrow> map (exec_byte gm env) [0..<Suc (length key)] = key @ [0x3d]"

definition poly_env_has_key :: "guest_memory \<Rightarrow> exec_string list \<Rightarrow> u8 list \<Rightarrow> bool" where
  "poly_env_has_key gm envp key \<longleftrightarrow> list_ex (\<lambda>env. poly_env_entry_has_key gm env key) envp"

text \<open>
  A vector of pointers that ends with a null pointer, \<open>None\<close> when there is no end
  within the limit.
\<close>

primrec read_pointers :: "guest_memory \<Rightarrow> u64 \<Rightarrow> nat \<Rightarrow> u64 list option" where
  "read_pointers gm p 0 = None"
| "read_pointers gm p (Suc n) =
     (let value = read_u64_le (guest_bytes gm p 8)
      in if value = 0 then Some [] else map_option (Cons value) (read_pointers gm (p + 8) n))"

subsection \<open>The program to run\<close>

text \<open>
  What the host answers: the first 64 bytes of a file, the target of
  \<open>/proc/self/exe\<close>, the monitor's environment, the path of the running program, and
  an error number left by an earlier call.
\<close>

record exec_host =
  exec_read_header :: "u8 list \<Rightarrow> u8 list option"
  exec_self_path :: "u8 list option"
  exec_environ :: "u8 list list"
  process_cross_report_path :: "u8 list option"
  exec_stale_errno :: u64

definition poly_path_is_aarch64_elf :: "exec_host \<Rightarrow> u8 list \<Rightarrow> bool" where
  "poly_path_is_aarch64_elf h path \<longleftrightarrow>
     path \<noteq> [] \<and>
     (case exec_read_header h path of
        None \<Rightarrow> False
      | Some ehdr \<Rightarrow>
          length ehdr = 64 \<and> take 4 ehdr = [0x7f, 0x45, 0x4c, 0x46] \<and> ehdr ! 4 = 2 \<and> ehdr ! 5 = 1 \<and>
          read_u16_le (drop 18 ehdr) = 183)"

definition poly_path_is_monitor_self_exec :: "exec_host \<Rightarrow> u8 list \<Rightarrow> bool" where
  "poly_path_is_monitor_self_exec h path \<longleftrightarrow>
     path \<noteq> [] \<and>
     (path \<in> set (map string_bytes [''/proc/self/exe'', ''/proc/thread-self/exe'', ''/usr/bin/polyexec'']) \<or>
      (case exec_self_path h of None \<Rightarrow> False | Some self_path \<Rightarrow> self_path \<noteq> [] \<and> path = self_path))"

definition path_base :: "u8 list \<Rightarrow> u8 list" where
  "path_base path = (case last_index (\<lambda>c. c = 0x2f) path of None \<Rightarrow> path | Some n \<Rightarrow> drop (Suc n) path)"

definition poly_process_report_path_is :: "exec_host \<Rightarrow> u8 list \<Rightarrow> bool" where
  "poly_process_report_path_is h base_name \<longleftrightarrow>
     (case process_cross_report_path h of None \<Rightarrow> False | Some path \<Rightarrow> path_base path = base_name)"

definition poly_path_basename_is :: "u8 list \<Rightarrow> u8 list \<Rightarrow> bool" where
  "poly_path_basename_is path base_name \<longleftrightarrow> path_base path = base_name"

definition poly_resolve_aarch64_execve_program :: "exec_host \<Rightarrow> u8 list \<Rightarrow> u8 list option" where
  "poly_resolve_aarch64_execve_program h path =
     (if poly_path_is_aarch64_elf h path then Some path
      else
        (case process_cross_report_path h of
           None \<Rightarrow> None
         | Some report \<Rightarrow>
             if \<not> poly_path_is_aarch64_elf h report then None
             else if poly_path_is_monitor_self_exec h path then Some report
             else if poly_process_report_path_is h (string_bytes ''runc'') \<and> path = string_bytes ''init''
             then Some report
             else None))"

subsection \<open>Arguments and environment\<close>

definition guest_argv0_key :: "u8 list" where
  "guest_argv0_key = string_bytes ''POLYEXEC_GUEST_ARGV0''"

definition exec_argv :: "u8 list \<Rightarrow> u64 list \<Rightarrow> exec_string list" where
  "exec_argv exec_path old_argv =
     Text (string_bytes ''/usr/bin/polyexec'') # Text (string_bytes ''--process'') # Text exec_path #
     map Guest (drop 1 old_argv)"

text \<open>The variable that keeps the guest's own \<open>argv[0]\<close>, if it is short enough.\<close>

definition guest_argv0_entry :: "guest_memory \<Rightarrow> u64 list \<Rightarrow> exec_string list" where
  "guest_argv0_entry gm old_argv =
     (case old_argv of
        [] \<Rightarrow> []
      | p # _ \<Rightarrow>
          (let bytes = bounded_string gm p 4096
           in if length bytes < 4096 then [Text (guest_argv0_key @ 0x3d # bytes)] else []))"

definition exec_environment ::
    "guest_memory \<Rightarrow> bool \<Rightarrow> u64 list \<Rightarrow> exec_string list \<Rightarrow> exec_string list" where
  "exec_environment gm protect old_argv old_envp =
     (let envp = filter (\<lambda>e. \<not> poly_env_entry_has_key gm e guest_argv0_key) old_envp;
          envp = envp @ guest_argv0_entry gm old_argv;
          envp = envp @ [Text (string_bytes ''POLYEXEC_STDOUT_PASSTHROUGH=1''),
                         Text (string_bytes ''POLYEXEC_PROCESS_NO_FORK=1'')];
          envp = (if \<not> poly_env_has_key gm envp (string_bytes ''POLY_PROCESS_REAL_INTERPRETER'')
                  then envp @ [Text (string_bytes ''POLY_PROCESS_REAL_INTERPRETER=1'')] else envp)
      in if protect \<and> \<not> poly_env_has_key gm envp (string_bytes ''POLYEXEC_PROTECT_RUNTIME_SIGNALS'')
         then envp @ [Text (string_bytes ''POLYEXEC_PROTECT_RUNTIME_SIGNALS=1'')] else envp)"

definition old_environment :: "exec_host \<Rightarrow> guest_memory \<Rightarrow> u64 \<Rightarrow> exec_string list option" where
  "old_environment h gm envp_addr =
     (if envp_addr \<noteq> 0 then map_option (map Guest) (read_pointers gm envp_addr 4097)
      else if length (exec_environ h) > 4096 then None
      else Some (map Text (exec_environ h)))"

definition poly_count_guest_argv :: "exec_host \<Rightarrow> guest_memory \<Rightarrow> u64 \<Rightarrow> u64 + u64 list" where
  "poly_count_guest_argv h gm argv_addr =
     (if argv_addr = 0 then Inl (exec_stale_errno h)
      else (case read_pointers gm argv_addr 4096 of None \<Rightarrow> Inl 7 | Some argv \<Rightarrow> Inr argv))"

text \<open>
  The call is left to the generic path, it fails, or the host executes the monitor
  on a program. A null path is left to the generic path. \<open>None\<close> is a path without
  an end.
\<close>

datatype exec_answer = Passed_on | Exec_failed u64 | Exec_now "exec_string list" "exec_string list"

definition poly_handle_raw_aarch64_execve ::
    "exec_host \<Rightarrow> bool \<Rightarrow> guest_memory \<Rightarrow> u64 \<Rightarrow> u64 \<Rightarrow> u64 \<Rightarrow> exec_answer option" where
  "poly_handle_raw_aarch64_execve h protect gm path_addr argv_addr envp_addr =
     (if path_addr = 0 then Some Passed_on
      else
        (case c_string gm path_addr of
           None \<Rightarrow> None
         | Some path \<Rightarrow>
             (case poly_resolve_aarch64_execve_program h path of
                None \<Rightarrow> Some Passed_on
              | Some exec_path \<Rightarrow>
                  (case poly_count_guest_argv h gm argv_addr of
                     Inl e \<Rightarrow> Some (Exec_failed (- e))
                   | Inr old_argv \<Rightarrow>
                       (case old_environment h gm envp_addr of
                          None \<Rightarrow> Some (Exec_failed (- 7))
                        | Some old_envp \<Rightarrow>
                            Some (Exec_now (exec_argv exec_path old_argv)
                                    (exec_environment gm protect old_argv old_envp)))))))"

subsection \<open>The monitor in process mode\<close>

record poly_request =
  rq_path :: "u8 list"
  rq_argv0 :: "u8 list"
  rq_symbol :: "u8 list"
  rq_expected :: u64
  rq_check_expected :: bool

text \<open>
  An argument is a path, a symbol behind \<open>#\<close> and an expected result behind \<open>=\<close>;
  the value of an expected result is a parameter.
\<close>

definition parse_request :: "(u8 list \<Rightarrow> u64 option) \<Rightarrow> u8 list \<Rightarrow> poly_request option" where
  "parse_request expected_value arg =
     (let expected = first_index (\<lambda>c. c = 0x3d) arg;
          head = (case expected of None \<Rightarrow> arg | Some n \<Rightarrow> take n arg);
          symbol = first_index (\<lambda>c. c = 0x23) head;
          path = (case symbol of None \<Rightarrow> head | Some n \<Rightarrow> take n head);
          name = (case symbol of None \<Rightarrow> [] | Some n \<Rightarrow> drop (Suc n) head)
      in if symbol \<noteq> None \<and> (name = [] \<or> length name \<ge> 80) then None
         else if path = [] \<or> length path \<ge> 160 then None
         else
           (case expected of
              None \<Rightarrow> Some \<lparr>rq_path = path, rq_argv0 = [], rq_symbol = name, rq_expected = 0, rq_check_expected = False\<rparr>
            | Some n \<Rightarrow>
                (case expected_value (drop (Suc n) arg) of
                   None \<Rightarrow> None
                 | Some v \<Rightarrow> Some \<lparr>rq_path = path, rq_argv0 = [], rq_symbol = name, rq_expected = v,
                                 rq_check_expected = True\<rparr>)))"

definition env_has_key :: "u8 list \<Rightarrow> u8 list \<Rightarrow> bool" where
  "env_has_key key env \<longleftrightarrow> take (Suc (length key)) env = key @ [0x3d]"

definition env_value :: "u8 list list \<Rightarrow> u8 list \<Rightarrow> u8 list option" where
  "env_value environ key = map_option (drop (Suc (length key))) (find (env_has_key key) environ)"

text \<open>
  The start of \<open>main\<close> for \<open>--process\<close>: the request, with the preserved \<open>argv[0]\<close>, and the
  environment that the program gets.
\<close>

definition process_request ::
    "(u8 list \<Rightarrow> u64 option) \<Rightarrow> u8 list list \<Rightarrow> u8 list list \<Rightarrow> (poly_request \<times> u8 list list \<times> u8 list list) option" where
  "process_request expected_value argv environ =
     (if length argv < 3 then None
      else
        (case parse_request expected_value (argv ! 2) of
           None \<Rightarrow> None
         | Some request \<Rightarrow>
             (let argv0 = (case env_value environ guest_argv0_key of None \<Rightarrow> [] | Some v \<Rightarrow> v)
              in if length argv0 \<ge> 160 then None
                 else Some (request\<lparr>rq_argv0 := argv0\<rparr>, drop 3 argv,
                            filter (\<lambda>e. \<not> env_has_key guest_argv0_key e) environ))))"

end
