(* ===== verification/Exec_Policy.thy ===== *)
theory Exec_Policy
  imports Exec_Handoff Libc_Policy
begin

text \<open>
  What an executed program gets: the monitor that starts it reads back the path, the
  arguments and the environment that the old program gave. The environment grows by
  two entries with every execution, and a path with an equals or number sign does
  not survive.
\<close>

subsection \<open>Strings in memory\<close>

lemma scan_bytes_first:
  assumes "scan_bytes stop gm p = Some e"
  shows "\<exists>n. e = p + of_nat n \<and> stop (gm_byte gm e) \<and> (\<forall>i < n. \<not> stop (gm_byte gm (p + of_nat i)))"
proof (rule scan_bytes.raw_induct[where P = "\<lambda>stop gm p e. \<exists>n. e = p + of_nat n \<and> stop (gm_byte gm e) \<and>
    (\<forall>i < n. \<not> stop (gm_byte gm (p + of_nat i)))", OF _ assms], goal_cases)
  case (1 scan stop gm p e)
  show ?case
  proof (cases "stop (gm_byte gm p)")
    case True
    then have "e = p" using 1(2) by simp
    then show ?thesis using True by (intro exI[of _ 0]) simp
  next
    case False
    then have "scan stop gm (p + 1) = Some e" using 1(2) by simp
    from 1(1)[OF this] obtain n where n: "e = p + 1 + of_nat n" "stop (gm_byte gm e)" "\<forall>i < n. \<not> stop (gm_byte gm (p + 1 + of_nat i))"
      by blast
    then have "\<forall>i < Suc n. \<not> stop (gm_byte gm (p + of_nat i))"
      using False by (auto simp: less_Suc_eq_0_disj algebra_simps)
    then show ?thesis using n(1,2) by (intro exI[of _ "Suc n"]) (simp add: algebra_simps)
  qed
qed

text \<open>A string ends at its first zero byte, which it reaches before it wraps around.\<close>

lemma c_string_spec:
  assumes "c_string gm p = Some s"
  shows "guest_bytes gm p (length s + 1) = s @ [0]" "0 \<notin> set s"
proof -
  obtain e where e: "scan_bytes (\<lambda>c. c = 0) gm p = Some e" "s = guest_bytes gm p (unat (e - p))"
    using assms by (auto simp: c_string_def)
  obtain n where n: "e = p + of_nat n" "gm_byte gm e = 0" "\<forall>i < n. gm_byte gm (p + of_nat i) \<noteq> 0"
    using scan_bytes_first[OF e(1)] by blast
  have "n < 2 ^ 64"
  proof (rule ccontr)
    assume big: "\<not> n < 2 ^ 64"
    have "(of_nat (n - 2 ^ 64) :: u64) = of_nat n - of_nat (2 ^ 64)" using big by (intro of_nat_diff) simp
    also have "(of_nat (2 ^ 64) :: u64) = 0" by simp
    finally have "gm_byte gm (p + of_nat (n - 2 ^ 64)) = 0" using n(1,2) by simp
    moreover have "n - 2 ^ 64 < n" using big by simp
    ultimately show False using n(3) by blast
  qed
  then have "unat (e - p) = n" using n(1) by (simp add: unat_of_nat take_bit_nat_eq_self)
  then have s: "s = guest_bytes gm p n" using e(2) by simp
  show "0 \<notin> set s" using n(3) by (auto simp: s guest_bytes_def)
  show "guest_bytes gm p (length s + 1) = s @ [0]"
    using n(1,2) by (simp add: s guest_bytes_def)
qed

lemma c_string_known:
  assumes "guest_bytes gm p (length (s @ [0])) = s @ [0]" "0 \<notin> set s" "length s < 2 ^ 64"
  shows "c_string gm p = Some s"
proof -
  have "scan_bytes (\<lambda>c. c = 0) gm p = Some (p + of_nat (length s))"
  proof (rule scan_bytes_ends)
    show "gm_byte gm (p + of_nat i) \<noteq> 0" if "i < length s" for i
    proof -
      have "s ! i \<noteq> 0" using nth_mem[OF that] assms(2) by metis
      then show ?thesis using guest_bytes_nth_of[OF assms(1), of i] that by (simp add: nth_append)
    qed
    show "gm_byte gm (p + of_nat (length s)) = 0" using guest_bytes_nth_of[OF assms(1), of "length s"] by simp
  qed
  moreover have "guest_bytes gm p (length s) = s" using assms(1) guest_bytes_append by blast
  ultimately show ?thesis using assms(3) by (simp add: c_string_def unat_of_nat take_bit_nat_eq_self)
qed

lemma bounded_string_exact:
  assumes "c_string gm p = Some s" "length s < unat n"
  shows "bounded_string gm p n = s"
proof -
  have "guest_bytes gm p (unat n) = guest_bytes gm p (length s + 1) @ guest_bytes gm (p + of_nat (length s + 1)) (unat n - (length s + 1))"
    using assms(2) guest_bytes_split[of gm p "length s + 1" "unat n - (length s + 1)"] by simp
  then show ?thesis
    unfolding bounded_string_def using c_string_spec[OF assms(1)]
    by (simp add: takeWhile_append2 takeWhile_append takeWhile_eq_all_conv) 
qed

lemma exec_byte_text:
  assumes "exec_text gm e = Some t" "n \<le> length t"
  shows "exec_byte gm e n = (t @ [0]) ! n"
proof (cases e)
  case (Text bytes)
  then show ?thesis using assms by (simp add: nth_append)
next
  case (Guest p)
  then have "c_string gm p = Some t" using assms(1) by simp
  then have "guest_bytes gm p (length (t @ [0])) = t @ [0]" using c_string_spec(1) by fastforce
  then show ?thesis using assms(2) guest_bytes_nth_of[of gm p "t @ [0]" n] Guest by simp
qed

text \<open>The monitor tests a key in the guest's memory as the next monitor tests it in its environment.\<close>

lemma entry_key_exact:
  assumes "exec_text gm e = Some t" "0 \<notin> set key"
  shows "poly_env_entry_has_key gm e key \<longleftrightarrow> env_has_key key t"
proof (cases "length key < length t")
  case True
  then have "map (exec_byte gm e) [0..<Suc (length key)] = map (\<lambda>n. t ! n) [0..<Suc (length key)]"
    by (intro map_cong refl) (auto simp: exec_byte_text[OF assms(1)] nth_append simp del: upt_Suc)
  also have "\<dots> = take (Suc (length key)) t" using True by (intro nth_equalityI) (auto simp del: upt_Suc)
  finally show ?thesis unfolding poly_env_entry_has_key_def env_has_key_def by simp
next
  case False
  have "map (exec_byte gm e) [0..<Suc (length key)] \<noteq> key @ [0x3d]"
  proof
    assume eq: "map (exec_byte gm e) [0..<Suc (length key)] = key @ [0x3d]"
    have "exec_byte gm e (length t) = (key @ [0x3d]) ! length t"
      using arg_cong[OF eq, of "\<lambda>l. l ! length t"] False by (simp del: upt_Suc)
    moreover have "exec_byte gm e (length t) = 0" using exec_byte_text[OF assms(1), of "length t"] by simp
    ultimately show False using False assms(2) nth_mem[of "length t" key] by (cases "length t = length key") (auto simp: nth_append)
  qed
  moreover have "length (take (Suc (length key)) t) \<noteq> length (key @ [0x3d])" using False by simp
  then have "take (Suc (length key)) t \<noteq> key @ [0x3d]" by metis
  ultimately show ?thesis unfolding poly_env_entry_has_key_def env_has_key_def by simp
qed

subsection \<open>The environment\<close>

lemma guest_argv0_key_eq:
  "guest_argv0_key = [0x50, 0x4f, 0x4c, 0x59, 0x45, 0x58, 0x45, 0x43, 0x5f, 0x47, 0x55, 0x45, 0x53, 0x54, 0x5f,
     0x41, 0x52, 0x47, 0x56, 0x30]"
  by code_simp

lemma key_no_zero: "0 \<notin> set guest_argv0_key"
  by (simp add: guest_argv0_key_eq)

definition monitor_flags :: "bool \<Rightarrow> bool \<Rightarrow> u8 list list" where
  "monitor_flags real protect =
     [string_bytes ''POLYEXEC_STDOUT_PASSTHROUGH=1'', string_bytes ''POLYEXEC_PROCESS_NO_FORK=1''] @
     (if real then [string_bytes ''POLY_PROCESS_REAL_INTERPRETER=1''] else []) @
     (if protect then [string_bytes ''POLYEXEC_PROTECT_RUNTIME_SIGNALS=1''] else [])"

lemma monitor_flags_no_key: "e \<in> set (monitor_flags real protect) \<Longrightarrow> \<not> env_has_key guest_argv0_key e"
proof -
  have "list_all (\<lambda>e. \<not> env_has_key guest_argv0_key e) (monitor_flags True True)" by code_simp
  then show "e \<in> set (monitor_flags real protect) \<Longrightarrow> \<not> env_has_key guest_argv0_key e"
    by (auto simp: monitor_flags_def list_all_iff split: if_splits)
qed

lemma exec_environment_shape:
  "\<exists>real prot. exec_environment gm protect argv envp =
     filter (\<lambda>e. \<not> poly_env_entry_has_key gm e guest_argv0_key) envp @ guest_argv0_entry gm argv @
     map Text (monitor_flags real prot)"
proof -
  let ?envp = "filter (\<lambda>e. \<not> poly_env_entry_has_key gm e guest_argv0_key) envp @ guest_argv0_entry gm argv @
     map Text (monitor_flags False False)"
  let ?real = "\<not> poly_env_has_key gm ?envp (string_bytes ''POLY_PROCESS_REAL_INTERPRETER'')"
  let ?envp2 = "if ?real then ?envp @ [Text (string_bytes ''POLY_PROCESS_REAL_INTERPRETER=1'')] else ?envp"
  let ?prot = "protect \<and> \<not> poly_env_has_key gm ?envp2 (string_bytes ''POLYEXEC_PROTECT_RUNTIME_SIGNALS'')"
  have "exec_environment gm protect argv envp =
      (if ?prot then ?envp2 @ [Text (string_bytes ''POLYEXEC_PROTECT_RUNTIME_SIGNALS=1'')] else ?envp2)"
    by (simp add: exec_environment_def Let_def monitor_flags_def)
  also have "\<dots> = filter (\<lambda>e. \<not> poly_env_entry_has_key gm e guest_argv0_key) envp @ guest_argv0_entry gm argv @
      map Text (monitor_flags ?real ?prot)"
    by (simp add: monitor_flags_def)
  finally show ?thesis by blast
qed

lemma texts_of_texts: "list_all2 (\<lambda>s t. exec_text gm s = Some t) (map Text ts) vs \<longleftrightarrow> vs = ts"
  by (induction ts arbitrary: vs) (auto simp: list_all2_Cons1)

lemma texts_of_guests: "list_all2 (\<lambda>s t. exec_text gm s = Some t) (map Guest ps) vs \<longleftrightarrow> list_all2 (\<lambda>p t. c_string gm p = Some t) ps vs"
  by (simp add: list_all2_map1)

lemma kept_without_key:
  assumes "list_all2 (\<lambda>s t. exec_text gm s = Some t) (filter (\<lambda>e. \<not> poly_env_entry_has_key gm e guest_argv0_key) envp) kept"
  shows "list_all (\<lambda>e. \<not> env_has_key guest_argv0_key e) kept"
  using assms
proof (induction envp arbitrary: kept)
  case (Cons e envp)
  then show ?case by (auto simp: list_all2_Cons1 entry_key_exact[OF _ key_no_zero] split: if_splits)
qed simp

lemma find_skip: "(\<And>x. x \<in> set xs \<Longrightarrow> \<not> P x) \<Longrightarrow> find P (xs @ ys) = find P ys"
  by (induction xs) auto

lemma parse_plain_path:
  assumes "path \<noteq> []" "length path < 160" "0x3d \<notin> set path" "0x23 \<notin> set path"
  shows "parse_request expected path =
    Some \<lparr>rq_path = path, rq_argv0 = [], rq_symbol = [], rq_expected = 0, rq_check_expected = False\<rparr>"
proof -
  have "first_index (\<lambda>c. c = 0x3d) path = None" "first_index (\<lambda>c. c = 0x23) path = None"
    using assms(3,4) by (auto simp: first_index_None)
  then show ?thesis using assms(1,2) by (simp add: parse_request_def Let_def)
qed

text \<open>
  C12. An executed program gets what the old program gave. When the monitor replaces
  an \<open>execve\<close> by an execution of itself, the path is free of equals and number signs
  and shorter than 160 bytes, and so is the first argument, then the new monitor
  reads back from its arguments and environment: the resolved path as the file to
  load, with no symbol and no expected result; the guest's own first argument; the
  guest's further arguments, in order; and, as the environment, the guest's entries
  in order without the monitor's private variable, followed only by the monitor's
  own flags.
\<close>

theorem exec_arguments_roundtrip:
  assumes answer: "poly_handle_raw_aarch64_execve h protect gm path_addr argv_addr envp_addr = Some (Exec_now argv envp)"
    and texts: "list_all2 (\<lambda>s t. exec_text gm s = Some t) argv av" "list_all2 (\<lambda>s t. exec_text gm s = Some t) envp ev"
    and argv: "read_pointers gm argv_addr 4096 = Some (p0 # ps)"
    and argv0: "c_string gm p0 = Some argv0" "length argv0 < 160"
    and path: "av ! 2 \<noteq> []" "length (av ! 2) < 160" "0x3d \<notin> set (av ! 2)" "0x23 \<notin> set (av ! 2)"
  shows "\<exists>name olds extra kept real prot.
     c_string gm path_addr = Some name \<and> poly_resolve_aarch64_execve_program h name = Some (av ! 2) \<and>
     process_request expected av ev =
       Some (\<lparr>rq_path = av ! 2, rq_argv0 = argv0, rq_symbol = [], rq_expected = 0, rq_check_expected = False\<rparr>,
             extra, kept @ monitor_flags real prot) \<and>
     list_all2 (\<lambda>p t. c_string gm p = Some t) ps extra \<and>
     old_environment h gm envp_addr = Some olds \<and>
     list_all2 (\<lambda>s t. exec_text gm s = Some t) (filter (\<lambda>e. \<not> poly_env_entry_has_key gm e guest_argv0_key) olds) kept"
proof -
  obtain name exec_path olds where a: "c_string gm path_addr = Some name" "poly_resolve_aarch64_execve_program h name = Some exec_path"
      "old_environment h gm envp_addr = Some olds" "argv = exec_argv exec_path (p0 # ps)"
      "envp = exec_environment gm protect (p0 # ps) olds"
    using answer argv by (auto simp: poly_handle_raw_aarch64_execve_def poly_count_guest_argv_def split: if_splits option.splits sum.splits)
  obtain extra where av: "av = string_bytes ''/usr/bin/polyexec'' # string_bytes ''--process'' # exec_path # extra"
      "list_all2 (\<lambda>p t. c_string gm p = Some t) ps extra"
    using texts(1) by (auto simp: a(4) exec_argv_def list_all2_Cons1 texts_of_guests)
  have entry: "guest_argv0_entry gm (p0 # ps) = map Text [guest_argv0_key @ 0x3d # argv0]"
    using bounded_string_exact[OF argv0(1), of 4096] argv0(2) by (simp add: guest_argv0_entry_def)
  obtain real prot where "envp = filter (\<lambda>e. \<not> poly_env_entry_has_key gm e guest_argv0_key) olds @
      map Text [guest_argv0_key @ 0x3d # argv0] @ map Text (monitor_flags real prot)"
    unfolding a(5) using exec_environment_shape[of gm protect "p0 # ps" olds] unfolding entry by blast
  then obtain kept where ev: "ev = kept @ (guest_argv0_key @ 0x3d # argv0) # monitor_flags real prot"
      "list_all2 (\<lambda>s t. exec_text gm s = Some t) (filter (\<lambda>e. \<not> poly_env_entry_has_key gm e guest_argv0_key) olds) kept"
    using texts(2) by (auto simp: list_all2_append1 list_all2_Cons1 texts_of_texts)
  have clean: "\<not> env_has_key guest_argv0_key e" if "e \<in> set kept" for e
    using kept_without_key[OF ev(2)] that by (simp add: list_all_iff)
  have key: "env_has_key guest_argv0_key (guest_argv0_key @ 0x3d # argv0)" by (simp add: env_has_key_def)
  have "find (env_has_key guest_argv0_key) ev = Some (guest_argv0_key @ 0x3d # argv0)"
    using find_skip[of kept "env_has_key guest_argv0_key", OF clean] key by (simp add: ev(1))
  then have "env_value ev guest_argv0_key = Some argv0" by (simp add: env_value_def)
  moreover have "filter (\<lambda>e. \<not> env_has_key guest_argv0_key e) ev = kept @ monitor_flags real prot"
    using clean key monitor_flags_no_key by (simp add: ev(1))
  ultimately have "process_request expected av ev =
       Some (\<lparr>rq_path = av ! 2, rq_argv0 = argv0, rq_symbol = [], rq_expected = 0, rq_check_expected = False\<rparr>,
             extra, kept @ monitor_flags real prot)"
    using parse_plain_path[OF path, of expected] argv0(2) by (simp add: process_request_def Let_def av(1))
  then show ?thesis using a(1-3) av ev(2) by (auto simp: av(1))
qed

definition sample_program :: "u8 list" where
  "sample_program = [0x7f, 0x45, 0x4c, 0x46, 2, 1] @ replicate 12 0 @ [183] @ replicate 45 0"

definition sample_exec_host :: exec_host where
  "sample_exec_host = \<lparr>exec_read_header = (\<lambda>path. Some sample_program), exec_self_path = None, exec_environ = [],
     process_cross_report_path = None, exec_stale_errno = 0\<rparr>"

text \<open>The path \<open>/a\<close>, the argument \<open>b\<close> and the vector of one argument.\<close>

definition sample_exec_memory :: guest_memory where
  "sample_exec_memory = flat_memory 4096 [0x2f, 0x61, 0, 0x62, 0, 0, 0, 0, 3, 16, 0, 0, 0, 0, 0, 0, 0, 0, 0, 0, 0, 0, 0, 0]"

lemma sample_exec_strings:
  "c_string sample_exec_memory 4096 = Some [0x2f, 0x61]" "c_string sample_exec_memory 4099 = Some [0x62]"
  by (rule c_string_known, code_simp, simp_all)+

lemma sample_exec_argv: "read_pointers sample_exec_memory 4104 4096 = Some [4099]"
proof -
  have "read_u64_le (guest_bytes sample_exec_memory 4104 8) = 4099" "read_u64_le (guest_bytes sample_exec_memory 4112 8) = 0"
    by code_simp+
  then have "read_pointers sample_exec_memory 4104 (Suc (Suc 4094)) = Some [4099]" by (simp only: read_pointers.simps Let_def) simp
  moreover have "Suc (Suc 4094) = 4096" by simp
  ultimately show ?thesis by (simp only:)
qed

lemma sample_exec_elf: "poly_path_is_aarch64_elf sample_exec_host [0x2f, 0x61]"
  by code_simp

lemma sample_exec_answer:
  "\<exists>ev. poly_handle_raw_aarch64_execve sample_exec_host False sample_exec_memory 4096 4104 0 =
       Some (Exec_now (map Text [string_bytes ''/usr/bin/polyexec'', string_bytes ''--process'', [0x2f, 0x61]]) (map Text ev))"
proof -
  have "old_environment sample_exec_host sample_exec_memory 0 = Some []"
    by (simp add: old_environment_def sample_exec_host_def)
  moreover have "poly_resolve_aarch64_execve_program sample_exec_host [0x2f, 0x61] = Some [0x2f, 0x61]"
    by (simp add: poly_resolve_aarch64_execve_program_def sample_exec_elf)
  moreover have "guest_argv0_entry sample_exec_memory [4099] = map Text [guest_argv0_key @ 0x3d # [0x62]]"
    using bounded_string_exact[OF sample_exec_strings(2), of 4096] by (simp add: guest_argv0_entry_def)
  moreover obtain ev where "exec_environment sample_exec_memory False [4099] [] = map Text ev"
    using exec_environment_shape[of sample_exec_memory False "[4099]" "[]"] calculation(3)
    by (metis append_Nil filter.simps(1) map_append)
  ultimately show ?thesis
    using sample_exec_strings sample_exec_argv
    by (simp add: poly_handle_raw_aarch64_execve_def poly_count_guest_argv_def exec_argv_def) blast
qed

theorem exec_arguments_roundtrip_witness:
  "\<exists>ev extra env.
     poly_handle_raw_aarch64_execve sample_exec_host False sample_exec_memory 4096 4104 0 =
       Some (Exec_now (map Text [string_bytes ''/usr/bin/polyexec'', string_bytes ''--process'', [0x2f, 0x61]]) (map Text ev)) \<and>
     process_request (\<lambda>_. None) [string_bytes ''/usr/bin/polyexec'', string_bytes ''--process'', [0x2f, 0x61]] ev =
       Some (\<lparr>rq_path = [0x2f, 0x61], rq_argv0 = [0x62], rq_symbol = [], rq_expected = 0, rq_check_expected = False\<rparr>, extra, env)"
proof -
  let ?av = "[string_bytes ''/usr/bin/polyexec'', string_bytes ''--process'', [0x2f, 0x61]]"
  obtain ev where ev: "poly_handle_raw_aarch64_execve sample_exec_host False sample_exec_memory 4096 4104 0 =
       Some (Exec_now (map Text ?av) (map Text ev))"
    using sample_exec_answer by blast
  have nth: "?av ! 2 = [0x2f, 0x61]" by simp
  have "\<exists>extra env. process_request (\<lambda>_. None) ?av ev = Some (\<lparr>rq_path = ?av ! 2, rq_argv0 = [0x62], rq_symbol = [],
      rq_expected = 0, rq_check_expected = False\<rparr>, extra, env)"
    using exec_arguments_roundtrip[OF ev iffD2[OF texts_of_texts refl] iffD2[OF texts_of_texts refl] sample_exec_argv
        sample_exec_strings(2), of "\<lambda>_. None"] unfolding nth by fastforce
  then show ?thesis using ev unfolding nth by blast
qed

definition cut_at :: "u8 \<Rightarrow> u8 list \<Rightarrow> u8 list" where
  "cut_at b xs = (case first_index (\<lambda>c. c = b) xs of None \<Rightarrow> xs | Some n \<Rightarrow> take n xs)"

lemma cut_at_shorter: "length (cut_at b xs) \<le> length xs" "b \<in> set xs \<Longrightarrow> length (cut_at b xs) < length xs"
proof -
  have n: "n < length xs" if "first_index (\<lambda>c. c = b) xs = Some n" for n
    using that first_index_Some[of "\<lambda>c. c = b" xs n] by blast
  show "length (cut_at b xs) \<le> length xs" by (simp add: cut_at_def split: option.split)
  assume "b \<in> set xs"
  then obtain m where "first_index (\<lambda>c. c = b) xs = Some m"
    using first_index_None[of "\<lambda>c. c = b" xs] by (cases "first_index (\<lambda>c. c = b) xs") auto
  then show "length (cut_at b xs) < length xs" using n by (simp add: cut_at_def)
qed

lemma parse_request_path:
  assumes "parse_request expected arg = Some request"
  shows "rq_path request = cut_at 0x23 (cut_at 0x3d arg) \<and> rq_path request \<noteq> [] \<and> length (rq_path request) < 160"
proof -
  have head: "(case first_index (\<lambda>c. c = 0x3d) arg of None \<Rightarrow> arg | Some n \<Rightarrow> take n arg) = cut_at 0x3d arg"
    by (simp add: cut_at_def)
  have path: "(case first_index (\<lambda>c. c = 0x23) head of None \<Rightarrow> head | Some n \<Rightarrow> take n head) = cut_at 0x23 head" for head
    by (simp add: cut_at_def)
  have "\<not> (cut_at 0x23 (cut_at 0x3d arg) = [] \<or> 160 \<le> length (cut_at 0x23 (cut_at 0x3d arg)))"
    using assms unfolding parse_request_def Let_def head path by (metis option.distinct(1))
  moreover have "rq_path request = cut_at 0x23 (cut_at 0x3d arg)"
    using assms unfolding parse_request_def Let_def head path
    by (cases "first_index (\<lambda>c. c = 0x3d) arg") (auto split: if_split_asm option.split_asm)
  ultimately show ?thesis by simp
qed

text \<open>
  C37. A path is read back exactly when it has no equals or number sign and between 1
  and 159 bytes; any other path that the old monitor accepts for execution is loaded
  as another file or rejected.
\<close>

theorem exec_path_survives_iff:
  "(\<exists>request. parse_request expected path = Some request \<and> rq_path request = path) \<longleftrightarrow>
     path \<noteq> [] \<and> length path < 160 \<and> 0x3d \<notin> set path \<and> 0x23 \<notin> set path"
proof
  assume "\<exists>request. parse_request expected path = Some request \<and> rq_path request = path"
  then obtain request where r: "parse_request expected path = Some request" "rq_path request = path" by blast
  then have cut: "cut_at 0x23 (cut_at 0x3d path) = path" "path \<noteq> []" "length path < 160"
    using parse_request_path[OF r(1)] r(2) by metis+
  have "0x3d \<notin> set path" "0x23 \<notin> set (cut_at 0x3d path)"
    using cut_at_shorter[of "0x3d" path] cut_at_shorter[of "0x23" "cut_at 0x3d path"] arg_cong[OF cut(1), of length]
    by linarith+
  moreover have "cut_at 0x3d path = path" if "0x3d \<notin> set path"
    using that first_index_None[of "\<lambda>c. c = 0x3d" path] by (auto simp: cut_at_def)
  ultimately show "path \<noteq> [] \<and> length path < 160 \<and> 0x3d \<notin> set path \<and> 0x23 \<notin> set path" using cut by simp
qed (auto simp: parse_plain_path)

end
