(* ===== verification/Elf_Image.thy ===== *)
theory Elf_Image
  imports Process_Bridge
begin

text \<open>
  ELF files and the image of a program, \<open>tools/runtime/polyexec.c\<close>: the headers,
  the loader \<open>load_elf_program\<close> without the symbol lookup, page protection and the
  layout of thread-local storage. A file is a list of bytes, and a read that leaves
  it is the value \<open>Out_of_bounds\<close>.
\<close>

subsection \<open>Headers\<close>

datatype poly_arch = POLY_ARCH_X86 | POLY_ARCH_AARCH64 | POLY_ARCH_RISCV

record elf64_ehdr =
  e_ident :: "u8 list"
  e_type :: u16
  e_machine :: u16
  e_entry :: u64
  e_phoff :: u64
  e_shoff :: u64
  e_phentsize :: u16
  e_phnum :: u16
  e_shentsize :: u16
  e_shnum :: u16

record elf64_phdr =
  p_type :: u32
  p_flags :: u32
  p_offset :: u64
  p_vaddr :: u64
  p_filesz :: u64
  p_memsz :: u64
  p_align :: u64

definition le16_at :: "u8 list \<Rightarrow> nat \<Rightarrow> u16" where
  "le16_at bytes n = read_u16_le (take 2 (drop n bytes))"

definition le32_at :: "u8 list \<Rightarrow> nat \<Rightarrow> u32" where
  "le32_at bytes n = read_u32_le (take 4 (drop n bytes))"

definition le64_at :: "u8 list \<Rightarrow> nat \<Rightarrow> u64" where
  "le64_at bytes n = read_u64_le (take 8 (drop n bytes))"

definition read_ehdr :: "u8 list \<Rightarrow> elf64_ehdr" where
  "read_ehdr b =
     \<lparr>e_ident = take 16 b, e_type = le16_at b 16, e_machine = le16_at b 18, e_entry = le64_at b 24,
      e_phoff = le64_at b 32, e_shoff = le64_at b 40, e_phentsize = le16_at b 54, e_phnum = le16_at b 56,
      e_shentsize = le16_at b 58, e_shnum = le16_at b 60\<rparr>"

definition read_phdr :: "u8 list \<Rightarrow> elf64_phdr" where
  "read_phdr b =
     \<lparr>p_type = le32_at b 0, p_flags = le32_at b 4, p_offset = le64_at b 8, p_vaddr = le64_at b 16,
      p_filesz = le64_at b 32, p_memsz = le64_at b 40, p_align = le64_at b 48\<rparr>"

definition elf_ident_ok :: "u8 list \<Rightarrow> bool" where
  "elf_ident_ok ident \<longleftrightarrow> take 4 ident = [0x7f, 0x45, 0x4c, 0x46] \<and> ident ! 4 = 2 \<and> ident ! 5 = 1"

definition detect_arch :: "u16 \<Rightarrow> poly_arch option" where
  "detect_arch machine =
     (if machine = 183 then Some POLY_ARCH_AARCH64
      else if machine = 243 then Some POLY_ARCH_RISCV
      else if machine = 62 then Some POLY_ARCH_X86
      else None)"

text \<open>The program header table: entry \<open>n\<close> is read at its offset in the file.\<close>

definition phdr_at :: "u8 list \<Rightarrow> elf64_ehdr \<Rightarrow> nat \<Rightarrow> parse_error + elf64_phdr" where
  "phdr_at data ehdr n =
     (case read_bytes data (unat (e_phoff ehdr) + n * unat (e_phentsize ehdr)) 56 of
        Inl e \<Rightarrow> Inl e
      | Inr b \<Rightarrow> Inr (read_phdr b))"

subsection \<open>Programs\<close>

record poly_load_segment =
  seg_vaddr :: u64
  seg_offset :: u64
  seg_filesz :: u64
  seg_memsz :: u64
  seg_flags :: u32

record poly_tls_segment =
  tls_vaddr :: u64
  tls_filesz :: u64
  tls_memsz :: u64
  tls_align :: u64
  tls_offset :: u64
  tls_total_size :: u64

record poly_dynamic_entries =
  soname :: "u8 list"
  init_vaddr :: u64
  preinit_array_vaddr :: u64
  preinit_array_size :: u64
  init_array_vaddr :: u64
  init_array_size :: u64
  fini_vaddr :: u64
  fini_array_vaddr :: u64
  fini_array_size :: u64

record poly_program =
  pg_arch :: poly_arch
  is_et_exec :: bool
  base_vaddr :: u64
  entry_offset :: u64
  phdr_vaddr :: u64
  phent :: u16
  phnum :: u16
  interp_path :: "u8 list option"
  dynamic_offset :: u64
  dynamic_size :: u64
  load_segments :: "poly_load_segment list"
  relro_vaddr :: u64
  relro_size :: u64
  pg_tls :: poly_tls_segment
  pg_dynamic :: poly_dynamic_entries
  code_bytes :: "u8 list"
  bridge_specs :: bridge_specs

definition code_size :: "poly_program \<Rightarrow> u64" where
  "code_size program = of_nat (length (code_bytes program))"

definition zero_program :: "poly_arch \<Rightarrow> poly_program" where
  "zero_program arch =
     \<lparr>pg_arch = arch, is_et_exec = False, base_vaddr = 0, entry_offset = 0, phdr_vaddr = 0, phent = 0, phnum = 0,
      interp_path = None, dynamic_offset = 0, dynamic_size = 0, load_segments = [], relro_vaddr = 0, relro_size = 0,
      pg_tls = \<lparr>tls_vaddr = 0, tls_filesz = 0, tls_memsz = 0, tls_align = 0, tls_offset = 0, tls_total_size = 0\<rparr>,
      pg_dynamic = \<lparr>soname = [], init_vaddr = 0, preinit_array_vaddr = 0, preinit_array_size = 0,
        init_array_vaddr = 0, init_array_size = 0, fini_vaddr = 0, fini_array_vaddr = 0, fini_array_size = 0\<rparr>,
      code_bytes = [], bridge_specs = []\<rparr>"

abbreviation (input) MAX_PROGRAM_BYTES :: u64 where "MAX_PROGRAM_BYTES \<equiv> 134217728"
abbreviation (input) MAX_LOAD_SEGMENTS :: nat where "MAX_LOAD_SEGMENTS \<equiv> 16"
abbreviation (input) MAX_PROCESS_TLS_BYTES :: u64 where "MAX_PROCESS_TLS_BYTES \<equiv> 65536"

definition align_down_u64 :: "u64 \<Rightarrow> u64 \<Rightarrow> u64" where
  "align_down_u64 value alignment = value AND NOT (alignment - 1)"

definition align_up_u64 :: "u64 \<Rightarrow> u64 \<Rightarrow> u64" where
  "align_up_u64 value alignment = (value + alignment - 1) AND NOT (alignment - 1)"

definition record_load_segment :: "elf64_phdr \<Rightarrow> poly_program \<Rightarrow> poly_program option" where
  "record_load_segment ph program =
     (if length (load_segments program) \<ge> MAX_LOAD_SEGMENTS then None
      else Some (program\<lparr>load_segments := load_segments program @
             [\<lparr>seg_vaddr = p_vaddr ph, seg_offset = p_offset ph, seg_filesz = p_filesz ph, seg_memsz = p_memsz ph,
               seg_flags = p_flags ph\<rparr>]\<rparr>))"

definition elf_vaddr_to_image_offset :: "poly_program \<Rightarrow> u64 \<Rightarrow> u64 \<Rightarrow> u64 option" where
  "elf_vaddr_to_image_offset program vaddr n =
     (if vaddr < base_vaddr program \<or> vaddr > - 1 - n then None
      else
        (let image_offset = vaddr - base_vaddr program
         in if image_offset > code_size program \<or> n > code_size program - image_offset then None
            else Some image_offset))"

subsection \<open>The program headers\<close>

record elf_scan =
  sc_program :: poly_program
  sc_base_vaddr :: u64
  sc_limit_vaddr :: u64
  sc_dynamic_vaddr :: u64
  sc_dynamic_size :: u64
  sc_phdr_vaddr :: u64
  sc_found_load :: bool

text \<open>A range of the file, as the loader checks it.\<close>

definition file_range_ok :: "u8 list \<Rightarrow> u64 \<Rightarrow> u64 \<Rightarrow> bool" where
  "file_range_ok data offset n \<longleftrightarrow> unat offset \<le> length data \<and> unat n \<le> length data - unat offset"

definition scan_interp :: "u8 list \<Rightarrow> elf64_phdr \<Rightarrow> elf_scan \<Rightarrow> parse_error + elf_scan" where
  "scan_interp data ph sc =
     (if p_filesz ph = 0 \<or> p_filesz ph \<ge> 160 \<or> \<not> file_range_ok data (p_offset ph) (p_filesz ph) then Inl Rejected
      else
        (case read_bytes data (unat (p_offset ph)) (unat (p_filesz ph)) of
           Inl e \<Rightarrow> Inl e
         | Inr path \<Rightarrow>
             if 0 \<notin> set path then Inl Rejected
             else Inr (sc\<lparr>sc_program := (sc_program sc)\<lparr>interp_path := Some (takeWhile (\<lambda>c. c \<noteq> 0) path)\<rparr>\<rparr>)))"

definition scan_tls :: "u8 list \<Rightarrow> elf64_phdr \<Rightarrow> elf_scan \<Rightarrow> parse_error + elf_scan" where
  "scan_tls data ph sc =
     (if p_filesz ph > p_memsz ph \<or> \<not> file_range_ok data (p_offset ph) (p_filesz ph) \<or>
         p_memsz ph > MAX_PROCESS_TLS_BYTES \<or> p_align ph > MAX_PROCESS_TLS_BYTES
      then Inl Rejected
      else Inr (sc\<lparr>sc_program := (sc_program sc)\<lparr>pg_tls := (pg_tls (sc_program sc))
             \<lparr>tls_vaddr := p_vaddr ph, tls_filesz := p_filesz ph, tls_memsz := p_memsz ph,
              tls_align := p_align ph\<rparr>\<rparr>\<rparr>))"

definition load_segment_ok :: "u8 list \<Rightarrow> elf64_phdr \<Rightarrow> bool" where
  "load_segment_ok data ph \<longleftrightarrow>
     p_filesz ph \<le> p_memsz ph \<and> (p_filesz ph \<noteq> 0 \<longrightarrow> file_range_ok data (p_offset ph) (p_filesz ph)) \<and>
     p_vaddr ph \<le> - 1 - p_memsz ph \<and> p_vaddr ph \<le> - 1 - p_filesz ph"

definition phdr_table_vaddr :: "elf64_ehdr \<Rightarrow> elf64_phdr \<Rightarrow> u64 \<Rightarrow> u64" where
  "phdr_table_vaddr ehdr ph phdr =
     (let table_size = ucast (e_phnum ehdr) * ucast (e_phentsize ehdr);
          offset = e_phoff ehdr - p_offset ph
      in if phdr = 0 \<and> e_phoff ehdr \<ge> p_offset ph \<and> offset \<le> p_filesz ph \<and> table_size \<le> p_filesz ph - offset
         then p_vaddr ph + offset else phdr)"

definition scan_load :: "u8 list \<Rightarrow> elf64_ehdr \<Rightarrow> elf64_phdr \<Rightarrow> elf_scan \<Rightarrow> parse_error + elf_scan" where
  "scan_load data ehdr ph sc =
     (if \<not> load_segment_ok data ph then Inl Rejected
      else
        (case record_load_segment ph (sc_program sc) of
           None \<Rightarrow> Inl Rejected
         | Some program \<Rightarrow>
             Inr (sc\<lparr>sc_program := program, sc_phdr_vaddr := phdr_table_vaddr ehdr ph (sc_phdr_vaddr sc),
                sc_base_vaddr := min (sc_base_vaddr sc) (align_down_u64 (p_vaddr ph) 0x1000),
                sc_limit_vaddr := max (sc_limit_vaddr sc) (p_vaddr ph + p_memsz ph), sc_found_load := True\<rparr>)))"

definition scan_phdr :: "u8 list \<Rightarrow> elf64_ehdr \<Rightarrow> elf64_phdr \<Rightarrow> elf_scan \<Rightarrow> parse_error + elf_scan" where
  "scan_phdr data ehdr ph sc =
     (if p_type ph = 6 then Inr (sc\<lparr>sc_phdr_vaddr := p_vaddr ph\<rparr>)
      else if p_type ph = 2 then Inr (sc\<lparr>sc_dynamic_vaddr := p_vaddr ph, sc_dynamic_size := p_filesz ph\<rparr>)
      else if p_type ph = 3 then scan_interp data ph sc
      else if p_type ph = 0x6474e552 then
        Inr (sc\<lparr>sc_program := (sc_program sc)\<lparr>relro_vaddr := p_vaddr ph, relro_size := p_memsz ph\<rparr>\<rparr>)
      else if p_type ph = 4 then
        (case parse_process_bridge_specs_notes data (unat (p_offset ph)) (unat (p_filesz ph))
                (bridge_specs (sc_program sc)) of
           Inl e \<Rightarrow> Inl e
         | Inr specs \<Rightarrow> Inr (sc\<lparr>sc_program := (sc_program sc)\<lparr>bridge_specs := specs\<rparr>\<rparr>))
      else if p_type ph = 7 then scan_tls data ph sc
      else if p_type ph = 1 then scan_load data ehdr ph sc
      else Inr sc)"

text \<open>The loop over the table: every pass reads its entry from the file.\<close>

fun scan_phdrs :: "u8 list \<Rightarrow> elf64_ehdr \<Rightarrow> nat list \<Rightarrow> elf_scan \<Rightarrow> parse_error + elf_scan" where
  "scan_phdrs data ehdr [] sc = Inr sc"
| "scan_phdrs data ehdr (n # ns) sc =
     (case phdr_at data ehdr n of
        Inl e \<Rightarrow> Inl e
      | Inr ph \<Rightarrow>
          (case scan_phdr data ehdr ph sc of Inl e \<Rightarrow> Inl e | Inr sc \<Rightarrow> scan_phdrs data ehdr ns sc))"

subsection \<open>The image\<close>

definition store_range :: "u8 list \<Rightarrow> nat \<Rightarrow> u8 list \<Rightarrow> u8 list" where
  "store_range dest n bytes = take n dest @ bytes @ drop (n + length bytes) dest"

definition copy_segment :: "u8 list \<Rightarrow> u64 \<Rightarrow> elf64_phdr \<Rightarrow> u8 list \<Rightarrow> parse_error + u8 list" where
  "copy_segment data base ph code =
     (if p_type ph \<noteq> 1 \<or> p_filesz ph = 0 then Inr code
      else
        (let dest_offset = p_vaddr ph - base
         in if unat dest_offset > length code \<or> unat (p_filesz ph) > length code - unat dest_offset then Inl Rejected
            else
              (case read_bytes data (unat (p_offset ph)) (unat (p_filesz ph)) of
                 Inl e \<Rightarrow> Inl e
               | Inr bytes \<Rightarrow> Inr (store_range code (unat dest_offset) bytes))))"

fun copy_segments :: "u8 list \<Rightarrow> elf64_ehdr \<Rightarrow> u64 \<Rightarrow> nat list \<Rightarrow> u8 list \<Rightarrow> parse_error + u8 list" where
  "copy_segments data ehdr base [] code = Inr code"
| "copy_segments data ehdr base (n # ns) code =
     (case phdr_at data ehdr n of
        Inl e \<Rightarrow> Inl e
      | Inr ph \<Rightarrow>
          (case copy_segment data base ph code of
             Inl e \<Rightarrow> Inl e
           | Inr code \<Rightarrow> copy_segments data ehdr base ns code))"

definition instruction_align :: "poly_arch \<Rightarrow> u64" where
  "instruction_align arch = (if arch = POLY_ARCH_AARCH64 then 4 else 2)"

definition round_image_size :: "poly_arch \<Rightarrow> u64 \<Rightarrow> u64" where
  "round_image_size arch n =
     (if n mod instruction_align arch \<noteq> 0 then n + (instruction_align arch - n mod instruction_align arch) else n)"

definition entry_in_segment :: "u64 \<Rightarrow> elf64_phdr \<Rightarrow> bool" where
  "entry_in_segment entry ph \<longleftrightarrow>
     p_type ph = 1 \<and> p_flags ph AND 1 \<noteq> 0 \<and> entry \<ge> p_vaddr ph \<and> entry < p_vaddr ph + p_filesz ph"

text \<open>The loop over the table stops at the first segment that has the entry.\<close>

fun entry_in_exec :: "u8 list \<Rightarrow> elf64_ehdr \<Rightarrow> u64 \<Rightarrow> nat list \<Rightarrow> parse_error + bool" where
  "entry_in_exec data ehdr entry [] = Inr False"
| "entry_in_exec data ehdr entry (n # ns) =
     (case phdr_at data ehdr n of
        Inl e \<Rightarrow> Inl e
      | Inr ph \<Rightarrow> if entry_in_segment entry ph then Inr True else entry_in_exec data ehdr entry ns)"

subsection \<open>The dynamic section\<close>

record dynamic_scan =
  dy_strtab_vaddr :: u64
  dy_strsz :: u64
  dy_soname_offset :: u64
  dy_entries :: poly_dynamic_entries

definition scan_dynamic :: "u64 \<times> u64 \<Rightarrow> dynamic_scan \<Rightarrow> dynamic_scan" where
  "scan_dynamic entry dy =
     (case entry of (d_tag, v) \<Rightarrow>
        let set = (\<lambda>f. dy\<lparr>dy_entries := f (dy_entries dy)\<rparr>) in
        if d_tag = 5 then dy\<lparr>dy_strtab_vaddr := v\<rparr>
        else if d_tag = 10 then dy\<lparr>dy_strsz := v\<rparr>
        else if d_tag = 14 then dy\<lparr>dy_soname_offset := v\<rparr>
        else if d_tag = 12 then set (init_vaddr_update (\<lambda>_. v))
        else if d_tag = 32 then set (preinit_array_vaddr_update (\<lambda>_. v))
        else if d_tag = 33 then set (preinit_array_size_update (\<lambda>_. v))
        else if d_tag = 25 then set (init_array_vaddr_update (\<lambda>_. v))
        else if d_tag = 27 then set (init_array_size_update (\<lambda>_. v))
        else if d_tag = 13 then set (fini_vaddr_update (\<lambda>_. v))
        else if d_tag = 26 then set (fini_array_vaddr_update (\<lambda>_. v))
        else if d_tag = 28 then set (fini_array_size_update (\<lambda>_. v))
        else dy)"

text \<open>The entries of a dynamic section at an offset of the image.\<close>

definition dynamic_table :: "u8 list \<Rightarrow> u64 \<Rightarrow> u64 \<Rightarrow> (u64 \<times> u64) list" where
  "dynamic_table code offset n =
     map (\<lambda>k. (le64_at code (unat offset + 16 * k), le64_at code (unat offset + 16 * k + 8))) [0..<unat n div 16]"

definition read_soname :: "poly_program \<Rightarrow> dynamic_scan \<Rightarrow> u8 list option" where
  "read_soname program dy =
     (if dy_soname_offset dy = - 1 then Some []
      else if dy_strtab_vaddr dy = 0 \<or> dy_strsz dy = 0 \<or> dy_soname_offset dy \<ge> dy_strsz dy then None
      else
        (case elf_vaddr_to_image_offset program (dy_strtab_vaddr dy) (dy_strsz dy) of
           None \<Rightarrow> None
         | Some strtab_offset \<Rightarrow>
             (let bytes = take (unat (dy_strsz dy - dy_soname_offset dy))
                    (drop (unat strtab_offset + unat (dy_soname_offset dy)) (code_bytes program));
                  name = takeWhile (\<lambda>c. c \<noteq> 0) bytes
              in if 0 \<notin> set bytes \<or> length name \<ge> 160 then None else Some name)))"

definition array_ok :: "u64 \<Rightarrow> u64 \<Rightarrow> bool" where
  "array_ok vaddr n \<longleftrightarrow> n = 0 \<or> (vaddr \<noteq> 0 \<and> n mod 8 = 0)"

definition load_dynamic :: "u64 \<Rightarrow> u64 \<Rightarrow> poly_program \<Rightarrow> poly_program option" where
  "load_dynamic vaddr n program =
     (if vaddr = 0 \<or> n = 0 then Some program
      else if n mod 16 \<noteq> 0 then None
      else
        (case elf_vaddr_to_image_offset program vaddr n of
           None \<Rightarrow> None
         | Some offset \<Rightarrow>
             (let program = program\<lparr>dynamic_offset := offset, dynamic_size := n\<rparr>;
                  dy = fold scan_dynamic (dynamic_table (code_bytes program) offset n)
                    \<lparr>dy_strtab_vaddr = 0, dy_strsz = 0, dy_soname_offset = - 1, dy_entries = pg_dynamic program\<rparr>
              in case read_soname program dy of
                   None \<Rightarrow> None
                 | Some name \<Rightarrow>
                     (let entries = (dy_entries dy)\<lparr>soname := name\<rparr>
                      in if array_ok (preinit_array_vaddr entries) (preinit_array_size entries) \<and>
                            array_ok (init_array_vaddr entries) (init_array_size entries)
                         then Some (program\<lparr>pg_dynamic := entries\<rparr>) else None))))"

subsection \<open>The loader\<close>

text \<open>
  \<open>load_elf_program\<close>. The symbol lookup is an argument: it is given the program, its
  dynamic section and the file, and is used when a symbol is named.
\<close>

definition image_program :: "elf64_ehdr \<Rightarrow> elf_scan \<Rightarrow> u8 list \<Rightarrow> poly_program" where
  "image_program ehdr sc code =
     (sc_program sc)\<lparr>base_vaddr := sc_base_vaddr sc, phent := e_phentsize ehdr, phnum := e_phnum ehdr,
       phdr_vaddr := sc_phdr_vaddr sc, code_bytes := code\<rparr>"

definition locate_entry ::
    "u8 list \<Rightarrow> elf64_ehdr \<Rightarrow> bool \<Rightarrow> u64 \<Rightarrow> elf_scan \<Rightarrow> parse_error + u64" where
  "locate_entry data ehdr named entry sc =
     (case entry_in_exec data ehdr entry [0..<unat (e_phnum ehdr)] of
        Inl e \<Rightarrow> Inl e
      | Inr found \<Rightarrow>
          (let default = (e_type ehdr = 3 \<and> \<not> named \<and> entry = 0);
               entry = (if default then sc_base_vaddr sc else entry)
           in if \<not> (found \<or> default) \<or> entry < sc_base_vaddr sc \<or> entry \<ge> sc_limit_vaddr sc then Inl Rejected
              else Inr (entry - sc_base_vaddr sc)))"

definition load_scanned ::
    "(poly_program \<Rightarrow> elf_scan \<Rightarrow> parse_error + u64) option \<Rightarrow> u8 list \<Rightarrow> elf64_ehdr \<Rightarrow> elf_scan \<Rightarrow>
     parse_error + poly_program" where
  "load_scanned symbol data ehdr sc =
     (let span = sc_limit_vaddr sc - sc_base_vaddr sc; image_size = round_image_size (pg_arch (sc_program sc)) span in
      if \<not> sc_found_load sc \<or> sc_limit_vaddr sc \<le> sc_base_vaddr sc \<or> span > MAX_PROGRAM_BYTES \<or>
         image_size = 0 \<or> image_size > MAX_PROGRAM_BYTES
      then Inl Rejected
      else
        (case copy_segments data ehdr (sc_base_vaddr sc) [0..<unat (e_phnum ehdr)]
                (replicate (unat image_size) 0) of
           Inl e \<Rightarrow> Inl e
         | Inr code \<Rightarrow>
             (let program = image_program ehdr sc code in
              case (case symbol of None \<Rightarrow> Inr (e_entry ehdr) | Some lookup \<Rightarrow> lookup program sc) of
                Inl e \<Rightarrow> Inl e
              | Inr entry \<Rightarrow>
                  (case locate_entry data ehdr (symbol \<noteq> None) entry sc of
                     Inl e \<Rightarrow> Inl e
                   | Inr offset \<Rightarrow>
                       (case load_dynamic (sc_dynamic_vaddr sc) (sc_dynamic_size sc)
                               (program\<lparr>entry_offset := offset\<rparr>) of
                          None \<Rightarrow> Inl Rejected
                        | Some program \<Rightarrow> Inr program)))))"

definition load_elf_program ::
    "(poly_program \<Rightarrow> elf_scan \<Rightarrow> parse_error + u64) option \<Rightarrow> u8 list \<Rightarrow> parse_error + poly_program" where
  "load_elf_program symbol data =
     (if length data < 64 then Inl Rejected
      else
        (let ehdr = read_ehdr data in
         case detect_arch (e_machine ehdr) of
           None \<Rightarrow> Inl Rejected
         | Some arch \<Rightarrow>
             if \<not> elf_ident_ok (e_ident ehdr) \<or> (e_type ehdr \<noteq> 2 \<and> e_type ehdr \<noteq> 3) then Inl Rejected
             else if e_phentsize ehdr < 56 \<or> unat (e_phoff ehdr) > length data \<or>
                     unat (e_phnum ehdr) * unat (e_phentsize ehdr) > length data - unat (e_phoff ehdr)
             then Inl Rejected
             else
               (case scan_phdrs data ehdr [0..<unat (e_phnum ehdr)]
                       \<lparr>sc_program = (zero_program arch)\<lparr>is_et_exec := e_type ehdr = 2\<rparr>, sc_base_vaddr = - 1,
                        sc_limit_vaddr = 0, sc_dynamic_vaddr = 0, sc_dynamic_size = 0, sc_phdr_vaddr = 0,
                        sc_found_load = False\<rparr> of
                  Inl e \<Rightarrow> Inl e
                | Inr sc \<Rightarrow> load_scanned symbol data ehdr sc)))"

end
