(* ===== verification/Elf_Policy.thy ===== *)
theory Elf_Policy
  imports Elf_Image
begin

text \<open>
  The loader never reads outside the file, and the image it builds is what the
  program headers say: every loadable segment lies in the image, its bytes come from
  the file, later segments cover earlier ones, and everything else is zero.
\<close>

subsection \<open>Reading the table\<close>

definition table_ok :: "u8 list \<Rightarrow> elf64_ehdr \<Rightarrow> bool" where
  "table_ok data ehdr \<longleftrightarrow> e_phentsize ehdr \<ge> 56 \<and> unat (e_phoff ehdr) \<le> length data \<and>
     unat (e_phnum ehdr) * unat (e_phentsize ehdr) \<le> length data - unat (e_phoff ehdr)"

definition phdr_of :: "u8 list \<Rightarrow> elf64_ehdr \<Rightarrow> nat \<Rightarrow> elf64_phdr" where
  "phdr_of data ehdr n =
     read_phdr (take 56 (drop (unat (e_phoff ehdr) + n * unat (e_phentsize ehdr)) data))"

definition phdrs_of :: "u8 list \<Rightarrow> elf64_phdr list" where
  "phdrs_of data = map (phdr_of data (read_ehdr data)) [0..<unat (e_phnum (read_ehdr data))]"

lemma phdr_at_table:
  assumes "table_ok data ehdr" "n < unat (e_phnum ehdr)"
  shows "phdr_at data ehdr n = Inr (phdr_of data ehdr n)"
proof -
  have "Suc n * unat (e_phentsize ehdr) \<le> unat (e_phnum ehdr) * unat (e_phentsize ehdr)"
    using assms(2) by (intro mult_le_mono1) simp
  moreover have "56 \<le> unat (e_phentsize ehdr)" using assms(1) by (simp add: table_ok_def word_le_nat_alt)
  ultimately have "unat (e_phoff ehdr) + n * unat (e_phentsize ehdr) + 56 \<le> length data"
    using assms(1) unfolding table_ok_def mult_Suc by linarith
  then show ?thesis by (simp add: phdr_at_def phdr_of_def read_bytes_def)
qed

lemma read_file_range:
  "file_range_ok data offset n \<Longrightarrow>
     read_bytes data (unat offset) (unat n) = Inr (take (unat n) (drop (unat offset) data))"
  by (auto simp: file_range_ok_def read_bytes_def)

subsection \<open>Scanning\<close>

abbreviation (input) is_load :: "elf64_phdr \<Rightarrow> bool" where "is_load ph \<equiv> p_type ph = 1"

definition segment_of :: "elf64_phdr \<Rightarrow> poly_load_segment" where
  "segment_of ph = \<lparr>seg_vaddr = p_vaddr ph, seg_offset = p_offset ph, seg_filesz = p_filesz ph, seg_memsz = p_memsz ph,
     seg_flags = p_flags ph\<rparr>"

definition scan_inv :: "u8 list \<Rightarrow> elf64_phdr list \<Rightarrow> elf_scan \<Rightarrow> bool" where
  "scan_inv data phs sc \<longleftrightarrow>
     list_all (\<lambda>ph. is_load ph \<longrightarrow> load_segment_ok data ph \<and> sc_base_vaddr sc \<le> p_vaddr ph \<and>
       p_vaddr ph + p_memsz ph \<le> sc_limit_vaddr sc) phs \<and>
     load_segments (sc_program sc) = map segment_of (filter is_load phs) \<and>
     length (load_segments (sc_program sc)) \<le> 16 \<and>
     (sc_found_load sc \<longrightarrow> sc_base_vaddr sc AND 0xfff = 0)"

lemma align_down_page: "align_down_u64 v 0x1000 \<le> v" "align_down_u64 v 0x1000 AND 0xfff = 0"
  by (simp_all add: align_down_u64_def word_and_le2 and.assoc)

lemma min_page_aligned:
  "(a :: u64) AND 0xfff = 0 \<Longrightarrow> b AND 0xfff = 0 \<Longrightarrow> min a b AND 0xfff = 0"
  by (simp add: min_def)

lemma scan_load_inv:
  assumes "scan_inv data phs sc" "is_load ph" "scan_load data ehdr ph sc = Inr sc'"
    and "sc_found_load sc \<or> sc_base_vaddr sc = - 1"
  shows "scan_inv data (phs @ [ph]) sc' \<and> sc_found_load sc'"
proof -
  note D = assms(3)[unfolded scan_load_def record_load_segment_def]
  have ok: "load_segment_ok data ph" and few: "length (load_segments (sc_program sc)) < 16"
    using D by (auto split: if_splits)
  have sc': "sc' = sc\<lparr>sc_program := (sc_program sc)\<lparr>load_segments := load_segments (sc_program sc) @ [segment_of ph]\<rparr>,
      sc_phdr_vaddr := phdr_table_vaddr ehdr ph (sc_phdr_vaddr sc),
      sc_base_vaddr := min (sc_base_vaddr sc) (align_down_u64 (p_vaddr ph) 0x1000),
      sc_limit_vaddr := max (sc_limit_vaddr sc) (p_vaddr ph + p_memsz ph), sc_found_load := True\<rparr>"
    using D ok few by (simp add: segment_of_def)
  have base: "min (sc_base_vaddr sc) (align_down_u64 (p_vaddr ph) 0x1000) AND 0xfff = 0"
  proof (cases "sc_found_load sc")
    case True
    then show ?thesis using assms(1) align_down_page(2) by (intro min_page_aligned) (simp_all add: scan_inv_def)
  next
    case False
    then show ?thesis using assms(4) align_down_page(2)[of "p_vaddr ph"] by (simp add: min_absorb2 word_order.extremum)
  qed
  show ?thesis
    unfolding scan_inv_def sc' using assms(1,2) ok few base align_down_page(1)[of "p_vaddr ph"]
    by (auto simp: scan_inv_def list_all_iff min.coboundedI1 min.coboundedI2 max.coboundedI1 max.coboundedI2)
qed

lemma scan_phdr_inv:
  assumes "scan_inv data phs sc" "scan_phdr data ehdr ph sc = Inr sc'"
    and "sc_found_load sc \<or> sc_base_vaddr sc = - 1"
  shows "scan_inv data (phs @ [ph]) sc' \<and> (sc_found_load sc' \<or> sc_base_vaddr sc' = - 1)"
proof (cases "is_load ph")
  case True
  then show ?thesis using assms scan_load_inv[of data phs sc ph ehdr sc'] by (simp add: scan_phdr_def)
next
  case False
  have "sc_base_vaddr sc' = sc_base_vaddr sc \<and> sc_limit_vaddr sc' = sc_limit_vaddr sc \<and>
      load_segments (sc_program sc') = load_segments (sc_program sc) \<and> sc_found_load sc' = sc_found_load sc"
    using assms(2) False
    by (auto simp: scan_phdr_def scan_interp_def scan_tls_def split: if_splits sum.splits)
  then show ?thesis using assms(1,3) False by (auto simp: scan_inv_def)
qed

lemma scan_phdrs_inv:
  assumes "table_ok data ehdr" "\<forall>n \<in> set ns. n < unat (e_phnum ehdr)" "scan_inv data phs sc"
    and "scan_phdrs data ehdr ns sc = Inr sc'" and "sc_found_load sc \<or> sc_base_vaddr sc = - 1"
  shows "scan_inv data (phs @ map (phdr_of data ehdr) ns) sc'"
  using assms(2-)
proof (induction ns arbitrary: phs sc)
  case Nil
  then show ?case by simp
next
  case (Cons n ns)
  obtain sc1 where sc1: "scan_phdr data ehdr (phdr_of data ehdr n) sc = Inr sc1" "scan_phdrs data ehdr ns sc1 = Inr sc'"
    using Cons.prems(1,3) by (auto simp: phdr_at_table[OF assms(1)] split: sum.splits)
  have s: "scan_inv data (phs @ [phdr_of data ehdr n]) sc1 \<and> (sc_found_load sc1 \<or> sc_base_vaddr sc1 = - 1)"
    using Cons.prems by (intro scan_phdr_inv[OF _ sc1(1)]) simp_all
  have "scan_inv data ((phs @ [phdr_of data ehdr n]) @ map (phdr_of data ehdr) ns) sc'"
    using s sc1(2) Cons.prems(1) by (intro Cons.IH) auto
  then show ?case by simp
qed

lemma scan_parts_safe:
  "scan_interp data ph sc \<noteq> Inl Out_of_bounds" "scan_tls data ph sc \<noteq> Inl Out_of_bounds"
  "scan_load data ehdr ph sc \<noteq> Inl Out_of_bounds"
  by (simp_all add: scan_interp_def scan_tls_def scan_load_def read_file_range split: option.split)

lemma scan_phdr_safe: "scan_phdr data ehdr ph sc \<noteq> Inl Out_of_bounds"
  using parse_notes_safe[of data "unat (p_offset ph)" "unat (p_filesz ph)" "bridge_specs (sc_program sc)"]
  by (auto simp: scan_phdr_def scan_parts_safe split: sum.split)

lemma scan_phdrs_safe:
  assumes "table_ok data ehdr" "\<forall>n \<in> set ns. n < unat (e_phnum ehdr)"
  shows "scan_phdrs data ehdr ns sc \<noteq> Inl Out_of_bounds"
  using assms(2)
proof (induction ns arbitrary: sc)
  case Nil
  then show ?case by simp
next
  case (Cons n ns)
  then show ?case using scan_phdr_safe[of data ehdr "phdr_of data ehdr n" sc]
    by (auto simp: phdr_at_table[OF assms(1)] split: sum.splits)
qed

subsection \<open>Copying\<close>

text \<open>The byte that a segment gives at an offset of the image, and the last segment that gives one.\<close>

definition segment_byte :: "u8 list \<Rightarrow> u64 \<Rightarrow> elf64_phdr \<Rightarrow> nat \<Rightarrow> u8 option" where
  "segment_byte data base ph k =
     (if is_load ph \<and> unat (p_vaddr ph - base) \<le> k \<and> k < unat (p_vaddr ph - base) + unat (p_filesz ph)
      then Some (data ! (unat (p_offset ph) + (k - unat (p_vaddr ph - base)))) else None)"

fun image_byte :: "u8 list \<Rightarrow> u64 \<Rightarrow> elf64_phdr list \<Rightarrow> nat \<Rightarrow> u8 \<Rightarrow> u8" where
  "image_byte data base [] k b = b"
| "image_byte data base (ph # phs) k b =
     image_byte data base phs k (case segment_byte data base ph k of None \<Rightarrow> b | Some c \<Rightarrow> c)"

definition segment_fits :: "u8 list \<Rightarrow> u64 \<Rightarrow> nat \<Rightarrow> elf64_phdr \<Rightarrow> bool" where
  "segment_fits data base n ph \<longleftrightarrow>
     (is_load ph \<longrightarrow> (p_filesz ph \<noteq> 0 \<longrightarrow> file_range_ok data (p_offset ph) (p_filesz ph)) \<and>
        unat (p_vaddr ph - base) + unat (p_filesz ph) \<le> n)"

lemma nth_store_range:
  assumes "n + length bytes \<le> length dest" "k < length dest"
  shows "length (store_range dest n bytes) = length dest"
    "store_range dest n bytes ! k = (if n \<le> k \<and> k < n + length bytes then bytes ! (k - n) else dest ! k)"
  using assms by (auto simp: store_range_def nth_append min_def)

lemma copy_segment_fits:
  assumes "segment_fits data base (length code) ph"
  shows "\<exists>code'. copy_segment data base ph code = Inr code' \<and> length code' = length code \<and>
     (\<forall>k < length code. code' ! k = (case segment_byte data base ph k of None \<Rightarrow> code ! k | Some c \<Rightarrow> c))"
proof (cases "is_load ph \<and> p_filesz ph \<noteq> 0")
  case False
  then show ?thesis by (auto simp: copy_segment_def segment_byte_def)
next
  case True
  let ?d = "unat (p_vaddr ph - base)" and ?n = "unat (p_filesz ph)" and ?o = "unat (p_offset ph)"
  have fit: "?d + ?n \<le> length code" and range: "file_range_ok data (p_offset ph) (p_filesz ph)"
    using assms True by (simp_all add: segment_fits_def)
  have len: "length (take ?n (drop ?o data)) = ?n" using range by (auto simp: file_range_ok_def)
  have "copy_segment data base ph code = Inr (store_range code ?d (take ?n (drop ?o data)))"
    using True fit by (simp add: copy_segment_def Let_def read_file_range[OF range])
  moreover have "store_range code ?d (take ?n (drop ?o data)) ! k =
      (case segment_byte data base ph k of None \<Rightarrow> code ! k | Some c \<Rightarrow> c)" if "k < length code" for k
    using nth_store_range(2)[of ?d "take ?n (drop ?o data)" code k] fit len that True range
    by (auto simp: segment_byte_def file_range_ok_def)
  moreover have "length (store_range code ?d (take ?n (drop ?o data))) = length code"
    using fit len by (simp add: store_range_def)
  ultimately show ?thesis by blast
qed

lemma copy_segments_image:
  assumes "table_ok data ehdr" "\<forall>n \<in> set ns. n < unat (e_phnum ehdr)"
    and "\<forall>n \<in> set ns. segment_fits data base (length code) (phdr_of data ehdr n)"
  shows "\<exists>code'. copy_segments data ehdr base ns code = Inr code' \<and> length code' = length code \<and>
     (\<forall>k < length code. code' ! k = image_byte data base (map (phdr_of data ehdr) ns) k (code ! k))"
  using assms(2,3)
proof (induction ns arbitrary: code)
  case Nil
  then show ?case by simp
next
  case (Cons n ns)
  obtain c1 where c1: "copy_segment data base (phdr_of data ehdr n) code = Inr c1" "length c1 = length code"
      "\<forall>k < length code. c1 ! k =
         (case segment_byte data base (phdr_of data ehdr n) k of None \<Rightarrow> code ! k | Some c \<Rightarrow> c)"
    using copy_segment_fits[of data base code "phdr_of data ehdr n"] Cons.prems(2) by auto
  obtain c2 where c2: "copy_segments data ehdr base ns c1 = Inr c2" "length c2 = length c1"
      "\<forall>k < length c1. c2 ! k = image_byte data base (map (phdr_of data ehdr) ns) k (c1 ! k)"
    using Cons.IH[of c1] Cons.prems c1(2) by auto
  show ?case using c1 c2 Cons.prems(1) by (simp add: phdr_at_table[OF assms(1)])
qed

lemma entry_in_exec_table:
  assumes "table_ok data ehdr" "\<forall>n \<in> set ns. n < unat (e_phnum ehdr)"
  shows "entry_in_exec data ehdr entry ns = Inr (\<exists>n \<in> set ns. entry_in_segment entry (phdr_of data ehdr n))"
  using assms(2) by (induction ns) (auto simp: phdr_at_table[OF assms(1)])

subsection \<open>The image\<close>

lemma round_image_size_ge:
  assumes "n \<le> MAX_PROGRAM_BYTES"
  shows "n \<le> round_image_size arch n"
proof -
  have *: "instruction_align arch - n mod instruction_align arch \<le> 4"
    by (cases arch) (simp_all add: instruction_align_def word_le_nat_alt unat_sub_if_size unat_mod word_size)
  show ?thesis
    using assms * by (simp add: round_image_size_def word_le_plus_either le_plus word_le_nat_alt unat_word_ariths)
qed

definition program_image_ok :: "u8 list \<Rightarrow> poly_program \<Rightarrow> bool" where
  "program_image_ok data program \<longleftrightarrow>
     base_vaddr program AND 0xfff = 0 \<and> code_bytes program \<noteq> [] \<and>
     length (code_bytes program) \<le> unat MAX_PROGRAM_BYTES \<and>
     unat (entry_offset program) < length (code_bytes program) \<and>
     load_segments program = map segment_of (filter is_load (phdrs_of data)) \<and>
     list_all (\<lambda>seg. seg_filesz seg \<le> seg_memsz seg \<and> base_vaddr program \<le> seg_vaddr seg \<and>
       unat (seg_vaddr seg - base_vaddr program) + unat (seg_memsz seg) \<le> length (code_bytes program))
       (load_segments program) \<and>
     (\<forall>k < length (code_bytes program).
        code_bytes program ! k = image_byte data (base_vaddr program) (phdrs_of data) k 0)"

definition scan_start :: "elf64_ehdr \<Rightarrow> poly_arch \<Rightarrow> elf_scan" where
  "scan_start ehdr arch = \<lparr>sc_program = (zero_program arch)\<lparr>is_et_exec := e_type ehdr = 2\<rparr>, sc_base_vaddr = - 1,
     sc_limit_vaddr = 0, sc_dynamic_vaddr = 0, sc_dynamic_size = 0, sc_phdr_vaddr = 0, sc_found_load = False\<rparr>"

lemma load_elf_cases:
  assumes "load_elf_program symbol data \<noteq> Inl Rejected"
  obtains arch where "table_ok data (read_ehdr data)"
    "load_elf_program symbol data =
       (case scan_phdrs data (read_ehdr data) [0..<unat (e_phnum (read_ehdr data))] (scan_start (read_ehdr data) arch) of
          Inl e \<Rightarrow> Inl e
        | Inr sc \<Rightarrow> load_scanned symbol data (read_ehdr data) sc)"
proof (cases "detect_arch (e_machine (read_ehdr data))")
  case None
  then show thesis using assms by (simp add: load_elf_program_def split: if_splits)
next
  case (Some arch)
  show thesis
    by (rule that[of arch]) (use assms Some in
      \<open>auto simp: load_elf_program_def table_ok_def scan_start_def Let_def not_less split: if_splits\<close>)
qed

lemma scanned_inv:
  assumes "table_ok data (read_ehdr data)"
    and "scan_phdrs data (read_ehdr data) [0..<unat (e_phnum (read_ehdr data))] (scan_start (read_ehdr data) arch) = Inr sc"
  shows "scan_inv data (phdrs_of data) sc"
proof -
  have "scan_inv data [] (scan_start (read_ehdr data) arch)"
    by (simp add: scan_inv_def scan_start_def zero_program_def)
  from scan_phdrs_inv[OF assms(1) _ this assms(2)] show ?thesis by (simp add: scan_start_def phdrs_of_def)
qed

lemma scanned_segment_bounds:
  assumes "scan_inv data phs sc" "ph \<in> set phs" "is_load ph"
  shows "unat (p_vaddr ph - sc_base_vaddr sc) + unat (p_memsz ph) \<le> unat (sc_limit_vaddr sc - sc_base_vaddr sc)"
    "unat (p_filesz ph) \<le> unat (p_memsz ph)" "sc_base_vaddr sc \<le> p_vaddr ph"
    "p_filesz ph \<noteq> 0 \<longrightarrow> file_range_ok data (p_offset ph) (p_filesz ph)"
proof -
  have ok: "load_segment_ok data ph" and base: "sc_base_vaddr sc \<le> p_vaddr ph"
    and limit: "p_vaddr ph + p_memsz ph \<le> sc_limit_vaddr sc"
    using assms by (auto simp: scan_inv_def list_all_iff)
  have nowrap: "unat (p_vaddr ph + p_memsz ph) = unat (p_vaddr ph) + unat (p_memsz ph)"
  proof -
    have "unat (- 1 - p_memsz ph) = 2 ^ 64 - 1 - unat (p_memsz ph)"
      using unsigned_less[of "p_memsz ph", where 'a = nat]
      by (simp add: unat_sub_if_size unsigned_minus_1_eq_mask mask_eq_exp_minus_1)
    then have "unat (p_vaddr ph) + unat (p_memsz ph) < 2 ^ 64"
      using ok unsigned_less[of "p_memsz ph", where 'a = nat]
      by (simp add: load_segment_ok_def word_le_nat_alt) linarith
    then show ?thesis by (simp add: unat_word_ariths)
  qed
  have b: "unat (sc_base_vaddr sc) \<le> unat (p_vaddr ph)" using base by (simp add: word_le_nat_alt)
  have l: "unat (p_vaddr ph) + unat (p_memsz ph) \<le> unat (sc_limit_vaddr sc)"
    using limit nowrap by (simp add: word_le_nat_alt)
  have "unat (p_vaddr ph - sc_base_vaddr sc) = unat (p_vaddr ph) - unat (sc_base_vaddr sc)"
    "unat (sc_limit_vaddr sc - sc_base_vaddr sc) = unat (sc_limit_vaddr sc) - unat (sc_base_vaddr sc)"
    using b l by (simp_all add: unat_sub_if_size)
  then show "unat (p_vaddr ph - sc_base_vaddr sc) + unat (p_memsz ph) \<le> unat (sc_limit_vaddr sc - sc_base_vaddr sc)"
    using b l by linarith
  show "unat (p_filesz ph) \<le> unat (p_memsz ph)" "sc_base_vaddr sc \<le> p_vaddr ph"
    "p_filesz ph \<noteq> 0 \<longrightarrow> file_range_ok data (p_offset ph) (p_filesz ph)"
    using ok base by (simp_all add: load_segment_ok_def word_le_nat_alt)
qed

lemma scanned_copy:
  assumes "table_ok data (read_ehdr data)" "scan_inv data (phdrs_of data) sc"
    and "sc_limit_vaddr sc - sc_base_vaddr sc \<le> n"
  obtains code where
    "copy_segments data (read_ehdr data) (sc_base_vaddr sc) [0..<unat (e_phnum (read_ehdr data))]
       (replicate (unat n) 0) = Inr code"
    "length code = unat n" "\<forall>k < unat n. code ! k = image_byte data (sc_base_vaddr sc) (phdrs_of data) k 0"
proof -
  have "segment_fits data (sc_base_vaddr sc) (unat n) ph" if "ph \<in> set (phdrs_of data)" for ph
    using scanned_segment_bounds[OF assms(2) that] assms(3) unfolding segment_fits_def word_le_nat_alt by linarith
  then have "\<forall>k \<in> set [0..<unat (e_phnum (read_ehdr data))].
      segment_fits data (sc_base_vaddr sc) (length (replicate (unat n) (0 :: u8))) (phdr_of data (read_ehdr data) k)"
    by (simp add: phdrs_of_def)
  from copy_segments_image[OF assms(1) _ this] show thesis
    by (auto simp: phdrs_of_def intro: that)
qed

lemma load_dynamic_keeps:
  "load_dynamic vaddr n program = Some program' \<Longrightarrow>
     base_vaddr program' = base_vaddr program \<and> code_bytes program' = code_bytes program \<and>
     entry_offset program' = entry_offset program \<and> load_segments program' = load_segments program"
  by (auto simp: load_dynamic_def Let_def split: if_splits option.splits)

lemma load_scanned_ok:
  assumes t: "table_ok data (read_ehdr data)" and inv: "scan_inv data (phdrs_of data) sc"
    and l: "load_scanned symbol data (read_ehdr data) sc = Inr program"
  shows "program_image_ok data program"
proof -
  let ?span = "sc_limit_vaddr sc - sc_base_vaddr sc" and ?ehdr = "read_ehdr data"
  let ?n = "round_image_size (pg_arch (sc_program sc)) ?span"
  have c: "sc_found_load sc" "sc_base_vaddr sc < sc_limit_vaddr sc" "?span \<le> MAX_PROGRAM_BYTES"
      "?n \<noteq> 0" "?n \<le> MAX_PROGRAM_BYTES"
    using l by (auto simp: load_scanned_def Let_def not_le not_less split: if_splits)
  have n: "?span \<le> ?n" by (rule round_image_size_ge[OF c(3)])
  obtain code where code: "copy_segments data ?ehdr (sc_base_vaddr sc) [0..<unat (e_phnum ?ehdr)]
       (replicate (unat ?n) 0) = Inr code"
    "length code = unat ?n" "\<forall>k < unat ?n. code ! k = image_byte data (sc_base_vaddr sc) (phdrs_of data) k 0"
    by (rule scanned_copy[OF t inv n])
  obtain offset entry where loc: "locate_entry data ?ehdr (symbol \<noteq> None) entry sc = Inr offset"
    and dyn: "load_dynamic (sc_dynamic_vaddr sc) (sc_dynamic_size sc)
        ((image_program ?ehdr sc code)\<lparr>entry_offset := offset\<rparr>) = Some program"
    using l c code(1) by (auto simp: load_scanned_def Let_def not_le not_less split: sum.splits option.splits if_splits)
  have "unat offset < unat ?span"
    using loc unfolding locate_entry_def
    by (auto simp: Let_def word_less_nat_alt word_le_nat_alt unat_sub_if_size split: sum.splits if_splits)
  then have "unat offset < length code" using n code(2) by (simp add: word_le_nat_alt)
  moreover have "list_all (\<lambda>seg. seg_filesz seg \<le> seg_memsz seg \<and> sc_base_vaddr sc \<le> seg_vaddr seg \<and>
       unat (seg_vaddr seg - sc_base_vaddr sc) + unat (seg_memsz seg) \<le> length code)
       (map segment_of (filter is_load (phdrs_of data)))"
  proof -
    have "p_filesz ph \<le> p_memsz ph \<and> sc_base_vaddr sc \<le> p_vaddr ph \<and>
        unat (p_vaddr ph - sc_base_vaddr sc) + unat (p_memsz ph) \<le> length code"
      if "ph \<in> set (phdrs_of data)" "is_load ph" for ph
      using scanned_segment_bounds(1-3)[OF inv that] n code(2) by (simp add: word_le_nat_alt)
    then show ?thesis by (auto simp: list_all_iff segment_of_def)
  qed
  moreover have "length code \<noteq> 0" using c(4) code(2) by (simp add: unat_eq_0)
  ultimately show ?thesis
    using load_dynamic_keeps[OF dyn] inv code(2,3) c(1,5)
    by (auto simp: program_image_ok_def image_program_def scan_inv_def word_le_nat_alt)
qed

lemma load_scanned_safe:
  assumes t: "table_ok data (read_ehdr data)" and inv: "scan_inv data (phdrs_of data) sc"
  shows "load_scanned None data (read_ehdr data) sc \<noteq> Inl Out_of_bounds"
proof (cases "sc_limit_vaddr sc - sc_base_vaddr sc \<le> MAX_PROGRAM_BYTES")
  case False
  then show ?thesis by (simp add: load_scanned_def Let_def not_le)
next
  case True
  let ?n = "round_image_size (pg_arch (sc_program sc)) (sc_limit_vaddr sc - sc_base_vaddr sc)"
  obtain code where "copy_segments data (read_ehdr data) (sc_base_vaddr sc) [0..<unat (e_phnum (read_ehdr data))]
       (replicate (unat ?n) 0) = Inr code"
    by (rule scanned_copy[OF t inv round_image_size_ge[OF True]])
  moreover have "locate_entry data (read_ehdr data) named entry sc \<noteq> Inl Out_of_bounds" for named entry
    by (simp add: locate_entry_def Let_def entry_in_exec_table[OF t])
  ultimately show ?thesis by (auto simp: load_scanned_def Let_def split: sum.splits option.splits)
qed

lemma loaded_image_ok:
  assumes "load_elf_program symbol data = Inr program"
  shows "program_image_ok data program"
proof -
  obtain arch where t: "table_ok data (read_ehdr data)"
    and l: "(case scan_phdrs data (read_ehdr data) [0..<unat (e_phnum (read_ehdr data))]
          (scan_start (read_ehdr data) arch) of
          Inl e \<Rightarrow> Inl e | Inr sc \<Rightarrow> load_scanned symbol data (read_ehdr data) sc) = Inr program"
    using load_elf_cases[of symbol data] assms by (metis sum.distinct(1))
  then show ?thesis using load_scanned_ok[OF t scanned_inv[OF t]] by (auto split: sum.splits)
qed

subsection \<open>An example\<close>

text \<open>An AArch64 program of one segment with one instruction.\<close>

definition tiny_elf :: "u8 list" where
  "tiny_elf =
    [127, 69, 76, 70, 2, 1, 1, 0, 0, 0, 0, 0, 0, 0, 0, 0, 2, 0, 183, 0, 1, 0, 0, 0, 120, 0, 1, 0, 0, 0,
     0, 0, 64, 0, 0, 0, 0, 0, 0, 0, 0, 0, 0, 0, 0, 0, 0, 0, 0, 0, 0, 0, 64, 0, 56, 0, 1, 0, 0, 0, 0, 0,
     0, 0, 1, 0, 0, 0, 5, 0, 0, 0, 0, 0, 0, 0, 0, 0, 0, 0, 0, 0, 1, 0, 0, 0, 0, 0, 0, 0, 1, 0, 0, 0, 0,
     0, 124, 0, 0, 0, 0, 0, 0, 0, 128, 0, 0, 0, 0, 0, 0, 0, 0, 16, 0, 0, 0, 0, 0, 0, 31, 32, 3, 213]"

lemmas read_byte_simps = le64_at_def le32_at_def le16_at_def read_u64_le_def read_u32_le_def read_u16_le_def upt_rec

lemma tiny_ehdr: "read_ehdr tiny_elf = \<lparr>e_ident = [127, 69, 76, 70, 2, 1, 1, 0, 0, 0, 0, 0, 0, 0, 0, 0], e_type = 2,
  e_machine = 183, e_entry = 0x10078, e_phoff = 64, e_shoff = 0, e_phentsize = 56, e_phnum = 1, e_shentsize = 0, e_shnum = 0\<rparr>"
  by (simp add: read_ehdr_def tiny_elf_def read_byte_simps)

lemma tiny_phdr: "phdr_of tiny_elf (read_ehdr tiny_elf) 0 = \<lparr>p_type = 1, p_flags = 5, p_offset = 0, p_vaddr = 0x10000,
  p_filesz = 124, p_memsz = 128, p_align = 4096\<rparr>"
  unfolding phdr_of_def tiny_ehdr by (simp add: read_phdr_def tiny_elf_def read_byte_simps)

lemma tiny_loaded: "\<exists>program. load_elf_program None tiny_elf = Inr program \<and> base_vaddr program = 0x10000"
proof -
  have len: "length tiny_elf = 124" by (simp add: tiny_elf_def)
  have t: "table_ok tiny_elf (read_ehdr tiny_elf)" by (simp add: table_ok_def tiny_ehdr len)
  have at: "phdr_at tiny_elf (read_ehdr tiny_elf) 0 = Inr (phdr_of tiny_elf (read_ehdr tiny_elf) 0)"
    by (rule phdr_at_table[OF t]) (simp add: tiny_ehdr)
  have top: "\<not> (- 1 :: u64) \<le> 0x10000"
    by (simp add: word_le_nat_alt unsigned_minus_1_eq_mask mask_eq_exp_minus_1)
  have down: "align_down_u64 0x10000 0x1000 = 0x10000" by (simp add: align_down_u64_def)
  have "\<exists>sc. scan_phdrs tiny_elf (read_ehdr tiny_elf) [0] (scan_start (read_ehdr tiny_elf) POLY_ARCH_AARCH64) = Inr sc \<and>
      sc_found_load sc \<and> sc_base_vaddr sc = 0x10000 \<and> sc_limit_vaddr sc = 0x10080 \<and> sc_dynamic_vaddr sc = 0 \<and>
      pg_arch (sc_program sc) = POLY_ARCH_AARCH64"
    by (simp add: at tiny_phdr scan_phdr_def scan_load_def load_segment_ok_def file_range_ok_def len
        record_load_segment_def scan_start_def zero_program_def down top min_def max_def)
  then obtain sc where sc: "scan_phdrs tiny_elf (read_ehdr tiny_elf) [0..<unat (e_phnum (read_ehdr tiny_elf))]
      (scan_start (read_ehdr tiny_elf) POLY_ARCH_AARCH64) = Inr sc"
    "sc_found_load sc" "sc_base_vaddr sc = 0x10000" "sc_limit_vaddr sc = 0x10080" "sc_dynamic_vaddr sc = 0"
    "pg_arch (sc_program sc) = POLY_ARCH_AARCH64"
    by (auto simp: tiny_ehdr)
  obtain code where code: "copy_segments tiny_elf (read_ehdr tiny_elf) (sc_base_vaddr sc)
      [0..<unat (e_phnum (read_ehdr tiny_elf))] (replicate (unat (128 :: u64)) 0) = Inr code"
    by (rule scanned_copy[OF t scanned_inv[OF t sc(1)], of 128]) (simp_all add: sc)
  have n: "round_image_size POLY_ARCH_AARCH64 128 = 128" by (simp add: round_image_size_def instruction_align_def)
  have "load_elf_program None tiny_elf = load_scanned None tiny_elf (read_ehdr tiny_elf) sc"
    using sc(1) by (simp add: load_elf_program_def len tiny_ehdr detect_arch_def elf_ident_ok_def scan_start_def)
  moreover have "entry_in_exec tiny_elf (read_ehdr tiny_elf) 0x10078 [0..<unat (e_phnum (read_ehdr tiny_elf))] = Inr True"
    by (subst entry_in_exec_table[OF t]) (simp_all add: tiny_ehdr tiny_phdr[unfolded tiny_ehdr] entry_in_segment_def)
  ultimately show ?thesis using code sc n
    by (simp add: load_scanned_def locate_entry_def load_dynamic_def tiny_ehdr image_program_def)
qed

subsection \<open>Properties\<close>


text \<open>
  C4. A program that is loaded has the image its headers describe: the base is page
  aligned, the entry point lies in the image, every loadable segment lies in it with
  its zero-filled tail, and each byte is the one that the last segment covering it
  takes from the file, or zero.
\<close>

theorem load_elf_image:
  assumes "load_elf_program symbol data = Inr program"
  shows "program_image_ok data program"
  by (rule loaded_image_ok[OF assms])

theorem load_elf_image_witness:
  "\<exists>program. load_elf_program None tiny_elf = Inr program \<and> program_image_ok tiny_elf program"
  using tiny_loaded load_elf_image by blast

end
