(* ===== verification/Elf_Runtime.thy ===== *)
theory Elf_Runtime
  imports Elf_Policy
begin

text \<open>
  What happens to a loaded image, \<open>tools/runtime/polyexec.c\<close>: its pages get the
  protection of their segments, the programs of a process get their blocks of
  thread-local storage, and the vDSO is mapped. The host's \<open>mprotect\<close> is a parameter.
\<close>

subsection \<open>Page protection\<close>

type_synonym protect_call = "u64 \<times> u64 \<times> u64"

definition load_segment_prot :: "u32 \<Rightarrow> u64" where
  "load_segment_prot flags =
     (if flags AND 4 \<noteq> 0 then 1 else 0) OR (if flags AND 2 \<noteq> 0 then 2 else 0) OR (if flags AND 1 \<noteq> 0 then 4 else 0)"

definition protect_image_range ::
    "(protect_call \<Rightarrow> bool) \<Rightarrow> poly_program \<Rightarrow> u64 \<Rightarrow> u64 \<Rightarrow> u64 \<Rightarrow> u64 \<Rightarrow> protect_call list \<Rightarrow> protect_call list option" where
  "protect_image_range mprotect program loaded vaddr n prot calls =
     (if n = 0 then Some calls
      else if vaddr < base_vaddr program \<or> vaddr > - 1 - n then None
      else
        (let start = align_down_u64 vaddr 0x1000; end_unaligned = vaddr + n in
         if end_unaligned > - 1 - 0xfff then None
         else
           (let finish = align_up_u64 end_unaligned 0x1000;
                mapped_image_size = align_up_u64 (code_size program) 0x1000
            in if start < base_vaddr program \<or> finish < start \<or> finish - base_vaddr program > mapped_image_size then None
               else
                 (let call = (loaded + (start - base_vaddr program), finish - start, prot)
                  in if mprotect call then Some (calls @ [call]) else None))))"

definition protect_load_segments ::
    "(protect_call \<Rightarrow> bool) \<Rightarrow> poly_program \<Rightarrow> u64 \<Rightarrow> protect_call list option" where
  "protect_load_segments mprotect program loaded =
     fold_opt (\<lambda>seg. protect_image_range mprotect program loaded (seg_vaddr seg) (seg_memsz seg)
                 (load_segment_prot (seg_flags seg)))
       (load_segments program) []"

subsection \<open>Thread-local storage\<close>

definition align_up_size :: "u64 \<Rightarrow> u64 \<Rightarrow> u64 option" where
  "align_up_size value alignment =
     (if alignment \<le> 1 then Some value
      else if alignment AND (alignment - 1) \<noteq> 0 \<or> value > - 1 - (alignment - 1) then None
      else Some ((value + alignment - 1) AND NOT (alignment - 1)))"

text \<open>The new total size, and the offset of the block.\<close>

definition reserve_process_tls_range :: "u64 \<Rightarrow> u64 \<Rightarrow> u64 \<Rightarrow> (u64 \<times> u64) option" where
  "reserve_process_tls_range total_size memsz alignment =
     (if memsz = 0 then Some (total_size, 0)
      else if memsz > MAX_PROCESS_TLS_BYTES \<or> alignment > MAX_PROCESS_TLS_BYTES then None
      else
        (case align_up_size total_size (if alignment \<noteq> 0 then alignment else 1) of
           None \<Rightarrow> None
         | Some aligned \<Rightarrow>
             if aligned > MAX_PROCESS_TLS_BYTES \<or> memsz > MAX_PROCESS_TLS_BYTES - aligned then None
             else Some (aligned + memsz, aligned)))"

text \<open>
  A program with its dependencies; a dependency that another one already loaded is
  marked as shared.
\<close>

datatype process_tree = Process poly_program "(bool \<times> process_tree) list"

fun reserve_process_tls_tree :: "process_tree \<Rightarrow> u64 \<Rightarrow> (process_tree \<times> u64) option"
  and reserve_process_tls_deps :: "(bool \<times> process_tree) list \<Rightarrow> u64 \<Rightarrow> ((bool \<times> process_tree) list \<times> u64) option" where
  "reserve_process_tls_tree (Process program deps) total_size =
     (case reserve_process_tls_range total_size (tls_memsz (pg_tls program)) (tls_align (pg_tls program)) of
        None \<Rightarrow> None
      | Some (total_size, offset) \<Rightarrow>
          (case reserve_process_tls_deps deps total_size of
             None \<Rightarrow> None
           | Some (deps, total_size) \<Rightarrow>
               Some (Process (program\<lparr>pg_tls := (pg_tls program)\<lparr>tls_offset := offset, tls_total_size := total_size\<rparr>\<rparr>)
                       deps, total_size)))"
| "reserve_process_tls_deps [] total_size = Some ([], total_size)"
| "reserve_process_tls_deps ((shared, tree) # deps) total_size =
     (case (if shared then Some (tree, total_size) else reserve_process_tls_tree tree total_size) of
        None \<Rightarrow> None
      | Some (tree, total_size) \<Rightarrow>
          (case reserve_process_tls_deps deps total_size of
             None \<Rightarrow> None
           | Some (deps, total_size) \<Rightarrow> Some ((shared, tree) # deps, total_size)))"

definition copy_process_tls_image :: "poly_program \<Rightarrow> u8 list \<Rightarrow> u8 list \<Rightarrow> u8 list option" where
  "copy_process_tls_image program loaded_image tls =
     (let segment = pg_tls program in
      if tls_memsz segment = 0 then Some tls
      else
        (case elf_vaddr_to_image_offset program (tls_vaddr segment) (tls_filesz segment) of
           None \<Rightarrow> None
         | Some image_offset \<Rightarrow>
             if unat (tls_offset segment) > length tls \<or> unat (tls_filesz segment) > length tls - unat (tls_offset segment)
             then None
             else Some (store_range tls (unat (tls_offset segment))
                          (take (unat (tls_filesz segment)) (drop (unat image_offset) loaded_image)))))"

subsection \<open>The vDSO\<close>

definition vdso_segment_ok :: "u8 list \<Rightarrow> elf64_phdr \<Rightarrow> bool" where
  "vdso_segment_ok data ph \<longleftrightarrow>
     p_memsz ph \<ge> p_filesz ph \<and> file_range_ok data (p_offset ph) (p_filesz ph) \<and> p_vaddr ph \<le> - 1 - p_memsz ph"

definition vdso_segment_end :: "elf64_phdr \<Rightarrow> u64" where
  "vdso_segment_end ph = align_up_u64 (p_vaddr ph + p_memsz ph) 4096"

definition vdso_span :: "u8 list \<Rightarrow> elf64_phdr list \<Rightarrow> (u64 \<times> u64) option" where
  "vdso_span data phs =
     fold_opt (\<lambda>ph (min_vaddr, max_vaddr).
         if p_type ph \<noteq> 1 then Some (min_vaddr, max_vaddr)
         else if \<not> vdso_segment_ok data ph then None
         else Some (min min_vaddr (align_down_u64 (p_vaddr ph) 0x1000), max max_vaddr (vdso_segment_end ph)))
       phs (- 1, 0)"

text \<open>
  The size of the mapping and the copies into it: the offset in the mapping and the
  bytes. \<open>None\<close> is a file that is refused.
\<close>

definition map_process_aarch64_vdso :: "u8 list \<Rightarrow> (u64 \<times> (u64 \<times> u8 list) list) option" where
  "map_process_aarch64_vdso data =
     (if length data < 64 then None
      else
        (let ehdr = read_ehdr data; phs = phdrs_of data in
         if \<not> elf_ident_ok (e_ident ehdr) \<or> e_type ehdr \<noteq> 3 \<or> e_machine ehdr \<noteq> 183 then None
         else if e_phentsize ehdr \<noteq> 56 \<or> unat (e_phoff ehdr) > length data \<or>
                 unat (e_phnum ehdr) > (length data - unat (e_phoff ehdr)) div 56
         then None
         else
           (case vdso_span data phs of
              None \<Rightarrow> None
            | Some (min_vaddr, max_vaddr) \<Rightarrow>
                if min_vaddr \<noteq> 0 \<or> max_vaddr = 0 then None
                else Some (max_vaddr,
                       map (\<lambda>ph. (p_vaddr ph, take (unat (p_filesz ph)) (drop (unat (p_offset ph)) data)))
                         (filter (\<lambda>ph. p_type ph = 1) phs)))))"

subsection \<open>Blocks of thread-local storage\<close>

fun tree_blocks :: "process_tree \<Rightarrow> poly_tls_segment list" and deps_blocks :: "(bool \<times> process_tree) list \<Rightarrow> poly_tls_segment list" where
  "tree_blocks (Process program deps) = pg_tls program # deps_blocks deps"
| "deps_blocks [] = []"
| "deps_blocks ((shared, tree) # deps) = (if shared then [] else tree_blocks tree) @ deps_blocks deps"

text \<open>Blocks that follow each other between two sizes, each aligned.\<close>

fun blocks_between :: "nat \<Rightarrow> poly_tls_segment list \<Rightarrow> nat \<Rightarrow> bool" where
  "blocks_between low [] high \<longleftrightarrow> low \<le> high"
| "blocks_between low (b # bs) high \<longleftrightarrow>
     (if tls_memsz b = 0 then blocks_between low bs high
      else low \<le> unat (tls_offset b) \<and> (tls_align b > 1 \<longrightarrow> unat (tls_offset b) mod unat (tls_align b) = 0) \<and>
           blocks_between (unat (tls_offset b) + unat (tls_memsz b)) bs high)"

lemma blocks_between_append:
  "blocks_between low bs mid \<Longrightarrow> blocks_between mid cs high \<Longrightarrow> blocks_between low (bs @ cs) high"
proof (induction bs arbitrary: low)
  case Nil
  have "blocks_between low cs high" if "low \<le> mid" "blocks_between mid cs high" for low mid
    using that
  proof (induction cs arbitrary: low mid)
    case Nil
    then show ?case by simp
  next
    case (Cons c cs)
    then show ?case by (cases "tls_memsz c = 0") auto
  qed
  then show ?case using Nil by simp
qed simp_all

lemma blocks_between_le: "blocks_between low bs high \<Longrightarrow> low \<le> high"
  by (induction bs arbitrary: low) (force split: if_splits)+

lemma blocks_between_bounds:
  "blocks_between low bs high \<Longrightarrow> b \<in> set bs \<Longrightarrow> tls_memsz b \<noteq> 0 \<Longrightarrow> low \<le> unat (tls_offset b)"
  by (induction bs arbitrary: low) (force split: if_splits)+

lemma blocks_between_sorted:
  "blocks_between low bs high \<Longrightarrow>
     sorted_wrt (\<lambda>a b. unat (tls_offset a) + unat (tls_memsz a) \<le> unat (tls_offset b))
       (filter (\<lambda>b. tls_memsz b \<noteq> 0) bs)"
  by (induction bs arbitrary: low) (auto dest: blocks_between_bounds split: if_splits)

lemma single_bit_word:
  fixes a :: u64
  assumes "a \<noteq> 0" "a AND (a - 1) = 0"
  shows "\<exists>k. unat a = 2 ^ k"
proof -
  have "1 \<le> unat a" using assms(1) by (simp add: Suc_le_eq unat_gt_0)
  then obtain k where k: "2 ^ k \<le> unat a" "unat a < 2 ^ (k + 1)" using ex_power_ivl1[of 2 "unat a"] by auto
  show ?thesis
  proof (rule ccontr)
    assume "\<nexists>k. unat a = 2 ^ k"
    then have "unat a \<noteq> 2 ^ k" by blast
    then have "2 ^ k \<le> unat a - 1" "unat a - 1 < 2 ^ (k + 1)" using k by linarith+
    moreover have "bit n k" if "2 ^ k \<le> n" "n < 2 ^ (k + 1)" for n :: nat
    proof -
      have "n div 2 ^ k = 1" using that by (simp add: div_nat_eqI)
      then show ?thesis by (simp add: bit_iff_odd)
    qed
    ultimately have "bit (unat a AND (unat a - 1)) k" using k by (simp add: bit_and_iff)
    moreover have "unat a AND (unat a - 1) = unat (a AND (a - 1))"
      using assms(1) by (simp add: unsigned_and_eq unat_minus_one)
    ultimately show False using assms(2) by simp
  qed
qed

lemma reserve_range_spec:
  assumes "reserve_process_tls_range used memsz alignment = Some (used', offset)"
  shows "if memsz = 0 then used' = used
     else unat used \<le> unat offset \<and> (alignment > 1 \<longrightarrow> unat offset mod unat alignment = 0) \<and>
          unat used' = unat offset + unat memsz \<and> unat used' \<le> 65536"
proof (cases "memsz = 0")
  case True
  then show ?thesis using assms by (simp add: reserve_process_tls_range_def)
next
  case False
  let ?a = "if alignment \<noteq> 0 then alignment else 1"
  have D: "align_up_size used ?a = Some offset" "offset \<le> 65536" "memsz \<le> 65536 - offset" "used' = offset + memsz"
    using assms False by (auto simp: reserve_process_tls_range_def not_less split: if_splits option.splits)
  have size: "unat used' = unat offset + unat memsz" "unat used' \<le> 65536"
  proof -
    have "unat memsz \<le> 65536 - unat offset" "unat offset \<le> 65536"
      using D(2,3) by (simp_all add: word_le_nat_alt unat_sub)
    then show "unat used' = unat offset + unat memsz" "unat used' \<le> 65536"
      unfolding D(4) by (simp_all add: unat_word_ariths)
  qed
  have "unat used \<le> unat offset \<and> (alignment > 1 \<longrightarrow> unat offset mod unat alignment = 0)"
  proof (cases "?a \<le> 1")
    case True
    then show ?thesis using D(1) by (auto simp: align_up_size_def split: if_splits)
  next
    case big: False
    then have a: "?a = alignment" "alignment AND (alignment - 1) = 0" "used \<le> - 1 - (alignment - 1)" "alignment \<noteq> 0"
        "offset = (used + alignment - 1) AND NOT (alignment - 1)"
      using D(1) by (auto simp: align_up_size_def not_less split: if_splits)
    obtain k where k: "unat alignment = 2 ^ k" using single_bit_word[OF a(4,2)] by blast
    have "unat (- 1 - (alignment - 1)) = unat (0 - alignment)" by simp
    also have "\<dots> = 2 ^ 64 - unat alignment"
      using a(4) by (simp only: unat_sub_if_size word_size) (simp add: unat_eq_0)
    finally have "unat (- 1 - (alignment - 1)) = 2 ^ 64 - unat alignment" .
    then have fit: "unat used + 2 ^ k \<le> 2 ^ LENGTH(64)"
      using a(3) k unsigned_less[of alignment, where 'a = nat] by (simp add: word_le_nat_alt)
    have "unat offset = (unat used + 2 ^ k - 1) div 2 ^ k * 2 ^ k"
      unfolding a(5) by (rule unat_round_up_word[OF k fit])
    then show ?thesis using round_up_bounds(1)[of "unat used" k] k by simp
  qed
  then show ?thesis using False size by simp
qed

lemma reserve_tree_blocks:
  "reserve_process_tls_tree tree used = Some (tree', used') \<Longrightarrow> unat used \<le> 65536 \<Longrightarrow>
     blocks_between (unat used) (tree_blocks tree') (unat used') \<and> unat used' \<le> 65536"
  "reserve_process_tls_deps deps used = Some (deps', used') \<Longrightarrow> unat used \<le> 65536 \<Longrightarrow>
     blocks_between (unat used) (deps_blocks deps') (unat used') \<and> unat used' \<le> 65536"
proof (induction tree used and deps used arbitrary: tree' used' and deps' used'
    rule: reserve_process_tls_tree_reserve_process_tls_deps.induct)
  case (1 program deps used)
  obtain t1 offset where r: "reserve_process_tls_range used (tls_memsz (pg_tls program)) (tls_align (pg_tls program)) =
      Some (t1, offset)"
    using "1.prems"(1) by (auto split: option.splits)
  obtain deps1 t2 where d: "reserve_process_tls_deps deps t1 = Some (deps1, t2)"
    using "1.prems"(1) r by (auto split: option.splits)
  have t1: "unat t1 \<le> 65536" using reserve_range_spec[OF r] "1.prems"(2) by (auto split: if_splits)
  from "1.IH"[OF r refl d t1] "1.prems"(1) reserve_range_spec[OF r] show ?case
    by (auto simp: r d split: if_splits)
next
  case (2 used)
  then show ?case by simp
next
  case (3 shared tree deps used)
  obtain tree1 t1 where t: "(if shared then Some (tree, used) else reserve_process_tls_tree tree used) = Some (tree1, t1)"
    using "3.prems"(1) by (auto split: option.splits)
  obtain deps1 t2 where d: "reserve_process_tls_deps deps t1 = Some (deps1, t2)" "deps' = (shared, tree1) # deps1" "used' = t2"
    using "3.prems"(1) t by (auto split: option.splits)
  have first: "blocks_between (unat used) (if shared then [] else tree_blocks tree1) (unat t1) \<and> unat t1 \<le> 65536"
    using t "3.IH"(1) "3.prems"(2) by (cases shared) auto
  have "blocks_between (unat t1) (deps_blocks deps1) (unat t2) \<and> unat t2 \<le> 65536"
    using "3.IH"(2)[OF t refl d(1)] first by simp
  then show ?case using first d(2,3) by (auto dest: blocks_between_append[of "unat used" _ "unat t1"])
qed

subsection \<open>Pages\<close>

definition page_range :: "poly_program \<Rightarrow> u64 \<Rightarrow> poly_load_segment \<Rightarrow> protect_call" where
  "page_range program loaded seg =
     (loaded + (align_down_u64 (seg_vaddr seg) 0x1000 - base_vaddr program),
      align_up_u64 (seg_vaddr seg + seg_memsz seg) 0x1000 - align_down_u64 (seg_vaddr seg) 0x1000,
      load_segment_prot (seg_flags seg))"

lemma unat_page_down: "unat (align_down_u64 v 0x1000) = unat v div 4096 * 4096"
proof -
  have "(0x1000 - 1 :: u64) = mask 12" by (simp add: mask_eq_exp_minus_1)
  then show ?thesis unfolding align_down_u64_def by (simp only: unat_and_not_mask) simp
qed

lemma unat_page_up:
  "unat v \<le> 2 ^ 64 - 4096 \<Longrightarrow> unat (align_up_u64 v 0x1000) = (unat v + 4095) div 4096 * 4096"
  using unat_round_up_word[of "0x1000 :: u64" 12 v] by (simp add: align_up_u64_def)

lemma page_multiple: "(v :: u64) AND 0xfff = 0 \<Longrightarrow> unat v mod 4096 = 0"
proof -
  assume "v AND 0xfff = 0"
  moreover have "(0xfff :: u64) = mask 12" by (simp add: mask_eq_exp_minus_1)
  ultimately have "take_bit 12 v = 0" by (simp add: take_bit_eq_mask)
  then have "take_bit 12 (unat v) = 0" by (metis unsigned_take_bit_eq unsigned_0)
  then show ?thesis by (simp add: take_bit_eq_mod)
qed

lemma page_bounds_nat:
  fixes b v m c :: nat
  assumes "b mod 4096 = 0" "b \<le> v" "v - b + m \<le> c"
  shows "b \<le> v div 4096 * 4096" "v div 4096 * 4096 \<le> (v + m + 4095) div 4096 * 4096"
    "(v + m + 4095) div 4096 * 4096 - b \<le> (c + 4095) div 4096 * 4096"
proof -
  obtain q where q: "b = 4096 * q" using assms(1) by (auto simp: mod_eq_0_iff_dvd)
  show "b \<le> v div 4096 * 4096" using assms(2) q by (metis div_le_mono div_mult_self1_is_m mult.commute mult_le_mono1 zero_less_numeral)
  show "v div 4096 * 4096 \<le> (v + m + 4095) div 4096 * 4096" by (intro mult_le_mono1 div_le_mono) simp
  have "(v + m + 4095) div 4096 * 4096 \<le> (c + 4095 + q * 4096) div 4096 * 4096"
    using assms(2,3) q by (intro mult_le_mono1 div_le_mono) linarith
  also have "(c + 4095 + q * 4096) div 4096 = q + (c + 4095) div 4096" by (rule div_mult_self1) simp
  also have "(q + (c + 4095) div 4096) * 4096 = (c + 4095) div 4096 * 4096 + b" using q by (simp add: algebra_simps)
  finally show "(v + m + 4095) div 4096 * 4096 - b \<le> (c + 4095) div 4096 * 4096" by simp
qed

lemma protect_segment:
  assumes "base_vaddr program AND 0xfff = 0" "base_vaddr program \<le> seg_vaddr seg"
    and "unat (seg_vaddr seg - base_vaddr program) + unat (seg_memsz seg) \<le> length (code_bytes program)"
    and "unat (base_vaddr program) + length (code_bytes program) \<le> 2 ^ 64 - 4096"
    and "length (code_bytes program) \<le> 134217728"
  shows "protect_image_range (\<lambda>_. True) program loaded (seg_vaddr seg) (seg_memsz seg)
       (load_segment_prot (seg_flags seg)) calls =
     Some (if seg_memsz seg = 0 then calls else calls @ [page_range program loaded seg])"
    "unat (align_down_u64 (seg_vaddr seg) 0x1000 - base_vaddr program) +
       unat (align_up_u64 (seg_vaddr seg + seg_memsz seg) 0x1000 - align_down_u64 (seg_vaddr seg) 0x1000)
     \<le> unat (align_up_u64 (code_size program) 0x1000)"
proof -
  let ?b = "unat (base_vaddr program)" and ?v = "unat (seg_vaddr seg)" and ?m = "unat (seg_memsz seg)"
    and ?c = "length (code_bytes program)"
  have v: "?b \<le> ?v" and d: "unat (seg_vaddr seg - base_vaddr program) = ?v - ?b"
    using assms(2) by (simp_all add: word_le_nat_alt unat_sub)
  have fit: "?v - ?b + ?m \<le> ?c" using assms(3) d by simp
  have sum: "unat (seg_vaddr seg + seg_memsz seg) = ?v + ?m" "?v + ?m \<le> 2 ^ 64 - 4096"
    using fit v assms(4) by (simp_all add: unat_word_ariths)
  have size: "unat (code_size program) = ?c"
    using assms(5) by (simp add: code_size_def unat_of_nat)
  note N = page_bounds_nat[OF page_multiple[OF assms(1)] v fit]
  have start: "unat (align_down_u64 (seg_vaddr seg) 0x1000) = ?v div 4096 * 4096" by (rule unat_page_down)
  have finish: "unat (align_up_u64 (seg_vaddr seg + seg_memsz seg) 0x1000) = (?v + ?m + 4095) div 4096 * 4096"
    using sum by (subst unat_page_up) simp_all
  have mapped: "unat (align_up_u64 (code_size program) 0x1000) = (?c + 4095) div 4096 * 4096"
    using size assms(5) by (subst unat_page_up) simp_all
  have order: "base_vaddr program \<le> align_down_u64 (seg_vaddr seg) 0x1000"
    "align_down_u64 (seg_vaddr seg) 0x1000 \<le> align_up_u64 (seg_vaddr seg + seg_memsz seg) 0x1000"
    using N(1,2) by (simp_all add: word_le_nat_alt start finish)
  have inside: "unat (align_up_u64 (seg_vaddr seg + seg_memsz seg) 0x1000 - base_vaddr program)
      \<le> unat (align_up_u64 (code_size program) 0x1000)"
    using N(3) order_trans[OF order] by (simp add: unat_sub start finish mapped word_le_nat_alt)
  have "unat (- 1 - seg_memsz seg) = 2 ^ 64 - 1 - ?m"
    using unsigned_less[of "seg_memsz seg", where 'a = nat]
    by (simp add: unat_sub_if_size unsigned_minus_1_eq_mask mask_eq_exp_minus_1)
  then have "seg_vaddr seg \<le> - 1 - seg_memsz seg" using sum(2) by (simp add: word_le_nat_alt)
  moreover have "\<not> - 1 - 0xfff < seg_vaddr seg + seg_memsz seg"
    using sum by (simp add: word_less_nat_alt)
  ultimately have "\<not> (seg_vaddr seg < base_vaddr program \<or> - 1 - seg_memsz seg < seg_vaddr seg)"
    "\<not> - 1 - 0xfff < seg_vaddr seg + seg_memsz seg"
    "\<not> (align_down_u64 (seg_vaddr seg) 0x1000 < base_vaddr program \<or>
        align_up_u64 (seg_vaddr seg + seg_memsz seg) 0x1000 < align_down_u64 (seg_vaddr seg) 0x1000 \<or>
        align_up_u64 (code_size program) 0x1000 < align_up_u64 (seg_vaddr seg + seg_memsz seg) 0x1000 - base_vaddr program)"
    using assms(2) order inside by (simp_all add: not_less word_le_nat_alt)
  then show "protect_image_range (\<lambda>_. True) program loaded (seg_vaddr seg) (seg_memsz seg)
       (load_segment_prot (seg_flags seg)) calls =
     Some (if seg_memsz seg = 0 then calls else calls @ [page_range program loaded seg])"
    unfolding protect_image_range_def Let_def page_range_def by (simp only: if_False if_True) simp
  show "unat (align_down_u64 (seg_vaddr seg) 0x1000 - base_vaddr program) +
       unat (align_up_u64 (seg_vaddr seg + seg_memsz seg) 0x1000 - align_down_u64 (seg_vaddr seg) 0x1000)
     \<le> unat (align_up_u64 (code_size program) 0x1000)"
    using order N by (simp add: unat_sub start finish mapped)
qed

lemma protect_segments_list:
  assumes "\<And>seg calls. seg \<in> set segs \<Longrightarrow> f seg calls = Some (if P seg then calls else calls @ [g seg])"
  shows "fold_opt f segs calls = Some (calls @ map g (filter (\<lambda>seg. \<not> P seg) segs))"
  using assms by (induction segs arbitrary: calls) simp_all

subsection \<open>The span of the vDSO\<close>

lemma vdso_span_max:
  assumes "fold_opt (\<lambda>ph (lo, hi).
         if p_type ph \<noteq> 1 then Some (lo, hi)
         else if \<not> vdso_segment_ok data ph then None
         else Some (min lo (align_down_u64 (p_vaddr ph) 0x1000), max hi (vdso_segment_end ph))) phs (lo, hi) =
       Some (lo', hi')"
  shows "hi \<le> hi' \<and> (\<forall>ph \<in> set phs. p_type ph = 1 \<longrightarrow> vdso_segment_ok data ph \<and> vdso_segment_end ph \<le> hi')"
  using assms
proof (induction phs arbitrary: lo hi)
  case Nil
  then show ?case by simp
next
  case (Cons ph phs)
  show ?case
  proof (cases "p_type ph = 1")
    case False
    then show ?thesis using Cons by simp
  next
    case True
    then have "vdso_segment_ok data ph" using Cons.prems by (auto split: if_splits)
    with Cons.IH[of "min lo (align_down_u64 (p_vaddr ph) 0x1000)" "max hi (vdso_segment_end ph)"] Cons.prems True
    show ?thesis by auto
  qed
qed

text \<open>A vDSO whose second segment lies in the last page of the address space.\<close>

definition wrapping_vdso :: "u8 list" where
  "wrapping_vdso =
    [127, 69, 76, 70, 2, 1, 1, 0, 0, 0, 0, 0, 0, 0, 0, 0, 3, 0, 183, 0, 1, 0, 0, 0, 0, 0, 0, 0, 0, 0, 0,
     0, 64, 0, 0, 0, 0, 0, 0, 0, 0, 0, 0, 0, 0, 0, 0, 0, 0, 0, 0, 0, 64, 0, 56, 0, 2, 0, 0, 0, 0, 0, 0,
     0, 1, 0, 0, 0, 4, 0, 0, 0, 0, 0, 0, 0, 0, 0, 0, 0, 0, 0, 0, 0, 0, 0, 0, 0, 0, 0, 0, 0, 0, 0, 0, 0,
     4, 0, 0, 0, 0, 0, 0, 0, 4, 0, 0, 0, 0, 0, 0, 0, 0, 16, 0, 0, 0, 0, 0, 0, 1, 0, 0, 0, 6, 0, 0, 0, 0,
     0, 0, 0, 0, 0, 0, 0, 0, 240, 255, 255, 255, 255, 255, 255, 0, 0, 0, 0, 0, 0, 0, 0, 8, 0, 0, 0, 0, 0,
     0, 0, 255, 15, 0, 0, 0, 0, 0, 0, 0, 16, 0, 0, 0, 0, 0, 0]"

lemma wrapping_ehdr: "read_ehdr wrapping_vdso = \<lparr>e_ident = [127, 69, 76, 70, 2, 1, 1, 0, 0, 0, 0, 0, 0, 0, 0, 0], e_type = 3,
  e_machine = 183, e_entry = 0, e_phoff = 64, e_shoff = 0, e_phentsize = 56, e_phnum = 2, e_shentsize = 0, e_shnum = 0\<rparr>"
  by (simp add: read_ehdr_def wrapping_vdso_def read_byte_simps)

lemma wrapping_phdr:
  "phdr_of wrapping_vdso (read_ehdr wrapping_vdso) 0 =
     \<lparr>p_type = 1, p_flags = 4, p_offset = 0, p_vaddr = 0, p_filesz = 4, p_memsz = 4, p_align = 4096\<rparr>"
  "phdr_of wrapping_vdso (read_ehdr wrapping_vdso) 1 =
     \<lparr>p_type = 1, p_flags = 6, p_offset = 0, p_vaddr = 0xfffffffffffff000, p_filesz = 8, p_memsz = 0xfff, p_align = 4096\<rparr>"
  unfolding phdr_of_def wrapping_ehdr by (simp_all add: read_phdr_def wrapping_vdso_def read_byte_simps)

lemma wrapping_phdrs: "phdrs_of wrapping_vdso =
  [\<lparr>p_type = 1, p_flags = 4, p_offset = 0, p_vaddr = 0, p_filesz = 4, p_memsz = 4, p_align = 4096\<rparr>,
   \<lparr>p_type = 1, p_flags = 6, p_offset = 0, p_vaddr = 0xfffffffffffff000, p_filesz = 8, p_memsz = 0xfff, p_align = 4096\<rparr>]"
proof -
  have "[0..<unat (e_phnum (read_ehdr wrapping_vdso))] = [0, 1]" by (simp add: wrapping_ehdr upt_rec)
  then show ?thesis by (simp only: phdrs_of_def list.map wrapping_phdr)
qed

lemma wrapping_length: "length wrapping_vdso = 176"
  by (simp add: wrapping_vdso_def)

lemmas vdso_simps = map_process_aarch64_vdso_def vdso_span_def vdso_segment_ok_def vdso_segment_end_def
  file_range_ok_def align_down_u64_def align_up_u64_def elf_ident_ok_def min_def max_def

subsection \<open>Properties\<close>



text \<open>
  C22. The blocks of thread-local storage of a process do not overlap: for every tree of
  programs, the blocks that are not empty follow each other, each at an offset that
  is a multiple of its alignment, within the 64 KiB of the storage.
\<close>

theorem tls_blocks_disjoint:
  assumes "reserve_process_tls_tree tree 0 = Some (tree', used)"
  shows "blocks_between 0 (tree_blocks tree') (unat used) \<and> unat used \<le> 65536 \<and>
     sorted_wrt (\<lambda>a b. unat (tls_offset a) + unat (tls_memsz a) \<le> unat (tls_offset b))
       (filter (\<lambda>b. tls_memsz b \<noteq> 0) (tree_blocks tree'))"
  using reserve_tree_blocks(1)[OF assms] blocks_between_sorted by auto

definition tls_program :: "u64 \<Rightarrow> u64 \<Rightarrow> poly_program" where
  "tls_program n alignment = (zero_program POLY_ARCH_AARCH64)
     \<lparr>pg_tls := (pg_tls (zero_program POLY_ARCH_AARCH64))\<lparr>tls_memsz := n, tls_align := alignment\<rparr>\<rparr>"

theorem tls_blocks_disjoint_witness:
  "\<exists>tree' used. reserve_process_tls_tree
       (Process (tls_program 20 8) [(False, Process (tls_program 24 16) [])]) 0 = Some (tree', used) \<and>
     sorted_wrt (\<lambda>a b. unat (tls_offset a) + unat (tls_memsz a) \<le> unat (tls_offset b))
       (filter (\<lambda>b. tls_memsz b \<noteq> 0) (tree_blocks tree'))"
proof -
  have "reserve_process_tls_tree (Process (tls_program 20 8) [(False, Process (tls_program 24 16) [])]) 0 \<noteq> None"
    by code_simp
  then obtain tree' used where r: "reserve_process_tls_tree
       (Process (tls_program 20 8) [(False, Process (tls_program 24 16) [])]) 0 = Some (tree', used)" by auto
  show ?thesis using r tls_blocks_disjoint[OF r] by blast
qed

text \<open>
  The copies into the mapping of the vDSO stay inside it, provided no segment of
  the file reaches into the last page of the address space.
\<close>

lemma vdso_copies_fit:
  assumes "map_process_aarch64_vdso data = Some (n, copies)"
    and "list_all (\<lambda>ph. p_type ph = 1 \<longrightarrow> unat (p_vaddr ph) + unat (p_memsz ph) \<le> 2 ^ 64 - 4096) (phdrs_of data)"
  shows "list_all (\<lambda>(d, bytes). unat d + length bytes \<le> unat n) copies"
proof -
  obtain lo where span: "vdso_span data (phdrs_of data) = Some (lo, n)"
    and copies: "copies = map (\<lambda>ph. (p_vaddr ph, take (unat (p_filesz ph)) (drop (unat (p_offset ph)) data)))
                         (filter (\<lambda>ph. p_type ph = 1) (phdrs_of data))"
    using assms(1) by (auto simp: map_process_aarch64_vdso_def Let_def split: if_splits option.splits)
  have "unat (p_vaddr ph) + unat (p_filesz ph) \<le> unat n" if "ph \<in> set (phdrs_of data)" "p_type ph = 1" for ph
  proof -
    have ok: "vdso_segment_ok data ph" "vdso_segment_end ph \<le> n"
      using vdso_span_max[OF span[unfolded vdso_span_def]] that by auto
    have nowrap: "unat (p_vaddr ph) + unat (p_memsz ph) \<le> 2 ^ 64 - 4096"
      using assms(2) that by (simp add: list_all_iff)
    then have sum: "unat (p_vaddr ph + p_memsz ph) = unat (p_vaddr ph) + unat (p_memsz ph)" by (simp add: unat_word_ariths)
    have "unat (vdso_segment_end ph) = (unat (p_vaddr ph) + unat (p_memsz ph) + 4095) div 4096 * 4096"
      using nowrap sum unfolding vdso_segment_end_def by (subst unat_page_up) simp_all
    then have "unat (p_vaddr ph) + unat (p_memsz ph) \<le> unat (vdso_segment_end ph)"
      using round_up_bounds(1)[of "unat (p_vaddr ph) + unat (p_memsz ph)" 12] by simp
    then show ?thesis using ok by (simp add: vdso_segment_ok_def word_le_nat_alt)
  qed
  then show ?thesis unfolding copies by (force simp: list_all_iff)
qed


end
