(* ===== verification/Process_Stack.thy ===== *)
theory Process_Stack
  imports Exec_Handoff Elf_Image Byte_Codec
begin

text \<open>
  The initial stack of a process, \<open>build_process_stack\<close> of
  \<open>tools/runtime/polyexec.c\<close>: strings are copied downwards from the top of a new
  mapping, and the table of arguments, environment and auxiliary vector is put
  below them.
\<close>

subsection \<open>Strings\<close>

definition copy_stack_string :: "u64 \<Rightarrow> u8 list \<Rightarrow> u64 \<times> guest_memory \<Rightarrow> (u64 \<times> guest_memory) option" where
  "copy_stack_string stack value w =
     (case w of (cursor, gm) \<Rightarrow>
        if unat (cursor - stack) < length value + 1 then None
        else
          (let cursor = cursor - of_nat (length value + 1)
           in Some (cursor, guest_store gm cursor (value @ [0]))))"

text \<open>The loops over the arguments and the environment; the result has the addresses.\<close>

fun copy_stack_strings ::
    "u64 \<Rightarrow> u8 list list \<Rightarrow> u64 \<times> guest_memory \<Rightarrow> (u64 list \<times> u64 \<times> guest_memory) option" where
  "copy_stack_strings stack [] w = Some ([], w)"
| "copy_stack_strings stack (v # vs) w =
     (case copy_stack_string stack v w of
        None \<Rightarrow> None
      | Some w \<Rightarrow>
          (case copy_stack_strings stack vs w of
             None \<Rightarrow> None
           | Some (ps, w') \<Rightarrow> Some (fst w # ps, w')))"

subsection \<open>The auxiliary vector\<close>

text \<open>
  What the host answers: random bytes if it has them, the process number, the clock
  tick, the user and group numbers, and the value of \<open>POLYEXEC_AARCH64_HWCAP\<close>
  (\<open>None\<close> when it is not a number).
\<close>

record stack_host =
  sh_random :: "u8 list option"
  sh_pid :: u64
  sh_clock_tick :: u64
  sh_uid :: u64
  sh_euid :: u64
  sh_gid :: u64
  sh_egid :: u64
  sh_hwcap_override :: "u64 option option"

definition random_bytes :: "stack_host \<Rightarrow> u8 list" where
  "random_bytes host =
     (case sh_random host of
        Some bytes \<Rightarrow> if length bytes = 16 then bytes
                      else map (\<lambda>n. 0xa5 XOR of_nat n XOR ucast (sh_pid host)) [0..<16]
      | None \<Rightarrow> map (\<lambda>n. 0xa5 XOR of_nat n XOR ucast (sh_pid host)) [0..<16])"

definition platform_name :: "poly_arch \<Rightarrow> u8 list" where
  "platform_name arch =
     (case arch of
        POLY_ARCH_AARCH64 \<Rightarrow> string_bytes ''aarch64''
      | POLY_ARCH_RISCV \<Rightarrow> string_bytes ''riscv64''
      | POLY_ARCH_X86 \<Rightarrow> string_bytes ''x86_64'')"

definition process_hwcap :: "stack_host \<Rightarrow> poly_arch \<Rightarrow> u64 option" where
  "process_hwcap host arch =
     (case arch of
        POLY_ARCH_AARCH64 \<Rightarrow>
          (case sh_hwcap_override host of
             None \<Rightarrow> None
           | Some None \<Rightarrow> Some 0x903
           | Some (Some v) \<Rightarrow> Some v)
      | POLY_ARCH_RISCV \<Rightarrow> Some 0x112d
      | POLY_ARCH_X86 \<Rightarrow> Some 0)"

record stack_image =
  si_loaded_image :: u64
  si_at_base :: u64
  si_at_sysinfo_ehdr :: u64

definition process_auxv ::
    "stack_host \<Rightarrow> poly_program \<Rightarrow> stack_image \<Rightarrow> u64 \<Rightarrow> u64 \<Rightarrow> u64 \<Rightarrow> u64 \<Rightarrow> (u64 \<times> u64) list" where
  "process_auxv host program si hwcap random_ptr execfn_ptr platform_ptr =
     (let load_bias = si_loaded_image si - base_vaddr program;
          phdr_addr = (if phdr_vaddr program \<noteq> 0 then load_bias + phdr_vaddr program else 0);
          entry_addr = load_bias + base_vaddr program + entry_offset program;
          clock_tick = (if sh_clock_tick host \<le>s 0 then 100 else sh_clock_tick host)
      in [(3, phdr_addr), (4, ucast (phent program)), (5, ucast (phnum program)), (6, 4096), (7, si_at_base si), (8, 0),
          (9, entry_addr), (17, clock_tick), (16, hwcap), (26, 0), (11, sh_uid host), (12, sh_euid host),
          (13, sh_gid host), (14, sh_egid host), (23, 0), (25, random_ptr), (31, execfn_ptr), (15, platform_ptr),
          (33, si_at_sysinfo_ehdr si), (0, 0)])"

subsection \<open>The stack\<close>

abbreviation (input) process_stack_size :: u64 where "process_stack_size \<equiv> 0x100000"

definition table_words :: "u64 list \<Rightarrow> u64 list \<Rightarrow> (u64 \<times> u64) list \<Rightarrow> u64 list" where
  "table_words argv_ptrs env_ptrs auxv =
     of_nat (length argv_ptrs) # argv_ptrs @ 0 # env_ptrs @ 0 # concat (map (\<lambda>(t, v). [t, v]) auxv)"

definition place_table ::
    "u64 \<Rightarrow> u64 list \<Rightarrow> u64 \<times> guest_memory \<Rightarrow> (u64 \<times> guest_memory) option" where
  "place_table stack words w =
     (case w of (cursor, gm) \<Rightarrow>
        let sp = (cursor - of_nat (8 * length words)) AND NOT 15
        in if sp < stack then None else Some (sp, guest_store gm sp (concat (map (le_bytes 8) words))))"

definition guest_argv0 :: "poly_request \<Rightarrow> u8 list" where
  "guest_argv0 request = (if rq_argv0 request \<noteq> [] then rq_argv0 request else rq_path request)"

text \<open>The addresses of the strings, in the order they are copied, and the rest of the space.\<close>

record stack_strings =
  ss_platform :: u64
  ss_random :: u64
  ss_argv :: "u64 list"
  ss_env :: "u64 list"
  ss_execfn :: u64

definition copy_process_strings ::
    "stack_host \<Rightarrow> poly_arch \<Rightarrow> poly_request \<Rightarrow> u8 list list \<Rightarrow> u8 list list \<Rightarrow> u64 \<Rightarrow> guest_memory \<Rightarrow>
     (stack_strings \<times> u64 \<times> guest_memory) option" where
  "copy_process_strings host arch request extra_argv environ stack gm =
     (case copy_stack_string stack (platform_name arch) (stack + process_stack_size, gm) of
        None \<Rightarrow> None
      | Some (platform_ptr, gm) \<Rightarrow>
          if unat (platform_ptr - stack) < 16 then None
          else
            (let random_ptr = platform_ptr - 16; gm = guest_store gm random_ptr (random_bytes host) in
             case copy_stack_strings stack (guest_argv0 request # extra_argv) (random_ptr, gm) of
               None \<Rightarrow> None
             | Some (argv_ptrs, w) \<Rightarrow>
                 (case copy_stack_strings stack environ w of
                    None \<Rightarrow> None
                  | Some (env_ptrs, w) \<Rightarrow>
                      (let strings = (\<lambda>execfn. \<lparr>ss_platform = platform_ptr, ss_random = random_ptr, ss_argv = argv_ptrs,
                             ss_env = env_ptrs, ss_execfn = execfn\<rparr>)
                       in if guest_argv0 request = rq_path request then Some (strings (hd argv_ptrs), w)
                          else
                            (case copy_stack_string stack (rq_path request) w of
                               None \<Rightarrow> None
                             | Some w \<Rightarrow> Some (strings (fst w), w))))))"

definition build_process_stack ::
    "stack_host \<Rightarrow> poly_program \<Rightarrow> poly_request \<Rightarrow> stack_image \<Rightarrow> u8 list list \<Rightarrow> u8 list list \<Rightarrow> u64 \<Rightarrow> guest_memory \<Rightarrow>
     (u64 \<times> guest_memory) option" where
  "build_process_stack host program request si extra_argv environ stack gm =
     (case copy_process_strings host (pg_arch program) request extra_argv environ stack gm of
        None \<Rightarrow> None
      | Some (ss, w) \<Rightarrow>
          (case process_hwcap host (pg_arch program) of
             None \<Rightarrow> None
           | Some hwcap \<Rightarrow>
               place_table stack
                 (table_words (ss_argv ss) (ss_env ss)
                    (process_auxv host program si hwcap (ss_random ss) (ss_execfn ss) (ss_platform ss))) w))"

end
