(* ===== verification/Process_Policy.thy ===== *)
theory Process_Policy
  imports Process_Stack Libc_Policy
begin

text \<open>
  What a new process finds: its stack has the layout that the system interface
  prescribes, with every pointer leading to an undamaged string.
\<close>

subsection \<open>Memory below a cursor\<close>

text \<open>A store that ends at or below an address keeps the bytes from there on.\<close>

lemma store_below:
  assumes "unat a + length bs \<le> unat p" "unat p + n \<le> 2 ^ 64"
  shows "guest_bytes (guest_store gm a bs) p n = guest_bytes gm p n"
  unfolding guest_bytes_def
proof (intro map_cong refl)
  fix i assume "i \<in> set [0..<n]"
  then have i: "i < n" by simp
  then have "unat (of_nat i :: u64) = i" using assms(2) by (simp add: unat_of_nat take_bit_nat_eq_self)
  then have s: "unat (p + of_nat i) = unat p + i" using i assms(2) by (simp add: unat_word_ariths)
  then have "unat (p + of_nat i - a) = unat p + i - unat a" using assms(1) by (simp add: unat_sub_if_size)
  then have "\<not> unat (p + of_nat i - a) < length bs" using assms(1) by linarith
  then show "gm_byte (guest_store gm a bs) (p + of_nat i) = gm_byte gm (p + of_nat i)"
    by (simp add: guest_store_def)
qed

definition holds_string :: "guest_memory \<Rightarrow> u64 \<Rightarrow> u8 list \<Rightarrow> bool" where
  "holds_string gm p v \<longleftrightarrow> guest_bytes gm p (length v + 1) = v @ [0]"

lemma copy_stack_string_spec:
  assumes "copy_stack_string stack v (c, gm) = Some (c', gm')" "stack \<le> c"
  shows "stack \<le> c'" "unat c' + length v + 1 = unat c" "holds_string gm' c' v"
    "\<And>p n. unat c \<le> unat p \<Longrightarrow> unat p + n \<le> 2 ^ 64 \<Longrightarrow> guest_bytes gm' p n = guest_bytes gm p n"
proof -
  have room: "length v + 1 \<le> unat c - unat stack" and c': "c' = c - of_nat (length v + 1)"
    and gm': "gm' = guest_store gm c' (v @ [0])"
    using assms by (auto simp: copy_stack_string_def Let_def unat_sub word_le_nat_alt split: if_splits)
  have lt: "length v + 1 \<le> unat c" using room by linarith
  then have "unat (of_nat (length v + 1) :: u64) = length v + 1"
    using unsigned_less[of c, where 'a = nat] by (simp add: unat_of_nat take_bit_nat_eq_self del: of_nat_Suc of_nat_add)
  then have u: "unat c' = unat c - (length v + 1)"
    unfolding c' using lt by (simp add: unat_sub_if_size del: of_nat_Suc of_nat_add)
  show sum: "unat c' + length v + 1 = unat c" using u lt by simp
  show "stack \<le> c'" using u room assms(2) by (simp add: word_le_nat_alt)
  show "holds_string gm' c' v"
    unfolding holds_string_def gm' using sum unsigned_less[of c, where 'a = nat]
    by (intro guest_bytes_store_exact) simp_all
  show "guest_bytes gm' p n = guest_bytes gm p n" if "unat c \<le> unat p" "unat p + n \<le> 2 ^ 64" for p n
    unfolding gm' using that sum by (intro store_below) simp_all
qed

text \<open>Strings that lie between two addresses.\<close>

definition strings_at :: "guest_memory \<Rightarrow> u64 \<Rightarrow> u64 \<Rightarrow> u64 list \<Rightarrow> u8 list list \<Rightarrow> bool" where
  "strings_at gm low high ps vs \<longleftrightarrow>
     list_all2 (\<lambda>p v. holds_string gm p v \<and> low \<le> p \<and> unat p + length v + 1 \<le> unat high) ps vs"

definition keeps_above :: "guest_memory \<Rightarrow> guest_memory \<Rightarrow> u64 \<Rightarrow> bool" where
  "keeps_above gm gm' c \<longleftrightarrow>
     (\<forall>p n. unat c \<le> unat p \<longrightarrow> unat p + n \<le> 2 ^ 64 \<longrightarrow> guest_bytes gm' p n = guest_bytes gm p n)"

lemma keeps_above_trans:
  "keeps_above gm gm1 c \<Longrightarrow> keeps_above gm1 gm2 d \<Longrightarrow> d \<le> c \<Longrightarrow> keeps_above gm gm2 c"
  by (simp add: keeps_above_def word_le_nat_alt)

lemma strings_at_later:
  assumes "strings_at gm low high ps vs" "keeps_above gm gm' low"
  shows "strings_at gm' low high ps vs"
proof -
  have "holds_string gm' p v" if "holds_string gm p v" "low \<le> p" "unat p + length v + 1 \<le> unat high" for p v
    using assms(2) that unsigned_less[of high, where 'a = nat]
    by (simp add: keeps_above_def holds_string_def word_le_nat_alt)
  then show ?thesis using assms(1) unfolding strings_at_def by (auto elim: list_all2_mono)
qed

lemma strings_at_mono:
  "strings_at gm low high ps vs \<Longrightarrow> low' \<le> low \<Longrightarrow> high \<le> high' \<Longrightarrow> strings_at gm low' high' ps vs"
  unfolding strings_at_def by (auto elim!: list_all2_mono simp: word_le_nat_alt)

lemma copy_stack_strings_spec:
  assumes "copy_stack_strings stack vs (c, gm) = Some (ps, c', gm')" "stack \<le> c"
  shows "stack \<le> c' \<and> unat c' + length vs \<le> unat c \<and> strings_at gm' c' c ps vs \<and> keeps_above gm gm' c"
  using assms
proof (induction vs arbitrary: c gm ps)
  case Nil
  then show ?case by (simp add: strings_at_def keeps_above_def)
next
  case (Cons v vs)
  obtain c1 gm1 where one: "copy_stack_string stack v (c, gm) = Some (c1, gm1)"
    using Cons.prems(1) by (auto split: option.splits)
  obtain qs where rest: "copy_stack_strings stack vs (c1, gm1) = Some (qs, c', gm')" "ps = c1 # qs"
    using Cons.prems(1) one by (auto split: option.splits)
  note S = copy_stack_string_spec[OF one Cons.prems(2)]
  have le: "c1 \<le> c" using S(2) by (simp add: word_le_nat_alt)
  have IH: "stack \<le> c'" "unat c' + length vs \<le> unat c1" "strings_at gm' c' c1 qs vs" "keeps_above gm1 gm' c1"
    using Cons.IH[OF rest(1) S(1)] by auto
  have low: "c' \<le> c1" using IH(2) by (simp add: word_le_nat_alt)
  have "holds_string gm' c1 v"
    using S(2,3) IH(4) unsigned_less[of c, where 'a = nat] by (simp add: holds_string_def keeps_above_def)
  then have "strings_at gm' c' c ps (v # vs)"
    using strings_at_mono[OF IH(3) order_refl le] S(2) low by (simp add: rest(2) strings_at_def)
  moreover have "keeps_above gm gm' c"
    using keeps_above_trans[OF _ IH(4) le] S(4) by (simp add: keeps_above_def)
  ultimately show ?case using IH(1,2) S(2) by simp
qed

subsection \<open>The table\<close>

lemma length_words_bytes: "length (concat (map (le_bytes 8) (ws :: u64 list))) = 8 * length ws"
  by (induction ws) (simp_all add: length_le_bytes)

lemma place_table_spec:
  assumes "place_table stack ws (c, gm) = Some (sp, gm')" "8 * length ws + 16 \<le> unat c"
  shows "sp AND 15 = 0" "stack \<le> sp" "unat sp + 8 * length ws \<le> unat c"
    "guest_bytes gm' sp (8 * length ws) = concat (map (le_bytes 8) ws)" "keeps_above gm gm' c"
proof -
  let ?t = "c - of_nat (8 * length ws)"
  have sp: "sp = ?t AND NOT 15" and low: "stack \<le> sp" and gm': "gm' = guest_store gm sp (concat (map (le_bytes 8) ws))"
    using assms(1) by (auto simp: place_table_def Let_def not_less split: if_splits)
  have n: "8 * length ws < 2 ^ 64" using assms(2) unsigned_less[of c, where 'a = nat] by simp
  then have "unat (of_nat (8 * length ws) :: u64) = 8 * length ws"
    by (simp add: unat_of_nat take_bit_nat_eq_self del: of_nat_mult)
  then have t: "unat ?t = unat c - 8 * length ws"
    using assms(2) by (simp add: unat_sub_if_size del: of_nat_mult)
  have "unat sp \<le> unat ?t" unfolding sp by (simp add: word_and_le2 flip: word_le_nat_alt)
  then show fit: "unat sp + 8 * length ws \<le> unat c" using t assms(2) by linarith
  show "sp AND 15 = 0" by (simp add: sp and.assoc)
  show "stack \<le> sp" by (rule low)
  show "guest_bytes gm' sp (8 * length ws) = concat (map (le_bytes 8) ws)"
    unfolding gm' using n by (intro guest_bytes_store_exact) (simp_all add: length_words_bytes)
  show "keeps_above gm gm' c"
    unfolding keeps_above_def gm' using fit by (auto intro: store_below simp: length_words_bytes)
qed

lemma length_table_words:
  "length (table_words ps qs auxv) = length ps + length qs + 2 * length auxv + 3"
proof -
  have "length (concat (map (\<lambda>(t, v). [t, v]) auxv)) = 2 * length auxv" by (induction auxv) auto
  then show ?thesis by (simp add: table_words_def)
qed

text \<open>The stages of the string area: the platform, the random bytes, the arguments and the environment.\<close>

lemma process_strings_stages:
  assumes "copy_process_strings host arch request extra environ stack gm = Some (ss, c, gm')"
    and "unat stack + 2 ^ 20 \<le> 2 ^ 64 - 1"
  obtains gm1 gm2 c1 gm3 c2 gm4 where
    "stack \<le> ss_random ss" "unat (ss_random ss) + 16 = unat (ss_platform ss)"
    "strings_at gm1 (ss_platform ss) (stack + process_stack_size) [ss_platform ss] [platform_name arch]"
    "gm2 = guest_store gm1 (ss_random ss) (random_bytes host)"
    "copy_stack_strings stack (guest_argv0 request # extra) (ss_random ss, gm2) = Some (ss_argv ss, c1, gm3)"
    "copy_stack_strings stack environ (c1, gm3) = Some (ss_env ss, c2, gm4)"
    "guest_argv0 request = rq_path request \<and> ss_execfn ss = hd (ss_argv ss) \<and> c = c2 \<and> gm' = gm4 \<or>
     copy_stack_string stack (rq_path request) (c2, gm4) = Some (c, gm') \<and> ss_execfn ss = c"
proof -
  let ?top = "stack + process_stack_size"
  have top: "stack \<le> ?top" using assms(2) by (simp add: word_le_nat_alt unat_word_ariths)
  obtain pp gm1 where a: "copy_stack_string stack (platform_name arch) (?top, gm) = Some (pp, gm1)"
    and room: "16 \<le> unat (pp - stack)"
    using assms(1) by (auto simp: copy_process_strings_def Let_def not_less split: option.splits if_splits)
  note A = copy_stack_string_spec[OF a top]
  obtain ps c1 gm3 where b: "copy_stack_strings stack (guest_argv0 request # extra)
      (pp - 16, guest_store gm1 (pp - 16) (random_bytes host)) = Some (ps, c1, gm3)"
    using assms(1) a room by (auto simp: copy_process_strings_def Let_def not_less simp del: copy_stack_strings.simps
        split: option.splits if_splits)
  obtain qs c2 gm4 where d: "copy_stack_strings stack environ (c1, gm3) = Some (qs, c2, gm4)"
    using assms(1) a room b by (auto simp: copy_process_strings_def Let_def not_less simp del: copy_stack_strings.simps
        split: option.splits if_splits)
  have e: "ss_platform ss = pp \<and> ss_random ss = pp - 16 \<and> ss_argv ss = ps \<and> ss_env ss = qs \<and>
     (guest_argv0 request = rq_path request \<and> ss_execfn ss = hd ps \<and> c = c2 \<and> gm' = gm4 \<or>
      copy_stack_string stack (rq_path request) (c2, gm4) = Some (c, gm') \<and> ss_execfn ss = c)"
    using assms(1) a room b d by (auto simp: copy_process_strings_def Let_def not_less simp del: copy_stack_strings.simps
        split: option.splits if_splits)
  show thesis
  proof (rule that)
    show "stack \<le> ss_random ss" "unat (ss_random ss) + 16 = unat (ss_platform ss)"
      using e room A(1) by (auto simp: word_le_nat_alt unat_sub_if_size)
    show "strings_at gm1 (ss_platform ss) ?top [ss_platform ss] [platform_name arch]"
      using e A(2,3) by (simp add: strings_at_def)
  qed (use b d e in auto)
qed

lemma length_random_bytes: "length (random_bytes host) = 16"
  by (simp add: random_bytes_def split: option.split)

text \<open>
  The space that the strings need bounds their number, so the table never reaches
  below address zero when the stack lies above 16 MiB.
\<close>

lemma process_strings_spec:
  assumes "copy_process_strings host arch request extra environ stack gm = Some (ss, c, gm')"
    and "unat stack + 2 ^ 20 \<le> 2 ^ 64 - 1"
  shows "stack \<le> c" "length (ss_argv ss) + length (ss_env ss) \<le> 2 ^ 20"
    "strings_at gm' c (stack + process_stack_size) (ss_argv ss) (guest_argv0 request # extra)"
    "strings_at gm' c (stack + process_stack_size) (ss_env ss) environ"
    "strings_at gm' c (stack + process_stack_size) [ss_execfn ss, ss_platform ss] [rq_path request, platform_name arch]"
proof -
  let ?top = "stack + process_stack_size"
  have top: "unat ?top = unat stack + 2 ^ 20" using assms(2) by (simp add: unat_word_ariths)
  obtain gm1 gm2 c1 gm3 c2 gm4 where st: "stack \<le> ss_random ss" "unat (ss_random ss) + 16 = unat (ss_platform ss)"
    and pl: "strings_at gm1 (ss_platform ss) ?top [ss_platform ss] [platform_name arch]"
    and gm2: "gm2 = guest_store gm1 (ss_random ss) (random_bytes host)"
    and av: "copy_stack_strings stack (guest_argv0 request # extra) (ss_random ss, gm2) = Some (ss_argv ss, c1, gm3)"
    and ev: "copy_stack_strings stack environ (c1, gm3) = Some (ss_env ss, c2, gm4)"
    and fn: "guest_argv0 request = rq_path request \<and> ss_execfn ss = hd (ss_argv ss) \<and> c = c2 \<and> gm' = gm4 \<or>
       copy_stack_string stack (rq_path request) (c2, gm4) = Some (c, gm') \<and> ss_execfn ss = c"
    using process_strings_stages[OF assms] .
  have A: "stack \<le> c1" "unat c1 + Suc (length extra) \<le> unat (ss_random ss)"
    "strings_at gm3 c1 (ss_random ss) (ss_argv ss) (guest_argv0 request # extra)" "keeps_above gm2 gm3 (ss_random ss)"
    using copy_stack_strings_spec[OF av st(1)] by auto
  have E: "stack \<le> c2" "unat c2 + length environ \<le> unat c1" "strings_at gm4 c2 c1 (ss_env ss) environ" "keeps_above gm3 gm4 c1"
    using copy_stack_strings_spec[OF ev A(1)] by auto
  have F: "stack \<le> c" "c \<le> c2" "keeps_above gm4 gm' c2"
    using fn E(1) copy_stack_string_spec[of stack "rq_path request" c2 gm4 c gm'] by (auto simp: keeps_above_def word_le_nat_alt)
  have fits: "unat (ss_platform ss) \<le> unat ?top" using pl by (simp add: strings_at_def)
  then have order: "c2 \<le> c1" "c1 \<le> ss_random ss" "ss_random ss \<le> ss_platform ss" "c1 \<le> ?top" "ss_random ss \<le> ?top"
    using A(2) E(2) st(2) by (simp_all add: word_le_nat_alt)
  have late: "strings_at gm' c ?top ps vs" if "strings_at gm4 c2 ?top ps vs" for ps vs
    using strings_at_mono[OF strings_at_later[OF that F(3)] F(2) order_refl] .
  have mid: "strings_at gm' c ?top ps vs" if "strings_at gm3 c1 ?top ps vs" for ps vs
    using late strings_at_mono[OF strings_at_later[OF that E(4)] order(1) order_refl] .
  show "stack \<le> c" by (rule F(1))
  have "length (ss_argv ss) = Suc (length extra)" "length (ss_env ss) = length environ"
    using A(3) E(3) by (auto simp: strings_at_def dest: list_all2_lengthD)
  then show "length (ss_argv ss) + length (ss_env ss) \<le> 2 ^ 20"
    using A(2) E(1,2) st(2) fits top by (simp add: word_le_nat_alt)
  show argv: "strings_at gm' c ?top (ss_argv ss) (guest_argv0 request # extra)"
    by (rule mid, rule strings_at_mono[OF A(3) order_refl order(5)])
  show "strings_at gm' c ?top (ss_env ss) environ"
    by (rule late, rule strings_at_mono[OF E(3) order_refl order(4)])
  have "keeps_above gm1 gm2 (ss_platform ss)"
    unfolding gm2 keeps_above_def using st(2) by (auto intro!: store_below simp: length_random_bytes)
  then have "keeps_above gm1 gm3 (ss_platform ss)" using A(4) order(3) by (rule keeps_above_trans)
  then have "strings_at gm' c ?top [ss_platform ss] [platform_name arch]"
    using pl order by (intro mid strings_at_mono[OF strings_at_later[OF pl]]) auto
  moreover have "strings_at gm' c ?top [ss_execfn ss] [rq_path request]"
  proof (cases "guest_argv0 request = rq_path request \<and> ss_execfn ss = hd (ss_argv ss)")
    case True
    then show ?thesis using argv by (cases "ss_argv ss") (auto simp: strings_at_def)
  next
    case False
    then have w: "copy_stack_string stack (rq_path request) (c2, gm4) = Some (c, gm')" "ss_execfn ss = c" using fn by auto
    show ?thesis using copy_stack_string_spec[OF w(1) E(1)] order w(2) by (simp add: strings_at_def word_le_nat_alt)
  qed
  ultimately show "strings_at gm' c ?top [ss_execfn ss, ss_platform ss] [rq_path request, platform_name arch]"
    by (simp add: strings_at_def)
qed

lemma length_process_auxv: "length (process_auxv host program si hwcap r e p) = 20"
  by (simp add: process_auxv_def Let_def)

lemma strings_at_holds: "strings_at gm low high ps vs \<Longrightarrow> list_all2 (holds_string gm) ps vs"
  unfolding strings_at_def by (auto elim: list_all2_mono)

text \<open>
  C5. The initial stack of a process has the layout of the system interface. The
  stack pointer is a multiple of 16 inside the stack area. From it on lie the number
  of arguments, the argument pointers, a null, the environment pointers, a null and
  the auxiliary vector, which ends with a null entry and whose entries 31 and 15 are
  the name of the executed file and of the platform. Every pointer leads to its
  string: the zero argument of the request (or its path), the further arguments and
  the environment, in order, each with its terminating zero byte; none of these
  strings is damaged by what is stored after it.
\<close>

theorem process_stack_layout:
  assumes "build_process_stack host program request si extra environ stack gm = Some (sp, gm')"
    and "2 ^ 24 \<le> unat stack" "unat stack + 2 ^ 20 < 2 ^ 64"
  shows "\<exists>argv envp auxv execfn platform.
           sp AND 15 = 0 \<and> stack \<le> sp \<and>
           guest_bytes gm' sp (8 * (length argv + length envp + 2 * length auxv + 3)) =
             concat (map (le_bytes 8) (of_nat (length argv) # argv @ 0 # envp @ 0 # concat (map (\<lambda>(t, v). [t, v]) auxv))) \<and>
           last auxv = (0, 0) \<and> map_of auxv 31 = Some execfn \<and> map_of auxv 15 = Some platform \<and>
           list_all2 (holds_string gm') argv ((if rq_argv0 request \<noteq> [] then rq_argv0 request else rq_path request) # extra) \<and>
           list_all2 (holds_string gm') envp environ \<and>
           holds_string gm' execfn (rq_path request) \<and> holds_string gm' platform (platform_name (pg_arch program))"
proof -
  obtain ss c gm1 hwcap where strings: "copy_process_strings host (pg_arch program) request extra environ stack gm = Some (ss, c, gm1)"
    and table: "place_table stack (table_words (ss_argv ss) (ss_env ss)
         (process_auxv host program si hwcap (ss_random ss) (ss_execfn ss) (ss_platform ss))) (c, gm1) = Some (sp, gm')"
    using assms(1) by (auto simp: build_process_stack_def split: option.splits)
  have fits: "unat stack + 2 ^ 20 \<le> 2 ^ 64 - 1" using assms(3) by simp
  note S = process_strings_spec[OF strings fits]
  let ?auxv = "process_auxv host program si hwcap (ss_random ss) (ss_execfn ss) (ss_platform ss)"
  have "8 * length (table_words (ss_argv ss) (ss_env ss) ?auxv) + 16 \<le> unat c"
    using S(1,2) assms(2) by (simp add: length_table_words length_process_auxv word_le_nat_alt)
  note T = place_table_spec[OF table this]
  note holds = S(3-5)[THEN strings_at_later[OF _ T(5)], THEN strings_at_holds]
  show ?thesis
  proof (intro exI conjI)
    show "guest_bytes gm' sp (8 * (length (ss_argv ss) + length (ss_env ss) + 2 * length ?auxv + 3)) =
        concat (map (le_bytes 8) (of_nat (length (ss_argv ss)) # ss_argv ss @ 0 # ss_env ss @ 0 # concat (map (\<lambda>(t, v). [t, v]) ?auxv)))"
      by (rule T(4)[unfolded length_table_words, unfolded table_words_def])
    show "map_of ?auxv 31 = Some (ss_execfn ss)" "map_of ?auxv 15 = Some (ss_platform ss)" "last ?auxv = (0, 0)"
      by (simp_all add: process_auxv_def Let_def)
  qed (use T(1,2) holds in \<open>simp_all add: guest_argv0_def\<close>)
qed

definition sample_request :: poly_request where
  "sample_request = \<lparr>rq_path = string_bytes ''/a'', rq_argv0 = string_bytes ''b'', rq_symbol = [], rq_expected = 0,
     rq_check_expected = False\<rparr>"

definition sample_stack_host :: stack_host where
  "sample_stack_host = \<lparr>sh_random = None, sh_pid = 1, sh_clock_tick = 0, sh_uid = 0, sh_euid = 0, sh_gid = 0, sh_egid = 0,
     sh_hwcap_override = Some None\<rparr>"

abbreviation (input) sample_build :: "guest_memory \<Rightarrow> (u64 \<times> guest_memory) option" where
  "sample_build \<equiv> build_process_stack sample_stack_host (zero_program POLY_ARCH_AARCH64) sample_request
     \<lparr>si_loaded_image = 0x400000, si_at_base = 0, si_at_sysinfo_ehdr = 0\<rparr> [string_bytes ''x''] [string_bytes ''E=1''] 0x10000000"

lemma sample_stack_built: "sample_build gm \<noteq> None"
proof -
  have texts: "platform_name POLY_ARCH_AARCH64 = [0x61, 0x61, 0x72, 0x63, 0x68, 0x36, 0x34]" "guest_argv0 sample_request = [0x62]"
    "rq_path sample_request = [0x2f, 0x61]" "string_bytes ''x'' = [0x78]" "string_bytes ''E=1'' = [0x45, 0x3d, 0x31]"
    "pg_arch (zero_program POLY_ARCH_AARCH64) = POLY_ARCH_AARCH64" "process_hwcap sample_stack_host POLY_ARCH_AARCH64 = Some 0x903"
    by (simp_all add: platform_name_def string_bytes_def guest_argv0_def sample_request_def zero_program_def
        process_hwcap_def sample_stack_host_def)
  show ?thesis
    by (simp add: build_process_stack_def copy_process_strings_def texts copy_stack_string_def place_table_def Let_def
        length_table_words length_process_auxv)
qed

theorem process_stack_layout_witness:
  "\<exists>sp gm' argv envp. sample_build (flat_memory 4096 []) = Some (sp, gm') \<and> sp AND 15 = 0 \<and>
     guest_bytes gm' sp 8 = le_bytes 8 (2 :: u64) \<and>
     list_all2 (holds_string gm') argv [string_bytes ''b'', string_bytes ''x''] \<and>
     list_all2 (holds_string gm') envp [string_bytes ''E=1'']"
proof -
  obtain sp gm' where build: "sample_build (flat_memory 4096 []) = Some (sp, gm')" using sample_stack_built by fastforce
  obtain argv envp and auxv :: "(u64 \<times> u64) list" where sp: "sp AND 15 = 0"
    and table: "guest_bytes gm' sp (8 * (length argv + length envp + 2 * length auxv + 3)) =
      concat (map (le_bytes 8) (of_nat (length argv) # argv @ 0 # envp @ 0 # concat (map (\<lambda>(t, v). [t, v]) auxv)))"
    and argv: "list_all2 (holds_string gm') argv [string_bytes ''b'', string_bytes ''x'']"
    and envp: "list_all2 (holds_string gm') envp [string_bytes ''E=1'']"
    using process_stack_layout[OF build] by (auto simp: sample_request_def string_bytes_def)
  have "length argv = 2" using list_all2_lengthD[OF argv] by simp
  then have "take 8 (guest_bytes gm' sp (8 + 8 * (length argv + length envp + 2 * length auxv + 2))) = le_bytes 8 (2 :: u64)"
    using arg_cong[OF table, of "take 8"] by (simp add: length_le_bytes algebra_simps)
  then have "guest_bytes gm' sp 8 = le_bytes 8 (2 :: u64)" unfolding guest_bytes_split by simp
  then show ?thesis using build sp argv envp by blast
qed

end
