(* ===== verification/Clone_Handoff.thy ===== *)
theory Clone_Handoff
  imports Structured_Syscall Trap_Return
begin

text \<open>
  New threads and processes, \<open>tools/runtime/polyexec.c\<close>: a stack for a child that
  shares memory with its waiting parent, a copy of the parent's native thread-local
  storage with pointers into it moved to the copy, the image of the child, and the
  entry of the child. The hardware and the host kernel are parameters.
\<close>

subsection \<open>Memory for the child\<close>

definition load_u64 :: "guest_memory \<Rightarrow> u64 \<Rightarrow> u64" where
  "load_u64 gm address = read_u64_le (guest_bytes gm address 8)"

abbreviation (input) anonymous_mapping :: "u64 \<Rightarrow> u64 list" where
  "anonymous_mapping n \<equiv> [0, n, 3, 0x22, - 1, 0]"

definition map_anonymous :: "host_os \<Rightarrow> u64 \<Rightarrow> linux_state \<Rightarrow> linux_state \<times> u64 option" where
  "map_anonymous os n s =
     (case host_mmap os (ls_log s) (anonymous_mapping n) (ls_memory s) of
        Inl e \<Rightarrow> (log_call ''mmap'' (anonymous_mapping n) s, None)
      | Inr (base, gm) \<Rightarrow> (log_call ''mmap'' (anonymous_mapping n) (s\<lparr>ls_memory := gm\<rparr>), Some base))"

definition poly_prepare_vfork_foreign_stack :: "host_os \<Rightarrow> u64 \<Rightarrow> linux_state \<Rightarrow> linux_state \<times> u64 option" where
  "poly_prepare_vfork_foreign_stack os original_stack s =
     (if \<not> poly_guest_range_is_mapped (ls_memory s) original_stack 16 False then (s, None)
      else
        (case map_anonymous os 0x40000 s of
           (s, None) \<Rightarrow> (s, None)
         | (s, Some mapping) \<Rightarrow>
             (let child_stack = ((mapping + 0x40000) AND NOT 15) - 16
              in (s\<lparr>ls_memory := guest_store (ls_memory s) child_stack (guest_bytes (ls_memory s) original_stack 16)\<rparr>,
                  Some child_stack))))"

subsection \<open>Native thread-local storage\<close>

abbreviation (input) native_tls_size :: u64 where "native_tls_size \<equiv> 0x80000"

definition copy_tls_page :: "u64 \<Rightarrow> u64 \<Rightarrow> nat \<Rightarrow> guest_memory \<Rightarrow> guest_memory" where
  "copy_tls_page mapping source_base n gm =
     (let source = source_base + of_nat n * 4096
      in if source_base = 0 \<or> source < source_base then gm
         else if poly_guest_range_is_mapped gm source 4096 False
         then guest_store gm (mapping + of_nat n * 4096) (guest_bytes gm source 4096)
         else gm)"

text \<open>A pointer into the parent's window becomes a pointer into the copy.\<close>

definition rehome :: "u64 \<Rightarrow> u64 \<Rightarrow> u64 \<Rightarrow> u64" where
  "rehome mapping source_base value =
     (if source_base \<le> value \<and> value < source_base + native_tls_size then mapping + (value - source_base) else value)"

definition rehome_slot :: "u64 \<Rightarrow> u64 \<Rightarrow> u64 \<Rightarrow> guest_memory \<Rightarrow> guest_memory" where
  "rehome_slot mapping source_base slot gm =
     (let value = load_u64 gm slot
      in if source_base \<le> value \<and> value < source_base + native_tls_size
         then guest_store gm slot (le_bytes 8 (rehome mapping source_base value)) else gm)"

definition native_tls_source :: "u64 \<Rightarrow> u64" where
  "native_tls_source parent_fs = (if parent_fs \<ge> 0x40000 then parent_fs - 0x40000 else 0)"

definition fill_native_tls :: "u64 \<Rightarrow> u64 \<Rightarrow> guest_memory \<Rightarrow> guest_memory" where
  "fill_native_tls mapping source_base gm =
     (let gm = guest_store gm mapping (zero_bytes native_tls_size);
          gm = fold (copy_tls_page mapping source_base) [0..<128] gm;
          gm = fold (\<lambda>n. rehome_slot mapping source_base (mapping + of_nat n * 8)) [0..<65536] gm;
          tcb = mapping + 0x40000;
          gm = guest_store gm tcb (le_bytes 8 tcb);
          gm = rehome_slot mapping source_base (tcb + 8) gm
      in guest_store gm (tcb + 16) (le_bytes 8 tcb))"

text \<open>The mapping, its size and the thread pointer of the child, which are zero when the parent has none.\<close>

definition poly_prepare_clone_native_tls ::
    "host_os \<Rightarrow> u64 \<Rightarrow> linux_state \<Rightarrow> linux_state \<times> (u64 \<times> u64 \<times> u64) option" where
  "poly_prepare_clone_native_tls os parent_fs s =
     (if parent_fs = 0 then (s, Some (0, 0, 0))
      else
        (case map_anonymous os native_tls_size s of
           (s, None) \<Rightarrow> (s, None)
         | (s, Some mapping) \<Rightarrow>
             (s\<lparr>ls_memory := fill_native_tls mapping (native_tls_source parent_fs) (ls_memory s)\<rparr>,
              Some (mapping, native_tls_size, mapping + 0x40000))))"

subsection \<open>The image of the child\<close>

record poly_clone_child_handoff =
  ch_packet :: poly_runtime_event_record
  ch_state :: poly_xsave_state
  ch_native_tls_mapping :: u64
  ch_native_tls_mapping_size :: u64
  ch_native_tls_base :: u64
  ch_mapping :: u64
  ch_mapping_size :: u64
  ch_foreign_stack :: u64
  ch_foreign_tls :: u64

text \<open>
  What the machine and the environment say: the native thread pointer, whether the
  child gets native storage of its own, whether state keys are used, and the answers
  to the instructions and calls of the child's entry.
\<close>

record clone_machine =
  cm_trap :: trap_machine
  get_x86_fs_base :: u64
  clone_native_tls_enabled :: bool
  polyexec_use_explicit_state_key :: bool
  poly_state_key_set :: "u64 \<Rightarrow> u64"
  signal_diagnostics_installed :: bool

definition child_frontend_stack :: "poly_runtime_event_record \<Rightarrow> poly_xsave_state \<Rightarrow> u64 \<Rightarrow> u64" where
  "child_frontend_stack packet trap_state foreign_stack =
     (let tr = xs_trap_restore trap_state; valid = (tr_flags tr AND POLY_TRAP_RESTORE_FLAG_VALID \<noteq> 0)
      in if foreign_stack \<noteq> 0 then foreign_stack
         else if ev_mode packet = POLY_MODE_RAW_AARCH64 then
           (if valid \<and> tr_aarch64_gpr tr ! 31 \<noteq> 0 then tr_aarch64_gpr tr ! 31 else xs_aarch64_gpr trap_state ! 31)
         else if ev_mode packet = POLY_MODE_RAW_RISCV then
           (if valid \<and> tr_riscv_gpr tr ! 2 \<noteq> 0 then tr_riscv_gpr tr ! 2 else xs_riscv_gpr trap_state ! 2)
         else 0)"

abbreviation (input) handoff_size :: u64 where "handoff_size \<equiv> 8448"
abbreviation (input) handoff_mapping_size :: u64 where "handoff_mapping_size \<equiv> handoff_size + 0x40000 + 64"
abbreviation (input) state_key_anchor_offset :: u64 where "state_key_anchor_offset \<equiv> 8384"

definition child_descriptor ::
    "clone_machine \<Rightarrow> poly_runtime_event_record \<Rightarrow> u64 \<Rightarrow> u64 \<Rightarrow> u64 \<Rightarrow> poly_v2_derive_descriptor" where
  "child_descriptor m packet child_sp foreign_tls handoff =
     (let flags = 4 OR 128 OR POLY_V2_DERIVE_FLAG_CLEAR_EVENT_STATE;
          flags = (if child_sp \<noteq> 0 then flags OR 1 else flags);
          flags = (if foreign_tls \<noteq> 0 then flags OR 2 else flags);
          key = polyexec_use_explicit_state_key m
      in (poly_init_derive_descriptor (ev_mode packet))
           \<lparr>dd_flags := if key then flags OR 32 else flags, dd_child_sp := child_sp, dd_child_tls := foreign_tls,
            dd_child_return_value := 0, dd_child_pc := ev_next_pc packet,
            dd_state_key := if key then handoff + state_key_anchor_offset else 0\<rparr>)"

text \<open>What is cleared in the derived image.\<close>

definition child_image :: "poly_runtime_event_record \<Rightarrow> poly_xsave_state \<Rightarrow> poly_xsave_state" where
  "child_image packet state =
     (let state = poly_clear_return_transition_state
            (state\<lparr>xs_trap_restore := zero_trap_restore, xs_pre_trap_restore_reserved := replicate 160 0\<rparr>)
      in state\<lparr>xs_header := (xs_header state)\<lparr>hdr_current_mode := ucast (ev_mode packet), hdr_reserved0 := 0\<rparr>\<rparr>)"

definition clear_handoff :: "u64 \<Rightarrow> linux_state \<Rightarrow> linux_state" where
  "clear_handoff handoff s = s\<lparr>ls_memory := guest_store (ls_memory s) handoff (zero_bytes handoff_size)\<rparr>"

text \<open>The handoff and the native stack of the child, whose first word is the address of the handoff.\<close>

definition poly_prepare_clone_child_handoff ::
    "host_os \<Rightarrow> clone_machine \<Rightarrow> poly_runtime_event_record \<Rightarrow> poly_xsave_state \<Rightarrow> u64 \<Rightarrow> u64 \<Rightarrow> linux_state \<Rightarrow>
     linux_state \<times> (poly_clone_child_handoff \<times> u64) option" where
  "poly_prepare_clone_child_handoff os m packet trap_state foreign_stack foreign_tls s =
     (case map_anonymous os handoff_mapping_size s of
        (s, None) \<Rightarrow> (s, None)
      | (s, Some handoff) \<Rightarrow>
          (let s = clear_handoff handoff s; unmap = (\<lambda>s. fst (poly_x86_syscall6 os ''munmap'' [handoff, handoff_mapping_size] s))
           in case (if clone_native_tls_enabled m then poly_prepare_clone_native_tls os (get_x86_fs_base m) s
                    else (s, Some (0, 0, 0))) of
                (s, None) \<Rightarrow> (unmap s, None)
              | (s, Some (tls_mapping, tls_mapping_size, tls_base)) \<Rightarrow>
                  (let child_sp = child_frontend_stack packet trap_state foreign_stack;
                       (status, state) = poly_derive_state_value (tm_signals (cm_trap m)) trap_state
                         (child_descriptor m packet child_sp foreign_tls handoff)
                   in if status \<noteq> 0 then (unmap s, None)
                      else
                        (let slot = ((handoff + handoff_mapping_size) AND NOT 15) - 8
                         in (s\<lparr>ls_memory := guest_store (ls_memory s) slot (le_bytes 8 handoff)\<rparr>,
                             Some (\<lparr>ch_packet = packet, ch_state = child_image packet state,
                                    ch_native_tls_mapping = tls_mapping, ch_native_tls_mapping_size = tls_mapping_size,
                                    ch_native_tls_base = tls_base, ch_mapping = handoff,
                                    ch_mapping_size = handoff_mapping_size, ch_foreign_stack = foreign_stack,
                                    ch_foreign_tls = foreign_tls\<rparr>, slot))))))"

subsection \<open>The entry of the child\<close>

text \<open>What a new monitor thread starts without: the stack of its entry and its alternate signal stack.\<close>

record monitor_entry_stack =
  poly_monitor_entry_stack_mapping :: u64
  poly_monitor_entry_stack_mapping_size :: u64
  poly_monitor_entry_stack_prefaulted :: bool

definition poly_reset_monitor_thread_runtime_caches ::
    "signal_state \<times> monitor_entry_stack \<Rightarrow> signal_state \<times> monitor_entry_stack" where
  "poly_reset_monitor_thread_runtime_caches w =
     ((fst w)\<lparr>poly_runtime_signal_alt_stack_installed := False\<rparr>,
      \<lparr>poly_monitor_entry_stack_mapping = 0, poly_monitor_entry_stack_mapping_size = 0,
       poly_monitor_entry_stack_prefaulted = False\<rparr>)"

definition poly_clone_child_entry ::
    "clone_machine \<Rightarrow> poly_clone_child_handoff \<Rightarrow> signal_state \<times> monitor_entry_stack \<Rightarrow>
     (signal_state \<times> monitor_entry_stack) \<times> trap_outcome" where
  "poly_clone_child_entry m handoff w =
     (let key = sk_explicit_key (xs_state_key (ch_state handoff)) in
      if polyexec_use_explicit_state_key m \<and> (key = 0 \<or> poly_state_key_set m key \<noteq> 0) then (w, Exit_group 125)
      else
        (poly_reset_monitor_thread_runtime_caches w,
         if \<not> signal_diagnostics_installed m then Exit_group 125
         else if \<not> poly_monitor_entry_accepted (cm_trap m) then Exit_group 125
         else poly_activate_state_with_pderive (tm_signals (cm_trap m))
                (poly_sanitize_trap_state_for_import (ch_state handoff))))"

end
