(* ===== verification/Trap_Dispatch.thy ===== *)
theory Trap_Dispatch
  imports Clone_Handoff Exec_Handoff Seccomp
begin

text \<open>
  The trap vector, \<open>poly_trap_vector_dispatch\<close> of \<open>tools/runtime/polyexec.c\<close>: a trap
  record goes through the filter, the return from a signal handler, the structured
  system calls, the number table, program execution, exit, filter control, the
  disabled calls and cloning before it reaches the host, and the result goes to the
  trap return. Tracing output is left out, its effects on the state are not.
\<close>

subsection \<open>Bookkeeping\<close>

record event_counts =
  poly_event_count :: u64
  poly_event_syscall_aarch64_count :: u64
  poly_event_syscall_riscv_count :: u64
  poly_event_break_aarch64_count :: u64
  poly_event_break_riscv_count :: u64
  poly_event_import_count :: u64
  poly_event_illegal_count :: u64
  poly_event_other_count :: u64

definition count_event :: "poly_runtime_event_record \<Rightarrow> event_counts \<Rightarrow> event_counts" where
  "count_event packet counts =
     (let c = counts\<lparr>poly_event_count := poly_event_count counts + 1\<rparr>;
          reason = ev_reason packet; mode = ev_mode packet
      in if reason = POLY_TRAP_SYSCALL \<and> mode = POLY_MODE_RAW_AARCH64
         then c\<lparr>poly_event_syscall_aarch64_count := poly_event_syscall_aarch64_count c + 1\<rparr>
         else if reason = POLY_TRAP_SYSCALL \<and> mode = POLY_MODE_RAW_RISCV
         then c\<lparr>poly_event_syscall_riscv_count := poly_event_syscall_riscv_count c + 1\<rparr>
         else if reason = POLY_TRAP_BREAK \<and> mode = POLY_MODE_RAW_AARCH64
         then c\<lparr>poly_event_break_aarch64_count := poly_event_break_aarch64_count c + 1\<rparr>
         else if reason = POLY_TRAP_BREAK \<and> mode = POLY_MODE_RAW_RISCV
         then c\<lparr>poly_event_break_riscv_count := poly_event_break_riscv_count c + 1\<rparr>
         else if reason = POLY_TRAP_IMPORT
         then c\<lparr>poly_event_import_count := poly_event_import_count c + 1\<rparr>
         else if reason = POLY_TRAP_ILLEGAL
         then c\<lparr>poly_event_illegal_count := poly_event_illegal_count c + 1\<rparr>
         else c\<lparr>poly_event_other_count := poly_event_other_count c + 1\<rparr>)"

text \<open>The summary counts calls by foreign number and by host call.\<close>

record syscall_summary =
  poly_syscall_summary_total :: u64
  poly_syscall_summary_errors :: u64
  poly_syscall_summary_aarch64 :: "u64 \<Rightarrow> u64"
  poly_syscall_summary_error_aarch64 :: "u64 \<Rightarrow> u64"
  poly_syscall_summary_x86 :: "x86_syscall \<Rightarrow> u64"

definition poly_record_syscall_result ::
    "bool \<Rightarrow> poly_runtime_event_record \<Rightarrow> x86_syscall option \<Rightarrow> u64 \<Rightarrow> syscall_summary \<Rightarrow> syscall_summary" where
  "poly_record_syscall_result enabled packet x86_number result tally =
     (if \<not> enabled \<or> ev_reason packet \<noteq> POLY_TRAP_SYSCALL then tally
      else
        (let n = ev_number packet; failed = (result <s 0);
             count = (\<lambda>f k. f(k := f k + 1));
             tally = tally\<lparr>poly_syscall_summary_total := poly_syscall_summary_total tally + 1\<rparr>;
             tally = (if ev_mode packet = POLY_MODE_RAW_AARCH64 \<and> n < 512
                    then tally\<lparr>poly_syscall_summary_aarch64 := count (poly_syscall_summary_aarch64 tally) n,
                      poly_syscall_summary_error_aarch64 :=
                        if failed then count (poly_syscall_summary_error_aarch64 tally) n
                        else poly_syscall_summary_error_aarch64 tally\<rparr>
                    else tally);
             tally = (case x86_number of None \<Rightarrow> tally
                    | Some name \<Rightarrow> tally\<lparr>poly_syscall_summary_x86 := (poly_syscall_summary_x86 tally)
                        (name := poly_syscall_summary_x86 tally name + 1)\<rparr>)
         in if failed then tally\<lparr>poly_syscall_summary_errors := poly_syscall_summary_errors tally + 1\<rparr> else tally))"

definition poly_fd_returning_x86_syscall :: "x86_syscall \<Rightarrow> bool" where
  "poly_fd_returning_x86_syscall x86_number \<longleftrightarrow>
     x86_number \<in> set [''accept'', ''accept4'', ''epoll_create1'', ''eventfd2'', ''inotify_init1'', ''memfd_create'',
       ''openat'', ''openat2'', ''pidfd_open'', ''socket'', ''timerfd_create'']"

definition poly_clear_stdin_tiocgwinsz_cache :: "linux_state \<Rightarrow> linux_state" where
  "poly_clear_stdin_tiocgwinsz_cache s = s\<lparr>poly_tiocgwinsz_stdin_enotty_cached := False\<rparr>"

text \<open>A call that may change what standard input is clears the cached answer about it.\<close>

definition poly_note_syscall_fd_effect ::
    "poly_runtime_event_record \<Rightarrow> x86_syscall option \<Rightarrow> u64 \<Rightarrow> linux_state \<Rightarrow> linux_state" where
  "poly_note_syscall_fd_effect packet x86_number result s =
     (let n = ev_number packet; args = ev_args packet; clear = poly_clear_stdin_tiocgwinsz_cache s in
      if \<not> poly_tiocgwinsz_stdin_enotty_cached s \<or> result <s 0 then s
      else if (n = 57 \<or> x86_number = Some ''close'') \<and> args ! 0 = 0 then clear
      else if (n = 436 \<or> x86_number = Some ''close_range'') \<and> args ! 0 \<le> 0 \<and> args ! 1 \<ge> 0 then clear
      else if n = 23 \<or> x86_number = Some ''dup'' \<or>
              (case x86_number of None \<Rightarrow> False | Some name \<Rightarrow> poly_fd_returning_x86_syscall name) \<or>
              n = 20 \<or> n = 26 \<or> n = 56 \<or> n = 198 \<or> n = 437
      then (if result = 0 then clear else s)
      else if n = 24 \<or> x86_number = Some ''dup3'' then (if args ! 1 = 0 \<or> result = 0 then clear else s)
      else if (n = 25 \<or> x86_number = Some ''fcntl'') \<and> (args ! 1 = 0 \<or> args ! 1 = 1030) \<and> result = 0 then clear
      else if n = 59 \<or> x86_number = Some ''pipe2'' then clear
      else s)"

subsection \<open>The monitor\<close>

record monitor_state =
  mon_linux :: linux_state
  mon_signals :: signal_state
  mon_seccomp :: seccomp_state
  mon_counts :: event_counts
  mon_summary :: syscall_summary
  poly_v2_last_event_sequence :: u64
  poly_process_terminal_exit_code :: u64

text \<open>
  The host and the hardware: what they answer, the image they export, and whether
  the finalizers of the program succeed. \<open>mh_execve\<close> is the error number of a failed
  execution.
\<close>

record monitor_host =
  mh_os :: host_os
  mh_kernel :: host_kernel
  mh_exec :: exec_host
  mh_execve :: "exec_string list \<Rightarrow> exec_string list \<Rightarrow> guest_memory \<Rightarrow> u64 option"
  mh_config :: call_config
  mh_has :: "x86_syscall \<Rightarrow> bool"
  mh_clone :: clone_machine
  mh_byte_order :: byte_order
  poly_syscall_summary_enabled :: bool
  run_process_exit_finalizers :: bool
  poly_state_export :: poly_xsave_state

abbreviation (input) mh_trap :: "monitor_host \<Rightarrow> trap_machine" where "mh_trap h \<equiv> cm_trap (mh_clone h)"
abbreviation (input) mh_signals :: "monitor_host \<Rightarrow> signal_machine" where "mh_signals h \<equiv> tm_signals (mh_trap h)"
abbreviation (input) mon_memory :: "monitor_state \<Rightarrow> guest_memory" where "mon_memory mon \<equiv> ls_memory (mon_linux mon)"

datatype dispatch_outcome =
    Trap_left trap_outcome
  | Exit_thread u64
  | Process_ended u64
  | Process_replaced "exec_string list" "exec_string list"

definition poly_trace_syscall_result ::
    "monitor_host \<Rightarrow> poly_runtime_event_record \<Rightarrow> x86_syscall option \<Rightarrow> u64 \<Rightarrow> monitor_state \<Rightarrow> monitor_state" where
  "poly_trace_syscall_result h packet x86_number result mon =
     (let s = poly_note_syscall_fd_effect packet x86_number result (mon_linux mon);
          args = ev_args packet;
          s = (if ev_number packet = 56 \<and> args ! 1 \<noteq> 0
               then fst (poly_translate_open_flags (mh_os h) (args ! 2) (ev_mode packet) (args ! 0) (args ! 1) s) else s)
      in mon\<lparr>mon_linux := s,
           mon_summary := poly_record_syscall_result (poly_syscall_summary_enabled h) packet x86_number result
             (mon_summary mon)\<rparr>)"

definition return_result ::
    "monitor_host \<Rightarrow> poly_runtime_event_record \<Rightarrow> poly_xsave_state option \<Rightarrow> u64 \<Rightarrow> monitor_state \<Rightarrow>
     monitor_state \<times> dispatch_outcome" where
  "return_result h packet trap_state result mon =
     (case poly_trap_vector_return_result (mh_trap h) (poly_v2_last_event_sequence mon) result packet trap_state
             (mon_signals mon, mon_memory mon) of
        ((st, gm), outcome) \<Rightarrow>
          (mon\<lparr>mon_signals := st, mon_linux := (mon_linux mon)\<lparr>ls_memory := gm\<rparr>\<rparr>, Trap_left outcome))"

definition answer_call ::
    "monitor_host \<Rightarrow> poly_runtime_event_record \<Rightarrow> poly_xsave_state option \<Rightarrow> x86_syscall option \<Rightarrow> u64 \<Rightarrow> monitor_state \<Rightarrow>
     monitor_state \<times> dispatch_outcome" where
  "answer_call h packet trap_state x86_number result mon =
     return_result h packet trap_state result (poly_trace_syscall_result h packet x86_number result mon)"

subsection \<open>Stages of a system call\<close>

definition rt_sigreturn_call ::
    "monitor_host \<Rightarrow> poly_runtime_event_record \<Rightarrow> poly_xsave_state option \<Rightarrow> monitor_state \<Rightarrow> monitor_state \<times> dispatch_outcome" where
  "rt_sigreturn_call h packet trap_state mon =
     (let handle = (if ev_mode packet = POLY_MODE_RAW_AARCH64 then poly_handle_aarch64_rt_sigreturn
                    else poly_handle_riscv_rt_sigreturn)
      in case handle (mh_signals h) (trap_state \<noteq> None)
                (case trap_state of Some state \<Rightarrow> state | None \<Rightarrow> poly_state_export h, mon_signals mon, mon_memory mon) of
           ((state, st, gm), result) \<Rightarrow>
             answer_call h packet (map_option (\<lambda>_. state) trap_state) None result
               (mon\<lparr>mon_signals := st, mon_linux := (mon_linux mon)\<lparr>ls_memory := gm\<rparr>\<rparr>))"

text \<open>\<open>None\<close> is a handler that does not return, and \<open>Some None\<close> a call left to the next stage.\<close>

definition execve_call ::
    "monitor_host \<Rightarrow> poly_runtime_event_record \<Rightarrow> poly_xsave_state option \<Rightarrow> x86_syscall \<Rightarrow> monitor_state \<Rightarrow>
     (monitor_state \<times> dispatch_outcome) option option" where
  "execve_call h packet trap_state x86_number mon =
     (let args = ev_args packet; failed = (\<lambda>r. Some (Some (answer_call h packet trap_state (Some x86_number) r mon))) in
      if ev_mode packet = POLY_MODE_RAW_AARCH64 \<and> x86_number = ''execve'' then
        (case poly_handle_raw_aarch64_execve (mh_exec h)
                (polyexec_protect_runtime_signals (cc_signals (mh_config h))) (mon_memory mon)
                (args ! 0) (args ! 1) (args ! 2) of
           None \<Rightarrow> None
         | Some Passed_on \<Rightarrow> Some None
         | Some (Exec_failed r) \<Rightarrow> failed r
         | Some (Exec_now argv envp) \<Rightarrow>
             (case mh_execve h argv envp (mon_memory mon) of
                None \<Rightarrow> Some (Some (mon, Process_replaced argv envp))
              | Some e \<Rightarrow> failed (- e)))
      else Some None)"

definition exit_call ::
    "monitor_host \<Rightarrow> poly_runtime_event_record \<Rightarrow> x86_syscall \<Rightarrow> monitor_state \<Rightarrow> monitor_state \<times> dispatch_outcome option" where
  "exit_call h packet x86_number mon =
     (let code = ev_args packet ! 0;
          (mon, thread) =
            (if x86_number = ''exit'' then
               (case poly_x86_syscall6 (mh_os h) ''getpid'' [0, 0, 0, 0, 0, 0] (mon_linux mon) of
                  (s, pid) \<Rightarrow>
                    (case poly_x86_syscall6 (mh_os h) ''gettid'' [0, 0, 0, 0, 0, 0] s of
                       (s, tid) \<Rightarrow> (mon\<lparr>mon_linux := s\<rparr>, pid \<noteq> tid)))
             else (mon, False))
      in if thread then (mon, Some (Exit_thread code))
         else if x86_number = ''exit'' \<or> x86_number = ''exit_group'' then
           (let code = (if run_process_exit_finalizers h then code else 125)
            in (mon\<lparr>mon_summary := poly_record_syscall_result (poly_syscall_summary_enabled h) packet (Some x86_number) 0
                      (mon_summary mon), poly_process_terminal_exit_code := code\<rparr>,
                Some (Process_ended code)))
         else (mon, None))"

definition poly_is_io_uring_syscall :: "x86_syscall \<Rightarrow> bool" where
  "poly_is_io_uring_syscall x86_number \<longleftrightarrow>
     x86_number \<in> set [''io_uring_setup'', ''io_uring_enter'', ''io_uring_register'']"

text \<open>The arguments of the host's \<open>clone\<close>, and \<open>None\<close> where memory or the machine refuses.\<close>

definition clone_arguments ::
    "monitor_host \<Rightarrow> poly_runtime_event_record \<Rightarrow> poly_xsave_state option \<Rightarrow> linux_state \<Rightarrow>
     linux_state \<times> (u64 list \<times> poly_clone_child_handoff) option" where
  "clone_arguments h packet trap_state s =
     (let args = ev_args packet; flags = args ! 0; child_stack = args ! 1;
          foreign_tls = (if flags AND 0x80000 \<noteq> 0 then args ! 3 else 0);
          vfork = (child_stack \<noteq> 0 \<and> flags AND 0x100 \<noteq> 0 \<and> flags AND 0x4000 \<noteq> 0 \<and> flags AND 0x10000 = 0)
      in case (if vfork then poly_prepare_vfork_foreign_stack (mh_os h) child_stack s else (s, Some child_stack)) of
           (s, None) \<Rightarrow> (s, None)
         | (s, Some child_stack) \<Rightarrow>
             (case trap_state of
                None \<Rightarrow> (s, None)
              | Some state \<Rightarrow>
                  (case poly_prepare_clone_child_handoff (mh_os h) (mh_clone h) packet state child_stack foreign_tls s of
                     (s, None) \<Rightarrow> (s, None)
                   | (s, Some (handoff, native_stack)) \<Rightarrow>
                       (let base = ch_native_tls_base handoff;
                            flags = (if base \<noteq> 0 then flags OR 0x80000 else flags AND NOT 0x80000)
                        in (s, Some ([flags, native_stack, args ! 2, args ! 4,
                                      if flags AND 0x80000 \<noteq> 0 then base else 0], handoff))))))"

definition host_call_stage ::
    "monitor_host \<Rightarrow> poly_runtime_event_record \<Rightarrow> poly_xsave_state option \<Rightarrow> x86_syscall \<Rightarrow> monitor_state \<Rightarrow>
     monitor_state \<times> dispatch_outcome" where
  "host_call_stage h packet trap_state x86_number mon =
     (let done_with = (\<lambda>(s, r). answer_call h packet trap_state (Some x86_number) r (mon\<lparr>mon_linux := s\<rparr>)) in
      if x86_number = ''clone3'' then
        done_with (mon_linux mon, if ev_args packet ! 1 > 4096 then - 7 else - ENOSYS)
      else if x86_number = ''clone'' then
        (case clone_arguments h packet trap_state (mon_linux mon) of
           (s, None) \<Rightarrow> done_with (s, - ENOMEM)
         | (s, Some (args, handoff)) \<Rightarrow> done_with (poly_x86_syscall6 (mh_os h) ''clone'' args s))
      else done_with (poly_x86_syscall6 (mh_os h) x86_number (take 6 (ev_args packet)) (mon_linux mon)))"

text \<open>The stages behind the number table.\<close>

definition mapped_call ::
    "monitor_host \<Rightarrow> poly_runtime_event_record \<Rightarrow> poly_xsave_state option \<Rightarrow> x86_syscall \<Rightarrow> monitor_state \<Rightarrow>
     (monitor_state \<times> dispatch_outcome) option" where
  "mapped_call h packet trap_state x86_number mon =
     (case execve_call h packet trap_state x86_number mon of
        None \<Rightarrow> None
      | Some (Some r) \<Rightarrow> Some r
      | Some None \<Rightarrow>
          Some
            (case exit_call h packet x86_number mon of
               (mon, Some outcome) \<Rightarrow> (mon, outcome)
             | (mon, None) \<Rightarrow>
                 (case poly_seccomp_dispatch_control (mon_memory mon) packet x86_number (mon_seccomp mon) of
                    Some (st, r) \<Rightarrow> answer_call h packet trap_state (Some x86_number) r (mon\<lparr>mon_seccomp := st\<rparr>)
                  | None \<Rightarrow>
                      if poly_disable_io_uring_enabled (mh_config h) \<and> poly_is_io_uring_syscall x86_number \<or>
                         poly_disable_rseq_enabled (mh_config h) \<and> x86_number = ''rseq''
                      then answer_call h packet trap_state (Some x86_number) (- ENOSYS) mon
                      else host_call_stage h packet trap_state x86_number mon)))"

definition foreign_syscall ::
    "monitor_host \<Rightarrow> poly_runtime_event_record \<Rightarrow> poly_xsave_state option \<Rightarrow> monitor_state \<Rightarrow>
     (monitor_state \<times> dispatch_outcome) option" where
  "foreign_syscall h packet trap_state mon =
     (case poly_seccomp_preflight_syscall packet (mon_seccomp mon) of
        (st, Some r) \<Rightarrow> Some (answer_call h packet trap_state None r (mon\<lparr>mon_seccomp := st\<rparr>))
      | (st, None) \<Rightarrow>
          (let mon = mon\<lparr>mon_seccomp := st\<rparr> in
           if ev_number packet = 139 then Some (rt_sigreturn_call h packet trap_state mon)
           else
             (case poly_handle_structured_foreign_syscall (mh_signals h) (mh_os h) (mh_kernel h) (mh_config h)
                     (ev_number packet) (ev_mode packet) (take 6 (ev_args packet)) (mon_linux mon, mon_signals mon) of
                None \<Rightarrow> None
              | Some ((s, st), Some r) \<Rightarrow>
                  Some (answer_call h packet trap_state None r (mon\<lparr>mon_linux := s, mon_signals := st\<rparr>))
              | Some ((s, st), None) \<Rightarrow>
                  (let mon = mon\<lparr>mon_linux := s, mon_signals := st\<rparr> in
                   case poly_generic_linux_syscall_to_x86 (mh_has h) (ev_number packet) of
                     None \<Rightarrow>
                       Some (return_result h packet trap_state (- ENOSYS)
                         (mon\<lparr>mon_summary := poly_record_syscall_result (poly_syscall_summary_enabled h) packet None
                                (- ENOSYS) (mon_summary mon)\<rparr>))
                   | Some x86_number \<Rightarrow> mapped_call h packet trap_state x86_number mon))))"

subsection \<open>The trap vector\<close>

definition dispatch_packet ::
    "monitor_host \<Rightarrow> poly_runtime_event_record \<Rightarrow> monitor_state \<Rightarrow> (monitor_state \<times> dispatch_outcome) option" where
  "dispatch_packet h packet mon =
     (let trap_state = (if ev_flags packet AND POLY_EVENT_RECORD_FLAG_TRAP_RETURN_RESTORE \<noteq> 0
                        then Some (poly_state_export h) else None);
          mon = mon\<lparr>mon_counts := count_event packet (mon_counts mon)\<rparr>
      in if \<not> poly_is_raw_foreign_mode (ev_mode packet)
         then Some (return_result h packet trap_state (- ENOSYS) mon)
         else if ev_reason packet = POLY_TRAP_SYSCALL then foreign_syscall h packet trap_state mon
         else if ev_reason packet = POLY_TRAP_BREAK then
           Some (return_result h packet trap_state
                   (0x4c000000 OR push_bit 8 (ev_mode packet) OR ev_number packet) mon)
         else if ev_reason packet = POLY_TRAP_IMPORT then
           map_option (\<lambda>(gm, r). return_result h packet trap_state r
                         (mon\<lparr>mon_linux := (mon_linux mon)\<lparr>ls_memory := gm\<rparr>\<rparr>))
             (poly_handle_foreign_import (mh_byte_order h) (ev_number packet) (ev_args packet) (mon_memory mon))
         else Some (return_result h packet trap_state (- ENOSYS) mon))"

definition poly_trap_vector_dispatch ::
    "monitor_host \<Rightarrow> poly_v2_event_frame \<Rightarrow> poly_monitor_entry_frame \<Rightarrow> monitor_state \<Rightarrow>
     (monitor_state \<times> dispatch_outcome) option" where
  "poly_trap_vector_dispatch h event_frame monitor_frame mon =
     (case trap_packet event_frame monitor_frame of
        None \<Rightarrow> Some (mon, Trap_left (Returned (- 5)))
      | Some (packet, sequence) \<Rightarrow> dispatch_packet h packet (mon\<lparr>poly_v2_last_event_sequence := sequence\<rparr>))"

end
