(* ===== verification/Clone_Policy.thy ===== *)
theory Clone_Policy
  imports Trap_Policy
begin

text \<open>
  What a new thread finds: its native thread-local storage is the parent's with every
  pointer into the parent's window moved, and its image carries nothing of the
  parent's trap.
\<close>

subsection \<open>Stores in a window\<close>

abbreviation (input) window_bytes :: nat where "window_bytes \<equiv> 524288"

definition outside_window :: "u64 \<Rightarrow> u64 \<Rightarrow> bool" where
  "outside_window m a \<longleftrightarrow> window_bytes \<le> unat (a - m)"

lemma unat_offset_diff:
  assumes "o' < window_bytes" "i < window_bytes"
  shows "unat ((m + of_nat i) - (m + of_nat o') :: u64) = (if o' \<le> i then i - o' else 2 ^ 64 - (o' - i))"
proof -
  have e: "(m + of_nat i) - (m + of_nat o') = (of_nat i - of_nat o' :: u64)" by simp
  have u: "unat (of_nat i :: u64) = i" "unat (of_nat o' :: u64) = o'"
    using assms by (simp_all add: unat_of_nat take_bit_nat_eq_self)
  show ?thesis unfolding e unat_sub_if_size u word_size using assms by auto
qed

lemma gm_byte_store:
  "gm_byte (guest_store gm a bs) x = (if unat (x - a) < length bs then bs ! unat (x - a) else gm_byte gm x)"
  by (simp add: guest_store_def)

lemma store_inside:
  assumes "o' + length bs \<le> window_bytes" "i < window_bytes"
  shows "gm_byte (guest_store gm (m + of_nat o') bs) (m + of_nat i) =
    (if o' \<le> i \<and> i < o' + length bs then bs ! (i - o') else gm_byte gm (m + of_nat i))"
proof (cases "bs = []")
  case False
  then have "o' < window_bytes" using assms(1) by (cases bs) auto
  then show ?thesis
    unfolding gm_byte_store unat_offset_diff[OF \<open>o' < window_bytes\<close> assms(2)] using assms by (cases "o' \<le> i") auto
qed (auto simp: gm_byte_store)

lemma store_outside:
  assumes "o' + length bs \<le> window_bytes" "outside_window m a"
  shows "gm_byte (guest_store gm (m + of_nat o') bs) a = gm_byte gm a"
proof -
  have o: "unat (of_nat o' :: u64) = o'" using assms(1) by (simp add: unat_of_nat take_bit_nat_eq_self)
  have "a - (m + of_nat o') = (a - m) - of_nat o'" by simp
  moreover have "(of_nat o' :: u64) \<le> a - m" using assms o unfolding outside_window_def by (simp add: word_le_nat_alt)
  ultimately have "unat (a - (m + of_nat o')) = unat (a - m) - o'" using o by (simp only: unat_sub)
  then have "\<not> unat (a - (m + of_nat o')) < length bs" using assms unfolding outside_window_def by linarith
  then show ?thesis by (simp add: guest_store_def)
qed

subsection \<open>Words in the window\<close>

lemma nth_guest_bytes: "i < n \<Longrightarrow> guest_bytes gm p n ! i = gm_byte gm (p + of_nat i)"
  by (simp add: guest_bytes_def)

definition slot_word :: "u64 \<Rightarrow> guest_memory \<Rightarrow> nat \<Rightarrow> u64" where
  "slot_word m gm k = load_u64 gm (m + of_nat (8 * k))"

lemma slot_word_cong:
  assumes "\<And>i. i < 8 \<Longrightarrow> gm_byte gm (m + of_nat (8 * k + i)) = gm_byte gm' (s + of_nat (8 * j + i))"
  shows "slot_word m gm k = slot_word s gm' j"
  unfolding slot_word_def load_u64_def guest_bytes_def
  by (rule arg_cong[of _ _ read_u64_le], rule map_cong) (use assms in \<open>auto simp: algebra_simps\<close>)

lemma slot_word_store:
  assumes "j < 65536" "k < 65536"
  shows "slot_word m (guest_store gm (m + of_nat (8 * j)) (le_bytes 8 v)) k = (if k = j then v else slot_word m gm k)"
proof (cases "k = j")
  case True
  have "guest_bytes (guest_store gm (m + of_nat (8 * j)) (le_bytes 8 v)) (m + of_nat (8 * j)) 8 = le_bytes 8 v"
    by (rule guest_bytes_store_exact) simp_all
  then show ?thesis using True read_u64_le_bytes[of v "[]"] by (simp add: slot_word_def load_u64_def)
next
  case False
  have "slot_word m (guest_store gm (m + of_nat (8 * j)) (le_bytes 8 v)) k = slot_word m gm k"
  proof (rule slot_word_cong)
    fix i :: nat assume i: "i < 8"
    then have "\<not> (8 * j \<le> 8 * k + i \<and> 8 * k + i < 8 * j + 8)" using False by linarith
    then show "gm_byte (guest_store gm (m + of_nat (8 * j)) (le_bytes 8 v)) (m + of_nat (8 * k + i)) = gm_byte gm (m + of_nat (8 * k + i))"
      using assms i by (subst store_inside) auto
  qed
  then show ?thesis using False by (simp only: if_False)
qed

lemma slot_word_page:
  assumes "n < 128" "k < 65536"
  shows "slot_word m (guest_store gm (m + of_nat (4096 * n)) (guest_bytes gm' s 4096)) k =
    (if k div 512 = n then slot_word s gm' (k mod 512) else slot_word m gm k)"
proof (cases "k div 512 = n")
  case True
  define r where "r = k mod 512"
  have k: "k = 512 * n + r" "r < 512" using True by (auto simp: r_def)
  have "slot_word m (guest_store gm (m + of_nat (4096 * n)) (guest_bytes gm' s 4096)) k = slot_word s gm' r"
  proof (rule slot_word_cong)
    fix i :: nat assume i: "i < 8"
    have a: "8 * k + i - 4096 * n = 8 * r + i" "4096 * n \<le> 8 * k + i" "8 * k + i < 4096 * n + 4096" "8 * r + i < 4096"
      using k i by simp_all
    have "4096 * n + length (guest_bytes gm' s 4096) \<le> window_bytes" "8 * k + i < window_bytes" using assms i by simp_all
    from store_inside[OF this, of gm m]
    have "gm_byte (guest_store gm (m + of_nat (4096 * n)) (guest_bytes gm' s 4096)) (m + of_nat (8 * k + i)) =
        guest_bytes gm' s 4096 ! (8 * r + i)" using a(2,3) by (simp only: length_guest_bytes a(1) simp_thms if_True)
    then show "gm_byte (guest_store gm (m + of_nat (4096 * n)) (guest_bytes gm' s 4096)) (m + of_nat (8 * k + i)) =
        gm_byte gm' (s + of_nat (8 * r + i))"
      unfolding nth_guest_bytes[OF a(4)] .
  qed
  then show ?thesis using True by (simp only: r_def if_True simp_thms)
next
  case False
  have "slot_word m (guest_store gm (m + of_nat (4096 * n)) (guest_bytes gm' s 4096)) k = slot_word m gm k"
  proof (rule slot_word_cong)
    fix i :: nat assume i: "i < 8"
    have "(8 * k + i) div 4096 = k div 512" using i div_mult2_eq[of "8 * k + i" 8 512] by simp
    then have "\<not> (4096 * n \<le> 8 * k + i \<and> 8 * k + i < 4096 * n + 4096)"
      using False by (metis add.commute div_nat_eqI mult.commute mult_Suc)
    then show "gm_byte (guest_store gm (m + of_nat (4096 * n)) (guest_bytes gm' s 4096)) (m + of_nat (8 * k + i)) =
        gm_byte gm (m + of_nat (8 * k + i))"
      using assms i by (subst store_inside) auto
  qed
  then show ?thesis using False by (simp only: if_False)
qed

subsection \<open>Copying the parent's window\<close>

text \<open>The windows of parent and child are apart and do not wrap around.\<close>

definition windows_apart :: "u64 \<Rightarrow> u64 \<Rightarrow> bool" where
  "windows_apart m sb \<longleftrightarrow> unat sb + window_bytes < 2 ^ 64 \<and> unat m + window_bytes \<le> 2 ^ 64 \<and>
     (unat sb + window_bytes \<le> unat m \<or> unat m + window_bytes \<le> unat sb)"

lemma parent_outside:
  assumes "windows_apart m sb" "i < window_bytes"
  shows "outside_window m (sb + of_nat i)"
proof -
  have "unat (of_nat i :: u64) = i" using assms(2) by (simp add: unat_of_nat take_bit_nat_eq_self)
  then have s: "unat (sb + of_nat i) = unat sb + i"
    using assms by (simp add: windows_apart_def unat_word_ariths)
  show ?thesis
    unfolding outside_window_def unat_sub_if_size s word_size using assms unfolding windows_apart_def by auto
qed

definition parent_word :: "guest_memory \<Rightarrow> u64 \<Rightarrow> nat \<Rightarrow> u64" where
  "parent_word gm sb k =
     (if sb \<noteq> 0 \<and> poly_guest_range_is_mapped gm (sb + of_nat (k div 512) * 4096) 4096 False
      then load_u64 gm (sb + of_nat (8 * k)) else 0)"

lemma slot_word_shift: "slot_word (s + of_nat n * 4096) gm (k mod 512) = load_u64 gm (s + of_nat (8 * k))" if "k div 512 = n"
proof -
  have "8 * k = 8 * (512 * (k div 512) + k mod 512)" by simp
  then have "8 * k = 4096 * n + 8 * (k mod 512)" unfolding that distrib_left by simp
  then have "s + of_nat (8 * k) = s + of_nat n * 4096 + of_nat (8 * (k mod 512))" by (simp only: of_nat_add of_nat_mult) simp
  then show ?thesis by (simp only: slot_word_def)
qed

lemma copy_page_words:
  assumes "n < 128" "k < 65536" "windows_apart m sb"
  shows "slot_word m (copy_tls_page m sb n gm) k = (if k div 512 = n \<and> sb \<noteq> 0 \<and>
      poly_guest_range_is_mapped gm (sb + of_nat n * 4096) 4096 False
      then load_u64 gm (sb + of_nat (8 * k)) else slot_word m gm k)"
proof -
  have "unat (of_nat n * 4096 :: u64) = n * 4096" using assms(1) by (simp add: unat_word_ariths unat_of_nat take_bit_nat_eq_self)
  then have "unat (sb + of_nat n * 4096) = unat sb + n * 4096"
    using assms(1,3) by (simp add: windows_apart_def unat_word_ariths)
  then have w: "\<not> sb + of_nat n * 4096 < sb" by (simp add: word_less_nat_alt)
  have at: "m + of_nat n * 4096 = m + of_nat (4096 * n)" by simp
  show ?thesis
    unfolding copy_tls_page_def Let_def at using w slot_word_page[OF assms(1,2)] slot_word_shift[of k n sb gm]
    by (auto simp only: if_True if_False simp_thms split: if_split)
qed

lemma copy_page_frame:
  assumes "n < 128"
  shows "outside_window m a \<Longrightarrow> gm_byte (copy_tls_page m sb n gm) a = gm_byte gm a"
    "poly_guest_range_is_mapped (copy_tls_page m sb n gm) = poly_guest_range_is_mapped gm"
proof -
  have at: "m + of_nat n * 4096 = m + of_nat (4096 * n)" by simp
  show "outside_window m a \<Longrightarrow> gm_byte (copy_tls_page m sb n gm) a = gm_byte gm a"
    unfolding copy_tls_page_def Let_def at using assms store_outside[of "4096 * n" "guest_bytes gm (sb + of_nat n * 4096) 4096" m a gm]
    by (simp del: of_nat_mult)
  show "poly_guest_range_is_mapped (copy_tls_page m sb n gm) = poly_guest_range_is_mapped gm"
    by (intro ext) (simp add: copy_tls_page_def Let_def)
qed

lemma load_outside:
  assumes "windows_apart m sb" "\<And>a. outside_window m a \<Longrightarrow> gm_byte gm' a = gm_byte gm a" "k < 65536"
  shows "load_u64 gm' (sb + of_nat (8 * k)) = load_u64 gm (sb + of_nat (8 * k))"
proof -
  have "gm_byte gm' (sb + of_nat (8 * k + i)) = gm_byte gm (sb + of_nat (8 * k + i))" if "i < 8" for i
    using assms(3) that by (intro assms(2) parent_outside[OF assms(1)]) simp
  then show ?thesis using slot_word_cong[of gm' sb k gm sb k] by (simp only: slot_word_def)
qed

lemma copy_pages:
  assumes "windows_apart m sb" "n \<le> 128"
  shows "(\<forall>k < 65536. slot_word m (fold (copy_tls_page m sb) [0..<n] gm) k =
      (if k div 512 < n \<and> sb \<noteq> 0 \<and> poly_guest_range_is_mapped gm (sb + of_nat (k div 512) * 4096) 4096 False
       then load_u64 gm (sb + of_nat (8 * k)) else slot_word m gm k)) \<and>
    (\<forall>a. outside_window m a \<longrightarrow> gm_byte (fold (copy_tls_page m sb) [0..<n] gm) a = gm_byte gm a) \<and>
    poly_guest_range_is_mapped (fold (copy_tls_page m sb) [0..<n] gm) = poly_guest_range_is_mapped gm"
  using assms(2)
proof (induction n)
  case 0
  then show ?case by simp
next
  case (Suc n)
  let ?g = "fold (copy_tls_page m sb) [0..<n] gm"
  have IH: "\<And>k. k < 65536 \<Longrightarrow> slot_word m ?g k =
      (if k div 512 < n \<and> sb \<noteq> 0 \<and> poly_guest_range_is_mapped gm (sb + of_nat (k div 512) * 4096) 4096 False
       then load_u64 gm (sb + of_nat (8 * k)) else slot_word m gm k)"
    "\<And>a. outside_window m a \<Longrightarrow> gm_byte ?g a = gm_byte gm a" "poly_guest_range_is_mapped ?g = poly_guest_range_is_mapped gm"
    using Suc by auto
  have n: "n < 128" using Suc.prems by simp
  have "slot_word m (copy_tls_page m sb n ?g) k =
      (if k div 512 < Suc n \<and> sb \<noteq> 0 \<and> poly_guest_range_is_mapped gm (sb + of_nat (k div 512) * 4096) 4096 False
       then load_u64 gm (sb + of_nat (8 * k)) else slot_word m gm k)" if k: "k < 65536" for k
    using load_outside[OF assms(1) IH(2) k]
    unfolding copy_page_words[OF n k assms(1)] IH(1)[OF k] IH(3) by (auto simp: less_Suc_eq)
  then show ?case using IH(2,3) copy_page_frame[OF n] by simp
qed

subsection \<open>Moving the pointers\<close>

lemma rehome_slot_words:
  assumes "n < 65536" "k < 65536"
  shows "slot_word m (rehome_slot m sb (m + of_nat (8 * n)) gm) k =
    (if k = n then rehome m sb (slot_word m gm n) else slot_word m gm k)"
  using slot_word_store[OF assms, of m gm] unfolding rehome_slot_def Let_def slot_word_def[of m gm n, symmetric]
  by (auto simp only: rehome_def if_True if_False simp_thms split: if_split)

lemma rehome_slots:
  assumes "n \<le> 65536" "k < 65536"
  shows "slot_word m (fold (\<lambda>n. rehome_slot m sb (m + of_nat n * 8)) [0..<n] gm) k =
    (if k < n then rehome m sb (slot_word m gm k) else slot_word m gm k)"
  using assms(1)
proof (induction n)
  case 0
  then show ?case by simp
next
  case (Suc n)
  have at: "m + of_nat n * 8 = m + of_nat (8 * n)" by simp
  show ?case
    using Suc rehome_slot_words[of n k m sb] assms(2) unfolding upt_Suc_append[OF le0] fold_append comp_apply fold_simps at
    by (auto simp: less_Suc_eq)
qed

text \<open>A pointer is moved out of the parent's window, so moving it again changes nothing.\<close>

lemma rehome_leaves:
  assumes "windows_apart m sb"
  shows "\<not> (sb \<le> rehome m sb v \<and> rehome m sb v < sb + native_tls_size)"
proof (cases "sb \<le> v \<and> v < sb + native_tls_size")
  case True
  have e: "unat (sb + native_tls_size) = unat sb + window_bytes" using assms by (simp add: windows_apart_def unat_word_ariths)
  have "unat (v - sb) < window_bytes" using True e unat_sub[of sb v] by (auto simp: word_le_nat_alt word_less_nat_alt)
  then obtain i where i: "v - sb = of_nat i" "i < window_bytes" using that[of "unat (v - sb)"] by simp
  have u: "unat (of_nat i :: u64) = i" using i(2) by (simp add: unat_of_nat take_bit_nat_eq_self)
  have "unat (m + of_nat i) = unat m + i" using assms i(2) u by (simp add: windows_apart_def unat_word_ariths)
  then have "\<not> (unat sb \<le> unat (m + of_nat i) \<and> unat (m + of_nat i) < unat sb + window_bytes)"
    using assms i(2) by (auto simp: windows_apart_def)
  then show ?thesis using True i(1) by (simp add: rehome_def word_le_nat_alt word_less_nat_alt e)
next
  case False
  then show ?thesis by (simp only: rehome_def if_False simp_thms)
qed

lemma rehome_again: "windows_apart m sb \<Longrightarrow> rehome m sb (rehome m sb v) = rehome m sb v"
  using rehome_leaves[of m sb v] by (simp only: rehome_def[of m sb "rehome m sb v"] if_False)

lemma zeroed_words: "k < 65536 \<Longrightarrow> slot_word m (guest_store gm m (zero_bytes native_tls_size)) k = 0"
proof -
  assume k: "k < 65536"
  have "slot_word m (guest_store gm m (zero_bytes native_tls_size)) k = slot_word 0 (gm\<lparr>gm_byte := \<lambda>_. 0\<rparr>) 0"
  proof (rule slot_word_cong)
    fix i :: nat assume "i < 8"
    then have "8 * k + i < window_bytes" using k by simp
    then show "gm_byte (guest_store gm m (zero_bytes native_tls_size)) (m + of_nat (8 * k + i)) =
        gm_byte (gm\<lparr>gm_byte := \<lambda>_. 0\<rparr>) (0 + of_nat (8 * 0 + i))"
      using store_inside[of 0 "zero_bytes native_tls_size" "8 * k + i" gm m] by (simp add: zero_bytes_def del: of_nat_add of_nat_mult)
  qed
  also have "\<dots> = 0" by (simp add: slot_word_def load_u64_def guest_bytes_def read_u64_le_def upt_rec)
  finally show ?thesis .
qed

subsection \<open>The storage of the child\<close>

lemma fill_words:
  assumes "windows_apart m sb" "k < 65536"
  shows "slot_word m (fill_native_tls m sb gm) k =
    (if k = 32768 \<or> k = 32770 then m + 0x40000 else rehome m sb (parent_word gm sb k))"
proof -
  let ?z = "guest_store gm m (zero_bytes native_tls_size)"
  let ?c = "fold (copy_tls_page m sb) [0..<128] ?z"
  let ?r = "fold (\<lambda>n. rehome_slot m sb (m + of_nat n * 8)) [0..<65536] ?c"
  have out: "gm_byte ?z a = gm_byte gm a" if "outside_window m a" for a
    using store_outside[of 0 "zero_bytes native_tls_size" m a gm] that by (simp add: zero_bytes_def)
  have c: "slot_word m ?c k = parent_word gm sb k"
    using copy_pages[OF assms(1) order_refl, of ?z] assms(2) load_outside[OF assms(1) out assms(2)] zeroed_words[OF assms(2)]
    by (auto simp: parent_word_def)
  have r: "slot_word m ?r k = rehome m sb (parent_word gm sb k)"
    using rehome_slots[OF order_refl assms(2), of m sb ?c] c assms(2) by simp
  have at: "m + 0x40000 = m + of_nat (8 * 32768)" "m + 0x40000 + 8 = m + of_nat (8 * 32769)"
    "m + 0x40000 + 16 = m + of_nat (8 * 32770)" by simp_all
  let ?t = "m + of_nat (8 * 32768)"
  let ?g = "guest_store ?r ?t (le_bytes 8 ?t)"
  let ?h = "rehome_slot m sb (m + of_nat (8 * 32769)) ?g"
  have in_range: "(32768 :: nat) < 65536" "(32769 :: nat) < 65536" "(32770 :: nat) < 65536" by simp_all
  have fill: "fill_native_tls m sb gm = guest_store ?h (m + of_nat (8 * 32770)) (le_bytes 8 ?t)"
    unfolding fill_native_tls_def Let_def at(2,3) unfolding at(1) ..
  have tcb: "slot_word m ?h k = (if k = 32769 then rehome m sb (slot_word m ?r k) else slot_word m ?g k)"
    unfolding rehome_slot_words[OF in_range(2) assms(2)] slot_word_store[OF in_range(1,2)] by simp
  show ?thesis
    unfolding fill slot_word_store[OF in_range(3) assms(2)] tcb slot_word_store[OF in_range(1) assms(2)] r
    using rehome_again[OF assms(1)] by simp
qed

text \<open>
  C18. A new thread that runs the monitor gets native thread-local storage of its own.
  Every word of it is the parent's word at the same place (zero where the parent has
  no page) with a pointer into the parent's window moved to the same place in the
  copy, except that the thread control block points to itself; no word of the copy
  points into the parent's window.
\<close>

theorem clone_native_tls_rehomed:
  assumes "poly_prepare_clone_native_tls os parent_fs s = (s', Some (mapping, size', base))" "parent_fs \<noteq> 0"
    and "windows_apart mapping (native_tls_source parent_fs)" "k < 65536"
  shows "\<exists>gm word. host_mmap os (ls_log s) [0, 0x80000, 3, 0x22, - 1, 0] (ls_memory s) = Inr (mapping, gm) \<and>
     base = mapping + 0x40000 \<and>
     load_u64 (ls_memory s') (mapping + of_nat (8 * k)) = word \<and>
     word = (if k = 32768 \<or> k = 32770 then base
             else rehome mapping (native_tls_source parent_fs) (parent_word gm (native_tls_source parent_fs) k)) \<and>
     \<not> (native_tls_source parent_fs \<le> word \<and> word < native_tls_source parent_fs + size')"
proof -
  let ?sb = "native_tls_source parent_fs"
  obtain gm where gm: "host_mmap os (ls_log s) [0, 0x80000, 3, 0x22, - 1, 0] (ls_memory s) = Inr (mapping, gm)"
    "ls_memory s' = fill_native_tls mapping ?sb gm" "base = mapping + 0x40000" "size' = native_tls_size"
    using assms(1,2) by (auto simp: poly_prepare_clone_native_tls_def map_anonymous_def log_call_def split: sum.splits prod.splits)
  have "?sb \<le> ?sb + 0x40000 \<and> ?sb + 0x40000 < ?sb + native_tls_size"
    using assms(3) by (simp add: windows_apart_def word_le_nat_alt word_less_nat_alt unat_word_ariths)
  then have "rehome mapping ?sb (?sb + 0x40000) = base" by (simp add: rehome_def gm(3))
  then have "\<not> (?sb \<le> base \<and> base < ?sb + size')" using rehome_leaves[OF assms(3), of "?sb + 0x40000"] gm(4) by simp
  then show ?thesis
    using fill_words[OF assms(3,4), of gm] rehome_leaves[OF assms(3)] gm unfolding slot_word_def by (auto simp del: of_nat_mult)
qed

theorem clone_native_tls_rehomed_witness:
  "\<exists>s' gm. poly_prepare_clone_native_tls small_host 0x7f0000000000 linux_start = (s', Some (0x40000, 0x80000, 0x80000)) \<and>
     load_u64 (ls_memory s') (0x40000 + of_nat (8 * 0)) = rehome 0x40000 0x7efffffc0000 (parent_word gm 0x7efffffc0000 0)"
proof -
  obtain s' where p: "poly_prepare_clone_native_tls small_host 0x7f0000000000 linux_start = (s', Some (0x40000, 0x80000, 0x80000))"
    by (simp add: poly_prepare_clone_native_tls_def map_anonymous_def small_host_def log_call_def)
  have src: "native_tls_source 0x7f0000000000 = 0x7efffffc0000" by (simp add: native_tls_source_def)
  have "windows_apart 0x40000 (native_tls_source 0x7f0000000000)" by (simp add: windows_apart_def src)
  from clone_native_tls_rehomed[OF p _ this, of 0]
  obtain gm where "load_u64 (ls_memory s') (0x40000 + of_nat (8 * 0)) = rehome 0x40000 0x7efffffc0000 (parent_word gm 0x7efffffc0000 0)"
    unfolding src by (auto simp del: of_nat_mult of_nat_0 mult_zero_right)
  then show ?thesis using p by blast
qed

subsection \<open>The image of the child\<close>

lemma child_image_clean:
  "stacks_sized (child_image packet state)" "xs_trap_restore (child_image packet state) = zero_trap_restore"
  "hdr_current_mode (xs_header (child_image packet state)) = ucast (ev_mode packet)"
  "ir_top (xs_import_return (child_image packet state)) = 0" "cr_top (xs_cross_return (child_image packet state)) = 0"
  "nr_top (xs_native_return (child_image packet state)) = 0"
  by (simp_all add: child_image_def Let_def poly_clear_return_transition_state_def poly_clear_native_return_state_def
      poly_clear_foreign_return_transition_state_def stacks_sized_def)

lemma sanitize_clean:
  assumes "stacks_sized state" "xs_trap_restore state = zero_trap_restore"
    "ir_top (xs_import_return state) = 0" "cr_top (xs_cross_return state) = 0" "nr_top (xs_native_return state) = 0"
  shows "tr_flags (xs_trap_restore (poly_sanitize_trap_state_for_import state)) = 0"
    "ir_top (xs_import_return (poly_sanitize_trap_state_for_import state)) = 0"
    "cr_top (xs_cross_return (poly_sanitize_trap_state_for_import state)) = 0"
    "nr_top (xs_native_return (poly_sanitize_trap_state_for_import state)) = 0"
    "hdr_current_mode (xs_header (poly_sanitize_trap_state_for_import state)) = hdr_current_mode (xs_header state)"
  using assms unfolding sanitize_sections
  by (simp_all add: sanitize_keeps zero_trap_restore_def sanitize_import_return_def sanitize_cross_return_def
      sanitize_native_return_def Let_def)



end
