(* ===== verification/Spec2Isabelle.thy ===== *)
theory Spec2Isabelle
  imports Bridge_Transfer Seccomp_Policy Xsave_Import Signal_Policy Linux_Policy Libc_Policy Trap_Return Exec_Policy Elf_Runtime
    Process_Policy Clone_Policy
begin

text \<open>
  A model of the polyglot runtime and the theorems that make it correct. The processor
  it runs on switches between x86, AArch64 and RISC-V code. The runtime loads programs
  of all three kinds, plans calls between them, and monitors the foreign ones: system
  calls, signals, library imports and new threads of AArch64 and RISC-V code trap into
  \<open>src/tools/runtime/polyexec.c\<close>, which answers them on an x86 Linux host.

  \<^bold>\<open>Conventions.\<close> A C structure is a record and an enumeration a datatype, with the
  names of the source. Machine integers are words of their width, so arithmetic wraps
  as in C. An \<open>int\<close> function that fails with -1 returns an option, and a parser returns
  a sum whose left side tells a rejected input from a read outside the file. Global
  variables are state records that every operation takes and returns. Guest memory is a
  record of its bytes and its mapped ranges. What is not in the repository is an
  argument: the host kernel (\<open>host_os\<close>, \<open>host_kernel\<close>, \<open>exec_host\<close>, \<open>stack_host\<close>) and
  the instructions of the processor that read, complete, derive and activate a state
  (\<open>signal_machine\<close>, \<open>trap_machine\<close>, \<open>clone_machine\<close>). Calls to the host are kept in a
  log, so that a theorem can say that none was made.

  \<^bold>\<open>Shared theories.\<close> \<^theory_text>\<open>Poly_Prelude\<close> has the word types, the loop combinator
  \<open>fold_opt\<close>, runs of steps and the locale \<open>stable_predicate\<close> for invariants of runs,
  which the filters and the signals interpret. \<^theory_text>\<open>Runtime_Base\<close> has modes, trap
  reasons, error numbers and the trap record. \<^theory_text>\<open>Guest_Memory\<close> models
  the access to guest memory and \<^theory_text>\<open>Byte_Codec\<close> the byte representation of
  structures: its locale \<open>codec\<close> is interpreted for every structure that is copied
  through memory.

  \<^bold>\<open>Calls between architectures\<close> (\<open>tools/runtime/abi\<close>, \<open>tools/runtime/bridge\<close>,
  \<open>tools/include/polycpuid.h\<close>).
  \<^item> \<^theory_text>\<open>Abi_Type\<close> and \<^theory_text>\<open>Abi_Layout\<close>: type descriptions and the
    table of argument locations.
  \<^item> \<^theory_text>\<open>Abi_Alloc\<close>: the locales \<open>loc_allocator\<close>, \<open>arg_classifier\<close> and
    \<open>call_classifier\<close>, in which the register and stack invariants are proved once;
    \<^theory_text>\<open>Abi_X86\<close>, \<^theory_text>\<open>Abi_AArch64\<close> and \<^theory_text>\<open>Abi_RiscV\<close> are the
    three classifiers and interpret them; \<^theory_text>\<open>Abi_Classify\<close> is the dispatch and the
    properties: registers are handed out in order and once, stack slots are aligned and
    disjoint, and every well-formed signature is accepted.
  \<^item> \<^theory_text>\<open>Abi_Signature\<close> and \<^theory_text>\<open>Abi_Descriptor\<close>: control words and the
    built-in descriptors. \<^theory_text>\<open>Bridge_Plan\<close> is the planner, and
    \<^theory_text>\<open>Bridge_Transfer\<close> gives plans a meaning: a plan equals its
    specification, and running it brings every argument to the place where the callee
    looks for it.

  \<^bold>\<open>Programs\<close> (\<open>polyexec.c\<close>).
  \<^item> \<^theory_text>\<open>Process_Bridge\<close>: the bridge notes of a program, with bounds of the
    parser and a round trip through a printer.
  \<^item> \<^theory_text>\<open>Elf_Image\<close> is \<open>load_elf_program\<close>, with the search for a named entry
    symbol as an argument; \<^theory_text>\<open>Elf_Policy\<close> shows that no read leaves the
    file and that the image is what the headers say. \<^theory_text>\<open>Elf_Runtime\<close> is page
    protection, thread-local storage and the virtual shared object.
  \<^item> \<^theory_text>\<open>Process_Stack\<close> and \<^theory_text>\<open>Process_Policy\<close>: the initial stack
    and its layout. \<^theory_text>\<open>Exec_Handoff\<close> and \<^theory_text>\<open>Exec_Policy\<close>:
    \<open>execve\<close> of a foreign program through a new monitor, and what arrives there.

  \<^bold>\<open>The monitor\<close> (\<open>polyexec.c\<close>).
  \<^item> \<^theory_text>\<open>Syscall_Map\<close>: the table of system call numbers.
    \<^theory_text>\<open>Seccomp\<close> and \<^theory_text>\<open>Seccomp_Policy\<close>: the validator and the
    interpreter of filters and their installation; a validated program ends safely, a
    call passes exactly when every filter allows it, and no sequence of calls lifts a
    denial.
  \<^item> \<^theory_text>\<open>Linux_Abi\<close>, \<^theory_text>\<open>Structured_Syscall\<close> and
    \<^theory_text>\<open>Linux_Policy\<close>: calls whose data differ between the architectures, the
    program break and private executable mappings. \<^theory_text>\<open>Libc_Imports\<close> and
    \<^theory_text>\<open>Libc_Policy\<close>: the library functions that trap.
  \<^item> \<^theory_text>\<open>Guest_Signals\<close>, \<^theory_text>\<open>Signal_Virtualization\<close> and
    \<^theory_text>\<open>Signal_Policy\<close>: masks, actions and pending signals, with invariants of
    arbitrary sequences of requests. \<^theory_text>\<open>Signal_Frame\<close>,
    \<^theory_text>\<open>Signal_Delivery\<close> and \<^theory_text>\<open>Signal_Roundtrip\<close>: frames, entry of
    and return from a handler; the interrupted code gets its context back.
  \<^item> \<^theory_text>\<open>Xsave_State\<close> and \<^theory_text>\<open>Xsave_Import\<close>: the state image and
    its sanitizer. \<^theory_text>\<open>Trap_Return\<close>, \<^theory_text>\<open>Clone_Handoff\<close> and
    \<^theory_text>\<open>Trap_Dispatch\<close>: the trap return, new threads, and
    \<open>poly_trap_vector_dispatch\<close>, which composes everything above.
    \<^theory_text>\<open>Trap_Policy\<close> and \<^theory_text>\<open>Clone_Policy\<close>: every image that is
    activated is one the hardware accepts, a denied call has no effect but its answer
    (and one look at the path of a direct open), and a new thread shares neither native
    storage nor return stacks with its parent.

  \<^bold>\<open>Loops.\<close> Loops over tables and arrays are recursion on lists or numbers. No fuel is
  used: the filter interpreter and the note parser are total functions with a
  termination proof, because every step moves forward in the program or the file.
  Loops that may not end, over strings in guest memory and over interrupted reads of a
  file, are partial functions with the value \<open>None\<close> for not ending; the properties about
  them show that they end under the stated conditions (a terminator, finitely many
  interruptions).

  \<^bold>\<open>Left out of modelled functions.\<close> Text written to a terminal or a log, and memory
  fences. Where a trace has an effect on the state, the effect is modelled
  (\<open>poly_trace_syscall_result\<close>). Allocation by \<open>malloc\<close> succeeds except where the source
  answers its failure with an error of a system call.

  \<^bold>\<open>Not modelled.\<close>
  \<^item> Symbol lookup by name and version, relocation, and the search for and loading of
    dependencies in \<open>polyexec.c\<close>. They form one unit with the resolver functions that
    relocation runs: guest code, whose effect on memory is not in the repository. The
    loader takes the lookup of an entry symbol as an argument, and its theorems about
    the image hold for every lookup.
  \<^item> Emission of trampolines and call stubs in \<open>polyexec.c\<close>, and all of
    \<open>polycall.c\<close>: they write machine code of three architectures with the extension
    instructions. A statement about them needs a semantics of that code, which the
    repository gives only as prose.
  \<^item> Crash dumps, traces, watchdog, thread stress and the preparation of test files in
    \<open>polyexec.c\<close>: output and host calls without a result the runtime uses.
  \<^item> \<open>tools/programs\<close>, \<open>tools/build\<close>, \<open>tools/fixtures\<close>, \<open>tools/tests\<close>: programs that
    test or measure the runtime and inputs for it. \<open>tools/kernel\<close>, \<open>scripts\<close>: a kernel
    module of one register write, and shell scripts.
  \<^item> \<open>rtl\<close>: the hardware description of the processor, in SystemVerilog. The runtime
    sees it only through the instructions, which are arguments here.
\<close>

end
